(* ===== verification/Axiom_Prelude.thy ===== *)
theory Axiom_Prelude
  imports Complex_Main "HOL-Library.Word"
begin

text \<open>
  The prelude of the development: the fact collections the component theories extend, the
  machine-integer and UTF-8 string operations of the Rust standard library that the sources
  use, the shape of a stateful operation (a method on \<open>&mut self\<close> that returns a
  \<open>Result\<close>), and the locales that state the contracts several components share.

  A Rust \<open>String\<close> or \<open>&str\<close> is its list of UTF-8 bytes (\<^typ>\<open>string\<close>), so that
  \<open>len()\<close> is \<^const>\<open>length\<close> and string literals of the sources are literals here; a Rust
  \<open>char\<close> is the byte list of one Unicode scalar value, as \<open>str_chars\<close> splits it off.
  Lengths and counters (\<open>usize\<close>, \<open>u64\<close>, \<open>u32\<close>) are natural numbers with the bound of
  their width written out wherever the source saturates, checks or wraps; values that are
  taken apart by bit masks are words.
\<close>

named_theorems operation_simps \<open>how one operation of a component acts on its state\<close>

section \<open>Machine integers\<close>

definition usize_max :: nat where
  "usize_max = 18446744073709551615"

definition u32_max :: nat where
  "u32_max = 4294967295"

abbreviation u64_max :: nat where
  "u64_max \<equiv> usize_max"

text \<open>\<open>usize::saturating_add\<close>, \<open>usize::checked_add\<close>, \<open>u32::saturating_mul\<close>,
  \<open>u64::saturating_add\<close> and the wrapping increment of a release build.\<close>

definition saturating_add :: "nat \<Rightarrow> nat \<Rightarrow> nat" where
  "saturating_add a b = min (a + b) usize_max"

definition checked_add :: "nat \<Rightarrow> nat \<Rightarrow> nat option" where
  "checked_add a b = (if a + b \<le> usize_max then Some (a + b) else None)"

definition saturating_mul_u32 :: "nat \<Rightarrow> nat \<Rightarrow> nat" where
  "saturating_mul_u32 a b = min (a * b) u32_max"

definition u64_incr :: "nat \<Rightarrow> nat" where
  "u64_incr n = (n + 1) mod (u64_max + 1)"

section \<open>UTF-8 text\<close>

definition byte :: "char \<Rightarrow> nat" where
  "byte c = of_char c"

definition in_range :: "nat \<Rightarrow> nat \<Rightarrow> char \<Rightarrow> bool" where
  "in_range lo hi c \<longleftrightarrow> lo \<le> byte c \<and> byte c \<le> hi"

abbreviation is_continuation :: "char \<Rightarrow> bool" where
  "is_continuation \<equiv> in_range 128 191"

text \<open>The well-formed byte sequences of the Unicode standard (its table of well-formed UTF-8
  sequences), which \<open>str::from_utf8\<close> accepts.\<close>

definition utf8_2 :: "char \<Rightarrow> char \<Rightarrow> bool" where
  "utf8_2 a b \<longleftrightarrow> in_range 194 223 a \<and> is_continuation b"

definition utf8_3 :: "char \<Rightarrow> char \<Rightarrow> char \<Rightarrow> bool" where
  "utf8_3 a b c \<longleftrightarrow> is_continuation c \<and>
     (in_range 224 224 a \<and> in_range 160 191 b
    \<or> in_range 225 236 a \<and> is_continuation b
    \<or> in_range 237 237 a \<and> in_range 128 159 b
    \<or> in_range 238 239 a \<and> is_continuation b)"

definition utf8_4 :: "char \<Rightarrow> char \<Rightarrow> char \<Rightarrow> char \<Rightarrow> bool" where
  "utf8_4 a b c d \<longleftrightarrow> is_continuation c \<and> is_continuation d \<and>
     (in_range 240 240 a \<and> in_range 144 191 b
    \<or> in_range 241 243 a \<and> is_continuation b
    \<or> in_range 244 244 a \<and> in_range 128 143 b)"

fun utf8_chars :: "string \<Rightarrow> string list option" where
  "utf8_chars [] = Some []"
| "utf8_chars (a # s) =
     (if byte a < 128 then map_option (Cons [a]) (utf8_chars s)
      else (case s of [] \<Rightarrow> None
        | b # s1 \<Rightarrow>
          if utf8_2 a b then map_option (Cons [a, b]) (utf8_chars s1)
          else (case s1 of [] \<Rightarrow> None
            | c # s2 \<Rightarrow>
              if utf8_3 a b c then map_option (Cons [a, b, c]) (utf8_chars s2)
              else (case s2 of [] \<Rightarrow> None
                | d # s3 \<Rightarrow>
                  if utf8_4 a b c d then map_option (Cons [a, b, c, d]) (utf8_chars s3)
                  else None))))"

text \<open>\<open>str::from_utf8(bytes).is_ok()\<close>, and \<open>str::chars\<close>. A Rust string is always valid
  UTF-8; on other byte lists \<open>str_chars\<close> falls back to single bytes.\<close>

definition from_utf8_ok :: "string \<Rightarrow> bool" where
  "from_utf8_ok s \<longleftrightarrow> utf8_chars s \<noteq> None"

definition str_chars :: "string \<Rightarrow> string list" where
  "str_chars s = (case utf8_chars s of Some cs \<Rightarrow> cs | None \<Rightarrow> map (\<lambda>c. [c]) s)"

fun code_point :: "string \<Rightarrow> nat" where
  "code_point [a] = byte a"
| "code_point [a, b] = (byte a - 192) * 64 + (byte b - 128)"
| "code_point [a, b, c] = (byte a - 224) * 4096 + (byte b - 128) * 64 + (byte c - 128)"
| "code_point [a, b, c, d] =
     (byte a - 240) * 262144 + (byte b - 128) * 4096 + (byte c - 128) * 64 + (byte d - 128)"
| "code_point _ = 0"

text \<open>\<open>char::is_control\<close> (general category Cc) and \<open>char::is_whitespace\<close> (White_Space).\<close>

definition is_control :: "string \<Rightarrow> bool" where
  "is_control c \<longleftrightarrow> (let n = code_point c in n < 32 \<or> 127 \<le> n \<and> n \<le> 159)"

definition is_whitespace :: "string \<Rightarrow> bool" where
  "is_whitespace c \<longleftrightarrow> (let n = code_point c in
     9 \<le> n \<and> n \<le> 13 \<or> n = 32 \<or> n = 133 \<or> n = 160 \<or> n = 5760 \<or> 8192 \<le> n \<and> n \<le> 8202
     \<or> n = 8232 \<or> n = 8233 \<or> n = 8239 \<or> n = 8287 \<or> n = 12288)"

definition trim_end_by :: "('a \<Rightarrow> bool) \<Rightarrow> 'a list \<Rightarrow> 'a list" where
  "trim_end_by p xs = rev (dropWhile p (rev xs))"

definition str_trim :: "string \<Rightarrow> string" where
  "str_trim s = concat (trim_end_by is_whitespace (dropWhile is_whitespace (str_chars s)))"

definition is_blank :: "string \<Rightarrow> bool" where
  "is_blank s \<longleftrightarrow> str_trim s = []"

definition has_control :: "string \<Rightarrow> bool" where
  "has_control s \<longleftrightarrow> (\<exists>c \<in> set (str_chars s). is_control c)"

definition has_whitespace :: "string \<Rightarrow> bool" where
  "has_whitespace s \<longleftrightarrow> (\<exists>c \<in> set (str_chars s). is_whitespace c)"

subsection \<open>Byte classes and searching\<close>

definition is_ascii_digit :: "char \<Rightarrow> bool" where
  "is_ascii_digit = in_range 48 57"

definition is_ascii_uppercase :: "char \<Rightarrow> bool" where
  "is_ascii_uppercase = in_range 65 90"

definition is_ascii_lowercase :: "char \<Rightarrow> bool" where
  "is_ascii_lowercase = in_range 97 122"

definition is_ascii_alphanumeric :: "char \<Rightarrow> bool" where
  "is_ascii_alphanumeric c \<longleftrightarrow> is_ascii_digit c \<or> is_ascii_uppercase c \<or> is_ascii_lowercase c"

definition is_ascii_hexdigit :: "char \<Rightarrow> bool" where
  "is_ascii_hexdigit c \<longleftrightarrow> is_ascii_digit c \<or> in_range 65 70 c \<or> in_range 97 102 c"

definition to_ascii_lowercase_byte :: "char \<Rightarrow> char" where
  "to_ascii_lowercase_byte c = (if is_ascii_uppercase c then char_of (byte c + 32) else c)"

definition to_ascii_lowercase :: "string \<Rightarrow> string" where
  "to_ascii_lowercase = map to_ascii_lowercase_byte"

text \<open>\<open>starts_with\<close>, \<open>ends_with\<close>, \<open>strip_prefix\<close>, \<open>strip_suffix\<close>,
  \<open>split_once\<close>, \<open>contains\<close>, \<open>join\<close>.\<close>

fun strip_prefix :: "'a list \<Rightarrow> 'a list \<Rightarrow> 'a list option" where
  "strip_prefix [] ys = Some ys"
| "strip_prefix (x # xs) [] = None"
| "strip_prefix (x # xs) (y # ys) = (if x = y then strip_prefix xs ys else None)"

definition strip_0x :: "string \<Rightarrow> string" where
  "strip_0x v = (case strip_prefix ''0x'' (str_trim v) of Some r \<Rightarrow> r | None \<Rightarrow> str_trim v)"

definition starts_with :: "'a list \<Rightarrow> 'a list \<Rightarrow> bool" where
  "starts_with s p \<longleftrightarrow> strip_prefix p s \<noteq> None"

definition strip_suffix :: "'a list \<Rightarrow> 'a list \<Rightarrow> 'a list option" where
  "strip_suffix p s = map_option rev (strip_prefix (rev p) (rev s))"

definition ends_with :: "'a list \<Rightarrow> 'a list \<Rightarrow> bool" where
  "ends_with s p \<longleftrightarrow> strip_suffix p s \<noteq> None"

fun split_once :: "string \<Rightarrow> string \<Rightarrow> (string \<times> string) option" where
  "split_once p [] = (if p = [] then Some ([], []) else None)"
| "split_once p (c # s) =
     (case strip_prefix p (c # s) of
        Some r \<Rightarrow> Some ([], r)
      | None \<Rightarrow> map_option (\<lambda>(a, b). (c # a, b)) (split_once p s))"

fun str_join :: "string \<Rightarrow> string list \<Rightarrow> string" where
  "str_join sep [] = []"
| "str_join sep [x] = x"
| "str_join sep (x # y # zs) = x @ sep @ str_join sep (y # zs)"

definition nul :: char where
  "nul = char_of (0::nat)"

definition contains_nul :: "string \<Rightarrow> bool" where
  "contains_nul s \<longleftrightarrow> nul \<in> set s"

text \<open>\<open>str::parse::<u64>()\<close> on a string of ASCII digits: \<open>None\<close> on overflow.\<close>

definition digit_value :: "char \<Rightarrow> nat" where
  "digit_value c = byte c - 48"

definition decimal_value :: "string \<Rightarrow> nat" where
  "decimal_value s = foldl (\<lambda>n c. 10 * n + digit_value c) 0 s"

definition parse_u64_digits :: "string \<Rightarrow> nat option" where
  "parse_u64_digits s =
     (if s \<noteq> [] \<and> list_all is_ascii_digit s \<and> decimal_value s \<le> u64_max
      then Some (decimal_value s) else None)"

section \<open>Stateful operations\<close>

text \<open>
  A method on \<open>&mut self\<close> is a function to the new state and a result; the error is on the
  left. \<open>run_ops\<close> is a sequence of calls, each of which may fail and leave whatever state it
  had reached.
\<close>

type_synonym ('s, 'e, 'a) outcome = "'s \<times> ('e + 'a)"

fun run_ops :: "('s \<Rightarrow> 'c \<Rightarrow> ('s, 'e, 'a) outcome) \<Rightarrow> 's \<Rightarrow> 'c list \<Rightarrow> 's" where
  "run_ops f s [] = s"
| "run_ops f s (c # cs) = run_ops f (fst (f s c)) cs"

text \<open>The results of the calls that succeeded, in order.\<close>

fun run_outputs :: "('s \<Rightarrow> 'c \<Rightarrow> ('s, 'e, 'o list) outcome) \<Rightarrow> 's \<Rightarrow> 'c list \<Rightarrow> 'o list" where
  "run_outputs f s [] = []"
| "run_outputs f s (c # cs) =
     (case snd (f s c) of Inl e \<Rightarrow> [] | Inr os \<Rightarrow> os) @ run_outputs f (fst (f s c)) cs"

text \<open>A stream fed to a decoder in chunks, stopping at the first error; the results are joined.\<close>

fun feed_chunks ::
  "('s \<Rightarrow> 'b list \<Rightarrow> ('s, 'e, 'o list) outcome) \<Rightarrow> 's \<Rightarrow> 'b list list \<Rightarrow> ('s, 'e, 'o list) outcome" where
  "feed_chunks f s [] = (s, Inr [])"
| "feed_chunks f s (c # cs) =
     (case f s c of
        (s1, Inl e) \<Rightarrow> (s1, Inl e)
      | (s1, Inr os) \<Rightarrow>
          (case feed_chunks f s1 cs of
             (s2, Inl e) \<Rightarrow> (s2, Inl e)
           | (s2, Inr os') \<Rightarrow> (s2, Inr (os @ os'))))"

text \<open>A fallible loop that stops at the first error (\<open>for ... { ...?; }\<close>).\<close>

fun try_fold :: "('s \<Rightarrow> 'a \<Rightarrow> 'e + 's) \<Rightarrow> 's \<Rightarrow> 'a list \<Rightarrow> 'e + 's" where
  "try_fold f s [] = Inr s"
| "try_fold f s (x # xs) = (case f s x of Inl e \<Rightarrow> Inl e | Inr s' \<Rightarrow> try_fold f s' xs)"

fun try_each :: "('a \<Rightarrow> 'e + unit) \<Rightarrow> 'a list \<Rightarrow> 'e + unit" where
  "try_each f [] = Inr ()"
| "try_each f (x # xs) = (case f x of Inl e \<Rightarrow> Inl e | Inr _ \<Rightarrow> try_each f xs)"

text \<open>The \<open>?\<close> operator on a unit result.\<close>

definition and_then :: "'e + unit \<Rightarrow> 'e + 'a \<Rightarrow> 'e + 'a" where
  "and_then r k = (case r of Inl e \<Rightarrow> Inl e | Inr _ \<Rightarrow> k)"

text \<open>The \<open>?\<close> operator on a result with a value and on an operation that changes state;
  \<open>Option::ok_or\<close>; \<open>Option::map(..).transpose()?\<close>; and \<open>collect\<close> into a \<open>Result\<close>.\<close>

definition rbind :: "'e + 'a \<Rightarrow> ('a \<Rightarrow> 'e + 'b) \<Rightarrow> 'e + 'b" where
  "rbind r k = (case r of Inl e \<Rightarrow> Inl e | Inr x \<Rightarrow> k x)"

definition obind :: "('s, 'e, 'a) outcome \<Rightarrow> ('s \<Rightarrow> 'a \<Rightarrow> ('s, 'e, 'b) outcome) \<Rightarrow> ('s, 'e, 'b) outcome" where
  "obind r k = (case r of (s, Inl e) \<Rightarrow> (s, Inl e) | (s, Inr x) \<Rightarrow> k s x)"

definition ok_or :: "'e \<Rightarrow> 'a option \<Rightarrow> 'e + 'a" where
  "ok_or e r = (case r of None \<Rightarrow> Inl e | Some x \<Rightarrow> Inr x)"

definition try_option :: "('a \<Rightarrow> 'e + 'b) \<Rightarrow> 'a option \<Rightarrow> 'e + 'b option" where
  "try_option f r = (case r of None \<Rightarrow> Inr None | Some x \<Rightarrow> rbind (f x) (\<lambda>y. Inr (Some y)))"

fun try_map :: "('a \<Rightarrow> 'e + 'b) \<Rightarrow> 'a list \<Rightarrow> 'e + 'b list" where
  "try_map f [] = Inr []"
| "try_map f (x # xs) = rbind (f x) (\<lambda>y. rbind (try_map f xs) (\<lambda>ys. Inr (y # ys)))"

section \<open>Ordered maps\<close>

text \<open>A \<open>BTreeMap\<close> is the list of its entries in key order; \<open>map_of\<close> looks a key up.\<close>

fun bt_insert :: "'k::linorder \<Rightarrow> 'v \<Rightarrow> ('k \<times> 'v) list \<Rightarrow> ('k \<times> 'v) list" where
  "bt_insert k v [] = [(k, v)]"
| "bt_insert k v ((k', v') # m) =
     (if k < k' then (k, v) # (k', v') # m
      else if k = k' then (k, v) # m
      else (k', v') # bt_insert k v m)"

definition bt_sorted :: "('k::linorder \<times> 'v) list \<Rightarrow> bool" where
  "bt_sorted m \<longleftrightarrow> sorted_wrt (<) (map fst m)"

section \<open>Shared lemmas\<close>

lemma byte_le: "byte c < 256"
  by (simp add: byte_def)

lemma char_of_byte [simp]: "char_of (byte c) = c"
  by (simp add: byte_def)

lemma saturating_add_ge [simp]: "a \<le> usize_max \<Longrightarrow> a \<le> saturating_add a b"
  by (simp add: saturating_add_def)

lemma saturating_add_gt_iff:
  "n < usize_max \<Longrightarrow> n < saturating_add a b \<longleftrightarrow> n < a + b"
  by (auto simp: saturating_add_def)

lemma saturating_add_exact:
  "saturating_add a b \<le> n \<Longrightarrow> n < usize_max \<Longrightarrow> saturating_add a b = a + b"
  by (auto simp: saturating_add_def)

lemma checked_add_Some_iff [simp]:
  "checked_add a b = Some c \<longleftrightarrow> c = a + b \<and> a + b \<le> usize_max"
  by (auto simp: checked_add_def)

lemma u64_incr_exact [simp]: "n < u64_max \<Longrightarrow> u64_incr n = n + 1"
  by (simp add: u64_incr_def)

declare utf8_chars.simps(2) [simp del]

lemma utf8_chars_ascii [simp]:
  "byte a < 128 \<Longrightarrow> utf8_chars (a # s) = map_option (Cons [a]) (utf8_chars s)"
  by (simp add: utf8_chars.simps(2))

lemma utf8_chars_split:
  "utf8_chars s = Some cs \<Longrightarrow> concat cs = s \<and> [] \<notin> set cs"
proof (induction s arbitrary: cs rule: utf8_chars.induct)
  case 1
  then show ?case by simp
next
  case (2 a s)
  from "2.prems" show ?case
    unfolding utf8_chars.simps(2) [of a s]
    using "2.IH" by (auto split: if_splits list.splits)
qed

lemma str_chars_ascii: "list_all (\<lambda>c. byte c < 128) s \<Longrightarrow> str_chars s = map (\<lambda>c. [c]) s"
proof -
  assume "list_all (\<lambda>c. byte c < 128) s"
  then have "utf8_chars s = Some (map (\<lambda>c. [c]) s)"
    by (induction s) auto
  then show ?thesis by (simp add: str_chars_def)
qed

lemma concat_str_chars [simp]: "concat (str_chars s) = s"
  by (auto simp: str_chars_def dest: utf8_chars_split split: option.splits)

lemma str_chars_nonempty [simp]: "[] \<notin> set (str_chars s)"
  by (auto simp: str_chars_def dest: utf8_chars_split split: option.splits)

lemma str_chars_Nil [simp]: "str_chars [] = []"
  by (simp add: str_chars_def)

lemma utf8_scalar_append:
  assumes "utf8_chars c = Some [c]"
  shows "utf8_chars (c @ s) = map_option (Cons c) (utf8_chars s)"
proof -
  from assms obtain a r where c: "c = a # r" by (cases c) auto
  show ?thesis
    using assms unfolding c
    by (auto simp: utf8_chars.simps(2) [of a] split: if_splits list.splits)
qed

lemma utf8_scalars:
  "\<not> byte a < 128 \<Longrightarrow> utf8_2 a b \<Longrightarrow> utf8_chars [a, b] = Some [[a, b]]"
  "\<not> byte a < 128 \<Longrightarrow> \<not> utf8_2 a b \<Longrightarrow> utf8_3 a b c \<Longrightarrow> utf8_chars [a, b, c] = Some [[a, b, c]]"
  "\<not> byte a < 128 \<Longrightarrow> \<not> utf8_2 a b \<Longrightarrow> \<not> utf8_3 a b c \<Longrightarrow> utf8_4 a b c d \<Longrightarrow>
     utf8_chars [a, b, c, d] = Some [[a, b, c, d]]"
  by (simp_all add: utf8_chars.simps(2) [of a])

lemma utf8_chars_scalars: "utf8_chars s = Some cs \<Longrightarrow> list_all (\<lambda>c. utf8_chars c = Some [c]) cs"
proof (induction s arbitrary: cs rule: utf8_chars.induct)
  case (2 a s)
  from "2.prems" show ?case
    unfolding utf8_chars.simps(2) [of a s]
    using "2.IH" by (auto simp: utf8_scalars split: if_splits list.splits)
qed simp

lemma utf8_chars_concat: "list_all (\<lambda>c. utf8_chars c = Some [c]) cs \<Longrightarrow> utf8_chars (concat cs) = Some cs"
  by (induction cs) (auto simp: utf8_scalar_append)

lemma trim_end_by_idem [simp]: "trim_end_by p (trim_end_by p xs) = trim_end_by p xs"
  by (simp add: trim_end_by_def)

lemma trim_end_by_prefix: "\<exists>ys. xs = trim_end_by p xs @ ys"
  by (metis rev_append rev_rev_ident takeWhile_dropWhile_id trim_end_by_def)

lemma dropWhile_trim_end:
  "dropWhile p xs = xs \<Longrightarrow> dropWhile p (trim_end_by p xs) = trim_end_by p xs"
proof -
  assume xs: "dropWhile p xs = xs"
  obtain ys where ys: "xs = trim_end_by p xs @ ys" using trim_end_by_prefix by blast
  show ?thesis
  proof (cases "trim_end_by p xs")
    case (Cons a as)
    with ys have "xs = a # as @ ys" by simp
    with xs have "\<not> p a" by (metis dropWhile_eq_Cons_conv)
    with Cons show ?thesis by simp
  qed simp
qed

text \<open>The characters of the trimmed text are the trimmed characters.\<close>

lemma str_chars_trim:
  assumes "from_utf8_ok s"
  shows "str_chars (str_trim s) = trim_end_by is_whitespace (dropWhile is_whitespace (str_chars s))"
proof -
  from assms obtain cs where cs: "utf8_chars s = Some cs" by (auto simp: from_utf8_ok_def)
  let ?t = "trim_end_by is_whitespace (dropWhile is_whitespace cs)"
  have "set ?t \<subseteq> set cs"
    by (metis set_dropWhileD set_rev subsetI trim_end_by_def)
  then have "list_all (\<lambda>c. utf8_chars c = Some [c]) ?t"
    using utf8_chars_scalars [OF cs] by (auto simp: list_all_iff)
  then show ?thesis
    using cs utf8_chars_concat by (simp add: str_chars_def str_trim_def)
qed

lemma str_trim_idem: "from_utf8_ok s \<Longrightarrow> str_trim (str_trim s) = str_trim s"
  by (simp add: str_trim_def [of "str_trim s"] str_chars_trim dropWhile_trim_end)
    (simp add: str_trim_def)

lemma strip_prefix_Some_iff [simp]: "strip_prefix p s = Some r \<longleftrightarrow> s = p @ r"
  by (induction p s rule: strip_prefix.induct) auto

lemma strip_prefix_None_iff: "strip_prefix p s = None \<longleftrightarrow> (\<forall>r. s \<noteq> p @ r)"
  by (metis not_None_eq strip_prefix_Some_iff)

lemma starts_with_iff: "starts_with s p \<longleftrightarrow> (\<exists>r. s = p @ r)"
  by (auto simp: starts_with_def strip_prefix_None_iff)

lemma starts_with_refl [simp]: "starts_with s s"
  by (simp add: starts_with_iff)

lemma starts_with_trans: "starts_with s p \<Longrightarrow> starts_with p q \<Longrightarrow> starts_with s q"
  by (auto simp: starts_with_iff)

lemma split_once_Some: "split_once p s = Some (a, b) \<Longrightarrow> s = a @ p @ b"
  by (induction s arbitrary: a b) (auto split: if_splits option.splits prod.splits)

lemma try_fold_append:
  "try_fold f s (xs @ ys) =
     (case try_fold f s xs of Inl e \<Rightarrow> Inl e | Inr s' \<Rightarrow> try_fold f s' ys)"
  by (induction xs arbitrary: s) (auto split: sum.splits)

lemma try_each_Inr_iff [simp]: "try_each f xs = Inr u \<longleftrightarrow> (\<forall>x\<in>set xs. f x = Inr ())"
  by (induction xs) (auto split: sum.splits)

lemma and_then_Inr_iff [simp]: "and_then r k = Inr v \<longleftrightarrow> r = Inr () \<and> k = Inr v"
  by (cases r) (auto simp: and_then_def)

lemma rbind_simps [simp]: "rbind (Inl e) k = Inl e" "rbind (Inr x) k = k x"
  by (simp_all add: rbind_def)

lemma rbind_Inr_iff [simp]: "rbind r k = Inr v \<longleftrightarrow> (\<exists>x. r = Inr x \<and> k x = Inr v)"
  by (cases r) simp_all

lemma obind_simps [simp]: "obind (s, Inl e) k = (s, Inl e)" "obind (s, Inr x) k = k s x"
  by (simp_all add: obind_def)

lemma obind_Inr_iff [simp]:
  "obind r k = (s, Inr v) \<longleftrightarrow> (\<exists>s1 x. r = (s1, Inr x) \<and> k s1 x = (s, Inr v))"
  by (auto simp: obind_def split: prod.splits sum.splits)

lemma ok_or_simps [simp]: "ok_or e None = Inl e" "ok_or e (Some x) = Inr x"
  by (simp_all add: ok_or_def)

lemma ok_or_Inr_iff [simp]: "ok_or e r = Inr v \<longleftrightarrow> r = Some v"
  by (cases r) simp_all

text \<open>An early return: the value comes from the other branch. Together with the two facts above, rewriting
  with these facts alone turns a handler that succeeds into the conjunction of what it checked.\<close>

lemma guard_Inr_iff: "(if b then Inl e else r) = Inr v \<longleftrightarrow> \<not> b \<and> r = Inr v"
  by simp

lemma ex_unit_iff: "(\<exists>u :: unit. P u) \<longleftrightarrow> P ()"
  by (metis old.unit.exhaust)

lemmas success_iffs = rbind_Inr_iff ok_or_Inr_iff guard_Inr_iff ex_unit_iff


lemma try_option_Inr_iff:
  "try_option f r = Inr v \<longleftrightarrow>
     (r = None \<and> v = None \<or> (\<exists>x y. r = Some x \<and> f x = Inr y \<and> v = Some y))"
  by (cases r) (auto simp: try_option_def)

lemma try_map_Inr_iff: "try_map f xs = Inr ys \<longleftrightarrow> list_all2 (\<lambda>x y. f x = Inr y) xs ys"
  by (induction xs arbitrary: ys) (auto simp: list_all2_Cons1)

lemma str_trim_plain:
  assumes "list_all (\<lambda>c. byte c < 128 \<and> \<not> is_whitespace [c]) s"
  shows "str_trim s = s"
proof -
  have drop: "dropWhile is_whitespace (map (\<lambda>c. [c]) t) = map (\<lambda>c. [c]) t"
    if "list_all (\<lambda>c. byte c < 128 \<and> \<not> is_whitespace [c]) t" for t
    using that by (cases t) simp_all
  have chars: "str_chars s = map (\<lambda>c. [c]) s"
    using assms by (intro str_chars_ascii) (simp add: list_all_iff)
  have "list_all (\<lambda>c. byte c < 128 \<and> \<not> is_whitespace [c]) (rev s)"
    using assms by (simp add: list_all_iff)
  from drop [OF this] have "dropWhile is_whitespace (rev (map (\<lambda>c. [c]) s)) = rev (map (\<lambda>c. [c]) s)"
    by (simp add: rev_map)
  with drop [OF assms] show ?thesis
    by (simp add: str_trim_def trim_end_by_def chars)
qed

text \<open>Visible ASCII text is its own trimmed form and has no control characters.\<close>

definition visible :: "char \<Rightarrow> bool" where
  "visible c \<longleftrightarrow> 33 \<le> byte c \<and> byte c \<le> 126"

lemma visible_text:
  assumes "list_all visible s"
  shows "str_trim s = s" "\<not> has_control s"
proof -
  have v: "byte c < 128 \<and> \<not> is_whitespace [c] \<and> \<not> is_control [c]" if "visible c" for c
    using that by (simp add: visible_def is_whitespace_def is_control_def Let_def)
  then show "str_trim s = s" using assms by (intro str_trim_plain) (simp add: list_all_iff)
  have "str_chars s = map (\<lambda>c. [c]) s"
    using assms v by (intro str_chars_ascii) (simp add: list_all_iff)
  then show "\<not> has_control s" using assms v by (auto simp: has_control_def list_all_iff)
qed


lemma run_ops_append [simp]: "run_ops f s (xs @ ys) = run_ops f (run_ops f s xs) ys"
  by (induction xs arbitrary: s) auto

lemma run_outputs_append:
  "run_outputs f s (xs @ ys) = run_outputs f s xs @ run_outputs f (run_ops f s xs) ys"
  by (induction xs arbitrary: s) auto

lemma map_of_bt_insert [simp]: "map_of (bt_insert k v m) = (map_of m)(k \<mapsto> v)"
  by (induction m) (auto simp: fun_eq_iff)

lemma keys_bt_insert [simp]: "fst ` set (bt_insert k v m) = insert k (fst ` set m)"
  by (induction k v m rule: bt_insert.induct) (simp_all add: insert_commute)

lemma bt_sorted_Cons: "bt_sorted ((k, v) # m) \<longleftrightarrow> (\<forall>x \<in> fst ` set m. k < x) \<and> bt_sorted m"
  by (simp add: bt_sorted_def)

lemma bt_sorted_insert: "bt_sorted m \<Longrightarrow> bt_sorted (bt_insert k v m)"
proof (induction k v m rule: bt_insert.induct)
  case (2 k v k' v' m)
  then show ?case
    unfolding bt_insert.simps(2) by (auto simp: bt_sorted_Cons simp del: bt_insert.simps)
qed (simp add: bt_sorted_def)

lemma bt_sorted_Nil [simp]: "bt_sorted []"
  by (simp add: bt_sorted_def)

section \<open>Contracts shared by several components\<close>

text \<open>
  A component that keeps an invariant: every operation, failing or not, keeps it, so every
  sequence of calls does.
\<close>

locale kept_invariant =
  fixes op :: "'s \<Rightarrow> 'c \<Rightarrow> ('s, 'e, 'a) outcome"
    and inv :: "'s \<Rightarrow> bool"
  assumes inv_op: "inv s \<Longrightarrow> inv (fst (op s c))"
begin

lemma inv_run: "inv s \<Longrightarrow> inv (run_ops op s cs)"
  by (induction cs arbitrary: s) (auto dest: inv_op)

end

text \<open>
  A component whose failing operations change nothing: a caller that gets an error may go on
  from the state it had, so the failed calls of a run can be left out.
\<close>

locale atomic_failure =
  fixes op :: "'s \<Rightarrow> 'c \<Rightarrow> ('s, 'e, 'a) outcome"
  assumes failure_keeps: "snd (op s c) = Inl e \<Longrightarrow> fst (op s c) = s"
begin

fun succeeding :: "'s \<Rightarrow> 'c list \<Rightarrow> 'c list" where
  "succeeding s [] = []"
| "succeeding s (c # cs) =
     (case snd (op s c) of Inl e \<Rightarrow> succeeding s cs | Inr v \<Rightarrow> c # succeeding (fst (op s c)) cs)"

lemma run_succeeding: "run_ops op s (succeeding s cs) = run_ops op s cs"
  by (induction cs arbitrary: s) (auto dest: failure_keeps split: sum.splits)

end

text \<open>
  An event-sourced component: each operation reports the events it produced, a projection of
  the state can be rebuilt from them, and a failing operation neither reports events nor
  changes the projection. Folding the log of any run then gives the projection of its final
  state.
\<close>

locale event_sourced =
  fixes op :: "'s \<Rightarrow> 'c \<Rightarrow> ('s, 'e, 'ev list) outcome"
    and proj :: "'s \<Rightarrow> 'p"
    and replay :: "'p \<Rightarrow> 'ev \<Rightarrow> 'p"
    and wf :: "'s \<Rightarrow> bool"
    and ok :: "'c \<Rightarrow> bool"
  assumes wf_op: "wf s \<Longrightarrow> ok c \<Longrightarrow> wf (fst (op s c))"
    and replay_success: "wf s \<Longrightarrow> ok c \<Longrightarrow> snd (op s c) = Inr evs \<Longrightarrow>
      foldl replay (proj s) evs = proj (fst (op s c))"
    and replay_failure: "wf s \<Longrightarrow> ok c \<Longrightarrow> snd (op s c) = Inl e \<Longrightarrow> proj (fst (op s c)) = proj s"
begin

lemma wf_run: "wf s \<Longrightarrow> list_all ok cs \<Longrightarrow> wf (run_ops op s cs)"
  by (induction cs arbitrary: s) (auto dest: wf_op)

lemma replay_run:
  "wf s \<Longrightarrow> list_all ok cs \<Longrightarrow> foldl replay (proj s) (run_outputs op s cs) = proj (run_ops op s cs)"
proof (induction cs arbitrary: s)
  case Nil
  then show ?case by simp
next
  case (Cons c cs)
  then have "foldl replay (proj (fst (op s c))) (run_outputs op (fst (op s c)) cs)
    = proj (run_ops op (fst (op s c)) cs)"
    by (simp add: wf_op)
  with Cons.prems show ?case
    by (auto simp: replay_success replay_failure split: sum.splits)
qed

end

text \<open>
  An incremental decoder: accepting two pieces one after the other is accepting their
  concatenation. How a stream is cut into chunks then makes no difference to what it decodes to.
\<close>

locale chunked_decoder =
  fixes feed :: "'s \<Rightarrow> 'b list \<Rightarrow> ('s, 'e, 'o list) outcome"
  assumes feed_append: "feed s (a @ b) = (s2, Inr os) \<longleftrightarrow>
    (\<exists>s1 os1 os2. feed s a = (s1, Inr os1) \<and> feed s1 b = (s2, Inr os2) \<and> os = os1 @ os2)"
begin

lemma feed_chunks_Cons_ok:
  "feed_chunks feed s (c # cs) = (s2, Inr os) \<longleftrightarrow>
     (\<exists>s1 os1 os2. feed s c = (s1, Inr os1) \<and> feed_chunks feed s1 cs = (s2, Inr os2) \<and> os = os1 @ os2)"
  by (auto split: prod.splits sum.splits)

lemma feed_chunks_concat:
  "cs \<noteq> [] \<Longrightarrow> feed_chunks feed s cs = (s2, Inr os) \<longleftrightarrow> feed s (concat cs) = (s2, Inr os)"
proof (induction cs arbitrary: s os)
  case (Cons c cs)
  show ?case
  proof (cases "cs = []")
    case True
    then show ?thesis by (auto split: prod.splits sum.splits)
  next
    case False
    then show ?thesis
      unfolding feed_chunks_Cons_ok concat.simps feed_append using Cons.IH by simp
  qed
qed simp

end

end
