(* ===== verification/Inference_Types.thy ===== *)
theory Inference_Types
  imports Axiom_Prelude
begin

text \<open>
  The transport-independent values of \<open>crates/axiom-inference\<close>: messages, tool calls,
  requests, catalog models, accounting records and security evidence, each struct as a record
  and each enum as a datatype with the constructors of the source; the validation helpers of
  \<open>lib.rs\<close>; and the stage order and progress check of image generation. A finite
  \<open>f64\<close> is the rational number it denotes; \<open>serde_json::Value\<close> is the datatype
  \<open>json\<close>, an object being the list of its key and value pairs.
\<close>

section \<open>Values of serde_json and floating point\<close>

datatype f64 = Finite rat | Infinite bool | NaN

definition f64_in :: "rat \<Rightarrow> rat \<Rightarrow> f64 \<Rightarrow> bool" where
  "f64_in lo hi x = (case x of Finite r \<Rightarrow> lo \<le> r \<and> r \<le> hi | _ \<Rightarrow> False)"

datatype json_number = PosInt nat | NegInt int | Float f64

datatype json =
    JNull
  | JBool bool
  | JNumber json_number
  | JString string
  | JArray "json list"
  | JObject "(string \<times> json) list"

definition as_u64 :: "json \<Rightarrow> nat option" where
  "as_u64 v = (case v of JNumber (PosInt n) \<Rightarrow> Some n | _ \<Rightarrow> None)"

definition as_bool :: "json \<Rightarrow> bool option" where
  "as_bool v = (case v of JBool b \<Rightarrow> Some b | _ \<Rightarrow> None)"

section \<open>Image generation progress\<close>

datatype image_stage = Queued | Generating | Finishing

text \<open>The derived order of \<open>ImageGenerationStage\<close> is the order of its variants.\<close>

primrec stage_rank :: "image_stage \<Rightarrow> nat" where
  "stage_rank Queued = 0"
| "stage_rank Generating = 1"
| "stage_rank Finishing = 2"

instantiation image_stage :: linorder
begin

definition less_eq_image_stage :: "image_stage \<Rightarrow> image_stage \<Rightarrow> bool" where
  "less_eq_image_stage a b \<longleftrightarrow> stage_rank a \<le> stage_rank b"

definition less_image_stage :: "image_stage \<Rightarrow> image_stage \<Rightarrow> bool" where
  "less_image_stage a b \<longleftrightarrow> stage_rank a < stage_rank b"

instance
proof
  fix x y :: image_stage
  show "x \<le> y \<Longrightarrow> y \<le> x \<Longrightarrow> x = y"
    by (cases x; cases y) (simp_all add: less_eq_image_stage_def)
qed (auto simp: less_eq_image_stage_def less_image_stage_def)

end

record image_progress =
  ip_stage :: image_stage
  ip_percent :: nat

definition valid_after :: "image_progress \<Rightarrow> image_progress option \<Rightarrow> bool" where
  "valid_after p previous \<longleftrightarrow>
     ip_percent p \<le> 99
   \<and> (case ip_stage p of
        Queued \<Rightarrow> ip_percent p = 0
      | Generating \<Rightarrow> True
      | Finishing \<Rightarrow> ip_percent p = 99)
   \<and> (case previous of
        None \<Rightarrow> True
      | Some old \<Rightarrow> ip_stage old \<le> ip_stage p \<and> ip_percent old \<le> ip_percent p)"

section \<open>Messages, tools and requests\<close>

definition MAX_TOOLS :: nat where "MAX_TOOLS = 128"
definition MAX_TOOL_CALLS :: nat where "MAX_TOOL_CALLS = 128"
definition MAX_TOOL_CALL_ID_CHARS :: nat where "MAX_TOOL_CALL_ID_CHARS = 256"
definition MAX_FUNCTION_NAME_CHARS :: nat where "MAX_FUNCTION_NAME_CHARS = 64"
definition MAX_MESSAGE_TEXT_BYTES :: nat where "MAX_MESSAGE_TEXT_BYTES = 4 * 1024 * 1024"
definition MAX_TOOL_DESCRIPTION_BYTES :: nat where "MAX_TOOL_DESCRIPTION_BYTES = 16384"
definition MAX_TOOL_PARAMETERS_BYTES :: nat where "MAX_TOOL_PARAMETERS_BYTES = 131072"
definition MAX_TOOL_ARGUMENTS_BYTES :: nat where "MAX_TOOL_ARGUMENTS_BYTES = 262000"

lemmas max_defs =
  MAX_TOOLS_def MAX_TOOL_CALLS_def MAX_TOOL_CALL_ID_CHARS_def MAX_FUNCTION_NAME_CHARS_def
  MAX_MESSAGE_TEXT_BYTES_def MAX_TOOL_DESCRIPTION_BYTES_def MAX_TOOL_PARAMETERS_BYTES_def
  MAX_TOOL_ARGUMENTS_BYTES_def

datatype chat_role = System | Developer | User | Assistant | Tool_role

record file_content =
  fc_name :: string
  fc_mime_type :: string
  fc_data :: string

record image_content =
  ic_mime_type :: string
  ic_data :: string

record function_call =
  fn_name :: string
  fn_arguments :: string

record tool_call =
  tc_id :: string
  tc_kind :: string
  tc_function :: function_call

record chat_message =
  cm_role :: chat_role
  cm_content :: string
  cm_images :: "image_content list"
  cm_files :: "file_content list"
  cm_reasoning_content :: "string option"
  cm_name :: "string option"
  cm_refusal :: "string option"
  cm_tool_call_id :: "string option"
  cm_tool_calls :: "tool_call list"

definition chat_message_text :: "chat_role \<Rightarrow> string \<Rightarrow> chat_message" where
  "chat_message_text role content =
     \<lparr>cm_role = role, cm_content = content, cm_images = [], cm_files = [],
      cm_reasoning_content = None, cm_name = None, cm_refusal = None,
      cm_tool_call_id = None, cm_tool_calls = []\<rparr>"

record function_definition =
  fd_name :: string
  fd_description :: string
  fd_parameters :: json
  fd_strict :: "bool option"

record tool_definition =
  td_kind :: string
  td_function :: function_definition

datatype reasoning_effort = Minimal | Low | Medium | High | ExtraHigh

primrec reasoning_effort_as_str :: "reasoning_effort \<Rightarrow> string" where
  "reasoning_effort_as_str Minimal = ''minimal''"
| "reasoning_effort_as_str Low = ''low''"
| "reasoning_effort_as_str Medium = ''medium''"
| "reasoning_effort_as_str High = ''high''"
| "reasoning_effort_as_str ExtraHigh = ''xhigh''"

datatype tool_choice = Choice_Auto | Choice_None | Choice_Required | Choice_Named string

record sampling_parameters =
  temperature :: "f64 option"
  top_p :: "f64 option"

datatype response_format =
    Format_Text
  | Format_JsonObject
  | Format_JsonSchema string json bool

datatype thinking_mode = Thinking_ProviderDefault | Thinking_Enabled | Thinking_Disabled

record inference_request =
  ir_model :: string
  ir_request_id :: "string option"
  ir_messages :: "chat_message list"
  ir_tools :: "tool_definition list"
  ir_tool_choice :: tool_choice
  ir_parallel_tool_calls :: "bool option"
  ir_reasoning_effort :: reasoning_effort
  ir_thinking_mode :: thinking_mode
  ir_max_output_tokens :: "nat option"
  ir_sampling :: sampling_parameters
  ir_response_format :: response_format
  ir_stream :: bool

definition streaming :: "string \<Rightarrow> chat_message list \<Rightarrow> tool_definition list \<Rightarrow> inference_request" where
  "streaming model messages tools =
     \<lparr>ir_model = model, ir_request_id = None, ir_messages = messages, ir_tools = tools,
      ir_tool_choice = Choice_Auto, ir_parallel_tool_calls = None,
      ir_reasoning_effort = Medium, ir_thinking_mode = Thinking_ProviderDefault,
      ir_max_output_tokens = None, ir_sampling = \<lparr>temperature = None, top_p = None\<rparr>,
      ir_response_format = Format_Text, ir_stream = True\<rparr>"

section \<open>Validation errors and the shared field checks\<close>

datatype validation_kind = Invalid | Count | Size | Unsupported | Conflict | Incomplete

record validation_error =
  ve_field :: string
  ve_kind :: validation_kind

definition verr :: "validation_kind \<Rightarrow> string \<Rightarrow> validation_error" where
  "verr kind field = \<lparr>ve_field = field, ve_kind = kind\<rparr>"

definition validate_bytes :: "string \<Rightarrow> string \<Rightarrow> nat \<Rightarrow> validation_error + unit" where
  "validate_bytes field value maximum =
     (if maximum < length value then Inl (verr Size field) else Inr ())"

definition validate_optional_bytes ::
  "string \<Rightarrow> string option \<Rightarrow> nat \<Rightarrow> validation_error + unit" where
  "validate_optional_bytes field value maximum =
     (case value of None \<Rightarrow> Inr () | Some v \<Rightarrow> validate_bytes field v maximum)"

text \<open>A character that is one of an ASCII set: a one-byte scalar value.\<close>

definition char_in :: "(char \<Rightarrow> bool) \<Rightarrow> string \<Rightarrow> bool" where
  "char_in p c = (case c of [b] \<Rightarrow> p b | _ \<Rightarrow> False)"

definition identifier_char :: "string \<Rightarrow> bool" where
  "identifier_char c \<longleftrightarrow>
     \<not> (is_control c \<or> \<not> char_in (\<lambda>b. is_ascii_alphanumeric b \<or> b \<in> set ''_-.$/'') c)"

definition validate_identifier :: "string \<Rightarrow> string \<Rightarrow> nat \<Rightarrow> validation_error + unit" where
  "validate_identifier field value maximum =
     (if value = [] \<or> maximum < length (str_chars value)
         \<or> (\<exists>c \<in> set (str_chars value). \<not> identifier_char c)
      then Inl (verr Invalid field) else Inr ())"

definition validate_call_id :: "string \<Rightarrow> validation_error + unit" where
  "validate_call_id value =
     (if value = [] \<or> MAX_TOOL_CALL_ID_CHARS < length (str_chars value) \<or> has_control value
      then Inl (verr Invalid ''tool_call_id'') else Inr ())"

definition validate_tool_call :: "tool_call \<Rightarrow> validation_error + unit" where
  "validate_tool_call call =
     and_then (validate_call_id (tc_id call))
     (if tc_kind call \<noteq> ''function'' then Inl (verr Unsupported ''tool_call.type'')
      else and_then (validate_identifier ''tool_call.function.name''
                       (fn_name (tc_function call)) MAX_FUNCTION_NAME_CHARS)
                    (validate_bytes ''tool_call.function.arguments''
                       (fn_arguments (tc_function call)) MAX_TOOL_ARGUMENTS_BYTES))"

definition validate_tool_calls :: "tool_call list \<Rightarrow> validation_error + unit" where
  "validate_tool_calls calls =
     (if MAX_TOOL_CALLS < length calls then Inl (verr Count ''tool_calls'')
      else try_each validate_tool_call calls)"

section \<open>Models, usage and accounting\<close>

record model_info =
  mi_id :: string
  mi_label :: string
  mi_short_label :: string
  mi_provider_id :: string
  mi_provider_label :: string
  mi_upstream_model :: string
  mi_provider_base_url :: string
  mi_e2ee_protocol :: string
  mi_e2ee_encryption_version :: nat
  mi_attestation_protocol :: string
  mi_context_window_tokens :: nat
  mi_max_output_tokens :: nat
  mi_input_price :: "nat option"
  mi_output_price :: "nat option"
  mi_supported_reasoning_efforts :: "reasoning_effort list"
  mi_supported_thinking_modes :: "thinking_mode list"
  mi_reasoning_replay :: bool
  mi_supports_tools :: bool
  mi_supports_parallel_tools :: bool
  mi_supports_streaming :: bool
  mi_supports_images :: bool
  mi_file_mime_types :: "string list"
  mi_reasoning_parameters :: "(string \<times> json) list"
  mi_thinking_parameters :: "(string \<times> json) list"

definition AUTO_COMPACT_CONTEXT_PERCENT :: nat where
  "AUTO_COMPACT_CONTEXT_PERCENT = 85"

definition auto_compact_threshold_tokens :: "model_info \<Rightarrow> nat" where
  "auto_compact_threshold_tokens m =
     saturating_mul_u32 (mi_context_window_tokens m) AUTO_COMPACT_CONTEXT_PERCENT div 100"

datatype provider_failure =
    Fail_Configuration | Fail_LocalAuthentication | Fail_Authentication
  | Fail_InsufficientCredit | Fail_RateLimited | Fail_ModelUnavailable
  | Fail_CapabilityMismatch | Fail_AttestationUnavailable | Fail_AttestationRejected
  | Fail_SessionEstablishment | Fail_Encryption | Fail_Decryption | Fail_Transient
  | Fail_InvalidRequest | Fail_InvalidResponse | Fail_Cancelled

datatype usage_completeness = Usage_Unknown | Usage_Live | Usage_Final | Usage_Partial

datatype invocation_state = Inv_Running | Inv_Completed | Inv_Failed | Inv_Cancelled

datatype invocation_purpose = Purpose_Conversation | Purpose_Title | Purpose_Compaction

record request_usage =
  ru_request_id :: string
  ru_model_id :: string
  ru_provider_id :: string
  ru_context_window_tokens :: "nat option"
  ru_auto_compact_threshold_tokens :: "nat option"
  ru_turn_id :: "string option"
  ru_purpose :: invocation_purpose
  ru_state :: invocation_state
  ru_completeness :: usage_completeness
  ru_input_tokens :: "string option"
  ru_cached_input_tokens :: "string option"
  ru_output_tokens :: "string option"
  ru_reasoning_tokens :: "string option"
  ru_image_pixels :: "string option"
  ru_image_steps :: "string option"
  ru_input_image_pixels :: "string option"
  ru_cost_microusd :: "string option"
  ru_settled :: bool
  ru_response_verified :: bool
  ru_started_at_ms :: string
  ru_finished_at_ms :: "string option"
  ru_error_code :: "string option"
  ru_finish_reason :: "string option"

text \<open>The closure \<open>parse\<close> of \<open>validate_counters\<close>: \<open>None\<close> rejects the counter.\<close>

definition parse_counter :: "string option \<Rightarrow> nat option option" where
  "parse_counter v =
     (case v of
        None \<Rightarrow> Some None
      | Some s \<Rightarrow>
          if s \<noteq> [] \<and> length s \<le> 20 \<and> list_all is_ascii_digit s
          then map_option Some (parse_u64_digits s)
          else None)"

definition exceeds :: "nat option \<Rightarrow> nat option \<Rightarrow> bool" where
  "exceeds part whole = (case (whole, part) of (Some w, Some p) \<Rightarrow> w < p | _ \<Rightarrow> False)"

definition validate_counters :: "request_usage \<Rightarrow> bool" where
  "validate_counters u =
     (case (parse_counter (ru_input_tokens u), parse_counter (ru_cached_input_tokens u),
            parse_counter (ru_output_tokens u), parse_counter (ru_reasoning_tokens u),
            parse_counter (ru_cost_microusd u)) of
        (Some input, Some cached, Some out, Some reasoning, Some _) \<Rightarrow>
            parse_counter (ru_image_pixels u) \<noteq> None
          \<and> parse_counter (ru_image_steps u) \<noteq> None
          \<and> parse_counter (ru_input_image_pixels u) \<noteq> None
          \<and> \<not> exceeds cached input
          \<and> \<not> exceeds reasoning out
      | _ \<Rightarrow> False)"

section \<open>Security evidence\<close>

datatype security_state =
    Sec_Unverified | Sec_Verifying | Sec_Verified | Sec_Degraded | Sec_Rejected
  | Sec_Cancelled | Sec_Expired

record evidence_check =
  ec_id :: string
  ec_label :: string
  ec_status :: string
  ec_passed :: bool

record evidence_claim =
  ecl_name :: string
  ecl_value :: string

record security_evidence =
  se_state :: security_state
  se_provider_id :: string
  se_model_id :: string
  se_attestation_protocol :: string
  se_e2ee_protocol :: string
  se_e2ee_encryption_version :: nat
  se_trust_policy_version :: string
  se_verified_at_unix_seconds :: nat
  se_attestation_generation :: "nat option"
  se_hard_expires_at_unix_seconds :: "nat option"
  se_model_key_fingerprint :: string
  se_tls_spki_fingerprint :: "string option"
  se_checks :: "evidence_check list"
  se_provider_claims :: "evidence_claim list"
  se_workload_manifest :: "string option"

section \<open>Facts\<close>

lemma validate_bytes_ok [simp]: "validate_bytes f v m = Inr u \<longleftrightarrow> length v \<le> m"
  by (auto simp: validate_bytes_def)

lemma validate_optional_bytes_ok [simp]:
  "validate_optional_bytes f v m = Inr u \<longleftrightarrow> (\<forall>s. v = Some s \<longrightarrow> length s \<le> m)"
  by (auto simp: validate_optional_bytes_def split: option.splits)

lemma char_in_single [simp]: "char_in p [b] = p b"
  by (simp add: char_in_def)

lemma char_in_conv: "char_in p c \<longleftrightarrow> (\<exists>b. c = [b] \<and> p b)"
  by (auto simp: char_in_def split: list.splits)

text \<open>An accepted identifier is ASCII, so its characters are its bytes: the character bound
  is a byte bound and every byte is one of the allowed ones.\<close>

lemma all_single_concat: "\<forall>c\<in>set cs. \<exists>b. c = [b] \<and> P b \<Longrightarrow> cs = map (\<lambda>b. [b]) (concat cs) \<and> list_all P (concat cs)"
  by (induction cs) auto

lemma validate_identifier_ok:
  "validate_identifier f v m = Inr u \<Longrightarrow>
     v \<noteq> [] \<and> length v \<le> m \<and> list_all (\<lambda>b. is_ascii_alphanumeric b \<or> b \<in> set ''_-.$/'') v"
proof -
  assume ok: "validate_identifier f v m = Inr u"
  let ?P = "\<lambda>b. is_ascii_alphanumeric b \<or> b \<in> set ''_-.$/''"
  have "\<forall>c\<in>set (str_chars v). \<exists>b. c = [b] \<and> ?P b"
    using ok unfolding validate_identifier_def identifier_char_def char_in_conv
    by (auto split: if_splits)
  then have "str_chars v = map (\<lambda>b. [b]) v \<and> list_all ?P v"
    using all_single_concat [of "str_chars v" ?P] by simp
  then show ?thesis
    using ok by (auto simp: validate_identifier_def split: if_splits)
qed

lemma parse_counter_ok:
  "parse_counter (Some s) = Some r \<longleftrightarrow>
     s \<noteq> [] \<and> length s \<le> 20 \<and> list_all is_ascii_digit s \<and> decimal_value s \<le> u64_max
     \<and> r = Some (decimal_value s)"
  by (auto simp: parse_counter_def parse_u64_digits_def)

lemma parse_counter_None [simp]: "parse_counter None = Some None"
  by (simp add: parse_counter_def)

end
