(* ===== verification/Attachments.thy ===== *)
theory Attachments
  imports Inference_Types
begin

text \<open>
  Local user attachments, \<open>crates/axiom-inference/src/attachments.rs\<close>: the checks of files,
  images and prompts, and the chat message a prompt becomes. The base64 engine and
  \<open>serde_json\<close> are third-party code, so their functions are the fields of the parameter
  \<open>codec\<close>.
\<close>

record codec =
  b64_decode :: "string \<Rightarrow> string option"
  b64_encode :: "string \<Rightarrow> string"
  json_quote :: "string \<Rightarrow> string"
  json_to_vec :: "json \<Rightarrow> string option"

text \<open>A codec that leaves its data as it is, at which the hypotheses on the parameter hold.\<close>

definition identity_codec :: codec where
  "identity_codec = \<lparr>b64_decode = Some, b64_encode = \<lambda>s. s, json_quote = \<lambda>s. s, json_to_vec = \<lambda>_. Some []\<rparr>"

definition MAX_ATTACHMENTS :: nat where "MAX_ATTACHMENTS = 10"
definition MAX_IMAGE_BYTES :: nat where "MAX_IMAGE_BYTES = 5 * 1024 * 1024"
definition MAX_GENERATED_IMAGE_PIXELS :: nat where "MAX_GENERATED_IMAGE_PIXELS = 1536 * 1536"
definition MAX_FILE_BYTES :: nat where "MAX_FILE_BYTES = 10 * 1024 * 1024"
definition MAX_ATTACHMENT_BYTES :: nat where "MAX_ATTACHMENT_BYTES = 16 * 1024 * 1024"

definition FILE_MIME_TYPES :: "string list" where
  "FILE_MIME_TYPES =
    [''text/plain'', ''text/markdown'', ''text/csv'', ''text/html'', ''application/json'',
     ''application/xml'', ''application/pdf'',
     ''application/vnd.openxmlformats-officedocument.wordprocessingml.document'',
     ''application/vnd.openxmlformats-officedocument.presentationml.presentation'',
     ''application/vnd.openxmlformats-officedocument.spreadsheetml.sheet'']"

text \<open>\<open>usize::div_ceil\<close>\<close>

definition div_ceil :: "nat \<Rightarrow> nat \<Rightarrow> nat" where
  "div_ceil a b = (a + b - 1) div b"

section \<open>Files and images\<close>

definition file_validate :: "codec \<Rightarrow> file_content \<Rightarrow> validation_error + unit" where
  "file_validate k f =
     (if fc_name f = [] \<or> 512 < length (fc_name f) \<or> has_control (fc_name f)
         \<or> fc_mime_type f \<notin> set FILE_MIME_TYPES \<or> fc_data f = []
         \<or> div_ceil MAX_FILE_BYTES 3 * 4 < length (fc_data f)
      then Inl (verr Invalid ''file.content'')
      else (case b64_decode k (fc_data f) of
          None \<Rightarrow> Inl (verr Invalid ''file.base64'')
        | Some bytes \<Rightarrow>
            if MAX_FILE_BYTES < length bytes \<or> b64_encode k bytes \<noteq> fc_data f
            then Inl (verr Invalid ''file.size'') else Inr ()))"

definition bytes_of :: "nat list \<Rightarrow> string" where
  "bytes_of = map char_of"

definition image_signature_matches :: "string \<Rightarrow> string \<Rightarrow> bool" where
  "image_signature_matches mime bytes =
     (if mime = ''image/png'' then starts_with bytes (bytes_of [137, 80, 78, 71, 13, 10, 26, 10])
      else if mime = ''image/jpeg'' then starts_with bytes (bytes_of [255, 216, 255])
      else if mime = ''image/webp''
        then starts_with bytes ''RIFF'' \<and> 12 \<le> length bytes \<and> take 4 (drop 8 bytes) = ''WEBP''
      else if mime = ''image/gif''
        then starts_with bytes ''GIF87a'' \<or> starts_with bytes ''GIF89a''
      else False)"

definition image_validate_bounded ::
  "codec \<Rightarrow> nat \<Rightarrow> image_content \<Rightarrow> validation_error + unit" where
  "image_validate_bounded k maximum i =
     (if div_ceil maximum 3 * 4 < length (ic_data i) then Inl (verr Invalid ''image.size'')
      else (case b64_decode k (ic_data i) of
          None \<Rightarrow> Inl (verr Invalid ''image.base64'')
        | Some bytes \<Rightarrow>
            if maximum < length bytes \<or> \<not> image_signature_matches (ic_mime_type i) bytes
            then Inl (verr Invalid ''image.content'') else Inr ()))"

definition image_validate :: "codec \<Rightarrow> image_content \<Rightarrow> validation_error + unit" where
  "image_validate k = image_validate_bounded k MAX_IMAGE_BYTES"

definition image_data_url :: "image_content \<Rightarrow> string" where
  "image_data_url i = ''data:'' @ ic_mime_type i @ '';base64,'' @ ic_data i"

definition image_from_data_url :: "codec \<Rightarrow> string \<Rightarrow> validation_error + image_content" where
  "image_from_data_url k url =
     (case Option.bind (strip_prefix ''data:'' url) (split_once '';base64,'') of
        None \<Rightarrow> Inl (verr Unsupported ''image.url'')
      | Some (mime, data) \<Rightarrow>
          (let img = \<lparr>ic_mime_type = mime, ic_data = data\<rparr>
           in and_then (image_validate k img) (Inr img)))"

record image_dimensions =
  dim_width :: nat
  dim_height :: nat

definition dimensions_validate :: "image_dimensions \<Rightarrow> validation_error + unit" where
  "dimensions_validate d =
     (if \<not> (256 \<le> dim_width d \<and> dim_width d \<le> 8192)
         \<or> \<not> (256 \<le> dim_height d \<and> dim_height d \<le> 8192)
         \<or> \<not> 32 dvd dim_width d \<or> \<not> 32 dvd dim_height d
         \<or> MAX_GENERATED_IMAGE_PIXELS < dim_width d * dim_height d
      then Inl (verr Invalid ''image.dimensions'') else Inr ())"

section \<open>Prompt attachments\<close>

datatype prompt_attachment =
    Att_Text string string
  | Att_Image string image_content
  | Att_File string file_content

primrec attachment_name :: "prompt_attachment \<Rightarrow> string" where
  "attachment_name (Att_Text name _) = name"
| "attachment_name (Att_Image name _) = name"
| "attachment_name (Att_File name _) = name"

primrec attachment_bytes :: "prompt_attachment \<Rightarrow> nat" where
  "attachment_bytes (Att_Text _ text) = length text"
| "attachment_bytes (Att_Image _ img) = length (ic_data img)"
| "attachment_bytes (Att_File _ file) = length (fc_data file)"

definition attachment_validate :: "codec \<Rightarrow> prompt_attachment \<Rightarrow> validation_error + unit" where
  "attachment_validate k a =
     (if attachment_name a = [] \<or> 512 < length (attachment_name a)
         \<or> has_control (attachment_name a)
      then Inl (verr Invalid ''attachment.name'')
      else (case a of
          Att_Text _ text \<Rightarrow>
            if text = [] \<or> MAX_MESSAGE_TEXT_BYTES < length text \<or> contains_nul text
            then Inl (verr Invalid ''attachment.text'') else Inr ()
        | Att_Image _ img \<Rightarrow> image_validate k img
        | Att_File name file \<Rightarrow>
            if name \<noteq> fc_name file then Inl (verr Invalid ''file.name'')
            else file_validate k file))"

definition attachment_summary :: "prompt_attachment \<Rightarrow> json" where
  "attachment_summary a = JObject
     [(''name'', JString (attachment_name a)),
      (''kind'', JString (case a of Att_Text _ _ \<Rightarrow> ''text'' | Att_Image _ _ \<Rightarrow> ''image''
                            | Att_File _ _ \<Rightarrow> ''file'')),
      (''bytes'', JNumber (PosInt (attachment_bytes a)))]"

abbreviation newline :: string where
  "newline \<equiv> [char_of (10::nat)]"

definition add_attachment :: "codec \<Rightarrow> chat_message \<Rightarrow> prompt_attachment \<Rightarrow> chat_message" where
  "add_attachment k m a =
     (let name = json_quote k (attachment_name a) in
      case a of
        Att_Text _ text \<Rightarrow>
          m\<lparr>cm_content := cm_content m @ newline @ newline @ ''[Attached file '' @ name @ '']''
              @ newline @ text @ newline @ ''[End attached file]''\<rparr>
      | Att_Image _ img \<Rightarrow>
          m\<lparr>cm_content := cm_content m @ newline @ ''[Attached image '' @ name @ '']'',
            cm_images := cm_images m @ [img]\<rparr>
      | Att_File _ file \<Rightarrow> m\<lparr>cm_files := cm_files m @ [file]\<rparr>)"

definition user_message :: "codec \<Rightarrow> string \<Rightarrow> prompt_attachment list \<Rightarrow> chat_message" where
  "user_message k text attachments =
     foldl (add_attachment k) (chat_message_text User text) attachments"

text \<open>The loop of \<open>validate_stored_prompt\<close>: validate each attachment and add up its bytes.\<close>

definition sum_attachments :: "codec \<Rightarrow> nat \<Rightarrow> prompt_attachment list \<Rightarrow> validation_error + nat" where
  "sum_attachments k = try_fold (\<lambda>tot a. and_then (attachment_validate k a)
     (Inr (saturating_add tot (attachment_bytes a))))"

definition validate_stored_prompt ::
  "codec \<Rightarrow> string \<Rightarrow> prompt_attachment list \<Rightarrow> validation_error + unit" where
  "validate_stored_prompt k text attachments =
     (if MAX_MESSAGE_TEXT_BYTES < length text \<or> is_blank text \<and> attachments = []
      then Inl (verr Invalid ''prompt.text'')
      else if MAX_ATTACHMENTS < length attachments then Inl (verr Count ''prompt.attachments'')
      else (case sum_attachments k (length text) attachments of
          Inl e \<Rightarrow> Inl e
        | Inr tot \<Rightarrow>
            if MAX_ATTACHMENT_BYTES < tot
               \<or> MAX_MESSAGE_TEXT_BYTES < length (cm_content (user_message k text attachments))
            then Inl (verr Invalid ''prompt.size'') else Inr ()))"

definition is_text_attachment :: "prompt_attachment \<Rightarrow> bool" where
  "is_text_attachment a = (case a of Att_Text _ _ \<Rightarrow> True | _ \<Rightarrow> False)"

definition validate_prompt ::
  "codec \<Rightarrow> string \<Rightarrow> prompt_attachment list \<Rightarrow> validation_error + unit" where
  "validate_prompt k text attachments =
     (if list_ex is_text_attachment attachments
      then Inl (verr Unsupported ''attachment.extracted_text'')
      else validate_stored_prompt k text attachments)"

section \<open>Facts\<close>

lemmas attachment_limits =
  MAX_ATTACHMENTS_def MAX_IMAGE_BYTES_def MAX_FILE_BYTES_def MAX_ATTACHMENT_BYTES_def
  MAX_GENERATED_IMAGE_PIXELS_def

text \<open>What a message gains from a list of attachments.\<close>

fun attachment_images :: "prompt_attachment list \<Rightarrow> image_content list" where
  "attachment_images [] = []"
| "attachment_images (Att_Image _ i # as) = i # attachment_images as"
| "attachment_images (_ # as) = attachment_images as"

fun attachment_files :: "prompt_attachment list \<Rightarrow> file_content list" where
  "attachment_files [] = []"
| "attachment_files (Att_File _ f # as) = f # attachment_files as"
| "attachment_files (_ # as) = attachment_files as"

lemma add_attachment_fields:
  "cm_images (foldl (add_attachment k) m as) = cm_images m @ attachment_images as"
  "cm_files (foldl (add_attachment k) m as) = cm_files m @ attachment_files as"
  "cm_role (foldl (add_attachment k) m as) = cm_role m"
  "cm_reasoning_content (foldl (add_attachment k) m as) = cm_reasoning_content m"
  "cm_name (foldl (add_attachment k) m as) = cm_name m"
  "cm_refusal (foldl (add_attachment k) m as) = cm_refusal m"
  "cm_tool_call_id (foldl (add_attachment k) m as) = cm_tool_call_id m"
  "cm_tool_calls (foldl (add_attachment k) m as) = cm_tool_calls m"
  by (induction as arbitrary: m)
    (auto simp: add_attachment_def Let_def split: prompt_attachment.splits)

lemma user_message_fields [simp]:
  "cm_images (user_message k t as) = attachment_images as"
  "cm_files (user_message k t as) = attachment_files as"
  "cm_role (user_message k t as) = User"
  "cm_reasoning_content (user_message k t as) = None"
  "cm_name (user_message k t as) = None"
  "cm_refusal (user_message k t as) = None"
  "cm_tool_call_id (user_message k t as) = None"
  "cm_tool_calls (user_message k t as) = []"
  by (simp_all add: user_message_def add_attachment_fields chat_message_text_def)

lemma attachment_counts: "length (attachment_images as) + length (attachment_files as) \<le> length as"
  by (induction as rule: attachment_images.induct) auto

text \<open>The bytes by which the message text grows beyond the prompt: the labels of text and
  image attachments, which \<open>validate_stored_prompt\<close> does not count in its total.\<close>

fun label_bytes :: "codec \<Rightarrow> prompt_attachment \<Rightarrow> nat" where
  "label_bytes k (Att_Text n t) = 39 + length (json_quote k n)"
| "label_bytes k (Att_Image n i) = 18 + length (json_quote k n)"
| "label_bytes k (Att_File n f) = 0"

fun text_bytes :: "prompt_attachment \<Rightarrow> nat" where
  "text_bytes (Att_Text n t) = length t"
| "text_bytes _ = 0"

lemma add_attachment_content_length:
  "length (cm_content (foldl (add_attachment k) m as)) =
     length (cm_content m) + (\<Sum>a\<leftarrow>as. text_bytes a + label_bytes k a)"
  by (induction as arbitrary: m)
    (auto simp: add_attachment_def Let_def split: prompt_attachment.splits)

lemma user_message_content_length:
  "length (cm_content (user_message k t as)) = length t + (\<Sum>a\<leftarrow>as. text_bytes a + label_bytes k a)"
  by (simp add: user_message_def add_attachment_content_length chat_message_text_def)

lemma sum_attachments_ok:
  "sum_attachments k n as = Inr tot \<Longrightarrow> tot < usize_max \<Longrightarrow>
     (\<forall>a\<in>set as. attachment_validate k a = Inr ()) \<and> tot = n + (\<Sum>a\<leftarrow>as. attachment_bytes a)"
proof (induction as arbitrary: n)
  case Nil
  then show ?case by (simp add: sum_attachments_def)
next
  case (Cons a as)
  let ?n = "saturating_add n (attachment_bytes a)"
  from Cons.prems(1) have v: "attachment_validate k a = Inr ()"
    by (auto simp: sum_attachments_def and_then_def split: sum.splits)
  with Cons.prems(1) have t: "sum_attachments k ?n as = Inr tot"
    by (simp add: sum_attachments_def and_then_def)
  have IH: "(\<forall>a\<in>set as. attachment_validate k a = Inr ()) \<and> tot = ?n + (\<Sum>a\<leftarrow>as. attachment_bytes a)"
    using Cons.IH [OF t Cons.prems(2)] .
  with Cons.prems(2) have "?n = n + attachment_bytes a"
    by (auto simp: saturating_add_def min_def split: if_splits)
  with IH v show ?case by simp
qed

lemma attachment_images_validate:
  "\<forall>a\<in>set as. attachment_validate k a = Inr () \<Longrightarrow> i \<in> set (attachment_images as) \<Longrightarrow>
     image_validate k i = Inr ()"
  by (induction as rule: attachment_images.induct)
    (auto simp: attachment_validate_def split: if_splits)

lemma attachment_files_validate:
  "\<forall>a\<in>set as. attachment_validate k a = Inr () \<Longrightarrow> f \<in> set (attachment_files as) \<Longrightarrow>
     file_validate k f = Inr ()"
  by (induction as rule: attachment_files.induct)
    (auto simp: attachment_validate_def split: if_splits)

lemma attachment_bytes_split:
  "(\<Sum>a\<leftarrow>as. attachment_bytes a) =
     (\<Sum>a\<leftarrow>as. text_bytes a) + (\<Sum>i\<leftarrow>attachment_images as. length (ic_data i))
     + (\<Sum>f\<leftarrow>attachment_files as. length (fc_data f))"
  by (induction as rule: attachment_images.induct) auto

text \<open>Everything an accepted stored prompt guarantees.\<close>

lemma validate_stored_prompt_ok:
  assumes "validate_stored_prompt k t as = Inr u"
  shows "length as \<le> MAX_ATTACHMENTS"
    and "\<forall>a\<in>set as. attachment_validate k a = Inr ()"
    and "length t + (\<Sum>a\<leftarrow>as. attachment_bytes a) \<le> MAX_ATTACHMENT_BYTES"
    and "length (cm_content (user_message k t as)) \<le> MAX_MESSAGE_TEXT_BYTES"
    and "is_blank t \<Longrightarrow> as \<noteq> []"
proof -
  from assms obtain tot where tot: "sum_attachments k (length t) as = Inr tot"
    and le: "tot \<le> MAX_ATTACHMENT_BYTES"
    and rest: "length as \<le> MAX_ATTACHMENTS" "is_blank t \<Longrightarrow> as \<noteq> []"
      "length (cm_content (user_message k t as)) \<le> MAX_MESSAGE_TEXT_BYTES"
    by (auto simp: validate_stored_prompt_def split: if_splits sum.splits)
  have "tot < usize_max" using le by (simp add: attachment_limits usize_max_def)
  note * = sum_attachments_ok [OF tot this]
  show "length as \<le> MAX_ATTACHMENTS" "\<forall>a\<in>set as. attachment_validate k a = Inr ()"
    "length t + (\<Sum>a\<leftarrow>as. attachment_bytes a) \<le> MAX_ATTACHMENT_BYTES"
    "length (cm_content (user_message k t as)) \<le> MAX_MESSAGE_TEXT_BYTES"
    "is_blank t \<Longrightarrow> as \<noteq> []"
    using * le rest by simp_all
qed

end
