(* ===== verification/Inference.thy ===== *)
theory Inference
  imports Attachments
begin

text \<open>
  \<open>InferenceRequest::validate\<close> and the \<open>ToolCallAccumulator\<close> of
  \<open>crates/axiom-inference/src/lib.rs\<close>. The accumulator assembles complete tool calls from
  streamed fragments; its \<open>BTreeMap\<close> is an ordered entry list, and a failing \<open>push\<close>
  leaves whatever it had written.
\<close>

section \<open>Request validation\<close>

definition guard :: "bool \<Rightarrow> 'e \<Rightarrow> 'e + unit" where
  "guard bad e = (if bad then Inl e else Inr ())"

definition message_files_bytes ::
  "codec \<Rightarrow> chat_message \<Rightarrow> validation_error + nat" where
  "message_files_bytes k m =
     try_fold (\<lambda>n f. and_then (file_validate k f) (Inr (saturating_add n (length (fc_data f)))))
       (length (cm_content m)) (cm_files m)"

definition message_image_bytes :: "nat \<Rightarrow> chat_message \<Rightarrow> nat" where
  "message_image_bytes n m =
     foldl (\<lambda>n i. saturating_add n (length (ic_data i))) n (cm_images m)"

definition validate_message_text :: "chat_message \<Rightarrow> validation_error + unit" where
  "validate_message_text m =
     and_then (validate_bytes ''message.content'' (cm_content m) MAX_MESSAGE_TEXT_BYTES)
    (and_then (validate_optional_bytes ''message.reasoning_content'' (cm_reasoning_content m)
                 MAX_MESSAGE_TEXT_BYTES)
    (and_then (validate_optional_bytes ''message.refusal'' (cm_refusal m) MAX_MESSAGE_TEXT_BYTES)
    (and_then (case cm_name m of None \<Rightarrow> Inr ()
               | Some name \<Rightarrow> validate_identifier ''message.name'' name MAX_FUNCTION_NAME_CHARS)
    (and_then (case cm_tool_call_id m of None \<Rightarrow> Inr () | Some i \<Rightarrow> validate_call_id i)
              (validate_tool_calls (cm_tool_calls m))))))"

definition validate_message :: "codec \<Rightarrow> chat_message \<Rightarrow> validation_error + unit" where
  "validate_message k m =
     and_then (guard (cm_files m \<noteq> [] \<and>
                 (cm_role m \<noteq> User \<or> MAX_ATTACHMENTS < length (cm_files m) + length (cm_images m)))
               (verr Invalid ''message.files''))
     (case message_files_bytes k m of
        Inl e \<Rightarrow> Inl e
      | Inr n \<Rightarrow>
          and_then (guard (MAX_ATTACHMENT_BYTES < message_image_bytes n m)
                     (verr Invalid ''message.attachments''))
         (and_then (guard (cm_images m \<noteq> [] \<and>
                       (cm_role m \<noteq> User \<or> MAX_ATTACHMENTS < length (cm_images m)))
                     (verr Invalid ''message.images''))
         (and_then (try_each (image_validate k) (cm_images m))
                   (validate_message_text m))))"

definition validate_tool :: "codec \<Rightarrow> tool_definition \<Rightarrow> validation_error + unit" where
  "validate_tool k t =
     and_then (guard (td_kind t \<noteq> ''function'') (verr Unsupported ''tool.type''))
    (and_then (validate_identifier ''tool.function.name'' (fd_name (td_function t))
                 MAX_FUNCTION_NAME_CHARS)
    (and_then (validate_bytes ''tool.function.description'' (fd_description (td_function t))
                 MAX_TOOL_DESCRIPTION_BYTES)
    (case json_to_vec k (fd_parameters (td_function t)) of
       None \<Rightarrow> Inl (verr Invalid ''tool.function.parameters'')
     | Some v \<Rightarrow> guard (MAX_TOOL_PARAMETERS_BYTES < length v)
                    (verr Size ''tool.function.parameters''))))"

definition f64_rejected :: "rat \<Rightarrow> f64 option \<Rightarrow> bool" where
  "f64_rejected hi x = (case x of None \<Rightarrow> False | Some v \<Rightarrow> \<not> f64_in 0 hi v)"

definition request_validate :: "codec \<Rightarrow> inference_request \<Rightarrow> validation_error + unit" where
  "request_validate k r =
     and_then (guard (is_blank (ir_model r) \<or> 256 < length (ir_model r) \<or> has_control (ir_model r))
                (verr Invalid ''model''))
    (and_then (guard (ir_messages r = []) (verr Count ''messages''))
    (and_then (guard (MAX_TOOLS < length (ir_tools r)) (verr Count ''tools''))
    (and_then (try_each (validate_message k) (ir_messages r))
    (and_then (try_each (validate_tool k) (ir_tools r))
    (and_then (case ir_tool_choice r of
                 Choice_Named name \<Rightarrow>
                   validate_identifier ''tool_choice.name'' name MAX_FUNCTION_NAME_CHARS
               | _ \<Rightarrow> Inr ())
    (and_then (guard (ir_max_output_tokens r = Some 0) (verr Invalid ''max_output_tokens''))
    (and_then (guard (f64_rejected 2 (temperature (ir_sampling r))) (verr Invalid ''temperature''))
              (guard (f64_rejected 1 (top_p (ir_sampling r))) (verr Invalid ''top_p'')))))))))"

section \<open>The tool-call accumulator\<close>

record tool_call_delta =
  d_index :: nat
  d_id :: "string option"
  d_kind :: "string option"
  d_name :: "string option"
  d_arguments :: "string option"

record partial_tool_call =
  pc_id :: "string option"
  pc_kind :: "string option"
  pc_name :: string
  pc_arguments :: string

type_synonym accumulator = "(nat \<times> partial_tool_call) list"

definition empty_partial :: partial_tool_call where
  "empty_partial = \<lparr>pc_id = None, pc_kind = None, pc_name = [], pc_arguments = []\<rparr>"

definition merge_stable ::
  "string option \<Rightarrow> string option \<Rightarrow> string \<Rightarrow> validation_error + string option" where
  "merge_stable destination fragment field =
     (case fragment of
        None \<Rightarrow> Inr destination
      | Some f \<Rightarrow>
          (case destination of
             Some existing \<Rightarrow>
               if existing \<noteq> f then Inl (verr Conflict field) else Inr destination
           | None \<Rightarrow> Inr (Some f)))"

text \<open>The body of \<open>push\<close> on the entry of the delta's index, with each early return.\<close>

definition push_call ::
  "partial_tool_call \<Rightarrow> tool_call_delta \<Rightarrow> (partial_tool_call, validation_error, unit) outcome" where
  "push_call c d =
     (case merge_stable (pc_id c) (d_id d) ''tool_call_delta.id'' of
        Inl e \<Rightarrow> (c, Inl e)
      | Inr i \<Rightarrow>
     (let c1 = c\<lparr>pc_id := i\<rparr> in
      case merge_stable (pc_kind c1) (d_kind d) ''tool_call_delta.type'' of
        Inl e \<Rightarrow> (c1, Inl e)
      | Inr t \<Rightarrow>
     (let c2 = c1\<lparr>pc_kind := t\<rparr>;
          c3 = (case d_name d of None \<Rightarrow> c2 | Some n \<Rightarrow> c2\<lparr>pc_name := pc_name c2 @ n\<rparr>)
      in if d_name d \<noteq> None \<and> MAX_FUNCTION_NAME_CHARS < length (pc_name c3)
         then (c3, Inl (verr Size ''tool_call_delta.name''))
         else
     (let c4 = (case d_arguments d of None \<Rightarrow> c3
                | Some a \<Rightarrow> c3\<lparr>pc_arguments := pc_arguments c3 @ a\<rparr>)
      in if d_arguments d \<noteq> None \<and> MAX_TOOL_ARGUMENTS_BYTES < length (pc_arguments c4)
         then (c4, Inl (verr Size ''tool_call_delta.arguments''))
         else (c4, Inr ())))))"

definition entry_or_default :: "accumulator \<Rightarrow> nat \<Rightarrow> partial_tool_call" where
  "entry_or_default acc i = (case map_of acc i of None \<Rightarrow> empty_partial | Some c \<Rightarrow> c)"

definition push ::
  "accumulator \<Rightarrow> tool_call_delta \<Rightarrow> (accumulator, validation_error, unit) outcome" where
  "push acc d =
     (if MAX_TOOL_CALLS \<le> d_index d then (acc, Inl (verr Count ''tool_call_delta.index''))
      else (let r = push_call (entry_or_default acc (d_index d)) d
            in (bt_insert (d_index d) (fst r) acc, snd r)))"

definition finish_call :: "partial_tool_call \<Rightarrow> validation_error + tool_call" where
  "finish_call c =
     (case pc_id c of
        None \<Rightarrow> Inl (verr Incomplete ''tool_call_delta.id'')
      | Some i \<Rightarrow>
          if i = [] then Inl (verr Incomplete ''tool_call_delta.id'')
          else (let tool = \<lparr>tc_id = i,
                     tc_kind = (case pc_kind c of None \<Rightarrow> ''function'' | Some t \<Rightarrow> t),
                     tc_function = \<lparr>fn_name = pc_name c, fn_arguments = pc_arguments c\<rparr>\<rparr>
                in and_then (validate_tool_calls [tool]) (Inr tool)))"

fun finish_from :: "nat \<Rightarrow> accumulator \<Rightarrow> validation_error + tool_call list" where
  "finish_from expected [] = Inr []"
| "finish_from expected ((index, call) # rest) =
     (if index \<noteq> expected then Inl (verr Incomplete ''tool_call_delta.index'')
      else (case finish_call call of
          Inl e \<Rightarrow> Inl e
        | Inr tool \<Rightarrow>
            (case finish_from (Suc expected) rest of
               Inl e \<Rightarrow> Inl e | Inr tools \<Rightarrow> Inr (tool # tools))))"

definition accumulator_finish :: "accumulator \<Rightarrow> validation_error + tool_call list" where
  "accumulator_finish acc = finish_from 0 acc"

section \<open>Facts about validation\<close>

lemma guard_ok [simp]: "guard b e = Inr u \<longleftrightarrow> \<not> b"
  by (simp add: guard_def)

lemma fold_saturating_exact:
  "foldl (\<lambda>n x. saturating_add n (f x)) n xs < usize_max \<Longrightarrow>
     foldl (\<lambda>n x. saturating_add n (f x)) n xs = n + (\<Sum>x\<leftarrow>xs. f x)"
proof (induction xs arbitrary: n)
  case (Cons x xs)
  let ?n = "saturating_add n (f x)"
  from Cons have IH: "foldl (\<lambda>n x. saturating_add n (f x)) ?n xs = ?n + (\<Sum>x\<leftarrow>xs. f x)"
    by simp
  with Cons.prems have "?n < usize_max" by simp
  then have "?n = n + f x" by (simp add: saturating_add_def)
  with IH show ?case by simp
qed simp

lemma fold_saturating_le:
  "n + (\<Sum>x\<leftarrow>xs. f x) \<le> b \<Longrightarrow> foldl (\<lambda>n x. saturating_add n (f x)) n xs \<le> b"
proof (induction xs arbitrary: n)
  case (Cons x xs)
  have "saturating_add n (f x) + (\<Sum>x\<leftarrow>xs. f x) \<le> b"
    using Cons.prems by (simp add: saturating_add_def)
  from Cons.IH [OF this] show ?case by simp
qed simp

lemma message_files_bytes_ok:
  "(\<forall>f\<in>set fs. file_validate k f = Inr ()) \<Longrightarrow>
     try_fold (\<lambda>n f. and_then (file_validate k f) (Inr (saturating_add n (length (fc_data f))))) n fs
     = Inr (foldl (\<lambda>n f. saturating_add n (length (fc_data f))) n fs)"
  by (induction fs arbitrary: n) (auto simp: and_then_def)

section \<open>Facts about the accumulator\<close>

definition opt_text :: "string option \<Rightarrow> string" where
  "opt_text x = (case x of None \<Rightarrow> [] | Some s \<Rightarrow> s)"

text \<open>The concatenation of the fragments that carry one index.\<close>

definition fragments :: "(tool_call_delta \<Rightarrow> string option) \<Rightarrow> nat \<Rightarrow> tool_call_delta list \<Rightarrow> string" where
  "fragments sel i ds = concat (map (\<lambda>d. opt_text (sel d)) (filter (\<lambda>d. d_index d = i) ds))"

lemma merge_stable_ok:
  "merge_stable d f field = Inr r \<longleftrightarrow>
     (f = None \<and> r = d) \<or> (\<exists>s. f = Some s \<and> (d = None \<or> d = Some s) \<and> r = Some s)"
  by (auto simp: merge_stable_def split: option.splits)

lemma push_call_ok:
  assumes "push_call c d = (c', Inr u)"
  shows "pc_name c' = pc_name c @ opt_text (d_name d)"
    and "pc_arguments c' = pc_arguments c @ opt_text (d_arguments d)"
    and "\<forall>s. d_id d = Some s \<longrightarrow> pc_id c' = Some s"
    and "\<forall>s. pc_id c = Some s \<longrightarrow> pc_id c' = Some s"
    and "pc_id c' \<noteq> None \<longrightarrow> pc_id c \<noteq> None \<or> d_id d \<noteq> None"
  using assms
  by (auto simp: push_call_def merge_stable_ok opt_text_def Let_def
      split: sum.splits option.splits if_splits)

lemma push_ok:
  assumes "push acc d = (acc', Inr u)"
  shows "d_index d < MAX_TOOL_CALLS"
    and "acc' = bt_insert (d_index d) (fst (push_call (entry_or_default acc (d_index d)) d)) acc"
    and "snd (push_call (entry_or_default acc (d_index d)) d) = Inr ()"
  using assms by (auto simp: push_def Let_def split: if_splits)

text \<open>A stream of fragments pushed one after the other, stopping at the first error.\<close>

definition push_all :: "accumulator \<Rightarrow> tool_call_delta list \<Rightarrow> validation_error + accumulator" where
  "push_all = try_fold (\<lambda>acc d. case push acc d of (acc', Inl e) \<Rightarrow> Inl e | (acc', Inr _) \<Rightarrow> Inr acc')"

text \<open>What an accumulator holds after the fragments \<open>ds\<close>.\<close>

definition assembles :: "tool_call_delta list \<Rightarrow> accumulator \<Rightarrow> bool" where
  "assembles ds acc \<longleftrightarrow>
     bt_sorted acc
   \<and> fst ` set acc = d_index ` set ds
   \<and> (\<forall>i c. map_of acc i = Some c \<longrightarrow>
        i < MAX_TOOL_CALLS
      \<and> pc_name c = fragments d_name i ds
      \<and> pc_arguments c = fragments d_arguments i ds
      \<and> (\<forall>d\<in>set ds. d_index d = i \<longrightarrow> (\<forall>s. d_id d = Some s \<longrightarrow> pc_id c = Some s)))"

lemma fragments_snoc [simp]:
  "fragments sel i (ds @ [d]) =
     fragments sel i ds @ (if d_index d = i then opt_text (sel d) else [])"
  by (simp add: fragments_def)

lemma fragments_absent: "i \<notin> d_index ` set ds \<Longrightarrow> fragments sel i ds = []"
  by (auto simp: fragments_def filter_empty_conv)

lemma assembles_empty: "assembles [] []"
  by (simp add: assembles_def)

lemma assembles_push:
  assumes acc: "assembles ds acc" and ok: "push acc d = (acc', Inr u)"
  shows "assembles (ds @ [d]) acc'"
proof -
  let ?c = "entry_or_default acc (d_index d)"
  obtain c' where c': "push_call ?c d = (c', Inr ())"
    using push_ok(3) [OF ok] by (metis prod.collapse)
  have acc': "acc' = bt_insert (d_index d) c' acc"
    using push_ok(2) [OF ok] c' by simp
  note pc = push_call_ok [OF c']
  have old: "pc_name ?c = fragments d_name (d_index d) ds
    \<and> pc_arguments ?c = fragments d_arguments (d_index d) ds
    \<and> (\<forall>e\<in>set ds. d_index e = d_index d \<longrightarrow> (\<forall>s. d_id e = Some s \<longrightarrow> pc_id ?c = Some s))"
  proof (cases "map_of acc (d_index d)")
    case None
    then have absent: "d_index d \<notin> d_index ` set ds"
      using acc by (simp add: assembles_def map_of_eq_None_iff)
    then have "\<forall>e\<in>set ds. d_index e \<noteq> d_index d" by (metis imageI)
    with None absent show ?thesis
      by (simp add: entry_or_default_def empty_partial_def fragments_absent)
  next
    case (Some c)
    with acc show ?thesis
      by (simp add: assembles_def entry_or_default_def)
  qed
  have "\<forall>i c. map_of acc' i = Some c \<longrightarrow>
        i < MAX_TOOL_CALLS
      \<and> pc_name c = fragments d_name i (ds @ [d])
      \<and> pc_arguments c = fragments d_arguments i (ds @ [d])
      \<and> (\<forall>e\<in>set (ds @ [d]). d_index e = i \<longrightarrow> (\<forall>s. d_id e = Some s \<longrightarrow> pc_id c = Some s))"
    using acc old pc push_ok(1) [OF ok] by (auto simp: acc' assembles_def)
  moreover have "bt_sorted acc' \<and> fst ` set acc' = d_index ` set (ds @ [d])"
    using acc by (auto simp: acc' assembles_def bt_sorted_insert)
  ultimately show ?thesis unfolding assembles_def by blast
qed

lemma assembles_push_all:
  "push_all acc es = Inr acc' \<Longrightarrow> assembles ds acc \<Longrightarrow> assembles (ds @ es) acc'"
proof (induction es arbitrary: acc ds)
  case Nil
  then show ?case by (simp add: push_all_def)
next
  case (Cons e es)
  then obtain acc1 where p: "push acc e = (acc1, Inr ())" and q: "push_all acc1 es = Inr acc'"
    by (auto simp: push_all_def split: prod.splits sum.splits)
  from assembles_push [OF Cons.prems(2) p] Cons.IH [OF q] show ?case by fastforce
qed

lemma validate_tool_calls_single:
  "validate_tool_calls [t] = Inr u \<longleftrightarrow> validate_tool_call t = Inr ()"
  by (simp add: validate_tool_calls_def max_defs del: try_each.simps)

lemma finish_call_ok:
  assumes "finish_call c = Inr t"
  shows "validate_tool_call t = Inr ()" "tc_kind t = ''function''"
    "fn_name (tc_function t) = pc_name c" "fn_arguments (tc_function t) = pc_arguments c"
    "pc_id c = Some (tc_id t)" "tc_id t \<noteq> []"
  using assms
  by (auto simp: finish_call_def validate_tool_calls_single validate_tool_call_def Let_def
      split: option.splits if_splits)

lemma finish_from_ok:
  "finish_from e acc = Inr ts \<Longrightarrow>
     length ts = length acc \<and> map fst acc = [e..<e + length ts]
     \<and> (\<forall>j < length ts. finish_call (snd (acc ! j)) = Inr (ts ! j))"
proof (induction e acc arbitrary: ts rule: finish_from.induct)
  case (2 e i c rest)
  then obtain t ts' where i: "i = e" and t: "finish_call c = Inr t"
    and rest: "finish_from (Suc e) rest = Inr ts'" and ts: "ts = t # ts'"
    by (auto split: if_splits sum.splits)
  have "\<not> i \<noteq> e" using i by simp
  from "2.IH" [OF this t rest] i t show ?case
    by (auto simp: ts nth_Cons upt_conv_Cons simp del: upt_Suc split: nat.splits)
qed simp

section \<open>Properties\<close>

text \<open>C19. Streamed tool calls are assembled without loss: when every fragment of a stream is accepted
  and the accumulator finishes, the indices that occurred are exactly \<open>0..<n\<close>, at most
  \<open>MAX_TOOL_CALLS\<close>; the \<open>i\<close>-th call is valid, its name and arguments are the concatenation of the
  fragments that carried index \<open>i\<close>, in order and however they were interleaved, and its
  identifier is the one every such fragment gave.\<close>

theorem tool_calls_assembled:
  assumes "push_all [] ds = Inr acc" and "accumulator_finish acc = Inr calls"
  shows "d_index ` set ds = {0..<length calls} \<and> validate_tool_calls calls = Inr ()
    \<and> (\<forall>i < length calls.
        fn_name (tc_function (calls ! i)) = fragments d_name i ds
      \<and> fn_arguments (tc_function (calls ! i)) = fragments d_arguments i ds
      \<and> (\<forall>d \<in> set ds. d_index d = i \<longrightarrow> (\<forall>s. d_id d = Some s \<longrightarrow> tc_id (calls ! i) = s)))"
proof -
  have acc: "assembles ds acc"
    using assembles_push_all [OF assms(1) assembles_empty] by simp
  have fin: "length calls = length acc" "map fst acc = [0..<length calls]"
    "\<forall>j < length calls. finish_call (snd (acc ! j)) = Inr (calls ! j)"
    using finish_from_ok [of 0 acc calls] assms(2) by (auto simp: accumulator_finish_def)
  have entry: "map_of acc i = Some (snd (acc ! i))" if "i < length calls" for i
  proof -
    have "(i, snd (acc ! i)) \<in> set acc"
      using that fin(1,2) by (metis add_0 nth_map nth_mem nth_upt diff_zero prod.collapse)
    moreover have "distinct (map fst acc)" by (simp add: fin(2))
    ultimately show ?thesis by simp
  qed
  have keys: "d_index ` set ds = {0..<length calls}"
    using acc fin(2) by (metis assembles_def list.set_map set_upt)
  have "length calls \<le> MAX_TOOL_CALLS"
  proof (rule ccontr)
    assume "\<not> ?thesis"
    with entry [of MAX_TOOL_CALLS] acc show False
      by (simp add: assembles_def) blast
  qed
  moreover have call: "validate_tool_call (calls ! i) = Inr ()
      \<and> fn_name (tc_function (calls ! i)) = fragments d_name i ds
      \<and> fn_arguments (tc_function (calls ! i)) = fragments d_arguments i ds
      \<and> (\<forall>d \<in> set ds. d_index d = i \<longrightarrow> (\<forall>s. d_id d = Some s \<longrightarrow> tc_id (calls ! i) = s))"
    if "i < length calls" for i
    using finish_call_ok [OF fin(3) [rule_format, OF that]] acc entry [OF that]
    by (auto simp: assembles_def)
  then have "\<forall>t \<in> set calls. validate_tool_call t = Inr ()"
    by (metis in_set_conv_nth)
  ultimately show ?thesis
    using keys call by (simp add: validate_tool_calls_def del: try_each.simps)
qed

definition demo_deltas :: "tool_call_delta list" where
  "demo_deltas =
    [\<lparr>d_index = 1, d_id = Some ''b'', d_kind = None, d_name = Some ''g'', d_arguments = Some ''{''\<rparr>,
     \<lparr>d_index = 0, d_id = Some ''a'', d_kind = None, d_name = Some ''f'', d_arguments = None\<rparr>,
     \<lparr>d_index = 1, d_id = None, d_kind = None, d_name = None, d_arguments = Some ''}''\<rparr>]"

theorem tool_calls_assembled_witness:
  "\<exists>acc calls. push_all [] demo_deltas = Inr acc \<and> accumulator_finish acc = Inr calls
    \<and> length calls = 2 \<and> fn_arguments (tc_function (calls ! 1)) = fragments d_arguments 1 demo_deltas"
proof -
  let ?acc = "[(0, \<lparr>pc_id = Some ''a'', pc_kind = None, pc_name = ''f'', pc_arguments = []\<rparr>),
    (1, \<lparr>pc_id = Some ''b'', pc_kind = None, pc_name = ''g'', pc_arguments = ''{}''\<rparr>)]"
  let ?calls = "[\<lparr>tc_id = ''a'', tc_kind = ''function'', tc_function = \<lparr>fn_name = ''f'', fn_arguments = []\<rparr>\<rparr>,
    \<lparr>tc_id = ''b'', tc_kind = ''function'', tc_function = \<lparr>fn_name = ''g'', fn_arguments = ''{}''\<rparr>\<rparr>]"
  have "push_all [] demo_deltas = Inr ?acc"
    by (simp add: push_all_def demo_deltas_def push_def push_call_def merge_stable_def
        entry_or_default_def empty_partial_def max_defs Let_def)
  moreover have "\<not> has_control ''a''" "\<not> has_control ''b''" "identifier_char ''f''" "identifier_char ''g''"
    "str_chars ''a'' = [''a'']" "str_chars ''b'' = [''b'']" "str_chars ''f'' = [''f'']" "str_chars ''g'' = [''g'']"
    by code_simp+
  then have "accumulator_finish ?acc = Inr ?calls"
    by (simp add: accumulator_finish_def finish_call_def validate_tool_calls_def validate_tool_call_def
        validate_call_id_def validate_identifier_def validate_bytes_def and_then_def max_defs)
  moreover have "fn_arguments (tc_function (?calls ! 1)) = fragments d_arguments 1 demo_deltas"
    using tool_calls_assembled [OF calculation] by auto
  ultimately show ?thesis by (intro exI [of _ ?acc] exI [of _ ?calls]) simp
qed

lemma user_message_bytes:
  assumes "\<forall>a \<in> set as. attachment_validate k a = Inr ()"
  shows "message_files_bytes k (user_message k t as) =
    Inr (foldl (\<lambda>n f. saturating_add n (length (fc_data f)))
      (length t + (\<Sum>a\<leftarrow>as. text_bytes a + label_bytes k a)) (attachment_files as))"
  using message_files_bytes_ok [of "attachment_files as" k] attachment_files_validate [OF assms]
  by (simp add: message_files_bytes_def user_message_content_length)

lemma fold_saturating_min:
  "n \<le> usize_max \<Longrightarrow> foldl (\<lambda>n x. saturating_add n (f x)) n xs = min usize_max (n + (\<Sum>x\<leftarrow>xs. f x))"
  by (induction xs arbitrary: n) (auto simp: saturating_add_def min_def)

text \<open>C20. When an accepted prompt can be sent: the message built from a stored prompt that passed
  validation is accepted by request validation if the prompt, its attachments and the labels added
  for them fit the attachment limit together, and is rejected as \<open>message.attachments\<close>
  otherwise; no other check of the message can fail.\<close>

theorem accepted_prompt_sendable:
  assumes "validate_stored_prompt k t as = Inr ()"
  shows "validate_message k (user_message k t as) =
    (if length t + (\<Sum>a\<leftarrow>as. attachment_bytes a + label_bytes k a) \<le> MAX_ATTACHMENT_BYTES
     then Inr () else Inl (verr Invalid ''message.attachments''))"
proof -
  note ok = validate_stored_prompt_ok [OF assms]
  let ?m = "user_message k t as"
  let ?content = "length t + (\<Sum>a\<leftarrow>as. text_bytes a + label_bytes k a)"
  let ?files = "\<Sum>f\<leftarrow>attachment_files as. length (fc_data f)"
  let ?images = "\<Sum>i\<leftarrow>attachment_images as. length (ic_data i)"
  have content: "?content \<le> MAX_MESSAGE_TEXT_BYTES"
    using ok(4) by (simp add: user_message_content_length)
  have le: "?content \<le> usize_max"
    using content by (simp add: max_defs usize_max_def)
  have small: "?content + ?files + ?images < usize_max"
    using content ok(3) by (simp add: attachment_bytes_split max_defs attachment_limits usize_max_def)
  have files: "message_files_bytes k ?m = Inr (?content + ?files)"
    using small user_message_bytes [OF ok(2), of t]
    by (simp add: fold_saturating_min [OF le, of "\<lambda>f. length (fc_data f)"])
  moreover have "message_image_bytes (?content + ?files) ?m = ?content + ?files + ?images"
    using small by (simp add: message_image_bytes_def fold_saturating_min)
  moreover have "?content + ?files + ?images = length t + (\<Sum>a\<leftarrow>as. attachment_bytes a + label_bytes k a)"
    by (simp add: attachment_bytes_split sum_list_addf)
  moreover have "length (attachment_images as) + length (attachment_files as) \<le> MAX_ATTACHMENTS"
    using attachment_counts [of "as"] ok(1) by simp
  moreover have "try_each (image_validate k) (attachment_images as) = Inr ()"
    using attachment_images_validate [OF ok(2)] by simp
  moreover have "validate_message_text ?m = Inr ()"
    using ok(4) by (simp add: validate_message_text_def validate_tool_calls_def)
  ultimately show ?thesis
    by (simp add: validate_message_def and_then_def guard_def del: try_each_Inr_iff)
qed

text \<open>A codec whose every image decodes to a PNG signature, and a prompt of exactly 16 MiB.\<close>

definition png_codec :: codec where
  "png_codec = identity_codec\<lparr>b64_decode := \<lambda>_. Some (bytes_of [137, 80, 78, 71, 13, 10, 26, 10])\<rparr>"

definition full_prompt :: "prompt_attachment list" where
  "full_prompt = replicate 3
     (Att_Image ''i'' \<lparr>ic_mime_type = ''image/png'', ic_data = replicate 5592404 CHR ''A''\<rparr>)"

lemma full_prompt_accepted: "validate_prompt png_codec ''look'' full_prompt = Inr ()"
proof -
  let ?a = "Att_Image ''i'' \<lparr>ic_mime_type = ''image/png'', ic_data = replicate 5592404 CHR ''A''\<rparr>"
  have "\<not> is_blank ''look''" "\<not> has_control ''i''"
    by (simp_all add: is_blank_def visible_text visible_def byte_def)
  moreover have "attachment_validate png_codec ?a = Inr ()"
    using calculation by (simp add: attachment_validate_def image_validate_def image_validate_bounded_def
        png_codec_def bytes_of_def image_signature_matches_def attachment_limits div_ceil_def)
  ultimately show ?thesis
    by (simp add: validate_prompt_def validate_stored_prompt_def full_prompt_def numeral_3_eq_3
        is_text_attachment_def sum_attachments_def and_then_def saturating_add_def usize_max_def
        attachment_limits max_defs user_message_content_length png_codec_def identity_codec_def)
qed

theorem accepted_prompt_sendable_witness:
  "validate_message png_codec (user_message png_codec ''look'' full_prompt) =
    Inl (verr Invalid ''message.attachments'')"
proof -
  have "validate_stored_prompt png_codec ''look'' full_prompt = Inr ()"
    using full_prompt_accepted by (simp add: validate_prompt_def split: if_splits)
  from accepted_prompt_sendable [OF this] show ?thesis
    by (simp add: full_prompt_def numeral_3_eq_3 attachment_limits png_codec_def identity_codec_def)
qed

end
