(* ===== verification/Rust_Path.thy ===== *)
theory Rust_Path
  imports Axiom_Prelude
begin

text \<open>
  The part of \<open>std::path\<close> the sources use, for Unix paths. Paths compare by their
  components, so a path is its component list: \<open>path_of\<close> is \<open>Path::new\<close> followed by
  \<open>components()\<close> (repeated separators and inner \<open>.\<close> components vanish), and
  \<open>path_display\<close> prints one. What the operating system answers about a path is the
  parameter \<open>fs_view\<close>.
\<close>

datatype component = RootDir | CurDir | ParentDir | Normal string

type_synonym path = "component list"

record fs_view =
  fs_exists :: "path \<Rightarrow> bool"
  fs_canonicalize :: "path \<Rightarrow> path option"
  fs_is_dir :: "path \<Rightarrow> bool"

fun split_slash :: "string \<Rightarrow> string list" where
  "split_slash [] = [[]]"
| "split_slash (c # s) =
     (if c = CHR ''/'' then [] # split_slash s
      else (case split_slash s of [] \<Rightarrow> [[c]] | w # ws \<Rightarrow> (c # w) # ws))"

definition component_of :: "string \<Rightarrow> component" where
  "component_of w = (if w = ''..'' then ParentDir else Normal w)"

definition body_components :: "string list \<Rightarrow> path" where
  "body_components ws = map component_of (filter (\<lambda>w. w \<noteq> [] \<and> w \<noteq> ''.'') ws)"

definition path_of :: "string \<Rightarrow> path" where
  "path_of s =
     (if starts_with s ''/'' then RootDir # body_components (split_slash s)
      else (case split_slash s of
          [] \<Rightarrow> []
        | w # ws \<Rightarrow> (if w = ''.'' then [CurDir] else body_components [w]) @ body_components ws))"

definition is_absolute :: "path \<Rightarrow> bool" where
  "is_absolute p = (case p of RootDir # _ \<Rightarrow> True | _ \<Rightarrow> False)"

text \<open>\<open>Path::join\<close>: an absolute argument replaces the base; otherwise a leading
  \<open>.\<close> of the argument becomes an inner component and vanishes.\<close>

definition path_join :: "path \<Rightarrow> path \<Rightarrow> path" where
  "path_join base p =
     (if is_absolute p then p
      else if base = [] then p
      else base @ filter (\<lambda>c. c \<noteq> CurDir) p)"

definition path_starts_with :: "path \<Rightarrow> path \<Rightarrow> bool" where
  "path_starts_with p base = starts_with p base"

definition file_name :: "path \<Rightarrow> string option" where
  "file_name p = (case rev p of Normal n # _ \<Rightarrow> Some n | _ \<Rightarrow> None)"

definition path_parent :: "path \<Rightarrow> path option" where
  "path_parent p =
     (case rev p of [] \<Rightarrow> None | RootDir # _ \<Rightarrow> None | _ # r \<Rightarrow> Some (rev r))"

primrec component_text :: "component \<Rightarrow> string" where
  "component_text RootDir = []"
| "component_text CurDir = ''.''"
| "component_text ParentDir = ''..''"
| "component_text (Normal n) = n"

definition path_display :: "path \<Rightarrow> string" where
  "path_display p =
     (case p of
        RootDir # cs \<Rightarrow> CHR ''/'' # str_join ''/'' (map component_text cs)
      | _ \<Rightarrow> str_join ''/'' (map component_text p))"

lemma path_starts_with_iff: "path_starts_with p b \<longleftrightarrow> (\<exists>r. p = b @ r)"
  by (simp add: path_starts_with_def starts_with_iff)

lemma path_starts_with_refl [simp]: "path_starts_with p p"
  by (simp add: path_starts_with_iff)

lemma path_starts_with_append [simp]: "path_starts_with (b @ r) b"
  by (simp add: path_starts_with_iff)

lemma path_starts_with_trans:
  "path_starts_with p b \<Longrightarrow> path_starts_with b c \<Longrightarrow> path_starts_with p c"
  by (auto simp: path_starts_with_iff)

lemma path_parent_Some:
  "path_parent p = Some q \<longleftrightarrow> p \<noteq> [] \<and> q = butlast p \<and> last p \<noteq> RootDir"
  by (cases p rule: rev_cases) (auto simp: path_parent_def split: component.splits)

lemma path_parent_shorter: "path_parent p = Some q \<Longrightarrow> length q < length p"
  by (auto simp: path_parent_Some)

lemma file_name_Some: "file_name p = Some n \<longleftrightarrow> p \<noteq> [] \<and> last p = Normal n"
  by (cases p rule: rev_cases) (auto simp: file_name_def split: component.splits)

text \<open>Printing an absolute path of ordinary names and reading it back.\<close>

definition normal_name :: "string \<Rightarrow> bool" where
  "normal_name n \<longleftrightarrow> n \<noteq> [] \<and> n \<noteq> ''.'' \<and> n \<noteq> ''..'' \<and> CHR ''/'' \<notin> set n"

lemma split_slash_name: "CHR ''/'' \<notin> set n \<Longrightarrow> split_slash n = [n]"
  by (induction n) auto

lemma split_slash_nonempty: "split_slash s \<noteq> []"
  by (cases s) (auto split: list.splits)

lemma split_slash_append:
  "CHR ''/'' \<notin> set n \<Longrightarrow> split_slash (n @ CHR ''/'' # s) = n # split_slash s"
  by (induction n) auto

lemma split_slash_join:
  "ns \<noteq> [] \<Longrightarrow> list_all (\<lambda>n. CHR ''/'' \<notin> set n) ns \<Longrightarrow> split_slash (str_join ''/'' ns) = ns"
  by (induction "''/''" ns rule: str_join.induct) (auto simp: split_slash_name split_slash_append)

lemma body_components_names: "list_all normal_name ns \<Longrightarrow> body_components ns = map Normal ns"
  by (induction ns) (auto simp: body_components_def component_of_def normal_name_def)

lemma path_display_roundtrip:
  assumes "list_all normal_name ns"
  shows "path_of (path_display (RootDir # map Normal ns)) = RootDir # map Normal ns"
proof (cases "ns = []")
  case False
  have "list_all (\<lambda>n. CHR ''/'' \<notin> set n) ns"
    using assms by (auto simp: list_all_iff normal_name_def)
  then have "split_slash (str_join ''/'' ns) = ns"
    using False by (rule split_slash_join [rotated])
  moreover have "map component_text (map Normal ns) = ns"
    by (induction ns) auto
  ultimately show ?thesis
    using body_components_names [OF assms]
    by (simp add: path_of_def path_display_def starts_with_def body_components_def del: map_map)
qed (simp add: path_of_def path_display_def starts_with_def body_components_def)

end
