(* ===== verification/App_Types.thy ===== *)
theory App_Types
  imports Inference Rust_Path
begin

text \<open>
  The commands, events, session state and errors of \<open>apps/axiomcli/src/app.rs\<close> and
  \<open>error.rs\<close>. An identifier made by \<open>typed_uuid!\<close> is the 128-bit value it wraps. An error
  or warning text built by \<open>format!\<close> is the list of its parts, each literal as the source
  has it and each argument as the value that is printed.
\<close>

type_synonym uuid = "128 word"
type_synonym session_id = uuid
type_synonym turn_id = uuid
type_synonym correlation_id = uuid

datatype session_lifecycle =
  Ready | Running | WaitingForApproval | WaitingForAnswer | Closed

datatype msg_part =
    Lit string
  | Uid uuid
  | Dbg_lifecycle session_lifecycle
  | Text string
  | Pth path
  | Num nat
  | Verr validation_error

type_synonym message = "msg_part list"

datatype axiom_error =
    Config message
  | InvalidTransition message
  | SessionNotFound message
  | PermissionDenied message
  | ApprovalDeclined
  | ApprovalRequired message
  | OutsideWorkspace path
  | Provider message
  | SecureProvider provider_failure string string
  | Tool_error message
  | Git
  | Storage message
  | Protocol message
  | Cancelled
  | Io
  | Json

datatype origin = Tui | Acp | Headless | Test

datatype permission_profile =
  Profile_None | Profile_Web | Profile_Observe | Profile_Confirm | Profile_FullAccess

datatype desktop_agent_permission = ApproveCommands | FullAccess

record desktop_agent_settings =
  da_enabled :: bool
  da_permission :: desktop_agent_permission
  da_working_directory :: string
  da_default_working_directory :: string
  da_uses_default_directory :: bool
  da_revision :: nat

definition for_desktop_agent :: "desktop_agent_settings \<Rightarrow> permission_profile" where
  "for_desktop_agent settings =
     (if \<not> da_enabled settings then Profile_Web
      else (case da_permission settings of
          ApproveCommands \<Rightarrow> Profile_Confirm
        | FullAccess \<Rightarrow> Profile_FullAccess))"

primrec profile_to_string :: "permission_profile \<Rightarrow> string" where
  "profile_to_string Profile_None = ''none''"
| "profile_to_string Profile_Web = ''web''"
| "profile_to_string Profile_Observe = ''observe''"
| "profile_to_string Profile_Confirm = ''confirm''"
| "profile_to_string Profile_FullAccess = ''full_access''"

definition profile_from_str :: "string \<Rightarrow> axiom_error + permission_profile" where
  "profile_from_str input =
     (if input = ''none'' then Inr Profile_None
      else if input = ''web'' then Inr Profile_Web
      else if input = ''observe'' then Inr Profile_Observe
      else if input = ''confirm'' then Inr Profile_Confirm
      else if input = ''full_access'' then Inr Profile_FullAccess
      else Inl (Config [Lit ''unknown permission profile `'', Text input, Lit ''`'']))"

datatype thinking_level =
    Level_ProviderDefault | Level_Enabled | Level_Disabled | Level_Minimal | Level_Low
  | Level_Medium | Level_High | Level_ExtraHigh

primrec thinking_to_string :: "thinking_level \<Rightarrow> string" where
  "thinking_to_string Level_ProviderDefault = ''provider_default''"
| "thinking_to_string Level_Enabled = ''enabled''"
| "thinking_to_string Level_Disabled = ''disabled''"
| "thinking_to_string Level_Minimal = ''minimal''"
| "thinking_to_string Level_Low = ''low''"
| "thinking_to_string Level_Medium = ''medium''"
| "thinking_to_string Level_High = ''high''"
| "thinking_to_string Level_ExtraHigh = ''xhigh''"

definition thinking_from_str :: "string \<Rightarrow> axiom_error + thinking_level" where
  "thinking_from_str input =
     (if input = ''provider_default'' then Inr Level_ProviderDefault
      else if input = ''enabled'' \<or> input = ''on'' then Inr Level_Enabled
      else if input = ''disabled'' \<or> input = ''off'' then Inr Level_Disabled
      else if input = ''minimal'' then Inr Level_Minimal
      else if input = ''low'' then Inr Level_Low
      else if input = ''medium'' then Inr Level_Medium
      else if input = ''high'' then Inr Level_High
      else if input = ''xhigh'' then Inr Level_ExtraHigh
      else Inl (Config [Lit ''unknown thinking level `'', Text input, Lit ''`'']))"

datatype security_status =
    Status_Unverified | Status_Verifying | Status_UnattestedDevelopment | Status_Verified
  | Status_Degraded | Status_Outdated | Status_Failed

datatype task_status = Task_Pending | Task_InProgress | Task_Completed

record task_item =
  ti_id :: string
  ti_title :: string
  ti_status :: task_status

record file_diff =
  fdiff_path :: path
  fdiff_old_text :: "string option"
  fdiff_new_text :: string

record question_spec =
  qs_id :: string
  qs_prompt :: string
  qs_options :: "string list"
  qs_multiple :: bool
  qs_required :: bool

record question_request =
  qr_request_id :: string
  qr_questions :: "question_spec list"

record context_usage =
  cu_input_tokens :: nat
  cu_output_tokens :: nat
  cu_model_id :: string
  cu_reported_at :: string
  cu_context_window_tokens :: "nat option"
  cu_auto_compact_threshold_tokens :: "nat option"

record generated_image =
  gi_request_id :: string
  gi_data :: string
  gi_mime_type :: string
  gi_width :: nat
  gi_height :: nat
  gi_sha256 :: string
  gi_source_image_ids :: "string list"
  gi_chat_model_id :: "string option"
  gi_evidence :: security_evidence
  gi_usage :: request_usage

datatype (plugins only: size) app_command =
    CreateSession session_id path origin permission_profile
  | ResumeSession session_id path origin permission_profile
  | SubmitPrompt session_id turn_id string "prompt_attachment list"
  | StartImageGeneration session_id turn_id
  | CancelTurn session_id turn_id
  | FinishTurn session_id turn_id
  | FailTurn session_id turn_id string
  | ChangePermissionProfile session_id permission_profile
  | ConfigureDesktopAgent session_id desktop_agent_settings
  | ChangeModel session_id string
  | ChangeModelSettings session_id string thinking_level bool
  | ChangeThinkingLevel session_id thinking_level
  | RecordContextCompaction session_id string nat
  | CloseSession session_id

primrec command_session_id :: "app_command \<Rightarrow> session_id" where
  "command_session_id (CreateSession i _ _ _) = i"
| "command_session_id (ResumeSession i _ _ _) = i"
| "command_session_id (SubmitPrompt i _ _ _) = i"
| "command_session_id (StartImageGeneration i _) = i"
| "command_session_id (CancelTurn i _) = i"
| "command_session_id (FinishTurn i _) = i"
| "command_session_id (FailTurn i _ _) = i"
| "command_session_id (ChangePermissionProfile i _) = i"
| "command_session_id (ConfigureDesktopAgent i _) = i"
| "command_session_id (ChangeModel i _) = i"
| "command_session_id (ChangeModelSettings i _ _ _) = i"
| "command_session_id (ChangeThinkingLevel i _) = i"
| "command_session_id (RecordContextCompaction i _ _) = i"
| "command_session_id (CloseSession i) = i"

record command_envelope =
  ce_correlation_id :: correlation_id
  ce_origin :: origin
  ce_cancelled :: bool
  ce_command :: app_command

datatype (plugins only: size) app_event =
    SteeringApplied turn_id string string
  | SessionCreated path origin permission_profile
  | SessionResumed path origin permission_profile
  | PromptAccepted turn_id string "prompt_attachment list"
  | TurnStarted turn_id
  | TextDelta turn_id string
  | ReasoningDelta turn_id string
  | UsageUpdated nat nat
  | ContextUsageUpdated context_usage
  | RequestUsageUpdated request_usage
  | ProgressUpdated string "nat option" "nat option"
  | TaskListUpdated "task_item list"
  | ToolProposed turn_id string string json
  | PermissionRequired string string json "string list"
  | PermissionResolved string bool "string option"
  | ToolStarted string string
  | ToolOutput string string bool
  | ImageGenerated string generated_image
  | ImageGenerationProgress string image_progress
  | ToolCompleted string bool
  | WorkspaceChanged "path list"
  | DiffAvailable string string bool "file_diff list"
  | QuestionAsked string string "string list"
  | QuestionAnswered string "string list"
  | QuestionsAsked question_request
  | QuestionsAnswered string "(string \<times> string list) list"
  | QuestionsFailed string string
  | PlanProposed string nat string
  | PlanReviewed string nat string
  | BackgroundTaskChanged string string
  | PermissionProfileChanged permission_profile
  | DesktopAgentConfigured desktop_agent_settings
  | ModelChanged string
  | ThinkingLevelChanged thinking_level
  | ContextCompacted string nat
  | ProviderStatusChanged bool string
  | SecurityStatusChanged security_status
  | SecurityEvidenceUpdated security_evidence
  | ResponseVerified turn_id
  | WarningRaised string
  | TurnCompleted turn_id
  | TurnCancelled turn_id
  | ErrorRaised "turn_id option" string
  | SessionClosed

record event_envelope =
  ee_schema_version :: nat
  ee_sequence :: nat
  ee_occurred_at :: int
  ee_correlation_id :: correlation_id
  ee_origin :: origin
  ee_session_id :: session_id
  ee_event :: app_event

record session_state =
  ss_id :: session_id
  ss_cwd :: path
  ss_origin :: origin
  ss_profile :: permission_profile
  ss_lifecycle :: session_lifecycle
  ss_active_turn :: "turn_id option"
  ss_terminal_turns :: "turn_id set"
  ss_pending_permission :: "string option"
  ss_pending_question :: "string option"

lemma profile_roundtrip: "profile_from_str (profile_to_string p) = Inr p"
  by (cases p) (simp_all add: profile_from_str_def)

lemma thinking_roundtrip: "thinking_from_str (thinking_to_string l) = Inr l"
  by (cases l) (simp_all add: thinking_from_str_def)

end
