(* ===== verification/Kernel.thy ===== *)
theory Kernel
  imports App_Types
begin

text \<open>
  The application kernel of \<open>apps/axiomcli/src/app.rs\<close>: the session state machine
  (\<open>Kernel::apply\<close>, \<open>Kernel::record\<close>), the event envelopes with their sequence numbers,
  and the restore of a session from its event journal. The session map is a partial function;
  the clock of \<open>RuntimeServices\<close> is the sequence of readings it will return and the number
  of readings taken so far. Sequence numbers are \<open>u64\<close> counters that wrap in a release build.
\<close>

record kernel =
  k_sessions :: "session_id \<rightharpoonup> session_state"
  k_next_sequence :: nat
  k_clock :: "nat \<Rightarrow> int"
  k_readings :: nat

definition kernel_with_services :: "(nat \<Rightarrow> int) \<Rightarrow> kernel" where
  "kernel_with_services clock =
     \<lparr>k_sessions = Map.empty, k_next_sequence = 0, k_clock = clock, k_readings = 0\<rparr>"

text \<open>\<open>DeterministicServices::now\<close>: the epoch plus one millisecond per reading, the tick
  counted in a saturating \<open>u64\<close> and converted to \<open>i64\<close>.\<close>

definition deterministic_now :: "int \<Rightarrow> nat \<Rightarrow> int" where
  "deterministic_now epoch readings = epoch + int (min (min readings u64_max) (2 ^ 63 - 1))"

definition fresh_session ::
  "session_id \<Rightarrow> path \<Rightarrow> origin \<Rightarrow> permission_profile \<Rightarrow> session_state" where
  "fresh_session i cwd org prof =
     \<lparr>ss_id = i, ss_cwd = cwd, ss_origin = org, ss_profile = prof, ss_lifecycle = Ready,
      ss_active_turn = None, ss_terminal_turns = {}, ss_pending_permission = None,
      ss_pending_question = None\<rparr>"

section \<open>Commands\<close>

text \<open>\<open>session_mut(&id)?\<close> followed by a body that checks before it writes.\<close>

definition with_session ::
  "kernel \<Rightarrow> session_id \<Rightarrow> (session_state \<Rightarrow> axiom_error + session_state \<times> app_event list) \<Rightarrow>
     (kernel, axiom_error, app_event list) outcome" where
  "with_session k i f =
     (case k_sessions k i of
        None \<Rightarrow> (k, Inl (SessionNotFound [Uid i]))
      | Some s \<Rightarrow>
          (case f s of
             Inl e \<Rightarrow> (k, Inl e)
           | Inr (s', evs) \<Rightarrow> (k\<lparr>k_sessions := (k_sessions k)(i \<mapsto> s')\<rparr>, Inr evs)))"

definition transition_error :: "string \<Rightarrow> axiom_error" where
  "transition_error m = InvalidTransition [Lit m]"

definition finish_active ::
  "turn_id \<Rightarrow> app_event \<Rightarrow> session_state \<Rightarrow> axiom_error + session_state \<times> app_event list" where
  "finish_active t ev s =
     (if ss_active_turn s \<noteq> Some t
         \<or> ss_lifecycle s \<notin> {Running, WaitingForApproval, WaitingForAnswer}
      then Inl (InvalidTransition [Lit ''turn '', Uid t, Lit '' is not active''])
      else Inr (s\<lparr>ss_lifecycle := Ready, ss_active_turn := None,
                  ss_terminal_turns := insert t (ss_terminal_turns s),
                  ss_pending_permission := None, ss_pending_question := None\<rparr>, [ev]))"

definition require_ready ::
  "string \<Rightarrow> session_state \<times> app_event list \<Rightarrow> session_state \<Rightarrow>
     axiom_error + session_state \<times> app_event list" where
  "require_ready m result s =
     (if ss_lifecycle s \<noteq> Ready then Inl (transition_error m) else Inr result)"

definition invalid_model_id :: "string \<Rightarrow> bool" where
  "invalid_model_id model \<longleftrightarrow> is_blank model \<or> has_whitespace model"

definition MODEL_ID_ERROR :: axiom_error where
  "MODEL_ID_ERROR = transition_error ''model ID must be a non-empty value without whitespace''"

text \<open>One handler per command, in the order of the arms of \<open>Kernel::apply\<close>.\<close>

definition create_session ::
  "kernel \<Rightarrow> session_id \<Rightarrow> path \<Rightarrow> origin \<Rightarrow> permission_profile \<Rightarrow> (kernel, axiom_error, app_event list) outcome" where
  [operation_simps]: "create_session k i cwd org prof =
     (if k_sessions k i \<noteq> None
      then (k, Inl (InvalidTransition [Lit ''session '', Uid i, Lit '' already exists'']))
      else (k\<lparr>k_sessions := (k_sessions k)(i \<mapsto> fresh_session i cwd org prof)\<rparr>,
            Inr [SessionCreated cwd org prof, SecurityStatusChanged Status_Unverified]))"

definition resume_session ::
  "kernel \<Rightarrow> session_id \<Rightarrow> path \<Rightarrow> origin \<Rightarrow> permission_profile \<Rightarrow> (kernel, axiom_error, app_event list) outcome" where
  [operation_simps]: "resume_session k i cwd org prof =
     (if k_sessions k i \<noteq> None
      then (k, Inl (InvalidTransition [Lit ''session '', Uid i, Lit '' is already loaded'']))
      else (k\<lparr>k_sessions := (k_sessions k)(i \<mapsto> fresh_session i cwd org prof)\<rparr>,
            Inr [SessionResumed cwd org prof]))"

definition submit_prompt ::
  "codec \<Rightarrow> kernel \<Rightarrow> session_id \<Rightarrow> turn_id \<Rightarrow> string \<Rightarrow> prompt_attachment list \<Rightarrow> (kernel, axiom_error, app_event list) outcome" where
  [operation_simps]: "submit_prompt cd k i t text attachments =
     (case validate_prompt cd text attachments of
        Inl e \<Rightarrow> (k, Inl (InvalidTransition [Verr e]))
      | Inr _ \<Rightarrow> with_session k i (\<lambda>s.
          if ss_lifecycle s \<noteq> Ready
          then Inl (InvalidTransition [Lit ''session is '', Dbg_lifecycle (ss_lifecycle s),
                                       Lit '', not ready''])
          else if t \<in> ss_terminal_turns s
          then Inl (InvalidTransition [Lit ''turn '', Uid t,
                      Lit '' is already terminal and cannot run again''])
          else Inr (s\<lparr>ss_lifecycle := Running, ss_active_turn := Some t\<rparr>,
                    [PromptAccepted t text attachments, TurnStarted t])))"

definition start_image_generation ::
  "kernel \<Rightarrow> session_id \<Rightarrow> turn_id \<Rightarrow> (kernel, axiom_error, app_event list) outcome" where
  [operation_simps]: "start_image_generation k i t =
     with_session k i (\<lambda>s.
       if ss_lifecycle s \<noteq> Ready \<or> t \<in> ss_terminal_turns s
       then Inl (transition_error ''image generation requires an idle session and a fresh turn'')
       else Inr (s\<lparr>ss_lifecycle := Running, ss_active_turn := Some t\<rparr>, [TurnStarted t]))"

definition configure_desktop_agent ::
  "kernel \<Rightarrow> session_id \<Rightarrow> desktop_agent_settings \<Rightarrow> (kernel, axiom_error, app_event list) outcome" where
  [operation_simps]: "configure_desktop_agent k i settings =
     with_session k i (\<lambda>s. require_ready ''Agent settings may change only while the thread is idle''
       (s\<lparr>ss_cwd := path_of (da_working_directory settings),
          ss_profile := for_desktop_agent settings\<rparr>, [DesktopAgentConfigured settings]) s)"

definition change_permission_profile ::
  "kernel \<Rightarrow> session_id \<Rightarrow> permission_profile \<Rightarrow> (kernel, axiom_error, app_event list) outcome" where
  [operation_simps]: "change_permission_profile k i prof =
     with_session k i (\<lambda>s. require_ready
       ''permission profile may change only while the session is ready''
       (s\<lparr>ss_profile := prof\<rparr>, [PermissionProfileChanged prof]) s)"

definition change_model ::
  "kernel \<Rightarrow> session_id \<Rightarrow> string \<Rightarrow> (kernel, axiom_error, app_event list) outcome" where
  [operation_simps]: "change_model k i model =
     (if invalid_model_id model then (k, Inl MODEL_ID_ERROR)
      else with_session k i (\<lambda>s. require_ready ''model may change only while the session is ready''
             (s, [ModelChanged model]) s))"

definition change_model_settings ::
  "kernel \<Rightarrow> session_id \<Rightarrow> string \<Rightarrow> thinking_level \<Rightarrow> bool \<Rightarrow> (kernel, axiom_error, app_event list) outcome" where
  [operation_simps]: "change_model_settings k i model thinking reset_security =
     (if invalid_model_id model then (k, Inl MODEL_ID_ERROR)
      else with_session k i (\<lambda>s. require_ready
             ''model settings may change only while the session is ready''
             (s, [ThinkingLevelChanged thinking]
                 @ (if reset_security then [SecurityStatusChanged Status_Unverified] else [])
                 @ [ModelChanged model]) s))"

definition change_thinking_level ::
  "kernel \<Rightarrow> session_id \<Rightarrow> thinking_level \<Rightarrow> (kernel, axiom_error, app_event list) outcome" where
  [operation_simps]: "change_thinking_level k i level =
     with_session k i (\<lambda>s. require_ready
       ''thinking level may change only while the session is ready'' (s, [ThinkingLevelChanged level]) s)"

definition record_context_compaction ::
  "kernel \<Rightarrow> session_id \<Rightarrow> string \<Rightarrow> nat \<Rightarrow> (kernel, axiom_error, app_event list) outcome" where
  [operation_simps]: "record_context_compaction k i summary n =
     (if is_blank summary then (k, Inl (transition_error ''compaction summary cannot be empty''))
      else with_session k i (\<lambda>s. require_ready
             ''context may be compacted only while the session is ready''
             (s, [ContextCompacted summary n]) s))"

definition close_session ::
  "kernel \<Rightarrow> session_id \<Rightarrow> (kernel, axiom_error, app_event list) outcome" where
  [operation_simps]: "close_session k i =
     with_session k i (\<lambda>s. require_ready ''session must be ready before it can close''
       (s\<lparr>ss_lifecycle := Closed\<rparr>, [SessionClosed]) s)"

fun apply_command ::
  "codec \<Rightarrow> kernel \<Rightarrow> app_command \<Rightarrow> (kernel, axiom_error, app_event list) outcome" where
  "apply_command cd k (CreateSession i cwd org prof) = create_session k i cwd org prof"
| "apply_command cd k (ResumeSession i cwd org prof) = resume_session k i cwd org prof"
| "apply_command cd k (SubmitPrompt i t text attachments) = submit_prompt cd k i t text attachments"
| "apply_command cd k (StartImageGeneration i t) = start_image_generation k i t"
| "apply_command cd k (CancelTurn i t) = with_session k i (finish_active t (TurnCancelled t))"
| "apply_command cd k (FinishTurn i t) = with_session k i (finish_active t (TurnCompleted t))"
| "apply_command cd k (FailTurn i t m) = with_session k i (finish_active t (ErrorRaised (Some t) m))"
| "apply_command cd k (ConfigureDesktopAgent i settings) = configure_desktop_agent k i settings"
| "apply_command cd k (ChangePermissionProfile i prof) = change_permission_profile k i prof"
| "apply_command cd k (ChangeModel i model) = change_model k i model"
| "apply_command cd k (ChangeModelSettings i model thinking reset_security) = change_model_settings k i model thinking reset_security"
| "apply_command cd k (ChangeThinkingLevel i level) = change_thinking_level k i level"
| "apply_command cd k (RecordContextCompaction i summary n) = record_context_compaction k i summary n"
| "apply_command cd k (CloseSession i) = close_session k i"

definition envelope ::
  "kernel \<Rightarrow> session_id \<Rightarrow> correlation_id \<Rightarrow> origin \<Rightarrow> app_event \<Rightarrow> kernel \<times> event_envelope" where
  "envelope k i c org ev =
     (let n = u64_incr (k_next_sequence k) in
      (k\<lparr>k_next_sequence := n, k_readings := Suc (k_readings k)\<rparr>,
       \<lparr>ee_schema_version = 1, ee_sequence = n, ee_occurred_at = k_clock k (k_readings k),
        ee_correlation_id = c, ee_origin = org, ee_session_id = i, ee_event = ev\<rparr>))"

fun envelopes ::
  "kernel \<Rightarrow> session_id \<Rightarrow> correlation_id \<Rightarrow> origin \<Rightarrow> app_event list \<Rightarrow>
     kernel \<times> event_envelope list" where
  "envelopes k i c org [] = (k, [])"
| "envelopes k i c org (ev # evs) =
     (let (k1, e) = envelope k i c org ev; (k2, es) = envelopes k1 i c org evs in (k2, e # es))"

definition kernel_apply ::
  "codec \<Rightarrow> kernel \<Rightarrow> command_envelope \<Rightarrow> (kernel, axiom_error, event_envelope list) outcome" where
  "kernel_apply cd k request =
     (if ce_cancelled request then (k, Inl Cancelled)
      else (case apply_command cd k (ce_command request) of
          (k1, Inl e) \<Rightarrow> (k1, Inl e)
        | (k1, Inr evs) \<Rightarrow>
            (let (k2, es) = envelopes k1 (command_session_id (ce_command request))
                   (ce_correlation_id request) (ce_origin request) evs
             in (k2, Inr es))))"

section \<open>Recorded events\<close>

text \<open>The guards and state changes of \<open>Kernel::record\<close>; every other event is passed on.\<close>

fun record_event :: "session_state \<Rightarrow> app_event \<Rightarrow> axiom_error + session_state" where
  "record_event s (SteeringApplied t _ _) =
     (if ss_active_turn s \<noteq> Some t \<or> ss_lifecycle s \<noteq> Running
      then Inl (transition_error ''steering requires the active running turn'') else Inr s)"
| "record_event s (PermissionRequired r _ _ _) =
     (if ss_lifecycle s \<noteq> Running
      then Inl (transition_error ''permission can be requested only during a running turn'')
      else Inr (s\<lparr>ss_lifecycle := WaitingForApproval, ss_pending_permission := Some r\<rparr>))"
| "record_event s (PermissionResolved r _ _) =
     (if ss_lifecycle s \<noteq> WaitingForApproval \<or> ss_pending_permission s \<noteq> Some r
      then Inl (InvalidTransition [Lit ''permission '', Text r, Lit '' is not pending''])
      else Inr (s\<lparr>ss_lifecycle := Running, ss_pending_permission := None\<rparr>))"
| "record_event s (QuestionAsked q _ _) =
     (if ss_lifecycle s \<noteq> Running
      then Inl (transition_error ''question can be asked only during a running turn'')
      else Inr (s\<lparr>ss_lifecycle := WaitingForAnswer, ss_pending_question := Some q\<rparr>))"
| "record_event s (QuestionsAsked request) =
     (if ss_lifecycle s \<noteq> Running \<or> qr_questions request = []
      then Inl (transition_error
             ''structured questions require a running turn and a non-empty request'')
      else Inr (s\<lparr>ss_lifecycle := WaitingForAnswer,
                  ss_pending_question := Some (qr_request_id request)\<rparr>))"
| "record_event s (QuestionAnswered q answers) =
     (if answers = [] \<or> ss_lifecycle s \<noteq> WaitingForAnswer \<or> ss_pending_question s \<noteq> Some q
      then Inl (InvalidTransition [Lit ''question '', Text q,
                  Lit '' is not pending or has no answer''])
      else Inr (s\<lparr>ss_lifecycle := Running, ss_pending_question := None\<rparr>))"
| "record_event s (QuestionsAnswered r _) =
     (if ss_lifecycle s \<noteq> WaitingForAnswer \<or> ss_pending_question s \<noteq> Some r
      then Inl (InvalidTransition [Lit ''question request '', Text r, Lit '' is not pending''])
      else Inr (s\<lparr>ss_lifecycle := Running, ss_pending_question := None\<rparr>))"
| "record_event s (QuestionsFailed r _) =
     (if ss_lifecycle s \<noteq> WaitingForAnswer \<or> ss_pending_question s \<noteq> Some r
      then Inl (InvalidTransition [Lit ''question request '', Text r, Lit '' is not pending''])
      else Inr (s\<lparr>ss_lifecycle := Running, ss_pending_question := None\<rparr>))"
| "record_event s _ = Inr s"

definition kernel_record ::
  "kernel \<Rightarrow> session_id \<Rightarrow> correlation_id \<Rightarrow> origin \<Rightarrow> app_event \<Rightarrow>
     (kernel, axiom_error, event_envelope) outcome" where
  "kernel_record k i c org ev =
     (case with_session k i (\<lambda>s. map_sum id (\<lambda>s'. (s', [ev])) (record_event s ev)) of
        (k1, Inl e) \<Rightarrow> (k1, Inl e)
      | (k1, Inr _) \<Rightarrow> (let (k2, e) = envelope k1 i c org ev in (k2, Inr e)))"

section \<open>Restoring a session from its journal\<close>

definition update_state ::
  "session_state option \<Rightarrow> (session_state \<Rightarrow> session_state) \<Rightarrow> session_state option" where
  "update_state st f = map_option f st"

definition require_state ::
  "session_state option \<Rightarrow> string \<Rightarrow> (session_state \<Rightarrow> session_state) \<Rightarrow>
     axiom_error + session_state option" where
  "require_state st m f =
     (case st of None \<Rightarrow> Inl (transition_error m) | Some s \<Rightarrow> Inr (Some (f s)))"

definition replay_terminal :: "session_state option \<Rightarrow> turn_id \<Rightarrow> session_state option" where
  "replay_terminal st t = update_state st (\<lambda>s. s\<lparr>ss_lifecycle := Ready, ss_active_turn := None,
     ss_terminal_turns := insert t (ss_terminal_turns s),
     ss_pending_permission := None, ss_pending_question := None\<rparr>)"

definition replay_resolved_question :: "session_state option \<Rightarrow> session_state option" where
  "replay_resolved_question st =
     update_state st (\<lambda>s. s\<lparr>ss_lifecycle := Running, ss_pending_question := None\<rparr>)"

fun replay_event ::
  "session_state option \<Rightarrow> session_id \<Rightarrow> app_event \<Rightarrow> axiom_error + session_state option" where
  "replay_event st i (SessionCreated cwd org prof) =
     Inr (if st = None then Some (fresh_session i cwd org prof) else st)"
| "replay_event st i (SessionResumed cwd org prof) =
     Inr (if st = None then Some (fresh_session i cwd org prof) else st)"
| "replay_event st i (TurnStarted t) =
     require_state st ''turn precedes session creation''
       (\<lambda>s. s\<lparr>ss_lifecycle := Running, ss_active_turn := Some t\<rparr>)"
| "replay_event st i (PermissionRequired r _ _ _) =
     require_state st ''permission precedes session creation''
       (\<lambda>s. s\<lparr>ss_lifecycle := WaitingForApproval, ss_pending_permission := Some r\<rparr>)"
| "replay_event st i (PermissionResolved _ _ _) =
     Inr (update_state st (\<lambda>s. s\<lparr>ss_lifecycle := Running, ss_pending_permission := None\<rparr>))"
| "replay_event st i (QuestionAsked q _ _) =
     require_state st ''question precedes session creation''
       (\<lambda>s. s\<lparr>ss_lifecycle := WaitingForAnswer, ss_pending_question := Some q\<rparr>)"
| "replay_event st i (QuestionsAsked request) =
     require_state st ''questions precede session creation''
       (\<lambda>s. s\<lparr>ss_lifecycle := WaitingForAnswer,
              ss_pending_question := Some (qr_request_id request)\<rparr>)"
| "replay_event st i (QuestionAnswered _ _) = Inr (replay_resolved_question st)"
| "replay_event st i (QuestionsAnswered _ _) = Inr (replay_resolved_question st)"
| "replay_event st i (QuestionsFailed _ _) = Inr (replay_resolved_question st)"
| "replay_event st i (TurnCompleted t) = Inr (replay_terminal st t)"
| "replay_event st i (TurnCancelled t) = Inr (replay_terminal st t)"
| "replay_event st i (ErrorRaised (Some t) _) = Inr (replay_terminal st t)"
| "replay_event st i (DesktopAgentConfigured settings) =
     Inr (update_state st (\<lambda>s. s\<lparr>ss_cwd := path_of (da_working_directory settings),
            ss_profile := for_desktop_agent settings\<rparr>))"
| "replay_event st i (PermissionProfileChanged prof) =
     Inr (update_state st (\<lambda>s. s\<lparr>ss_profile := prof\<rparr>))"
| "replay_event st i SessionClosed =
     Inr (update_state st (\<lambda>s. s\<lparr>ss_lifecycle := Closed\<rparr>))"
| "replay_event st i _ = Inr st"

record restore_projection =
  rp_id :: session_id
  rp_state :: "session_state option"
  rp_max_sequence :: nat

record completed_restore =
  cr_id :: session_id
  cr_state :: session_state
  cr_max_sequence :: nat

definition restore_new :: "event_envelope list \<Rightarrow> axiom_error + restore_projection" where
  "restore_new events =
     (case events of
        [] \<Rightarrow> Inl (transition_error ''cannot restore an empty event stream'')
      | e # _ \<Rightarrow> Inr \<lparr>rp_id = ee_session_id e, rp_state = None, rp_max_sequence = 0\<rparr>)"

definition restore_replay ::
  "restore_projection \<Rightarrow> event_envelope \<Rightarrow> axiom_error + restore_projection" where
  "restore_replay p e =
     (if ee_session_id e \<noteq> rp_id p
      then Inl (transition_error ''restore stream contains multiple sessions'')
      else map_sum id
             (\<lambda>st. p\<lparr>rp_state := st, rp_max_sequence := max (rp_max_sequence p) (ee_sequence e)\<rparr>)
             (replay_event (rp_state p) (rp_id p) (ee_event e)))"

definition settle :: "session_state \<Rightarrow> session_state" where
  "settle s = s\<lparr>ss_lifecycle := Ready, ss_active_turn := None,
                ss_pending_permission := None, ss_pending_question := None\<rparr>"

definition restore_finish :: "restore_projection \<Rightarrow> axiom_error + completed_restore" where
  "restore_finish p =
     (case rp_state p of
        None \<Rightarrow> Inl (transition_error ''restore stream has no session creation'')
      | Some s \<Rightarrow> Inr \<lparr>cr_id = rp_id p, cr_state = settle s, cr_max_sequence = rp_max_sequence p\<rparr>)"

definition install_restore :: "kernel \<Rightarrow> completed_restore \<Rightarrow> kernel" where
  "install_restore k r =
     k\<lparr>k_next_sequence := max (k_next_sequence k) (cr_max_sequence r),
       k_sessions := (k_sessions k)(cr_id r \<mapsto> cr_state r)\<rparr>"

definition restore_events :: "event_envelope list \<Rightarrow> axiom_error + completed_restore" where
  "restore_events events =
     (case restore_new events of
        Inl e \<Rightarrow> Inl e
      | Inr p \<Rightarrow> (case try_fold restore_replay p events of
            Inl e \<Rightarrow> Inl e
          | Inr p' \<Rightarrow> restore_finish p'))"

definition restore_from_events ::
  "kernel \<Rightarrow> event_envelope list \<Rightarrow> (kernel, axiom_error, session_state) outcome" where
  "restore_from_events k events =
     (case restore_events events of
        Inl e \<Rightarrow> (k, Inl e)
      | Inr r \<Rightarrow> (install_restore k r, Inr (cr_state r)))"

section \<open>The runtime in front of the kernel\<close>

text \<open>\<open>Runtime::dispatch\<close> and \<open>Runtime::emit\<close> with the fresh correlation identifier as an
  argument. The events they return are the ones they broadcast.\<close>

definition dispatch_origin :: "kernel \<Rightarrow> app_command \<Rightarrow> origin" where
  "dispatch_origin k command =
     (case command of
        CreateSession _ _ org _ \<Rightarrow> org
      | ResumeSession _ _ org _ \<Rightarrow> org
      | _ \<Rightarrow> (case k_sessions k (command_session_id command) of
                None \<Rightarrow> Test | Some s \<Rightarrow> ss_origin s))"

definition runtime_dispatch ::
  "codec \<Rightarrow> kernel \<Rightarrow> correlation_id \<Rightarrow> app_command \<Rightarrow>
     (kernel, axiom_error, event_envelope list) outcome" where
  "runtime_dispatch cd k c command =
     kernel_apply cd k \<lparr>ce_correlation_id = c, ce_origin = dispatch_origin k command,
                        ce_cancelled = False, ce_command = command\<rparr>"

definition runtime_emit ::
  "kernel \<Rightarrow> session_id \<Rightarrow> correlation_id \<Rightarrow> app_event \<Rightarrow>
     (kernel, axiom_error, event_envelope) outcome" where
  "runtime_emit k i c ev =
     (case k_sessions k i of
        None \<Rightarrow> (k, Inl (SessionNotFound [Uid i]))
      | Some s \<Rightarrow> kernel_record k i c (ss_origin s) ev)"

text \<open>One call on the kernel, whichever it is.\<close>

datatype kernel_op =
    Op_Apply command_envelope
  | Op_Record session_id correlation_id origin app_event
  | Op_Restore "event_envelope list"

fun kernel_step ::
  "codec \<Rightarrow> kernel \<Rightarrow> kernel_op \<Rightarrow> (kernel, axiom_error, event_envelope list) outcome" where
  "kernel_step cd k (Op_Apply request) = kernel_apply cd k request"
| "kernel_step cd k (Op_Record i c org ev) =
     (case kernel_record k i c org ev of
        (k', Inl e) \<Rightarrow> (k', Inl e) | (k', Inr env) \<Rightarrow> (k', Inr [env]))"
| "kernel_step cd k (Op_Restore events) =
     (case restore_from_events k events of
        (k', Inl e) \<Rightarrow> (k', Inl e) | (k', Inr _) \<Rightarrow> (k', Inr []))"

end
