(* ===== verification/Kernel_Correct.thy ===== *)
theory Kernel_Correct
  imports Kernel
begin

text \<open>
  Correctness of the kernel. The abstract specification is \<open>session_step\<close>, the state machine
  of one session as a relation between its state, the events it reports and its next state;
  \<open>Kernel::apply\<close> and \<open>Kernel::record\<close> refine it. The session invariant, the exactness of
  journal replay and the single use of a turn are proved on the relation by rule induction and
  lifted to every sequence of kernel calls through the locales of the prelude.
\<close>

section \<open>The session state machine\<close>

text \<open>Events only \<open>Kernel::apply\<close> produces: recording one would report a change of state
  that the kernel did not make.\<close>

fun kernel_owned :: "app_event \<Rightarrow> bool" where
  "kernel_owned (TurnStarted _) = True"
| "kernel_owned (TurnCompleted _) = True"
| "kernel_owned (TurnCancelled _) = True"
| "kernel_owned (ErrorRaised (Some _) _) = True"
| "kernel_owned (DesktopAgentConfigured _) = True"
| "kernel_owned (PermissionProfileChanged _) = True"
| "kernel_owned SessionClosed = True"
| "kernel_owned _ = False"

fun interactive :: "app_event \<Rightarrow> bool" where
  "interactive (PermissionRequired _ _ _ _) = True"
| "interactive (PermissionResolved _ _ _) = True"
| "interactive (QuestionAsked _ _ _) = True"
| "interactive (QuestionsAsked _) = True"
| "interactive (QuestionAnswered _ _) = True"
| "interactive (QuestionsAnswered _ _) = True"
| "interactive (QuestionsFailed _ _) = True"
| "interactive _ = False"

definition silent :: "app_event \<Rightarrow> bool" where
  "silent ev \<longleftrightarrow> \<not> kernel_owned ev \<and> \<not> interactive ev"

definition ends_turn :: "turn_id \<Rightarrow> app_event \<Rightarrow> bool" where
  "ends_turn t ev \<longleftrightarrow> ev = TurnCompleted t \<or> ev = TurnCancelled t \<or> (\<exists>m. ev = ErrorRaised (Some t) m)"

definition asks :: "string \<Rightarrow> app_event \<Rightarrow> bool" where
  "asks q ev \<longleftrightarrow> (\<exists>p os. ev = QuestionAsked q p os) \<or> (\<exists>r. ev = QuestionsAsked r \<and> qr_request_id r = q)"

definition answers :: "string \<Rightarrow> app_event \<Rightarrow> bool" where
  "answers q ev \<longleftrightarrow> (\<exists>as. ev = QuestionAnswered q as) \<or> (\<exists>as. ev = QuestionsAnswered q as)
     \<or> (\<exists>m. ev = QuestionsFailed q m)"

inductive session_step ::
  "session_id \<Rightarrow> session_state option \<Rightarrow> app_event list \<Rightarrow> session_state \<Rightarrow> bool" for i where
  create: "session_step i None [SessionCreated cwd org prof, SecurityStatusChanged Status_Unverified]
     (fresh_session i cwd org prof)"
| resume: "session_step i None [SessionResumed cwd org prof] (fresh_session i cwd org prof)"
| start: "ss_lifecycle s = Ready \<Longrightarrow> t \<notin> ss_terminal_turns s \<Longrightarrow> list_all silent evs \<Longrightarrow>
     session_step i (Some s) (evs @ [TurnStarted t])
       (s\<lparr>ss_lifecycle := Running, ss_active_turn := Some t\<rparr>)"
| finish: "ss_active_turn s = Some t \<Longrightarrow>
     ss_lifecycle s \<in> {Running, WaitingForApproval, WaitingForAnswer} \<Longrightarrow> ends_turn t ev \<Longrightarrow>
     session_step i (Some s) [ev]
       (s\<lparr>ss_lifecycle := Ready, ss_active_turn := None,
          ss_terminal_turns := insert t (ss_terminal_turns s),
          ss_pending_permission := None, ss_pending_question := None\<rparr>)"
| configure: "ss_lifecycle s = Ready \<Longrightarrow> session_step i (Some s) [DesktopAgentConfigured settings]
     (s\<lparr>ss_cwd := path_of (da_working_directory settings),
        ss_profile := for_desktop_agent settings\<rparr>)"
| profile: "ss_lifecycle s = Ready \<Longrightarrow> session_step i (Some s) [PermissionProfileChanged prof]
     (s\<lparr>ss_profile := prof\<rparr>)"
| close: "ss_lifecycle s = Ready \<Longrightarrow>
     session_step i (Some s) [SessionClosed] (s\<lparr>ss_lifecycle := Closed\<rparr>)"
| notify: "list_all silent evs \<Longrightarrow> session_step i (Some s) evs s"
| ask_permission: "ss_lifecycle s = Running \<Longrightarrow>
     session_step i (Some s) [PermissionRequired r x e cs]
       (s\<lparr>ss_lifecycle := WaitingForApproval, ss_pending_permission := Some r\<rparr>)"
| resolve_permission: "ss_lifecycle s = WaitingForApproval \<Longrightarrow> ss_pending_permission s = Some r \<Longrightarrow>
     session_step i (Some s) [PermissionResolved r b ch]
       (s\<lparr>ss_lifecycle := Running, ss_pending_permission := None\<rparr>)"
| ask_question: "ss_lifecycle s = Running \<Longrightarrow> asks q ev \<Longrightarrow>
     session_step i (Some s) [ev]
       (s\<lparr>ss_lifecycle := WaitingForAnswer, ss_pending_question := Some q\<rparr>)"
| answer_question: "ss_lifecycle s = WaitingForAnswer \<Longrightarrow> ss_pending_question s = Some q \<Longrightarrow>
     answers q ev \<Longrightarrow>
     session_step i (Some s) [ev] (s\<lparr>ss_lifecycle := Running, ss_pending_question := None\<rparr>)"

text \<open>The invariant of a session: the active turn, the pending requests and the lifecycle agree,
  and a terminal turn is never active.\<close>

definition session_wf :: "session_state \<Rightarrow> bool" where
  "session_wf s \<longleftrightarrow>
     (ss_active_turn s \<noteq> None \<longleftrightarrow> ss_lifecycle s \<in> {Running, WaitingForApproval, WaitingForAnswer})
   \<and> (ss_pending_permission s \<noteq> None \<longleftrightarrow> ss_lifecycle s = WaitingForApproval)
   \<and> (ss_pending_question s \<noteq> None \<longleftrightarrow> ss_lifecycle s = WaitingForAnswer)
   \<and> (\<forall>t. ss_active_turn s = Some t \<longrightarrow> t \<notin> ss_terminal_turns s)"

definition kernel_wf :: "kernel \<Rightarrow> bool" where
  "kernel_wf k \<longleftrightarrow> (\<forall>i s. k_sessions k i = Some s \<longrightarrow> ss_id s = i \<and> session_wf s)"

section \<open>Properties of the state machine\<close>

lemma session_step_wf:
  "session_step i st evs s' \<Longrightarrow> (\<forall>s. st = Some s \<longrightarrow> ss_id s = i \<and> session_wf s) \<Longrightarrow>
     ss_id s' = i \<and> session_wf s'"
  by (induction rule: session_step.induct) (auto simp: session_wf_def fresh_session_def)

lemma silent_replay: "silent ev \<Longrightarrow> replay_event (Some s) i ev = Inr (Some s)"
proof (cases ev)
  case (ErrorRaised t m)
  then show "silent ev \<Longrightarrow> ?thesis" by (cases t) (auto simp: silent_def)
qed (auto simp: silent_def)

lemma silent_not_started [simp]: "\<not> silent (TurnStarted t)"
  by (simp add: silent_def)

abbreviation replay_log ::
  "session_id \<Rightarrow> session_state option \<Rightarrow> app_event list \<Rightarrow> axiom_error + session_state option" where
  "replay_log i \<equiv> try_fold (\<lambda>st ev. replay_event st i ev)"

lemma silent_replay_log: "list_all silent evs \<Longrightarrow> replay_log i (Some s) evs = Inr (Some s)"
  by (induction evs) (auto simp: silent_replay)

text \<open>Replaying the events of a step from the state before it gives the state after it.\<close>

lemma session_step_replay: "session_step i st evs s' \<Longrightarrow> replay_log i st evs = Inr (Some s')"
  by (induction rule: session_step.induct)
    (auto simp: try_fold_append silent_replay_log require_state_def update_state_def
      ends_turn_def asks_def answers_def replay_terminal_def replay_resolved_question_def)

lemma session_step_terminal:
  "session_step i st evs s' \<Longrightarrow> st = Some s \<Longrightarrow> ss_terminal_turns s \<subseteq> ss_terminal_turns s'"
  by (induction rule: session_step.induct) auto

lemma session_step_starts:
  "session_step i st evs s' \<Longrightarrow> TurnStarted t \<in> set evs \<Longrightarrow>
     \<exists>s. st = Some s \<and> ss_lifecycle s = Ready \<and> t \<notin> ss_terminal_turns s \<and> ss_active_turn s' = Some t"
  by (induction rule: session_step.induct)
    (auto simp: ends_turn_def asks_def answers_def list_all_iff)

section \<open>The kernel refines the state machine\<close>

lemma with_session_ok:
  assumes "with_session k i f = (k', Inr evs)"
  obtains s s' where "k_sessions k i = Some s" "f s = Inr (s', evs)"
    "k' = k\<lparr>k_sessions := (k_sessions k)(i \<mapsto> s')\<rparr>"
  using assms by (auto simp: with_session_def split: option.splits sum.splits prod.splits)

lemma with_session_error: "with_session k i f = (k', Inl e) \<Longrightarrow> k' = k"
  by (auto simp: with_session_def split: option.splits sum.splits prod.splits)

lemma require_ready_ok:
  "require_ready m r s = Inr r' \<longleftrightarrow> ss_lifecycle s = Ready \<and> r' = r"
  by (auto simp: require_ready_def)

lemma finish_active_ok:
  "finish_active t ev s = Inr (s', evs) \<Longrightarrow> ends_turn t ev \<Longrightarrow> session_step i (Some s) evs s'"
  by (auto simp: finish_active_def split: if_splits intro: session_step.finish)

lemma apply_command_error: "apply_command cd k c = (k', Inl e) \<Longrightarrow> k' = k"
  by (cases c) (auto simp: operation_simps dest: with_session_error split: if_splits sum.splits)

lemma step_prompt:
  "ss_lifecycle s = Ready \<Longrightarrow> t \<notin> ss_terminal_turns s \<Longrightarrow>
     session_step i (Some s) [PromptAccepted t x as, TurnStarted t]
       (s\<lparr>ss_lifecycle := Running, ss_active_turn := Some t\<rparr>)"
  using session_step.start [of s t "[PromptAccepted t x as]" i] by (simp add: silent_def)

lemma step_image:
  "ss_lifecycle s = Ready \<Longrightarrow> t \<notin> ss_terminal_turns s \<Longrightarrow>
     session_step i (Some s) [TurnStarted t] (s\<lparr>ss_lifecycle := Running, ss_active_turn := Some t\<rparr>)"
  using session_step.start [of s t "[]" i] by simp

lemmas session_step_intros =
  session_step.intros(1,2,5,6,7,9,10,11,12) step_prompt step_image

lemma with_session_refines:
  assumes "with_session k i f = (k', Inr evs)"
    and "\<And>s s'. f s = Inr (s', evs) \<Longrightarrow> session_step i (Some s) evs s'"
  shows "\<exists>s'. session_step i (k_sessions k i) evs s' \<and> k' = k\<lparr>k_sessions := (k_sessions k)(i \<mapsto> s')\<rparr>"
  using assms by (metis with_session_ok)

lemma require_ready_notify:
  "require_ready m (s, evs) s = Inr (s', evs') \<Longrightarrow> list_all silent evs \<Longrightarrow>
     session_step i (Some s) evs' s'"
  by (auto simp: require_ready_ok intro: session_step.notify)

text \<open>Every command that succeeds is a step of its own session and touches no other.\<close>

lemma apply_command_refines:
  "apply_command cd k c = (k', Inr evs) \<Longrightarrow>
     \<exists>s'. session_step (command_session_id c) (k_sessions k (command_session_id c)) evs s'
    \<and> k' = k\<lparr>k_sessions := (k_sessions k)(command_session_id c \<mapsto> s')\<rparr>"
  by (cases c)
    (auto split: if_splits sum.splits elim!: with_session_refines require_ready_notify
      simp: operation_simps silent_def,
     auto simp: require_ready_ok ends_turn_def split: if_splits
      intro: session_step_intros finish_active_ok)

lemma record_event_refines:
  assumes "record_event s ev = Inr s'" and "\<not> kernel_owned ev"
  shows "session_step i (Some s) [ev] s'"
proof (cases "interactive ev")
  case True
  with assms(1) show ?thesis
    by (cases ev) (auto split: if_splits simp: asks_def answers_def
        intro!: session_step.ask_permission session_step.resolve_permission
          session_step.ask_question session_step.answer_question)
next
  case False
  with assms(1) have "s' = s" by (cases ev) (auto split: if_splits)
  with False assms(2) show ?thesis by (simp add: session_step.notify silent_def)
qed

section \<open>Envelopes and kernel calls\<close>

lemma envelopes_fields:
  "envelopes k i c org evs = (k', es) \<Longrightarrow>
     k_sessions k' = k_sessions k \<and> map ee_event es = evs \<and> (\<forall>e\<in>set es. ee_session_id e = i)"
  by (induction evs arbitrary: k k' es)
    (auto simp: envelope_def Let_def split: prod.splits)

lemma envelopes_sequence:
  "envelopes k i c org evs = (k', es) \<Longrightarrow> k_next_sequence k + length evs \<le> u64_max \<Longrightarrow>
     map ee_sequence es = [Suc (k_next_sequence k)..<Suc (k_next_sequence k + length evs)]
   \<and> k_next_sequence k' = k_next_sequence k + length evs"
proof (induction evs arbitrary: k es)
  case Nil
  then show ?case by simp
next
  case (Cons ev evs)
  obtain k1 e where e: "envelope k i c org ev = (k1, e)" by fastforce
  obtain es' where es: "envelopes k1 i c org evs = (k', es')" "es = e # es'"
    using Cons.prems(1) by (auto simp: e split: prod.splits)
  have k1: "k_next_sequence k1 = Suc (k_next_sequence k)" "ee_sequence e = Suc (k_next_sequence k)"
    using e Cons.prems(2) by (auto simp: envelope_def Let_def)
  with Cons.IH [OF es(1)] Cons.prems(2) show ?case
    by (auto simp: es(2) upt_conv_Cons simp del: upt_Suc)
qed

text \<open>The calls whose journal can be replayed: all but restores, and no recorded event that
  belongs to the kernel.\<close>

fun journaled :: "kernel_op \<Rightarrow> bool" where
  "journaled (Op_Apply _) = True"
| "journaled (Op_Record _ _ _ ev) = (\<not> kernel_owned ev)"
| "journaled (Op_Restore _) = False"

fun op_session :: "kernel_op \<Rightarrow> session_id" where
  "op_session (Op_Apply r) = command_session_id (ce_command r)"
| "op_session (Op_Record i _ _ _) = i"
| "op_session (Op_Restore es) = (case es of [] \<Rightarrow> 0 | e # _ \<Rightarrow> ee_session_id e)"

lemma kernel_record_ok:
  assumes "kernel_record k i c org ev = (k', Inr e)"
  obtains s s' k1 where "k_sessions k i = Some s" "record_event s ev = Inr s'"
    "k1 = k\<lparr>k_sessions := (k_sessions k)(i \<mapsto> s')\<rparr>" "envelope k1 i c org ev = (k', e)"
proof -
  from assms obtain k1 evs where
    w: "with_session k i (\<lambda>s. map_sum id (\<lambda>s'. (s', [ev])) (record_event s ev)) = (k1, Inr evs)"
    and e: "envelope k1 i c org ev = (k', e)"
    by (auto simp: kernel_record_def split: prod.splits sum.splits)
  from w obtain s s' where s: "k_sessions k i = Some s"
    and m: "map_sum id (\<lambda>s'. (s', [ev])) (record_event s ev) = Inr (s', evs)"
    and k1: "k1 = k\<lparr>k_sessions := (k_sessions k)(i \<mapsto> s')\<rparr>"
    by (rule with_session_ok)
  from m have "record_event s ev = Inr s'"
    by (cases "record_event s ev") auto
  with s k1 e show thesis by (blast intro: that)
qed

lemma kernel_step_refines:
  assumes "kernel_step cd k op = (k', Inr es)" and "journaled op"
  shows "\<exists>s'. session_step (op_session op) (k_sessions k (op_session op)) (map ee_event es) s'
    \<and> k_sessions k' = (k_sessions k)(op_session op \<mapsto> s')"
    and "\<forall>e\<in>set es. ee_session_id e = op_session op"
proof -
  have "(\<exists>s'. session_step (op_session op) (k_sessions k (op_session op)) (map ee_event es) s'
    \<and> k_sessions k' = (k_sessions k)(op_session op \<mapsto> s'))
    \<and> (\<forall>e\<in>set es. ee_session_id e = op_session op)"
  proof (cases op)
    case (Op_Apply r)
    let ?i = "command_session_id (ce_command r)"
    from assms Op_Apply obtain k1 evs where
      a: "apply_command cd k (ce_command r) = (k1, Inr evs)" and
      e: "envelopes k1 ?i (ce_correlation_id r) (ce_origin r) evs = (k', es)"
      by (auto simp: kernel_apply_def split: if_splits prod.splits sum.splits)
    show ?thesis
      using apply_command_refines [OF a] envelopes_fields [OF e] Op_Apply by auto
  next
    case (Op_Record i c org ev)
    with assms obtain e where r: "kernel_record k i c org ev = (k', Inr e)" and es: "es = [e]"
      by (auto split: prod.splits sum.splits)
    from r obtain s s' k1 where "k_sessions k i = Some s" "record_event s ev = Inr s'"
      "k1 = k\<lparr>k_sessions := (k_sessions k)(i \<mapsto> s')\<rparr>" "envelope k1 i c org ev = (k', e)"
      by (rule kernel_record_ok)
    with Op_Record assms(2) record_event_refines [of s ev s' i] show ?thesis
      by (auto simp: es envelope_def Let_def)
  qed (use assms in auto)
  then show "\<exists>s'. session_step (op_session op) (k_sessions k (op_session op)) (map ee_event es) s'
      \<and> k_sessions k' = (k_sessions k)(op_session op \<mapsto> s')"
    and "\<forall>e\<in>set es. ee_session_id e = op_session op" by auto
qed

lemma kernel_record_error: "kernel_record k i c org ev = (k', Inl e) \<Longrightarrow> k' = k"
  by (auto simp: kernel_record_def dest: with_session_error split: prod.splits sum.splits)

lemma kernel_step_error: "kernel_step cd k op = (k', Inl e) \<Longrightarrow> k' = k"
  by (cases op)
    (auto simp: kernel_apply_def restore_from_events_def
      dest: apply_command_error kernel_record_error
      split: if_splits prod.splits sum.splits)

interpretation kernel_atomic: atomic_failure "kernel_step cd" for cd
  by unfold_locales (metis kernel_step_error prod.collapse)

section \<open>Restores\<close>

lemma replay_event_id:
  "replay_event st i ev = Inr st' \<Longrightarrow> \<forall>s. st = Some s \<longrightarrow> ss_id s = i \<Longrightarrow>
     \<forall>s. st' = Some s \<longrightarrow> ss_id s = i"
  by (cases "(st, i, ev)" rule: replay_event.cases)
    (auto simp: require_state_def update_state_def replay_terminal_def replay_resolved_question_def
      fresh_session_def split: option.splits if_splits)

lemma restore_fold:
  assumes "\<forall>e\<in>set es. ee_session_id e = rp_id p"
  shows "try_fold restore_replay p es =
     map_sum id (\<lambda>st. p\<lparr>rp_state := st,
         rp_max_sequence := foldl max (rp_max_sequence p) (map ee_sequence es)\<rparr>)
       (replay_log (rp_id p) (rp_state p) (map ee_event es))"
  using assms
proof (induction es arbitrary: p)
  case (Cons e es)
  show ?case
  proof (cases "replay_event (rp_state p) (rp_id p) (ee_event e)")
    case (Inr st)
    let ?p = "p\<lparr>rp_state := st, rp_max_sequence := max (rp_max_sequence p) (ee_sequence e)\<rparr>"
    have "try_fold restore_replay ?p es = map_sum id (\<lambda>st. ?p\<lparr>rp_state := st,
         rp_max_sequence := foldl max (rp_max_sequence ?p) (map ee_sequence es)\<rparr>)
       (replay_log (rp_id ?p) (rp_state ?p) (map ee_event es))"
      by (rule Cons.IH) (use Cons.prems in simp)
    with Inr Cons.prems show ?thesis by (simp add: restore_replay_def [of p e] id_def)
  qed (use Cons.prems in \<open>simp add: restore_replay_def [of p e]\<close>)
qed simp

lemma restore_fold_id:
  "try_fold restore_replay p es = Inr p' \<Longrightarrow> \<forall>s. rp_state p = Some s \<longrightarrow> ss_id s = rp_id p \<Longrightarrow>
     rp_id p' = rp_id p \<and> (\<forall>s. rp_state p' = Some s \<longrightarrow> ss_id s = rp_id p)"
proof (induction es arbitrary: p)
  case (Cons e es)
  show ?case
  proof (cases "replay_event (rp_state p) (rp_id p) (ee_event e)")
    case (Inl x)
    with Cons.prems(1) show ?thesis by (simp add: restore_replay_def [of p e] split: if_splits)
  next
    case (Inr st)
    with Cons.prems(1) have "try_fold restore_replay
      (p\<lparr>rp_state := st, rp_max_sequence := max (rp_max_sequence p) (ee_sequence e)\<rparr>) es = Inr p'"
      by (simp add: restore_replay_def [of p e] split: if_splits)
    from Cons.IH [OF this] replay_event_id [OF Inr Cons.prems(2)] show ?thesis by simp
  qed
qed simp

lemma restore_events_wf:
  assumes "restore_events es = Inr r"
  shows "ss_id (cr_state r) = cr_id r \<and> session_wf (cr_state r)"
proof -
  from assms obtain e es' p' s where "es = e # es'"
    and p': "try_fold restore_replay \<lparr>rp_id = ee_session_id e, rp_state = None, rp_max_sequence = 0\<rparr> es = Inr p'"
    and s: "rp_state p' = Some s"
    and r: "r = \<lparr>cr_id = rp_id p', cr_state = settle s, cr_max_sequence = rp_max_sequence p'\<rparr>"
    by (auto simp: restore_events_def restore_new_def restore_finish_def
        split: list.splits sum.splits option.splits)
  from restore_fold_id [OF p'] s have "ss_id s = rp_id p'" by simp
  then show ?thesis by (simp add: r settle_def session_wf_def)
qed

lemma restore_events_id: "restore_events es = Inr r \<Longrightarrow> cr_id r = op_session (Op_Restore es)"
  by (auto simp: restore_events_def restore_new_def restore_finish_def dest!: restore_fold_id
      simp del: try_fold.simps split: list.splits sum.splits option.splits)

lemma kernel_step_isolated:
  assumes "i \<noteq> op_session op"
  shows "k_sessions (fst (kernel_step cd k op)) i = k_sessions k i"
proof (cases "snd (kernel_step cd k op)")
  case (Inl e)
  then show ?thesis by (simp add: kernel_atomic.failure_keeps)
next
  case (Inr es)
  then obtain k' where step: "kernel_step cd k op = (k', Inr es)" by (metis prod.collapse)
  show ?thesis
  proof (cases op)
    case (Op_Apply r)
    then have "journaled op" by simp
    from kernel_step_refines(1) [OF step this] assms show ?thesis by (auto simp: step)
  next
    case (Op_Record j c org ev)
    with step obtain e where "kernel_record k j c org ev = (k', Inr e)"
      by (auto split: prod.splits sum.splits)
    then show ?thesis
      using assms Op_Record step by (auto simp: envelope_def Let_def elim!: kernel_record_ok)
  next
    case (Op_Restore log)
    then obtain r where "restore_events log = Inr r" "k' = install_restore k r"
      using step by (auto simp: restore_from_events_def split: prod.splits sum.splits)
    with assms Op_Restore step show ?thesis
      by (auto simp: install_restore_def dest: restore_events_id)
  qed
qed

lemma kernel_step_wf: "kernel_wf k \<Longrightarrow> kernel_wf (fst (kernel_step cd k op))"
proof -
  assume wf: "kernel_wf k"
  obtain k' r where step: "kernel_step cd k op = (k', r)" by fastforce
  show ?thesis
  proof (cases r)
    case (Inl e)
    with step wf show ?thesis using kernel_step_error by fastforce
  next
    case (Inr es)
    show ?thesis
    proof (cases "\<exists>log. op = Op_Restore log")
      case True
      with step Inr obtain log rs where rs: "restore_events log = Inr rs" "k' = install_restore k rs"
        by (auto simp: restore_from_events_def split: prod.splits sum.splits)
      from restore_events_wf [OF rs(1)] wf show ?thesis
        by (simp add: step rs(2) kernel_wf_def install_restore_def)
    next
      case False
      have "\<exists>s'. session_step (op_session op) (k_sessions k (op_session op)) (map ee_event es) s'
        \<and> k_sessions k' = (k_sessions k)(op_session op \<mapsto> s')
        \<or> (\<exists>i s. k_sessions k i = Some s \<and> k_sessions k' = (k_sessions k)(i \<mapsto> s))"
      proof (cases "journaled op")
        case True
        then show ?thesis using kernel_step_refines(1) step Inr by blast
      next
        case not: False
        with False obtain i c org ev where op: "op = Op_Record i c org ev" and "kernel_owned ev"
          by (cases op) auto
        with step Inr obtain s s' k1 e where "k_sessions k i = Some s" "record_event s ev = Inr s'"
          "k1 = k\<lparr>k_sessions := (k_sessions k)(i \<mapsto> s')\<rparr>" "envelope k1 i c org ev = (k', e)"
          by (auto split: prod.splits sum.splits elim!: kernel_record_ok)
        moreover have "s' = s"
          using \<open>kernel_owned ev\<close> \<open>record_event s ev = Inr s'\<close> by (cases ev) auto
        ultimately have "k_sessions k i = Some s \<and> k_sessions k' = (k_sessions k)(i \<mapsto> s)"
          by (auto simp: envelope_def Let_def)
        then show ?thesis by blast
      qed
      then show ?thesis
        using wf step session_step_wf by (fastforce simp: kernel_wf_def)
    qed
  qed
qed

interpretation kernel_inv: kept_invariant "kernel_step cd" kernel_wf for cd
  by unfold_locales (rule kernel_step_wf)

section \<open>The journal of a run\<close>

text \<open>Replaying one envelope on the projection of a session: envelopes of other sessions are
  not in its journal.\<close>

definition replay_envelope ::
  "session_id \<Rightarrow> axiom_error + session_state option \<Rightarrow> event_envelope \<Rightarrow>
     axiom_error + session_state option" where
  "replay_envelope i p e =
     (case p of
        Inl x \<Rightarrow> Inl x
      | Inr st \<Rightarrow> if ee_session_id e = i then replay_event st i (ee_event e) else Inr st)"

abbreviation own_journal :: "session_id \<Rightarrow> event_envelope list \<Rightarrow> event_envelope list" where
  "own_journal i \<equiv> filter (\<lambda>e. ee_session_id e = i)"

lemma foldl_replay_envelope_error: "foldl (replay_envelope i) (Inl x) es = Inl x"
  by (induction es) (simp_all add: replay_envelope_def)

lemma foldl_replay_envelope:
  "foldl (replay_envelope i) (Inr st) es = replay_log i st (map ee_event (own_journal i es))"
proof (induction es arbitrary: st)
  case (Cons e es)
  then show ?case
    by (cases "replay_event st i (ee_event e)")
      (simp_all add: replay_envelope_def [of _ _ e] foldl_replay_envelope_error)
qed simp

lemma own_journal_all: "\<forall>e\<in>set es. ee_session_id e = j \<Longrightarrow> own_journal i es = (if i = j then es else [])"
  by simp

lemma kernel_step_replay:
  assumes "journaled op" and "snd (kernel_step cd k op) = Inr es"
  shows "foldl (replay_envelope i) (Inr (k_sessions k i)) es
    = Inr (k_sessions (fst (kernel_step cd k op)) i)"
proof -
  obtain k' where step: "kernel_step cd k op = (k', Inr es)"
    using assms(2) by (metis prod.collapse)
  from kernel_step_refines [OF step assms(1)] obtain s' where
    s': "session_step (op_session op) (k_sessions k (op_session op)) (map ee_event es) s'"
    "k_sessions k' = (k_sessions k)(op_session op \<mapsto> s')"
    and own: "\<forall>e\<in>set es. ee_session_id e = op_session op" by blast
  show ?thesis
    using session_step_replay [OF s'(1)]
    by (simp add: foldl_replay_envelope own_journal_all [OF own] step s'(2))
qed

interpretation kernel_log: event_sourced "kernel_step cd" "\<lambda>k. Inr (k_sessions k i)"
    "replay_envelope i" "\<lambda>_. True" journaled for cd i
  by unfold_locales (auto simp: kernel_step_replay dest: kernel_atomic.failure_keeps)


section \<open>Properties of runs\<close>

definition used_turn :: "session_state \<Rightarrow> turn_id \<Rightarrow> bool" where
  "used_turn s t \<longleftrightarrow> t \<in> ss_terminal_turns s \<or> ss_active_turn s = Some t"

definition start_events :: "session_id \<Rightarrow> turn_id \<Rightarrow> event_envelope list \<Rightarrow> event_envelope list" where
  "start_events i t es = filter (\<lambda>e. ee_event e = TurnStarted t) (own_journal i es)"

lemma start_events_append [simp]: "start_events i t (xs @ ys) = start_events i t xs @ start_events i t ys"
  by (simp add: start_events_def)

lemma start_events_Nil [simp]: "start_events i t [] = []"
  by (simp add: start_events_def)

lemma session_step_start_count:
  "session_step i st evs s' \<Longrightarrow> length (filter (\<lambda>ev. ev = TurnStarted t) evs) \<le> 1"
proof (induction rule: session_step.induct)
  case (start s u evs)
  then have "filter (\<lambda>ev. ev = TurnStarted t) evs = []"
    by (auto simp: filter_empty_conv list_all_iff)
  then show ?case by simp
next
  case (notify evs s)
  then have "filter (\<lambda>ev. ev = TurnStarted t) evs = []"
    by (auto simp: filter_empty_conv list_all_iff)
  then show ?case by simp
qed auto

lemma session_step_used:
  "session_step i st evs s' \<Longrightarrow> st = Some s \<Longrightarrow> session_wf s \<Longrightarrow> used_turn s t \<Longrightarrow>
     used_turn s' t \<and> TurnStarted t \<notin> set evs"
  by (induction rule: session_step.induct)
    (auto simp: used_turn_def session_wf_def ends_turn_def asks_def answers_def list_all_iff)

lemma start_events_own:
  "\<forall>e\<in>set es. ee_session_id e = j \<Longrightarrow>
     start_events i t es = (if i = j then filter (\<lambda>e. ee_event e = TurnStarted t) es else [])"
  unfolding start_events_def by (subst own_journal_all) auto

text \<open>What one journaled call does to the turn \<open>t\<close> of the session \<open>i\<close>.\<close>

lemma kernel_step_turn:
  assumes "snd (kernel_step cd k op) = Inr es" and "journaled op" and "kernel_wf k"
  defines "k' \<equiv> fst (kernel_step cd k op)"
  shows "length (start_events i t es) \<le> 1"
    and "start_events i t es \<noteq> [] \<Longrightarrow> \<exists>s'. k_sessions k' i = Some s' \<and> used_turn s' t"
    and "k_sessions k i = Some s \<Longrightarrow> used_turn s t \<Longrightarrow>
      start_events i t es = [] \<and> (\<exists>s'. k_sessions k' i = Some s' \<and> used_turn s' t)"
proof -
  have step: "kernel_step cd k op = (k', Inr es)"
    using assms(1) by (simp add: k'_def prod_eq_iff)
  obtain s' where s': "session_step (op_session op) (k_sessions k (op_session op)) (map ee_event es) s'"
    "k_sessions k' = (k_sessions k)(op_session op \<mapsto> s')"
    using kernel_step_refines(1) [OF step assms(2)] by blast
  note own = start_events_own [OF kernel_step_refines(2) [OF step assms(2)], of i t]
  show "length (start_events i t es) \<le> 1"
    using session_step_start_count [OF s'(1), of t] by (simp add: own comp_def)
  show "\<exists>s'. k_sessions k' i = Some s' \<and> used_turn s' t" if "start_events i t es \<noteq> []"
  proof -
    have "i = op_session op" and "TurnStarted t \<in> set (map ee_event es)"
      using that by (force simp: own filter_empty_conv split: if_splits)+
    then show ?thesis
      using session_step_starts [OF s'(1)] s'(2) by (auto simp: used_turn_def)
  qed
  show "start_events i t es = [] \<and> (\<exists>s'. k_sessions k' i = Some s' \<and> used_turn s' t)"
    if "k_sessions k i = Some s" "used_turn s t"
  proof (cases "i = op_session op")
    case True
    then have "used_turn s' t \<and> TurnStarted t \<notin> set (map ee_event es)"
      using session_step_used [OF s'(1), of s t] that assms(3) by (auto simp: kernel_wf_def)
    with True show ?thesis unfolding own by (force simp: s'(2) filter_empty_conv)
  qed (use that own s'(2) in auto)
qed

lemma used_turn_run:
  "list_all journaled ops \<Longrightarrow> kernel_wf k \<Longrightarrow> k_sessions k i = Some s \<Longrightarrow> used_turn s t \<Longrightarrow>
     start_events i t (run_outputs (kernel_step cd) k ops) = []"
proof (induction ops arbitrary: k s)
  case (Cons op ops)
  show ?case
  proof (cases "snd (kernel_step cd k op)")
    case (Inl e)
    with Cons show ?thesis by (auto simp: kernel_atomic.failure_keeps)
  next
    case (Inr es)
    with Cons.prems kernel_step_turn(3) [OF Inr] obtain s' where "start_events i t es = []"
      "k_sessions (fst (kernel_step cd k op)) i = Some s'" "used_turn s' t"
      by (metis list.pred_inject(2))
    with Cons.IH [of "fst (kernel_step cd k op)" s'] Cons.prems Inr kernel_step_wf show ?thesis
      by simp
  qed
qed simp

lemma starts_run:
  "list_all journaled ops \<Longrightarrow> kernel_wf k \<Longrightarrow>
     length (start_events i t (run_outputs (kernel_step cd) k ops)) \<le> 1"
proof (induction ops arbitrary: k)
  case (Cons op ops)
  let ?k = "fst (kernel_step cd k op)"
  have IH: "length (start_events i t (run_outputs (kernel_step cd) ?k ops)) \<le> 1"
    using Cons kernel_step_wf by simp
  show ?case
  proof (cases "snd (kernel_step cd k op)")
    case (Inr es)
    have j: "journaled op" "list_all journaled ops" using Cons.prems by auto
    show ?thesis
    proof (cases "start_events i t es = []")
      case True
      with IH Inr show ?thesis by simp
    next
      case False
      with kernel_step_turn(2) [OF Inr j(1) Cons.prems(2)]
      have "start_events i t (run_outputs (kernel_step cd) ?k ops) = []"
        using used_turn_run [OF j(2) kernel_step_wf [OF Cons.prems(2)]] by blast
      with kernel_step_turn(1) [OF Inr j(1) Cons.prems(2)] Inr show ?thesis by simp
    qed
  qed (use IH in simp)
qed simp

text \<open>Calls other than a restore number their events consecutively.\<close>

fun is_restore :: "kernel_op \<Rightarrow> bool" where
  "is_restore (Op_Restore _) = True"
| "is_restore _ = False"

lemma apply_command_sequence: "k_next_sequence (fst (apply_command cd k c)) = k_next_sequence k"
  by (cases c) (auto simp: operation_simps with_session_def split: option.splits sum.splits)

lemma kernel_step_sequence:
  assumes "kernel_step cd k op = (k', Inr es)" and "\<not> is_restore op"
    and "k_next_sequence k + length es \<le> u64_max"
  shows "map ee_sequence es = [Suc (k_next_sequence k)..<Suc (k_next_sequence k + length es)]
    \<and> k_next_sequence k' = k_next_sequence k + length es"
proof (cases op)
  case (Op_Apply r)
  with assms(1) obtain k1 evs where a: "apply_command cd k (ce_command r) = (k1, Inr evs)" and
    e: "envelopes k1 (command_session_id (ce_command r)) (ce_correlation_id r) (ce_origin r) evs = (k', es)"
    by (auto simp: kernel_apply_def split: if_splits prod.splits sum.splits)
  have "k_next_sequence k1 = k_next_sequence k"
    using apply_command_sequence [of cd k "ce_command r"] by (simp add: a)
  moreover have "length evs = length es"
    using envelopes_fields [OF e] by (metis length_map)
  ultimately show ?thesis
    using envelopes_sequence [OF e] assms(3) by simp
next
  case (Op_Record i c org ev)
  with assms(1) obtain e where "kernel_record k i c org ev = (k', Inr e)" "es = [e]"
    by (auto split: prod.splits sum.splits)
  then show ?thesis
    using assms(3) by (auto simp: envelope_def Let_def elim!: kernel_record_ok)
qed (use assms in simp)

lemma run_sequence:
  "list_all (\<lambda>op. \<not> is_restore op) ops \<Longrightarrow>
     k_next_sequence k + length (run_outputs (kernel_step cd) k ops) \<le> u64_max \<Longrightarrow>
     map ee_sequence (run_outputs (kernel_step cd) k ops) =
       [Suc (k_next_sequence k)..<
        Suc (k_next_sequence k + length (run_outputs (kernel_step cd) k ops))]"
proof (induction ops arbitrary: k)
  case (Cons op ops)
  let ?k = "fst (kernel_step cd k op)"
  show ?case
  proof (cases "snd (kernel_step cd k op)")
    case (Inl e)
    with Cons show ?thesis by (simp add: kernel_atomic.failure_keeps del: upt_Suc)
  next
    case (Inr es)
    let ?n = "k_next_sequence k + length es"
    have "map ee_sequence es = [Suc (k_next_sequence k)..<Suc ?n] \<and> k_next_sequence ?k = ?n"
      using Cons.prems Inr by (intro kernel_step_sequence) (auto simp: prod_eq_iff)
    moreover have "map ee_sequence (run_outputs (kernel_step cd) ?k ops) =
       [Suc ?n..<Suc (?n + length (run_outputs (kernel_step cd) ?k ops))]"
      using Cons.IH [of ?k] Cons.prems Inr calculation by (simp add: add.assoc del: upt_Suc)
    ultimately show ?thesis
      using upt_add_eq_append [of "Suc (k_next_sequence k)" "Suc ?n"
        "length (run_outputs (kernel_step cd) ?k ops)"] Inr
      by (simp add: add.assoc del: upt_Suc)
  qed
qed simp

lemma restore_events_own:
  assumes own: "\<forall>e\<in>set es. ee_session_id e = i"
    and log: "replay_log i None (map ee_event es) = Inr (Some s)"
  shows "restore_events es = Inr \<lparr>cr_id = i, cr_state = settle s,
    cr_max_sequence = foldl max 0 (map ee_sequence es)\<rparr>"
proof -
  let ?p = "\<lparr>rp_id = i, rp_state = None, rp_max_sequence = 0\<rparr>"
  have "restore_new es = Inr ?p"
    using own log by (cases es) (auto simp: restore_new_def)
  moreover have "try_fold restore_replay ?p es =
    Inr \<lparr>rp_id = i, rp_state = Some s, rp_max_sequence = foldl max 0 (map ee_sequence es)\<rparr>"
    using restore_fold [of es ?p] own log by simp
  ultimately show ?thesis
    by (simp add: restore_events_def restore_finish_def)
qed

section \<open>Properties of the kernel\<close>

text \<open>C1. Restoring a session from the events its kernel reported rebuilds it exactly: after any
  sequence of commands and recorded runtime events, some of which may have failed, folding the
  session's own journal gives its identity, its settled state (no turn and no request
  in flight) and the highest sequence number issued to it.\<close>

theorem restore_reconstructs:
  assumes "list_all journaled ops" and "k_sessions k i = None"
    and "k_sessions (run_ops (kernel_step cd) k ops) i = Some s"
  shows "restore_events (own_journal i (run_outputs (kernel_step cd) k ops)) =
    Inr \<lparr>cr_id = i, cr_state = settle s,
         cr_max_sequence = foldl max 0
           (map ee_sequence (own_journal i (run_outputs (kernel_step cd) k ops)))\<rparr>"
proof -
  let ?log = "own_journal i (run_outputs (kernel_step cd) k ops)"
  have log: "replay_log i None (map ee_event ?log) = Inr (Some s)"
    using kernel_log.replay_run [where s = k and cs = ops and i = i and cd = cd] assms by (simp add: foldl_replay_envelope)
  show ?thesis
    by (rule restore_events_own [OF _ log]) simp
qed

definition demo_command :: "app_command \<Rightarrow> kernel_op" where
  "demo_command c = Op_Apply \<lparr>ce_correlation_id = 7, ce_origin = Test, ce_cancelled = False, ce_command = c\<rparr>"

definition demo_ops :: "kernel_op list" where
  "demo_ops = [demo_command (CreateSession 1 [] Test Profile_Confirm),
     demo_command (StartImageGeneration 1 5), demo_command (StartImageGeneration 1 6),
     demo_command (FinishTurn 1 5)]"

definition demo_kernel :: kernel where
  "demo_kernel = kernel_with_services (deterministic_now 0)"

lemmas demo_defs = operation_simps demo_ops_def demo_command_def demo_kernel_def kernel_with_services_def
  kernel_apply_def with_session_def fresh_session_def envelope_def finish_active_def Let_def

lemma demo_run:
  "k_sessions (run_ops (kernel_step identity_codec) demo_kernel demo_ops) 1 =
     Some ((fresh_session 1 [] Test Profile_Confirm)\<lparr>ss_terminal_turns := {5}\<rparr>)"
  by (simp add: demo_defs)

theorem restore_reconstructs_witness:
  "restore_events (own_journal 1 (run_outputs (kernel_step identity_codec) demo_kernel demo_ops)) =
    Inr \<lparr>cr_id = 1, cr_state = settle ((fresh_session 1 [] Test Profile_Confirm)\<lparr>ss_terminal_turns := {5}\<rparr>),
         cr_max_sequence = foldl max 0 (map ee_sequence
           (own_journal 1 (run_outputs (kernel_step identity_codec) demo_kernel demo_ops)))\<rparr>"
  by (rule restore_reconstructs [OF _ _ demo_run]) (simp_all add: demo_defs)

text \<open>C2. The kernel implements the session state machine: every call that succeeds, other than
  a restore, is one step of the machine of its own session, with the events it returns, and
  leaves every other session as it was.\<close>

theorem kernel_refines_machine:
  assumes "kernel_step cd k op = (k', Inr es)" and "journaled op"
  shows "(\<exists>s'. session_step (op_session op) (k_sessions k (op_session op)) (map ee_event es) s'
      \<and> k_sessions k' = (k_sessions k)(op_session op \<mapsto> s'))
    \<and> (\<forall>e\<in>set es. ee_session_id e = op_session op)"
  using kernel_step_refines [OF assms] by blast

theorem kernel_refines_machine_witness:
  "\<exists>s'. session_step 1 None
      [SessionCreated [] Test Profile_Confirm, SecurityStatusChanged Status_Unverified] s'"
proof -
  let ?op = "demo_command (CreateSession 1 [] Test Profile_Confirm)"
  obtain k' es where step: "kernel_step identity_codec demo_kernel ?op = (k', Inr es)"
    and es: "map ee_event es = [SessionCreated [] Test Profile_Confirm, SecurityStatusChanged Status_Unverified]"
    by (simp add: demo_defs)
  show ?thesis
    using kernel_refines_machine [OF step] es by (simp add: demo_defs) blast
qed

text \<open>C3. Every kernel reached from a fresh one by commands, recorded events and restores keeps
  the session invariant: each session is stored under its own identity; it has an active turn
  exactly while running or waiting; a permission or question is pending exactly in the matching
  waiting state; the active turn is never one that has ended.\<close>

theorem kernel_invariant: "kernel_wf (run_ops (kernel_step cd) (kernel_with_services clock) ops)"
  by (rule kernel_inv.inv_run) (simp add: kernel_wf_def kernel_with_services_def)







text \<open>C11. A turn in flight can always be cancelled: whatever the session waits for, a
  \<open>CancelTurn\<close> dispatched for the active turn of a well-formed kernel succeeds, reports the
  cancellation under the session's origin, and leaves the session ready with nothing pending and
  the turn spent.\<close>

theorem active_turn_cancellable:
  assumes "kernel_wf k" and "k_sessions k i = Some s" and "ss_active_turn s = Some t"
  shows "\<exists>k' e. runtime_dispatch cd k c (CancelTurn i t) = (k', Inr [e])
    \<and> ee_event e = TurnCancelled t \<and> ee_session_id e = i \<and> ee_origin e = ss_origin s
    \<and> ee_correlation_id e = c
    \<and> k_sessions k' = (k_sessions k)(i \<mapsto>
        (settle s)\<lparr>ss_terminal_turns := insert t (ss_terminal_turns s)\<rparr>)"
proof -
  have "ss_lifecycle s \<in> {Running, WaitingForApproval, WaitingForAnswer}"
    using assms unfolding kernel_wf_def session_wf_def by blast
  with assms show ?thesis
    by (auto simp: runtime_dispatch_def kernel_apply_def dispatch_origin_def with_session_def
        finish_active_def envelope_def Let_def settle_def)
qed

theorem active_turn_cancellable_witness:
  "\<exists>k' e. runtime_dispatch identity_codec
      (run_ops (kernel_step identity_codec) demo_kernel (take 2 demo_ops)) 9 (CancelTurn 1 5) = (k', Inr [e])
    \<and> ee_event e = TurnCancelled 5"
proof -
  let ?k = "run_ops (kernel_step identity_codec) demo_kernel (take 2 demo_ops)"
  have s: "k_sessions ?k 1 = Some ((fresh_session 1 [] Test Profile_Confirm)
      \<lparr>ss_lifecycle := Running, ss_active_turn := Some 5\<rparr>)"
    by (simp add: demo_defs)
  have "kernel_wf ?k"
    by (simp add: demo_defs kernel_wf_def session_wf_def)
  from active_turn_cancellable [OF this s, of 5 identity_codec 9] show ?thesis
    by (simp add: fresh_session_def) blast
qed

text \<open>C12. Sessions are isolated: no call, restores included, changes a session other than the
  one it names.\<close>

theorem sessions_isolated:
  "i \<noteq> op_session op \<Longrightarrow> k_sessions (fst (kernel_step cd k op)) i = k_sessions k i"
  by (rule kernel_step_isolated)

theorem sessions_isolated_witness:
  "k_sessions (fst (kernel_step identity_codec
      (run_ops (kernel_step identity_codec) demo_kernel demo_ops) (demo_command (CloseSession 2)))) 1
    = k_sessions (run_ops (kernel_step identity_codec) demo_kernel demo_ops) 1"
  by (rule sessions_isolated) (simp add: demo_command_def)

end
