(* ===== verification/Url_Lib.thy ===== *)
theory Url_Lib
  imports Axiom_Prelude
begin

text \<open>
  Locations: the parts of a \<open>url::Url\<close> the sources read (the URL parser is third-party code and the
  field of the parameter \<open>url_lib\<close>), and the address parser of the Rust standard library,
  \<open>str::parse::<IpAddr>()\<close>, that they call.
\<close>

section \<open>URLs\<close>

record url =
  url_scheme :: string
  url_username :: string
  url_password :: "string option"
  url_host_str :: "string option"
  url_port :: "nat option"
  url_without_fragment :: string

record url_lib =
  parse_url :: "string \<Rightarrow> string + url"

section \<open>Addresses\<close>

datatype ip_addr = V4 "8 word" "8 word" "8 word" "8 word" | V6 "16 word list"

definition digit_of :: "char \<Rightarrow> nat" where
  "digit_of c = (if is_ascii_digit c then byte c - 48
                 else if in_range 97 102 c then byte c - 87 else byte c - 55)"

definition is_digit_of :: "nat \<Rightarrow> char \<Rightarrow> bool" where
  "is_digit_of radix c = (if radix = 16 then is_ascii_hexdigit c else is_ascii_digit c)"

text \<open>\<open>read_number\<close> with its digit limit, and the bound of the number's type.\<close>

definition read_number :: "nat \<Rightarrow> nat \<Rightarrow> bool \<Rightarrow> nat \<Rightarrow> string \<Rightarrow> (nat \<times> string) option" where
  "read_number radix max_digits allow_zero_prefix bound s =
     (let ds = takeWhile (is_digit_of radix) s;
          n = foldl (\<lambda>n c. n * radix + digit_of c) 0 ds in
      if ds = [] \<or> max_digits < length ds \<or> \<not> allow_zero_prefix \<and> hd ds = CHR ''0'' \<and> 1 < length ds \<or> bound < n
      then None else Some (n, drop (length ds) s))"

definition read_separator :: "char \<Rightarrow> nat \<Rightarrow> (string \<Rightarrow> ('a \<times> string) option) \<Rightarrow> string \<Rightarrow> ('a \<times> string) option" where
  "read_separator sep index inner s =
     (if 0 < index then (case s of c # r \<Rightarrow> if c = sep then inner r else None | [] \<Rightarrow> None) else inner s)"

fun read_octets :: "nat \<Rightarrow> nat \<Rightarrow> string \<Rightarrow> (nat list \<times> string) option" where
  "read_octets 0 i s = Some ([], s)"
| "read_octets (Suc k) i s =
     (case read_separator (CHR ''.'') i (read_number 10 3 False 255) s of
        None \<Rightarrow> None
      | Some (n, r) \<Rightarrow> map_option (\<lambda>(ns, r'). (n # ns, r')) (read_octets k (Suc i) r))"

definition read_ipv4 :: "string \<Rightarrow> (nat list \<times> string) option" where
  "read_ipv4 = read_octets 4 0"

text \<open>The groups read, whether an embedded IPv4 address ended them, and the rest.\<close>

function read_groups :: "nat \<Rightarrow> nat \<Rightarrow> string \<Rightarrow> nat list \<times> bool \<times> string" where
  "read_groups limit i s =
     (if limit \<le> i then ([], False, s)
      else (case (if i < limit - 1 then read_separator (CHR '':'') i read_ipv4 s else None) of
          Some (ns, r) \<Rightarrow> ([ns ! 0 * 256 + ns ! 1, ns ! 2 * 256 + ns ! 3], True, r)
        | None \<Rightarrow>
            (case read_separator (CHR '':'') i (read_number 16 4 True 65535) s of
               None \<Rightarrow> ([], False, s)
             | Some (g, r) \<Rightarrow>
                 (case read_groups limit (Suc i) r of (gs, v4, r') \<Rightarrow> (g # gs, v4, r')))))"
  by pat_completeness auto

termination by (relation "measure (\<lambda>(limit, i, _). limit - i)") auto

declare read_groups.simps [simp del]

definition read_ipv6 :: "string \<Rightarrow> (nat list \<times> string) option" where
  "read_ipv6 s =
     (case read_groups 8 0 s of (head, v4, r) \<Rightarrow>
        if length head = 8 then Some (head, r)
        else if v4 then None
        else (case strip_prefix ''::'' r of
            None \<Rightarrow> None
          | Some r2 \<Rightarrow>
              (case read_groups (8 - (length head + 1)) 0 r2 of (tail, _, r3) \<Rightarrow>
                 Some (head @ replicate (8 - length head - length tail) 0 @ tail, r3))))"

definition parse_ip :: "string \<Rightarrow> ip_addr option" where
  "parse_ip s =
     (case read_ipv4 s of
        Some (ns, r) \<Rightarrow>
          if r = [] then Some (V4 (word_of_nat (ns ! 0)) (word_of_nat (ns ! 1)) (word_of_nat (ns ! 2)) (word_of_nat (ns ! 3)))
          else None
      | None \<Rightarrow>
          (case read_ipv6 s of
             Some (gs, r) \<Rightarrow> if r = [] then Some (V6 (map word_of_nat gs)) else None
           | None \<Rightarrow> None))"

section \<open>Facts\<close>

text \<open>A text that is empty or starts with a character that begins no address, such as a name, does not parse;
  nor does the literal of an IPv6 host, which \<open>host_str\<close> returns in brackets.\<close>

lemma parse_ip_other:
  assumes "s = [] \<or> \<not> is_ascii_hexdigit (hd s) \<and> hd s \<noteq> CHR '':''"
  shows "parse_ip s = None"
proof -
  have "takeWhile (is_digit_of radix) s = []" for radix
    using assms by (cases s) (auto simp: is_digit_of_def is_ascii_hexdigit_def)
  then have number: "read_number radix k z b s = None" for radix k z b
    by (simp add: read_number_def)
  then have v4: "read_ipv4 s = None"
    by (simp add: read_ipv4_def numeral_eq_Suc read_separator_def)
  have "read_groups 8 0 s = ([], False, s)"
    by (simp add: read_groups.simps [of 8 0] read_separator_def v4 number)
  moreover have "strip_prefix ''::'' s = None" using assms by (cases s) auto
  ultimately show ?thesis by (simp add: parse_ip_def v4 read_ipv6_def)
qed

lemma parse_ip_Nil: "parse_ip [] = None"
  by (simp add: parse_ip_other)

lemma parse_ip_name: "\<not> is_ascii_hexdigit c \<Longrightarrow> c \<noteq> CHR '':'' \<Longrightarrow> parse_ip (c # s) = None"
  by (simp add: parse_ip_other)

lemma parse_ip_bracket: "parse_ip (CHR ''['' # s) = None"
  by (rule parse_ip_name) (simp_all add: is_ascii_hexdigit_def is_ascii_digit_def in_range_def byte_def)

lemma read_groups_length:
  "i \<le> limit \<Longrightarrow> read_groups limit i s = (gs, v4, r) \<Longrightarrow> length gs \<le> limit - i"
proof (induction limit i s arbitrary: gs v4 r rule: read_groups.induct)
  case (1 limit i s)
  show ?case
    using "1.prems" "1.IH"
    by (subst (asm) read_groups.simps)
      (force split: if_splits option.splits prod.splits)
qed

lemma read_ipv6_length: "read_ipv6 s = Some (gs, r) \<Longrightarrow> length gs = 8"
  using read_groups_length [of 0 8 s] read_groups_length [of 0 "8 - (k + 1)" for k]
  by (fastforce simp: read_ipv6_def split: prod.splits if_splits option.splits)

lemma parse_ip_v6: "parse_ip s = Some (V6 gs) \<Longrightarrow> length gs = 8"
  by (auto simp: parse_ip_def dest: read_ipv6_length split: option.splits if_splits prod.splits)

end
