(* ===== verification/Policy.thy ===== *)
theory Policy
  imports App_Types Url_Lib "HOL-Library.Char_ord" "HOL-Library.List_Lexorder" "HOL-Library.Product_Lexorder"
begin

text \<open>
  The permission policy, \<open>apps/axiomcli/src/policy.rs\<close>: effects, restriction rules, session
  grants, the normalisation of an effect before it is judged, and the engine's decision. The file
  system is the parameter \<open>fs_view\<close> of \<open>Rust_Path\<close>; the URL library is the parameter
  \<open>url_lib\<close> of \<open>Url_Lib\<close>, whose \<open>parse_url\<close> gives the text of the parse error or the parsed URL.
\<close>

section \<open>Effects and rules\<close>

datatype tool_access = Interaction | Web | Image_access | Read | Write

fun is_exposed_to :: "tool_access \<Rightarrow> permission_profile \<Rightarrow> bool" where
  "is_exposed_to a Profile_None = False"
| "is_exposed_to a Profile_Web = (a \<in> {Web, Image_access})"
| "is_exposed_to a Profile_Observe = (a \<in> {Read, Interaction, Image_access})"
| "is_exposed_to a Profile_Confirm = True"
| "is_exposed_to a Profile_FullAccess = True"

datatype effect =
    ToolUse string tool_access
  | FileRead path
  | FileWrite path
  | FileDelete path
  | Process string "string list" bool path "(string \<times> string) list"
  | RepositoryMutation string path
  | Network string
  | Mcp string string bool
  | ScopeChange string
  | CredentialAccess string
  | PlanWrite path

datatype effect_class =
    Class_ToolUse | Class_FileRead | Class_FileWrite | Class_FileDelete | Class_Process
  | Class_RepositoryMutation | Class_Network | Class_Mcp | Class_ScopeChange
  | Class_CredentialAccess | Class_PlanWrite

fun class_of :: "effect \<Rightarrow> effect_class" where
  "class_of (ToolUse _ _) = Class_ToolUse"
| "class_of (FileRead _) = Class_FileRead"
| "class_of (FileWrite _) = Class_FileWrite"
| "class_of (FileDelete _) = Class_FileDelete"
| "class_of (Process _ _ _ _ _) = Class_Process"
| "class_of (RepositoryMutation _ _) = Class_RepositoryMutation"
| "class_of (Network _) = Class_Network"
| "class_of (Mcp _ _ _) = Class_Mcp"
| "class_of (ScopeChange _) = Class_ScopeChange"
| "class_of (CredentialAccess _) = Class_CredentialAccess"
| "class_of (PlanWrite _) = Class_PlanWrite"

fun effect_path :: "effect \<Rightarrow> path option" where
  "effect_path (FileRead p) = Some p"
| "effect_path (FileWrite p) = Some p"
| "effect_path (FileDelete p) = Some p"
| "effect_path (PlanWrite p) = Some p"
| "effect_path _ = None"

fun effect_matches_prefix :: "effect \<Rightarrow> string \<Rightarrow> bool" where
  "effect_matches_prefix (ToolUse name _) prefix = starts_with name prefix"
| "effect_matches_prefix (FileRead p) prefix = path_starts_with p (path_of prefix)"
| "effect_matches_prefix (FileWrite p) prefix = path_starts_with p (path_of prefix)"
| "effect_matches_prefix (FileDelete p) prefix = path_starts_with p (path_of prefix)"
| "effect_matches_prefix (PlanWrite p) prefix = path_starts_with p (path_of prefix)"
| "effect_matches_prefix (Process program _ _ _ _) prefix = starts_with program prefix"
| "effect_matches_prefix (RepositoryMutation operation _) prefix = starts_with operation prefix"
| "effect_matches_prefix (Network u) prefix = starts_with u prefix"
| "effect_matches_prefix (Mcp server tool _) prefix = starts_with (server @ ''/'' @ tool) prefix"
| "effect_matches_prefix (ScopeChange scope) prefix = starts_with scope prefix"
| "effect_matches_prefix (CredentialAccess service) prefix = starts_with service prefix"

datatype rule_action = Rule_Ask | Rule_Deny

record policy_rule =
  pr_action :: rule_action
  pr_effect :: "effect_class option"
  pr_resource_prefix :: "string option"
  pr_reason :: "string option"

definition rule_validate :: "policy_rule \<Rightarrow> axiom_error + unit" where
  "rule_validate r =
     (if (case pr_resource_prefix r of None \<Rightarrow> False | Some v \<Rightarrow> v = [] \<or> contains_nul v)
      then Inl (Config [Lit ''policy rule resource_prefix must be non-empty and contain no NUL''])
      else if (case pr_reason r of None \<Rightarrow> False | Some v \<Rightarrow> is_blank v \<or> contains_nul v)
      then Inl (Config [Lit ''policy rule reason must be non-empty and contain no NUL''])
      else if pr_resource_prefix r \<noteq> None \<and> pr_effect r = None
      then Inl (Config [Lit ''policy rules with resource_prefix must select an effect class''])
      else Inr ())"

definition rule_matches :: "policy_rule \<Rightarrow> effect \<Rightarrow> bool" where
  "rule_matches r eff =
     ((case pr_effect r of None \<Rightarrow> True | Some c \<Rightarrow> c = class_of eff)
      \<and> (case pr_resource_prefix r of None \<Rightarrow> True | Some prefix \<Rightarrow> effect_matches_prefix eff prefix))"

section \<open>Decisions and approvals\<close>

datatype decision_kind = Allow | Ask | Deny

text \<open>Decisions in the order of how much they permit.\<close>

fun permissiveness :: "decision_kind \<Rightarrow> nat" where
  "permissiveness Deny = 0"
| "permissiveness Ask = 1"
| "permissiveness Allow = 2"

instantiation decision_kind :: linorder
begin

definition less_eq_decision_kind :: "decision_kind \<Rightarrow> decision_kind \<Rightarrow> bool" where
  "less_eq_decision_kind a b \<longleftrightarrow> permissiveness a \<le> permissiveness b"

definition less_decision_kind :: "decision_kind \<Rightarrow> decision_kind \<Rightarrow> bool" where
  "less_decision_kind a b \<longleftrightarrow> permissiveness a < permissiveness b"

instance
proof
  fix a b :: decision_kind
  show "a = b" if "a \<le> b" "b \<le> a"
    using that by (cases a; cases b) (auto simp: less_eq_decision_kind_def)
qed (auto simp: less_eq_decision_kind_def less_decision_kind_def)

end

record policy_decision =
  pd_kind :: decision_kind
  pd_explanation :: string
  pd_effect :: effect
  pd_session_grant_allowed :: bool

definition decision :: "decision_kind \<Rightarrow> string \<Rightarrow> effect \<Rightarrow> bool \<Rightarrow> policy_decision" where
  "decision kind explanation eff grantable =
     \<lparr>pd_kind = kind, pd_explanation = explanation, pd_effect = eff,
      pd_session_grant_allowed = grantable\<rparr>"

datatype approval_choice = Choice_Deny | AllowOnce | AllowExactSession | AllowPrefixSession

definition choice_is_allowed :: "approval_choice \<Rightarrow> bool" where
  "choice_is_allowed c \<longleftrightarrow> c \<noteq> Choice_Deny"

primrec choice_as_str :: "approval_choice \<Rightarrow> string" where
  "choice_as_str Choice_Deny = ''deny''"
| "choice_as_str AllowOnce = ''allow_once''"
| "choice_as_str AllowExactSession = ''allow_exact_session''"
| "choice_as_str AllowPrefixSession = ''allow_prefix_session''"

datatype scoped_grant =
    Exact effect
  | FilePrefix effect_class path
  | NetworkOrigin string
  | McpServer string bool

text \<open>Decimal digits of a port number.\<close>

fun nat_digits :: "nat \<Rightarrow> string" where
  "nat_digits n =
     (if n < 10 then [char_of (48 + n)] else nat_digits (n div 10) @ [char_of (48 + n mod 10)])"

declare nat_digits.simps [simp del]

definition network_origin :: "url_lib \<Rightarrow> string \<Rightarrow> string option" where
  "network_origin ul u =
     (case parse_url ul u of
        Inl _ \<Rightarrow> None
      | Inr parsed \<Rightarrow>
          (case url_host_str parsed of
             None \<Rightarrow> None
           | Some host \<Rightarrow>
               let port = (case url_port parsed of None \<Rightarrow> [] | Some p \<Rightarrow> '':'' @ nat_digits p)
               in Some (url_scheme parsed @ ''://'' @ host @ port)))"

fun grant_matches :: "url_lib \<Rightarrow> scoped_grant \<Rightarrow> effect \<Rightarrow> bool" where
  "grant_matches ul (Exact granted) requested = (granted = requested)"
| "grant_matches ul (FilePrefix c p) requested =
     (c = class_of requested
      \<and> (case effect_path requested of None \<Rightarrow> False | Some q \<Rightarrow> path_starts_with q p))"
| "grant_matches ul (NetworkOrigin org) (Network u) = (network_origin ul u = Some org)"
| "grant_matches ul (McpServer server se) (Mcp server' _ se') = (server = server' \<and> se = se')"
| "grant_matches ul _ _ = False"

definition suggested_prefix :: "fs_view \<Rightarrow> url_lib \<Rightarrow> effect \<Rightarrow> scoped_grant option" where
  "suggested_prefix fs ul eff =
     (let file_scope = (\<lambda>p. map_option (FilePrefix (class_of eff))
                              (if fs_is_dir fs p then Some p else path_parent p)) in
      case eff of
        FileRead p \<Rightarrow> file_scope p
      | FileWrite p \<Rightarrow> file_scope p
      | FileDelete p \<Rightarrow> file_scope p
      | Network u \<Rightarrow> map_option NetworkOrigin (network_origin ul u)
      | Mcp server _ se \<Rightarrow> Some (McpServer server se)
      | _ \<Rightarrow> None)"

fun effect_class_debug :: "effect_class \<Rightarrow> string" where
  "effect_class_debug Class_ToolUse = ''ToolUse''"
| "effect_class_debug Class_FileRead = ''FileRead''"
| "effect_class_debug Class_FileWrite = ''FileWrite''"
| "effect_class_debug Class_FileDelete = ''FileDelete''"
| "effect_class_debug Class_Process = ''Process''"
| "effect_class_debug Class_RepositoryMutation = ''RepositoryMutation''"
| "effect_class_debug Class_Network = ''Network''"
| "effect_class_debug Class_Mcp = ''Mcp''"
| "effect_class_debug Class_ScopeChange = ''ScopeChange''"
| "effect_class_debug Class_CredentialAccess = ''CredentialAccess''"
| "effect_class_debug Class_PlanWrite = ''PlanWrite''"

fun describe_effect :: "effect \<Rightarrow> string" where
  "describe_effect (ToolUse name _) = ''use tool '' @ name"
| "describe_effect (FileRead p) = ''read '' @ path_display p"
| "describe_effect (FileWrite p) = ''write '' @ path_display p"
| "describe_effect (FileDelete p) = ''delete '' @ path_display p"
| "describe_effect (Process program args shell cwd env) =
     ''run '' @ (if shell then ''shell '' else []) @ program
       @ (if args = [] then [] else '' '' @ str_join '' '' args)
       @ '' in '' @ path_display cwd
       @ (if env = [] then [] else '' with environment '' @ str_join '','' (map fst env))"
| "describe_effect (Network u) = ''connect to '' @ u"
| "describe_effect (RepositoryMutation operation cwd) =
     ''mutate repository with `'' @ operation @ ''` in '' @ path_display cwd"
| "describe_effect (Mcp server tool se) =
     ''call MCP '' @ server @ ''/'' @ tool @ '' (''
       @ (if se then ''side effects declared'' else ''read-only declared'') @ '')''"
| "describe_effect (ScopeChange scope) = ''expand scope: '' @ scope"
| "describe_effect (CredentialAccess service) = ''access credentials for '' @ service"
| "describe_effect (PlanWrite p) = ''update plan artifact '' @ path_display p"

fun describe_grant :: "scoped_grant \<Rightarrow> string" where
  "describe_grant (Exact eff) = ''exactly '' @ describe_effect eff"
| "describe_grant (FilePrefix c p) = effect_class_debug c @ '' within '' @ path_display p"
| "describe_grant (NetworkOrigin org) = ''network origin '' @ org"
| "describe_grant (McpServer server se) =
     ''MCP server '' @ server @ '' (''
       @ (if se then ''side-effecting tools'' else ''read-only tools'') @ '')''"

record approval_request =
  ar_request_id :: string
  ar_explanation :: string
  ar_effect :: effect
  ar_allow_session_grants :: bool
  ar_suggested_prefix_scope :: "string option"

definition approval_request_new ::
  "fs_view \<Rightarrow> url_lib \<Rightarrow> string \<Rightarrow> policy_decision \<Rightarrow> approval_request" where
  "approval_request_new fs ul rid d =
     \<lparr>ar_request_id = rid,
      ar_explanation = pd_explanation d @ '': '' @ describe_effect (pd_effect d),
      ar_effect = pd_effect d,
      ar_allow_session_grants = pd_session_grant_allowed d,
      ar_suggested_prefix_scope =
        (if pd_session_grant_allowed d
         then map_option describe_grant (suggested_prefix fs ul (pd_effect d)) else None)\<rparr>"

definition offered_choices :: "approval_request \<Rightarrow> approval_choice list" where
  "offered_choices r =
     [AllowOnce] @ (if ar_allow_session_grants r then [AllowExactSession] else [])
       @ (if ar_suggested_prefix_scope r \<noteq> None then [AllowPrefixSession] else []) @ [Choice_Deny]"

text \<open>The answer of \<open>DenyApproval\<close>, whatever is asked.\<close>

definition deny_approval :: "approval_request \<Rightarrow> approval_choice" where
  "deny_approval r = Choice_Deny"

definition require_allowed :: "policy_decision \<Rightarrow> axiom_error + unit" where
  "require_allowed d =
     (case pd_kind d of
        Allow \<Rightarrow> Inr ()
      | Ask \<Rightarrow> Inl (ApprovalRequired [Text (pd_explanation d)])
      | Deny \<Rightarrow> Inl (PermissionDenied [Text (pd_explanation d)]))"

section \<open>Normalising an effect\<close>

text \<open>The loop of \<open>normalize_for_policy\<close>: climb to the first ancestor that exists, remember the
  names passed on the way (a \<open>..\<close> has none), and put them back below the canonical ancestor.\<close>

definition canonical_or_same :: "fs_view \<Rightarrow> path \<Rightarrow> path" where
  "canonical_or_same fs p = (case fs_canonicalize fs p of Some q \<Rightarrow> q | None \<Rightarrow> p)"

function climb_missing :: "fs_view \<Rightarrow> path \<Rightarrow> path \<Rightarrow> string list \<Rightarrow> path" where
  "climb_missing fs p ancestor missing =
     (if fs_exists fs ancestor
      then canonical_or_same fs ancestor @ map Normal (rev missing)
      else
        let missing' = (case file_name ancestor of Some n \<Rightarrow> missing @ [n] | None \<Rightarrow> missing) in
        (case path_parent ancestor of
           None \<Rightarrow> p
         | Some parent \<Rightarrow> climb_missing fs p parent missing'))"
  by pat_completeness auto
termination
  by (relation "measure (\<lambda>(fs, p, ancestor, missing). length ancestor)")
    (auto dest: path_parent_shorter)

declare climb_missing.simps [simp del]

definition normalize_for_policy :: "fs_view \<Rightarrow> path \<Rightarrow> path" where
  "normalize_for_policy fs p =
     (if fs_exists fs p then canonical_or_same fs p else climb_missing fs p p [])"

definition is_allowed_child_env_key :: "string \<Rightarrow> bool" where
  "is_allowed_child_env_key key \<longleftrightarrow>
     key \<in> {''CI'', ''RUST_BACKTRACE'', ''RUST_LOG'', ''NODE_ENV'', ''CARGO_TERM_COLOR'', ''NO_COLOR''}"

text \<open>\<open>rsplit(['/', '\\']).next()\<close>: what follows the last separator.\<close>

definition last_segment :: "string \<Rightarrow> string" where
  "last_segment s = rev (takeWhile (\<lambda>c. c \<noteq> CHR ''/'' \<and> c \<noteq> CHR 0x5C) (rev s))"

definition quoting_characters :: "char set" where
  "quoting_characters = set [CHR 0x27, CHR 0x22, CHR 0x60, CHR ''&'', CHR ''('', CHR '')'', CHR '';'', CHR ''|'']"

fun strip_first_suffix :: "string list \<Rightarrow> string \<Rightarrow> string" where
  "strip_first_suffix [] s = s"
| "strip_first_suffix (x # xs) s =
     (case strip_suffix x s of Some stem \<Rightarrow> stem | None \<Rightarrow> strip_first_suffix xs s)"

definition normalized_executable_name :: "string \<Rightarrow> string" where
  "normalized_executable_name program =
     (let quoting = (\<lambda>c. c \<in> quoting_characters);
          trimmed = trim_end_by quoting (dropWhile quoting (str_trim program))
      in strip_first_suffix [''.exe'', ''.com'', ''.cmd'', ''.bat'']
           (to_ascii_lowercase (last_segment trimmed)))"

definition invokes_shell :: "string \<Rightarrow> string list \<Rightarrow> bool" where
  "invokes_shell program args =
     (if program \<in> set [''sh'', ''bash'', ''zsh'', ''fish'', ''dash'']
      then \<exists>a \<in> set (take 2 args). starts_with (to_ascii_lowercase a) ''-''
             \<and> CHR ''c'' \<in> set (to_ascii_lowercase a)
      else if program = ''cmd''
      then \<exists>a \<in> set (take 2 args). to_ascii_lowercase a \<in> set [''/c'', ''/k'']
      else if program \<in> set [''powershell'', ''pwsh'']
      then \<exists>a \<in> set args. to_ascii_lowercase a
             \<in> set [''-c'', ''-command'', ''-ec'', ''-encodedcommand'', ''-f'', ''-file'']
      else False)"

definition windows_script_program :: "string \<Rightarrow> bool" where
  "windows_script_program program =
     (let basename = to_ascii_lowercase (last_segment (str_trim program))
      in \<exists>extension \<in> set [''.cmd'', ''.bat'', ''.ps1'']. ends_with basename extension)"

text \<open>\<open>Vec::dedup_by\<close> on the keys of a list: of each run of equal keys the first entry stays.\<close>

fun dedup_keys :: "('k \<times> 'v) list \<Rightarrow> ('k \<times> 'v) list" where
  "dedup_keys (x # y # zs) = (if fst y = fst x then dedup_keys (x # zs) else x # dedup_keys (y # zs))"
| "dedup_keys xs = xs"

section \<open>The engine\<close>

text \<open>\<open>PolicyEngine\<close>. The constructor puts exactly one root in \<open>roots\<close> and nothing changes it, so
  \<open>roots[0]\<close> is its head.\<close>

record policy_engine =
  pe_roots :: "path list"
  pe_rules :: "policy_rule list"
  pe_grants :: "scoped_grant list"

definition normalize_path :: "fs_view \<Rightarrow> policy_engine \<Rightarrow> path \<Rightarrow> path" where
  "normalize_path fs e p =
     normalize_for_policy fs (if is_absolute p then p else path_join (hd (pe_roots e)) p)"

text \<open>A name that must be non-empty and free of NUL once trimmed.\<close>

definition trimmed_name :: "string \<Rightarrow> string \<Rightarrow> string + string" where
  "trimmed_name m s = (let s = str_trim s in if s = [] \<or> contains_nul s then Inl m else Inr s)"

definition normalize_network :: "url_lib \<Rightarrow> string \<Rightarrow> string + effect" where
  "normalize_network ul u =
     (case parse_url ul u of
        Inl e \<Rightarrow> Inl (''invalid network destination: '' @ e)
      | Inr parsed \<Rightarrow>
          if url_scheme parsed \<notin> {''http'', ''https''} \<or> url_username parsed \<noteq> []
             \<or> url_password parsed \<noteq> None \<or> url_host_str parsed = None
          then Inl ''network destinations require an http(s) URL without embedded credentials''
          else Inr (Network (url_without_fragment parsed)))"

definition normalize_process ::
  "fs_view \<Rightarrow> policy_engine \<Rightarrow> string \<Rightarrow> string list \<Rightarrow> bool \<Rightarrow> path \<Rightarrow> (string \<times> string) list \<Rightarrow>
     string + effect" where
  "normalize_process fs e program args shell cwd env =
     (let program = str_trim program in
      if program = [] \<or> contains_nul program \<or> (\<exists>a \<in> set args. contains_nul a)
         \<or> (\<exists>(key, v) \<in> set env. \<not> is_allowed_child_env_key key \<or> contains_nul key \<or> contains_nul v)
      then Inl ''process program/arguments/environment are invalid or not allowlisted''
      else Inr (Process program args
             (shell \<or> windows_script_program program
                \<or> invokes_shell (normalized_executable_name program) args)
             (normalize_path fs e cwd) (dedup_keys (sort env))))"

text \<open>\<open>PolicyEngine::normalize\<close>; the error is the text of a \<open>PermissionDenied\<close>.\<close>

fun normalize :: "fs_view \<Rightarrow> url_lib \<Rightarrow> policy_engine \<Rightarrow> effect \<Rightarrow> string + effect" where
  "normalize fs ul e (ToolUse name acc) =
     map_sum id (\<lambda>n. ToolUse n acc)
       (trimmed_name ''tool name must be non-empty and NUL-free'' name)"
| "normalize fs ul e (FileRead p) = Inr (FileRead (normalize_path fs e p))"
| "normalize fs ul e (FileWrite p) = Inr (FileWrite (normalize_path fs e p))"
| "normalize fs ul e (FileDelete p) = Inr (FileDelete (normalize_path fs e p))"
| "normalize fs ul e (Process program args shell cwd env) =
     normalize_process fs e program args shell cwd env"
| "normalize fs ul e (RepositoryMutation operation cwd) =
     map_sum id (\<lambda>n. RepositoryMutation n (normalize_path fs e cwd))
       (trimmed_name ''repository mutation must have a non-empty/NUL-free operation'' operation)"
| "normalize fs ul e (Network u) = normalize_network ul u"
| "normalize fs ul e (Mcp server tool se) =
     (let server = str_trim server; tool = str_trim tool in
      if server = [] \<or> tool = [] \<or> contains_nul server \<or> contains_nul tool
      then Inl ''MCP server and tool names must be non-empty/NUL-free''
      else Inr (Mcp server tool se))"
| "normalize fs ul e (ScopeChange scope) =
     map_sum id ScopeChange
       (trimmed_name ''scope changes must have a non-empty/NUL-free identity'' scope)"
| "normalize fs ul e (CredentialAccess service) =
     map_sum id CredentialAccess
       (trimmed_name ''credential service must be non-empty and NUL-free'' service)"
| "normalize fs ul e (PlanWrite p) = Inr (PlanWrite (normalize_path fs e p))"

definition under_root :: "policy_engine \<Rightarrow> path \<Rightarrow> bool" where
  "under_root e p \<longleftrightarrow> (\<exists>root \<in> set (pe_roots e). path_starts_with p root)"

definition PRIVILEGED_PROGRAMS :: "string list" where
  "PRIVILEGED_PROGRAMS =
     [''sudo'', ''doas'', ''su'', ''mount'', ''umount'', ''mkfs'', ''shutdown'', ''reboot'', ''poweroff'']"

definition file_denial :: "policy_engine \<Rightarrow> path \<Rightarrow> string option" where
  "file_denial e p =
     (if under_root e p then None
      else Some (path_display p @ '' is outside authorized workspace roots''))"

fun hard_denial :: "policy_engine \<Rightarrow> effect \<Rightarrow> string option" where
  "hard_denial e (FileRead p) = file_denial e p"
| "hard_denial e (FileWrite p) = file_denial e p"
| "hard_denial e (FileDelete p) = file_denial e p"
| "hard_denial e (PlanWrite p) =
     (if \<exists>root \<in> set (pe_roots e). path_starts_with p (path_join root (path_of ''.axiomcli/plans''))
      then None
      else Some (path_display p @ '' is outside the dedicated plan artifact directory''))"
| "hard_denial e (Process program args shell cwd env) =
     (if \<not> under_root e cwd
      then Some (''process cwd '' @ path_display cwd @ '' is outside authorized workspace roots'')
      else if normalized_executable_name program \<in> set PRIVILEGED_PROGRAMS
      then Some (''privileged/destructive program `'' @ program @ ''` is hard-denied'')
      else None)"
| "hard_denial e (RepositoryMutation operation cwd) =
     (if \<not> under_root e cwd
      then Some (''repository mutation cwd '' @ path_display cwd
                   @ '' is outside authorized workspace roots'')
      else None)"
| "hard_denial e (CredentialAccess service) =
     Some ''credential/keychain access is unavailable in this early release and hard-denied''"
| "hard_denial e _ = None"

definition profile_default :: "permission_profile \<Rightarrow> effect \<Rightarrow> decision_kind \<times> string \<times> bool" where
  "profile_default profile eff =
     (if profile = Profile_None then (Deny, ''tools are disabled'', False)
      else case eff of
        ToolUse _ Image_access \<Rightarrow>
          (Allow, ''image tool requires a vision-capable model and the native image service'', False)
      | ToolUse _ Interaction \<Rightarrow> (Allow, ''the user decides whether to answer'', False)
      | _ \<Rightarrow>
        (case profile of
           Profile_Web \<Rightarrow>
             (case eff of
                ToolUse _ Web \<Rightarrow> (Allow, ''allowed by web-only profile'', False)
              | Network _ \<Rightarrow> (Allow, ''allowed by web-only profile'', False)
              | _ \<Rightarrow> (Deny, ''web profile permits only web tools'', False))
         | Profile_Observe \<Rightarrow>
             (case eff of
                ToolUse _ Read \<Rightarrow> (Allow, ''allowed by read-only profile'', False)
              | FileRead _ \<Rightarrow> (Allow, ''allowed by read-only profile'', False)
              | Mcp _ _ False \<Rightarrow> (Allow, ''allowed by read-only profile'', False)
              | _ \<Rightarrow> (Deny, ''observe profile permits only read tools'', False))
         | Profile_Confirm \<Rightarrow>
             (case eff of
                ToolUse _ _ \<Rightarrow> (Ask, ''confirm profile requires approval for this tool'', False)
              | _ \<Rightarrow> (Allow, ''tool invocation was confirmation-gated'', False))
         | _ \<Rightarrow> (Allow, ''allowed by full-access profile'', False)))"

definition restricted :: "permission_profile \<Rightarrow> bool" where
  "restricted profile \<longleftrightarrow> profile \<in> {Profile_None, Profile_Web, Profile_Observe}"

definition find_action :: "rule_action \<Rightarrow> policy_rule list \<Rightarrow> policy_rule option" where
  "find_action a rs = find (\<lambda>r. pr_action r = a) rs"

definition reason_or :: "string \<Rightarrow> policy_rule \<Rightarrow> string" where
  "reason_or m r = (case pr_reason r of Some s \<Rightarrow> s | None \<Rightarrow> m)"

text \<open>The decision on an effect that is already normalised and not hard-denied.\<close>

definition judge ::
  "url_lib \<Rightarrow> policy_engine \<Rightarrow> permission_profile \<Rightarrow> bool \<Rightarrow> effect \<Rightarrow> policy_decision" where
  "judge ul e profile desktop_mcp eff =
     (let matching = filter (\<lambda>r. rule_matches r eff) (pe_rules e);
          (default_kind, default_text, default_grantable) = profile_default profile eff in
      case find_action Rule_Deny matching of
        Some r \<Rightarrow> decision Deny (reason_or ''denied by a configured policy rule'' r) eff False
      | None \<Rightarrow>
          if restricted profile \<and> default_kind = Deny
          then decision default_kind default_text eff default_grantable
          else (case find_action Rule_Ask matching of
              Some r \<Rightarrow>
                decision Ask (reason_or ''approval required by a configured policy rule'' r) eff False
            | None \<Rightarrow>
                if \<exists>g \<in> set (pe_grants e). grant_matches ul g eff
                then decision Allow ''allowed by a narrow session grant'' eff True
                else if desktop_mcp then decision Ask ''MCP requires approval'' eff True
                else decision default_kind default_text eff default_grantable))"

definition evaluate_with_defaults ::
  "fs_view \<Rightarrow> url_lib \<Rightarrow> policy_engine \<Rightarrow> permission_profile \<Rightarrow> effect \<Rightarrow> bool \<Rightarrow> policy_decision" where
  "evaluate_with_defaults fs ul e profile eff desktop_mcp =
     (case normalize fs ul e eff of
        Inl m \<Rightarrow> decision Deny (''permission denied: '' @ m) eff False
      | Inr normalized \<Rightarrow>
          (case hard_denial e normalized of
             Some reason \<Rightarrow> decision Deny reason normalized False
           | None \<Rightarrow> judge ul e profile desktop_mcp normalized))"

definition evaluate ::
  "fs_view \<Rightarrow> url_lib \<Rightarrow> policy_engine \<Rightarrow> permission_profile \<Rightarrow> effect \<Rightarrow> policy_decision" where
  "evaluate fs ul e profile eff = evaluate_with_defaults fs ul e profile eff False"

definition evaluate_desktop_mcp ::
  "fs_view \<Rightarrow> url_lib \<Rightarrow> policy_engine \<Rightarrow> effect \<Rightarrow> policy_decision" where
  "evaluate_desktop_mcp fs ul e eff =
     (case eff of
        Mcp _ _ _ \<Rightarrow> evaluate_with_defaults fs ul e Profile_Confirm eff True
      | _ \<Rightarrow> decision Deny ''invalid MCP effect'' eff False)"

definition ensure_grantable :: "fs_view \<Rightarrow> url_lib \<Rightarrow> policy_engine \<Rightarrow> effect \<Rightarrow> axiom_error + unit" where
  "ensure_grantable fs ul e eff =
     (case normalize fs ul e eff of
        Inl m \<Rightarrow> Inl (PermissionDenied [Text m])
      | Inr normalized \<Rightarrow>
          (case hard_denial e normalized of
             Some reason \<Rightarrow> Inl (PermissionDenied [Text reason])
           | None \<Rightarrow>
               if \<exists>r \<in> set (pe_rules e). rule_matches r normalized \<and> pr_action r \<in> {Rule_Ask, Rule_Deny}
               then Inl (PermissionDenied
                 [Lit ''configured ask/deny rules cannot be overridden by a session grant''])
               else Inr ()))"

definition push_grant :: "policy_engine \<Rightarrow> scoped_grant \<Rightarrow> policy_engine" where
  "push_grant e g = e\<lparr>pe_grants := pe_grants e @ [g]\<rparr>"

definition apply_approval ::
  "fs_view \<Rightarrow> url_lib \<Rightarrow> policy_engine \<Rightarrow> approval_request \<Rightarrow> approval_choice \<Rightarrow>
     (policy_engine, axiom_error, unit) outcome" where
  "apply_approval fs ul e request choice =
     (if choice \<in> {Choice_Deny, AllowOnce} then (e, Inr ())
      else if \<not> ar_allow_session_grants request
      then (e, Inl (PermissionDenied
             [Lit ''this configured approval cannot be converted into a session grant'']))
      else (case ensure_grantable fs ul e (ar_effect request) of
          Inl x \<Rightarrow> (e, Inl x)
        | Inr _ \<Rightarrow>
            if choice = AllowExactSession then (push_grant e (Exact (ar_effect request)), Inr ())
            else (case suggested_prefix fs ul (ar_effect request) of
                None \<Rightarrow> (e, Inl (PermissionDenied
                  [Lit ''this operation has no safe predefined prefix scope'']))
              | Some scope \<Rightarrow> (push_grant e scope, Inr ()))))"

definition normalize_rule_prefix ::
  "fs_view \<Rightarrow> url_lib \<Rightarrow> path \<Rightarrow> effect_class \<Rightarrow> string \<Rightarrow> axiom_error + string" where
  "normalize_rule_prefix fs ul base c prefix =
     (if c \<in> {Class_FileRead, Class_FileWrite, Class_FileDelete, Class_PlanWrite}
      then (let p = path_of prefix in
            Inr (path_display (normalize_for_policy fs (if is_absolute p then p else path_join base p))))
      else if c = Class_Network
      then (case parse_url ul prefix of
          Inl m \<Rightarrow> Inl (Config [Lit ''invalid network policy prefix: '', Text m])
        | Inr parsed \<Rightarrow>
            if url_scheme parsed \<notin> {''http'', ''https''} \<or> url_host_str parsed = None
            then Inl (Config [Lit ''network policy prefixes require an http(s) URL''])
            else Inr (url_without_fragment parsed))
      else Inr (str_trim prefix))"

text \<open>The \<open>expect\<close> on the effect class of a rule with a prefix never fires: validation has
  already rejected such a rule.\<close>

definition normalize_rule ::
  "fs_view \<Rightarrow> url_lib \<Rightarrow> policy_rule \<Rightarrow> path \<Rightarrow> axiom_error + policy_rule" where
  "normalize_rule fs ul r base =
     (case rule_validate r of
        Inl x \<Rightarrow> Inl x
      | Inr _ \<Rightarrow>
          (case (pr_resource_prefix r, pr_effect r) of
             (Some prefix, Some c) \<Rightarrow>
               (case normalize_rule_prefix fs ul base c prefix of
                  Inl x \<Rightarrow> Inl x
                | Inr normalized \<Rightarrow>
                    if normalized = []
                    then Inl (Config [Lit ''normalized policy resource prefix cannot be empty''])
                    else Inr (r\<lparr>pr_resource_prefix := Some normalized\<rparr>))
           | _ \<Rightarrow> Inr r))"

fun normalize_rules ::
  "fs_view \<Rightarrow> url_lib \<Rightarrow> path \<Rightarrow> policy_rule list \<Rightarrow> axiom_error + policy_rule list" where
  "normalize_rules fs ul base [] = Inr []"
| "normalize_rules fs ul base (r # rs) =
     (case normalize_rule fs ul r base of
        Inl x \<Rightarrow> Inl x
      | Inr r' \<Rightarrow> map_sum id (\<lambda>rs'. r' # rs') (normalize_rules fs ul base rs))"

definition for_workspace_with_rules ::
  "fs_view \<Rightarrow> url_lib \<Rightarrow> path \<Rightarrow> policy_rule list \<Rightarrow> axiom_error + policy_engine" where
  "for_workspace_with_rules fs ul base rules =
     (case fs_canonicalize fs base of
        None \<Rightarrow> Inl Io
      | Some base' \<Rightarrow>
          map_sum id (\<lambda>rs. \<lparr>pe_roots = [base'], pe_rules = rs, pe_grants = []\<rparr>)
            (normalize_rules fs ul base' rules))"

end
