(* ===== verification/Policy_Correct.thy ===== *)
theory Policy_Correct
  imports Policy
begin

text \<open>
  Correctness of the permission policy: when an effect is allowed, that rules only narrow and
  grants only answer questions, that files and processes stay under the workspace root, and what a
  recorded approval grants.
\<close>

section \<open>The decision as a function of its inputs\<close>

definition has_rule :: "rule_action \<Rightarrow> policy_engine \<Rightarrow> effect \<Rightarrow> bool" where
  "has_rule a e eff \<longleftrightarrow> (\<exists>r \<in> set (pe_rules e). rule_matches r eff \<and> pr_action r = a)"

definition granted :: "url_lib \<Rightarrow> policy_engine \<Rightarrow> effect \<Rightarrow> bool" where
  "granted ul e eff \<longleftrightarrow> (\<exists>g \<in> set (pe_grants e). grant_matches ul g eff)"

abbreviation default_kind :: "permission_profile \<Rightarrow> effect \<Rightarrow> decision_kind" where
  "default_kind profile eff \<equiv> fst (profile_default profile eff)"

text \<open>Where an effect acts in the file system.\<close>

fun effect_location :: "effect \<Rightarrow> path option" where
  "effect_location (Process _ _ _ cwd _) = Some cwd"
| "effect_location (RepositoryMutation _ cwd) = Some cwd"
| "effect_location eff = effect_path eff"

lemma find_action_None:
  "find_action a (filter (\<lambda>r. rule_matches r eff) (pe_rules e)) = None \<longleftrightarrow> \<not> has_rule a e eff"
  by (auto simp: find_action_def has_rule_def find_None_iff)

lemma judge_kind:
  "pd_kind (judge ul e profile desktop eff) =
     (if has_rule Rule_Deny e eff then Deny
      else if restricted profile \<and> default_kind profile eff = Deny then Deny
      else if has_rule Rule_Ask e eff then Ask
      else if granted ul e eff then Allow
      else if desktop then Ask
      else default_kind profile eff)"
proof -
  let ?m = "filter (\<lambda>r. rule_matches r eff) (pe_rules e)"
  obtain dk dt dg where d: "profile_default profile eff = (dk, dt, dg)"
    by (cases "profile_default profile eff") auto
  have rule: "has_rule a e eff \<longleftrightarrow> find_action a ?m \<noteq> None" for a
    by (simp add: find_action_None)
  show ?thesis
    by (cases "find_action Rule_Deny ?m"; cases "find_action Rule_Ask ?m")
      (simp_all add: judge_def Let_def d decision_def rule granted_def)
qed

lemma judge_effect [simp]: "pd_effect (judge ul e profile desktop eff) = eff"
  by (auto simp: judge_def decision_def Let_def split: option.splits prod.splits)

lemma unrestricted_default: "\<not> restricted profile \<Longrightarrow> default_kind profile eff \<noteq> Deny"
  by (cases profile) (auto simp: restricted_def profile_default_def split: effect.splits tool_access.splits)

lemma no_rule_iff:
  "(\<forall>r \<in> set (pe_rules e). \<not> rule_matches r eff) \<longleftrightarrow> \<not> has_rule Rule_Deny e eff \<and> \<not> has_rule Rule_Ask e eff"
  by (auto simp: has_rule_def) (metis rule_action.exhaust)

lemma normalize_path_frame [simp]:
  "normalize_path fs (e\<lparr>pe_rules := rs\<rparr>) = normalize_path fs e"
  "normalize_path fs (e\<lparr>pe_grants := gs\<rparr>) = normalize_path fs e"
  by (simp_all add: normalize_path_def fun_eq_iff)

lemma normalize_frame [simp]:
  "normalize fs ul (e\<lparr>pe_rules := rs\<rparr>) eff = normalize fs ul e eff"
  "normalize fs ul (e\<lparr>pe_grants := gs\<rparr>) eff = normalize fs ul e eff"
  by (cases eff; simp only: normalize.simps normalize_process_def normalize_path_frame)+

lemma hard_denial_frame [simp]:
  "hard_denial (e\<lparr>pe_rules := rs\<rparr>) eff = hard_denial e eff"
  "hard_denial (e\<lparr>pe_grants := gs\<rparr>) eff = hard_denial e eff"
  by (cases eff; simp add: file_denial_def under_root_def)+

lemma has_rule_mono:
  "set rs \<subseteq> set rs' \<Longrightarrow> has_rule a (e\<lparr>pe_rules := rs\<rparr>) eff \<Longrightarrow> has_rule a (e\<lparr>pe_rules := rs'\<rparr>) eff"
  by (auto simp: has_rule_def)

lemma judge_rules_mono:
  assumes "set rs \<subseteq> set rs'"
  shows "pd_kind (judge ul (e\<lparr>pe_rules := rs'\<rparr>) profile desktop eff)
    \<le> pd_kind (judge ul (e\<lparr>pe_rules := rs\<rparr>) profile desktop eff)"
proof -
  have "granted ul (e\<lparr>pe_rules := rs'\<rparr>) eff = granted ul (e\<lparr>pe_rules := rs\<rparr>) eff"
    by (simp add: granted_def)
  then show ?thesis
    using has_rule_mono [OF assms, of Rule_Deny e eff] has_rule_mono [OF assms, of Rule_Ask e eff]
      unrestricted_default [of profile eff]
    by (cases "default_kind profile eff") (auto simp: judge_kind less_eq_decision_kind_def)
qed

text \<open>Hard denials are about the location of an effect.\<close>

lemma path_join_plans: "path_starts_with (path_join r (path_of ''.axiomcli/plans'')) r"
  by (simp add: path_join_def is_absolute_def path_of_def starts_with_def body_components_def
      component_of_def)
    (simp add: path_starts_with_iff)

lemma hard_denial_location:
  "hard_denial e eff = None \<Longrightarrow> effect_location eff = Some p \<Longrightarrow> under_root e p"
  by (cases eff)
    (auto simp: file_denial_def under_root_def split: if_splits
      intro: path_starts_with_trans [OF _ path_join_plans])

lemma evaluate_not_denied:
  assumes "pd_kind (evaluate_with_defaults fs ul e profile eff desktop) \<noteq> Deny"
  obtains n where "normalize fs ul e eff = Inr n" "hard_denial e n = None"
    "evaluate_with_defaults fs ul e profile eff desktop = judge ul e profile desktop n"
  using assms that
  by (auto simp: evaluate_with_defaults_def decision_def split: sum.splits option.splits)

section \<open>Grants\<close>

lemma path_parent_prefix: "path_parent p = Some q \<Longrightarrow> path_starts_with p q"
  by (metis append_butlast_last_id path_parent_Some path_starts_with_append)

lemma suggested_prefix_matches:
  "suggested_prefix fs ul eff = Some g \<Longrightarrow> grant_matches ul g eff"
  by (cases eff)
    (auto simp: suggested_prefix_def Let_def dest: path_parent_prefix split: if_splits)

lemma suggested_prefix_class:
  "suggested_prefix fs ul eff = Some g \<Longrightarrow> grant_matches ul g eff' \<Longrightarrow> class_of eff' = class_of eff"
  by (cases eff; cases eff')
    (auto simp: suggested_prefix_def Let_def split: if_splits)

lemma any_rule_action: "a \<in> {Rule_Ask, Rule_Deny}"
  by (cases a) auto

lemma ensure_grantable_iff:
  "ensure_grantable fs ul e eff = Inr u \<longleftrightarrow>
     (\<exists>n. normalize fs ul e eff = Inr n \<and> hard_denial e n = None
        \<and> (\<forall>r \<in> set (pe_rules e). \<not> rule_matches r n))"
  by (auto simp: ensure_grantable_def any_rule_action simp del: insert_iff
      split: sum.splits option.splits if_splits)

lemma apply_approval_cases:
  assumes "apply_approval fs ul e request choice = (e', r)"
  shows "e' = e \<or> (\<exists>g. e' = push_grant e g \<and> r = Inr ()
    \<and> choice \<in> {AllowExactSession, AllowPrefixSession}
    \<and> ar_allow_session_grants request
    \<and> ensure_grantable fs ul e (ar_effect request) = Inr ()
    \<and> (g = Exact (ar_effect request) \<or> suggested_prefix fs ul (ar_effect request) = Some g))"
  using assms by (cases choice) (auto simp: apply_approval_def split: if_splits sum.splits option.splits)

lemma apply_approval_error:
  "snd (apply_approval fs ul e request choice) = Inl x \<Longrightarrow> fst (apply_approval fs ul e request choice) = e"
  by (auto simp: apply_approval_def split: if_splits sum.splits option.splits)

text \<open>A sequence of answered approvals is a run of the engine; failing answers change nothing.\<close>

interpretation approvals: atomic_failure "\<lambda>e (request, choice). apply_approval fs ul e request choice"
  for fs ul
  by unfold_locales (auto intro: apply_approval_error)

definition same_limits :: "policy_engine \<Rightarrow> policy_engine \<Rightarrow> bool" where
  "same_limits e0 e \<longleftrightarrow> pe_roots e = pe_roots e0 \<and> pe_rules e = pe_rules e0"

interpretation approvals_limits:
  kept_invariant "\<lambda>e (request, choice). apply_approval fs ul e request choice" "same_limits e0"
  for fs ul e0
proof unfold_locales
  fix e and c :: "approval_request \<times> approval_choice"
  assume "same_limits e0 e"
  then show "same_limits e0 (fst (case c of (request, choice) \<Rightarrow> apply_approval fs ul e request choice))"
    using apply_approval_cases [of fs ul e "fst c" "snd c"]
    by (cases c; cases "apply_approval fs ul e (fst c) (snd c)") (auto simp: same_limits_def push_grant_def)
qed

section \<open>Sanitised environments\<close>

lemma dedup_keys_Cons: "\<exists>ys. dedup_keys (x # xs) = x # ys"
  by (induction "x # xs" arbitrary: xs rule: dedup_keys.induct) auto

lemma dedup_keys_set: "set (dedup_keys xs) \<subseteq> set xs"
  by (induction xs rule: dedup_keys.induct) auto

lemma dedup_keys_keys: "fst ` set (dedup_keys xs) = fst ` set xs"
  by (induction xs rule: dedup_keys.induct) (auto split: if_splits)

lemma dedup_keys_sorted:
  "sorted (map fst xs) \<Longrightarrow> sorted_wrt (<) (map fst (dedup_keys xs))"
proof (induction xs rule: dedup_keys.induct)
  case (1 x y zs)
  show ?case
  proof (cases "fst y = fst x")
    case False
    with 1 have "\<forall>k \<in> fst ` set (dedup_keys (y # zs)). fst x < k"
      unfolding dedup_keys_keys by (auto simp: order.strict_iff_order)
    with False 1 show ?thesis by auto
  qed (use 1 in auto)
qed auto

lemma sorted_fst: "sorted (xs :: ('a::linorder \<times> 'b::linorder) list) \<Longrightarrow> sorted (map fst xs)"
  by (induction xs) (auto simp: less_eq_prod_def)

section \<open>Canonical paths\<close>

lemma climb_missing_longest:
  assumes "list_all (\<lambda>c. \<exists>n. c = Normal n) q" and "fs_exists fs [RootDir]"
  shows "\<exists>k \<le> length q. fs_exists fs (RootDir # take k q)
    \<and> (\<forall>j. k < j \<and> j \<le> length q \<longrightarrow> \<not> fs_exists fs (RootDir # take j q))
    \<and> climb_missing fs p (RootDir # q) missing =
        canonical_or_same fs (RootDir # take k q) @ drop k q @ map Normal (rev missing)"
  using assms(1)
proof (induction q arbitrary: missing rule: rev_induct)
  case Nil
  with assms(2) show ?case by (simp add: climb_missing.simps)
next
  case (snoc c q)
  then obtain n where c: "c = Normal n" by auto
  show ?case
  proof (cases "fs_exists fs (RootDir # q @ [c])")
    case True
    then show ?thesis
      by (intro exI [of _ "length (q @ [c])"]) (auto simp: climb_missing.simps)
  next
    case False
    have "climb_missing fs p (RootDir # q @ [c]) missing =
        climb_missing fs p (RootDir # q) (missing @ [n])"
      using False by (subst climb_missing.simps) (simp add: file_name_def path_parent_def c)
    moreover from snoc obtain k where "k \<le> length q" "fs_exists fs (RootDir # take k q)"
      "\<forall>j. k < j \<and> j \<le> length q \<longrightarrow> \<not> fs_exists fs (RootDir # take j q)"
      "climb_missing fs p (RootDir # q) (missing @ [n]) =
        canonical_or_same fs (RootDir # take k q) @ drop k q @ map Normal (rev (missing @ [n]))"
      by (metis list_all_append)
    ultimately show ?thesis
      using False by (intro exI [of _ k]) (auto simp: c le_Suc_eq)
  qed
qed

section \<open>Properties of the policy\<close>

text \<open>A workspace \<open>/w\<close> in which \<open>/w/out\<close> is a link to \<open>/etc\<close>, and a URL library that
  knows one URL.\<close>

definition demo_fs :: fs_view where
  "demo_fs = \<lparr>fs_exists = \<lambda>p. p \<in> set (map path_of [''/'', ''/w'', ''/w/a'', ''/w/out'']),
     fs_canonicalize = \<lambda>p. Some (if p = path_of ''/w/out'' then path_of ''/etc'' else p),
     fs_is_dir = \<lambda>p. p \<in> set (map path_of [''/'', ''/w'', ''/w/out''])\<rparr>"

definition demo_urls :: url_lib where
  "demo_urls = \<lparr>parse_url = \<lambda>u. if u = ''https://a.b/'' then
       Inr \<lparr>url_scheme = ''https'', url_username = [], url_password = None,
            url_host_str = Some ''a.b'', url_port = None, url_without_fragment = u\<rparr>
     else Inl ''relative URL without a base''\<rparr>"

definition deny_reads :: policy_rule where
  "deny_reads = \<lparr>pr_action = Rule_Deny, pr_effect = Some Class_FileRead, pr_resource_prefix = None,
     pr_reason = None\<rparr>"

definition demo_engine :: policy_engine where
  "demo_engine = \<lparr>pe_roots = [path_of ''/w''], pe_rules = [], pe_grants = [McpServer ''s'' True]\<rparr>"

lemma demo_paths:
  "path_of ''/'' = [RootDir]" "path_of ''/w'' = [RootDir, Normal ''w'']"
  "path_of ''/w/a'' = [RootDir, Normal ''w'', Normal ''a'']"
  "path_of ''/w/out'' = [RootDir, Normal ''w'', Normal ''out'']"
  "path_of ''/etc'' = [RootDir, Normal ''etc'']"
  by (simp_all add: path_of_def starts_with_def body_components_def component_of_def)

lemma demo_names:
  "str_trim ''s'' = ''s''" "str_trim ''t'' = ''t''" "\<not> contains_nul ''s''" "\<not> contains_nul ''t''"
  by code_simp+

lemmas demo_policy = demo_fs_def demo_urls_def demo_engine_def deny_reads_def demo_paths
  normalize_path_def normalize_for_policy_def canonical_or_same_def is_absolute_def
  path_starts_with_def starts_with_def file_denial_def under_root_def rule_matches_def

text \<open>C13. When an effect is allowed: exactly when it normalises, is not hard-denied, no configured
  rule (ask or deny) matches it, and the profile allows it by default or a session grant covers
  it while the profile does not forbid it.\<close>

theorem evaluate_allow_iff:
  "pd_kind (evaluate fs ul e profile eff) = Allow \<longleftrightarrow>
     (\<exists>n. normalize fs ul e eff = Inr n \<and> hard_denial e n = None
        \<and> (\<forall>r \<in> set (pe_rules e). \<not> rule_matches r n)
        \<and> (default_kind profile n = Allow
            \<or> default_kind profile n \<noteq> Deny \<and> (\<exists>g \<in> set (pe_grants e). grant_matches ul g n)))"
    (is "_ \<longleftrightarrow> ?rhs")
proof -
  have "pd_kind (judge ul e profile False n) = Allow \<longleftrightarrow>
      (\<forall>r \<in> set (pe_rules e). \<not> rule_matches r n)
      \<and> (default_kind profile n = Allow \<or> default_kind profile n \<noteq> Deny \<and> granted ul e n)" for n
    using unrestricted_default [of profile n]
    unfolding no_rule_iff by (cases "default_kind profile n") (auto simp: judge_kind)
  then show ?thesis
    unfolding evaluate_def evaluate_with_defaults_def granted_def
    by (auto simp: decision_def split: sum.splits option.splits)
qed

theorem evaluate_allow_iff_witness:
  "pd_kind (evaluate demo_fs demo_urls demo_engine Profile_Observe (FileRead [Normal ''a''])) = Allow"
  unfolding evaluate_allow_iff
  by (simp add: demo_policy path_join_def profile_default_def)

text \<open>C14. Configured rules only narrow: whatever rules are added, in whatever order, the decision on
  any effect is never more permissive than without them, also for desktop MCP calls.\<close>

theorem rules_only_narrow:
  assumes "set rs \<subseteq> set rs'"
  shows "pd_kind (evaluate_with_defaults fs ul (e\<lparr>pe_rules := rs'\<rparr>) profile eff desktop)
    \<le> pd_kind (evaluate_with_defaults fs ul (e\<lparr>pe_rules := rs\<rparr>) profile eff desktop)"
  by (auto simp: evaluate_with_defaults_def decision_def judge_rules_mono [OF assms]
      split: sum.splits option.splits)

theorem rules_only_narrow_witness:
  "pd_kind (evaluate_with_defaults demo_fs demo_urls (demo_engine\<lparr>pe_rules := [deny_reads]\<rparr>)
       Profile_Observe (FileRead [Normal ''a'']) False)
    \<le> pd_kind (evaluate_with_defaults demo_fs demo_urls (demo_engine\<lparr>pe_rules := []\<rparr>)
       Profile_Observe (FileRead [Normal ''a'']) False)"
  by (rule rules_only_narrow) simp

text \<open>C15. Session grants answer questions and nothing else: if the grants make a difference to a
  decision, then without them it was \<open>Ask\<close>, with them it is \<open>Allow\<close>, no configured rule matches
  the effect, and one of the grants covers it. A denial is never granted away.\<close>

theorem grants_only_answer:
  assumes "pd_kind (evaluate_with_defaults fs ul e profile eff desktop)
    \<noteq> pd_kind (evaluate_with_defaults fs ul (e\<lparr>pe_grants := []\<rparr>) profile eff desktop)"
  shows "pd_kind (evaluate_with_defaults fs ul (e\<lparr>pe_grants := []\<rparr>) profile eff desktop) = Ask
    \<and> pd_kind (evaluate_with_defaults fs ul e profile eff desktop) = Allow
    \<and> (\<exists>n g. normalize fs ul e eff = Inr n \<and> (\<forall>r \<in> set (pe_rules e). \<not> rule_matches r n)
        \<and> g \<in> set (pe_grants e) \<and> grant_matches ul g n)"
proof -
  obtain n where n: "normalize fs ul e eff = Inr n" "hard_denial e n = None"
    using assms by (auto simp: evaluate_with_defaults_def decision_def split: sum.splits option.splits)
  have "has_rule a (e\<lparr>pe_grants := []\<rparr>) n = has_rule a e n" for a
    by (simp add: has_rule_def)
  moreover have "\<not> granted ul (e\<lparr>pe_grants := []\<rparr>) n"
    by (simp add: granted_def)
  ultimately show ?thesis
    using assms unrestricted_default [of profile n]
    unfolding evaluate_with_defaults_def n no_rule_iff
    by (cases "default_kind profile n")
      (auto simp: n judge_kind granted_def no_rule_iff split: if_splits)
qed

theorem grants_only_answer_witness:
  "pd_kind (evaluate_with_defaults demo_fs demo_urls (demo_engine\<lparr>pe_grants := []\<rparr>) Profile_Confirm
      (Mcp ''s'' ''t'' True) True) = Ask
    \<and> pd_kind (evaluate_with_defaults demo_fs demo_urls demo_engine Profile_Confirm
      (Mcp ''s'' ''t'' True) True) = Allow"
proof -
  have "pd_kind (evaluate_with_defaults demo_fs demo_urls demo_engine Profile_Confirm
      (Mcp ''s'' ''t'' True) True)
    \<noteq> pd_kind (evaluate_with_defaults demo_fs demo_urls (demo_engine\<lparr>pe_grants := []\<rparr>) Profile_Confirm
      (Mcp ''s'' ''t'' True) True)"
    by (simp add: evaluate_with_defaults_def judge_kind has_rule_def granted_def demo_policy
        demo_names restricted_def)
  from grants_only_answer [OF this] show ?thesis by simp
qed



text \<open>Links do not lead out of the workspace: a path that exists is judged by its canonical
  target, so reading, writing or deleting through a link to a place outside the roots is denied
  under every profile, rule set and grant.\<close>

theorem link_escape_denied:
  assumes "is_absolute p" and "fs_exists fs p" and "fs_canonicalize fs p = Some q"
    and "\<not> under_root e q" and "eff \<in> {FileRead p, FileWrite p, FileDelete p}"
  shows "pd_kind (evaluate fs ul e profile eff) = Deny"
proof -
  have "normalize_path fs e p = q"
    using assms(1-3) by (simp add: normalize_path_def normalize_for_policy_def canonical_or_same_def)
  with assms(4,5) show ?thesis
    by (auto simp: evaluate_def evaluate_with_defaults_def file_denial_def decision_def)
qed

theorem link_escape_denied_witness:
  "pd_kind (evaluate demo_fs demo_urls demo_engine Profile_FullAccess (FileWrite (path_of ''/w/out''))) = Deny"
  by (rule link_escape_denied [of "path_of ''/w/out''" _ "path_of ''/etc''"])
    (simp_all add: demo_policy)

text \<open>How a path that does not exist yet is judged: an absolute path without \<open>..\<close> is split at
  its deepest existing ancestor, that ancestor is replaced by its canonical form, and the rest is
  kept as written; so a new file below a link is judged at the target of the link.\<close>

theorem normalize_missing_path:
  assumes "list_all (\<lambda>c. \<exists>n. c = Normal n) q" and "fs_exists fs [RootDir]"
  shows "\<exists>k \<le> length q. fs_exists fs (RootDir # take k q)
    \<and> (\<forall>j. k < j \<and> j \<le> length q \<longrightarrow> \<not> fs_exists fs (RootDir # take j q))
    \<and> normalize_for_policy fs (RootDir # q) = canonical_or_same fs (RootDir # take k q) @ drop k q"
proof (cases "fs_exists fs (RootDir # q)")
  case True
  then show ?thesis
    by (intro exI [of _ "length q"]) (simp add: normalize_for_policy_def)
next
  case False
  then show ?thesis
    using climb_missing_longest [OF assms, of "RootDir # q" "[]"]
    by (simp add: normalize_for_policy_def)
qed

theorem normalize_missing_path_witness:
  "normalize_for_policy demo_fs (RootDir # [Normal ''w'', Normal ''out'', Normal ''new'']) =
    path_of ''/etc'' @ [Normal ''new'']"
proof -
  let ?q = "[Normal ''w'', Normal ''out'', Normal ''new'']"
  have "list_all (\<lambda>c. \<exists>n. c = Normal n) ?q" "fs_exists demo_fs [RootDir]"
    by (simp_all add: demo_policy)
  from normalize_missing_path [OF this] obtain k where k: "k \<le> length ?q" "fs_exists demo_fs (RootDir # take k ?q)"
    "\<forall>j. k < j \<and> j \<le> length ?q \<longrightarrow> \<not> fs_exists demo_fs (RootDir # take j ?q)"
    "normalize_for_policy demo_fs (RootDir # ?q) = canonical_or_same demo_fs (RootDir # take k ?q) @ drop k ?q"
    by blast
  have "k \<noteq> 3" using k(2) by (auto simp: demo_policy)
  moreover have "\<not> k < 2" using k(3) [rule_format, of 2] by (auto simp: demo_policy)
  ultimately have "k = 2" using k(1) by simp
  with k(4) show ?thesis by (simp add: demo_policy)
qed

text \<open>C17. What an approval grants: recording a choice either leaves the engine as it was, or adds
  one grant, and then the choice was a session grant that the request offered, no configured rule
  matches the effect and it is not hard-denied; the grant covers the approved effect and only
  effects of the same class.\<close>

theorem approval_grants_scope:
  assumes "apply_approval fs ul e request choice = (e', r)" and "e' \<noteq> e"
  shows "\<exists>g n. e' = e\<lparr>pe_grants := pe_grants e @ [g]\<rparr> \<and> r = Inr ()
    \<and> choice \<in> {AllowExactSession, AllowPrefixSession} \<and> ar_allow_session_grants request
    \<and> normalize fs ul e (ar_effect request) = Inr n \<and> hard_denial e n = None
    \<and> (\<forall>x \<in> set (pe_rules e). \<not> rule_matches x n)
    \<and> grant_matches ul g (ar_effect request)
    \<and> (\<forall>eff. grant_matches ul g eff \<longrightarrow> class_of eff = class_of (ar_effect request))"
proof -
  from apply_approval_cases [OF assms(1)] assms(2) obtain g where
    g: "e' = push_grant e g" "r = Inr ()" "choice \<in> {AllowExactSession, AllowPrefixSession}"
    "ar_allow_session_grants request" "ensure_grantable fs ul e (ar_effect request) = Inr ()"
    "g = Exact (ar_effect request) \<or> suggested_prefix fs ul (ar_effect request) = Some g"
    by blast
  from g(5) obtain n where "normalize fs ul e (ar_effect request) = Inr n" "hard_denial e n = None"
    "\<forall>x \<in> set (pe_rules e). \<not> rule_matches x n"
    by (auto simp: ensure_grantable_iff)
  moreover have "grant_matches ul g (ar_effect request)"
    using g(6) suggested_prefix_matches [of fs ul "ar_effect request" g] by auto
  moreover have "class_of eff = class_of (ar_effect request)" if "grant_matches ul g eff" for eff
    using g(6) that suggested_prefix_class [of fs ul "ar_effect request" g eff] by auto
  ultimately show ?thesis
    using g(1-4) unfolding push_grant_def by blast
qed

definition demo_request :: approval_request where
  "demo_request = approval_request_new demo_fs demo_urls ''1''
     (evaluate_desktop_mcp demo_fs demo_urls (demo_engine\<lparr>pe_grants := []\<rparr>) (Mcp ''s'' ''t'' True))"

lemma demo_request_fields:
  "ar_effect demo_request = Mcp ''s'' ''t'' True" "ar_allow_session_grants demo_request"
  by (simp_all add: demo_request_def approval_request_new_def evaluate_desktop_mcp_def
      evaluate_with_defaults_def demo_names judge_def Let_def demo_engine_def find_action_def
      decision_def profile_default_def restricted_def)

theorem approval_grants_scope_witness:
  "\<exists>g. fst (apply_approval demo_fs demo_urls demo_engine demo_request AllowPrefixSession) =
      demo_engine\<lparr>pe_grants := pe_grants demo_engine @ [g]\<rparr>
    \<and> grant_matches demo_urls g (ar_effect demo_request)"
proof -
  let ?r = "apply_approval demo_fs demo_urls demo_engine demo_request AllowPrefixSession"
  have "fst ?r \<noteq> demo_engine"
    by (simp add: apply_approval_def demo_request_fields ensure_grantable_def demo_names
        demo_engine_def suggested_prefix_def push_grant_def)
  with approval_grants_scope [of demo_fs demo_urls demo_engine demo_request AllowPrefixSession
      "fst ?r" "snd ?r"] show ?thesis by auto
qed

lemma normalize_mcp:
  "normalize fs ul e (Mcp server tool se) = Inr n \<Longrightarrow>
     n = Mcp (str_trim server) (str_trim tool) se"
  by (auto simp: Let_def split: if_splits)

lemma normalize_mcp_idem:
  assumes "normalize fs ul e (Mcp server tool se) = Inr n" "from_utf8_ok server" "from_utf8_ok tool"
  shows "normalize fs ul e' n = Inr n"
  using assms by (auto simp: Let_def str_trim_idem split: if_splits)

lemma evaluate_desktop_mcp_judge:
  "normalize fs ul e (Mcp server tool se) = Inr n \<Longrightarrow>
     evaluate_desktop_mcp fs ul e (Mcp server tool se) = judge ul e Profile_Confirm True n"
  using normalize_mcp [of fs ul e server tool se n]
  by (simp add: evaluate_desktop_mcp_def evaluate_with_defaults_def del: normalize.simps)

lemma judge_grantable_ask:
  assumes "pd_kind (judge ul e profile desktop n) = Ask" "pd_session_grant_allowed (judge ul e profile desktop n)"
  shows "\<forall>r \<in> set (pe_rules e). \<not> rule_matches r n"
  using assms unfolding no_rule_iff judge_def
  by (auto simp: decision_def Let_def find_action_None split: option.splits prod.splits if_splits)

text \<open>C18. Approving a desktop MCP call for the session works and is remembered: the question such a
  call raises offers the session grants, recording the exact grant succeeds, and afterwards the
  same call is allowed without asking.\<close>

theorem desktop_mcp_approval:
  assumes "from_utf8_ok server" and "from_utf8_ok tool"
    and "d = evaluate_desktop_mcp fs ul e (Mcp server tool se)"
    and "pd_kind d = Ask" and "pd_session_grant_allowed d"
  shows "set (offered_choices (approval_request_new fs ul rid d)) =
      {AllowOnce, AllowExactSession, AllowPrefixSession, Choice_Deny}
    \<and> (\<exists>e'. apply_approval fs ul e (approval_request_new fs ul rid d) AllowExactSession = (e', Inr ())
        \<and> pd_kind (evaluate_desktop_mcp fs ul e' (Mcp server tool se)) = Allow)"
proof -
  obtain n where n: "normalize fs ul e (Mcp server tool se) = Inr n"
    using assms(3,4) by (auto simp: evaluate_desktop_mcp_def evaluate_with_defaults_def decision_def
        simp del: normalize.simps split: sum.splits)
  let ?e = "push_grant e (Exact n)"
  have d: "d = judge ul e Profile_Confirm True n" and eff: "pd_effect d = n"
    using evaluate_desktop_mcp_judge [OF n] assms(3) by auto
  have no_rule: "\<forall>r \<in> set (pe_rules e). \<not> rule_matches r n"
    using judge_grantable_ask assms(4,5) d by blast
  have "ensure_grantable fs ul e n = Inr ()"
    using normalize_mcp_idem [OF n assms(1,2), of e] no_rule normalize_mcp [OF n]
    by (simp add: ensure_grantable_iff del: normalize.simps)
  then have "apply_approval fs ul e (approval_request_new fs ul rid d) AllowExactSession = (?e, Inr ())"
    using assms(5) eff by (simp add: apply_approval_def approval_request_new_def)
  moreover have "normalize fs ul ?e (Mcp server tool se) = Inr n"
    using n by (simp add: push_grant_def del: normalize.simps)
  then have "pd_kind (evaluate_desktop_mcp fs ul ?e (Mcp server tool se)) = Allow"
    using no_rule by (simp add: evaluate_desktop_mcp_judge judge_kind restricted_def has_rule_def
        granted_def push_grant_def del: normalize.simps)
  moreover have "suggested_prefix fs ul n \<noteq> None"
    using normalize_mcp [OF n] by (simp add: suggested_prefix_def)
  ultimately show ?thesis
    using assms(5) eff by (auto simp: offered_choices_def approval_request_new_def)
qed

theorem desktop_mcp_approval_witness:
  "\<exists>e'. apply_approval demo_fs demo_urls (demo_engine\<lparr>pe_grants := []\<rparr>)
        (approval_request_new demo_fs demo_urls ''1''
          (evaluate_desktop_mcp demo_fs demo_urls (demo_engine\<lparr>pe_grants := []\<rparr>) (Mcp ''s'' ''t'' True)))
        AllowExactSession = (e', Inr ())
    \<and> pd_kind (evaluate_desktop_mcp demo_fs demo_urls e' (Mcp ''s'' ''t'' True)) = Allow"
proof -
  let ?e = "demo_engine\<lparr>pe_grants := []\<rparr>"
  have "from_utf8_ok ''s''" "from_utf8_ok ''t''" by code_simp+
  moreover have "pd_kind (evaluate_desktop_mcp demo_fs demo_urls ?e (Mcp ''s'' ''t'' True)) = Ask"
    "pd_session_grant_allowed (evaluate_desktop_mcp demo_fs demo_urls ?e (Mcp ''s'' ''t'' True))"
    by (simp_all add: evaluate_desktop_mcp_def evaluate_with_defaults_def demo_names judge_def Let_def
        demo_engine_def find_action_def decision_def profile_default_def restricted_def)
  ultimately show ?thesis
    using desktop_mcp_approval [of "''s''" "''t''" _ demo_fs demo_urls ?e True "''1''"] by blast
qed

text \<open>The environment a process effect is judged and run with is sanitised: its keys are all
  allowlisted, strictly increasing (so no key is given twice), every entry is one the caller
  asked for, and every key the caller asked for is kept.\<close>

theorem process_environment_sanitised:
  assumes "normalize fs ul e (Process program args shell cwd env) = Inr (Process program' args' shell' cwd' env')"
  shows "(\<forall>(k, v) \<in> set env'. is_allowed_child_env_key k \<and> \<not> contains_nul k \<and> \<not> contains_nul v)
    \<and> sorted_wrt (<) (map fst env') \<and> set env' \<subseteq> set env \<and> fst ` set env' = fst ` set env
    \<and> args' = args \<and> (shell \<longrightarrow> shell')"
proof -
  from assms have env': "env' = dedup_keys (sort env)" "args' = args" "shell \<longrightarrow> shell'"
    and ok: "\<forall>(k, v) \<in> set env. is_allowed_child_env_key k \<and> \<not> contains_nul k \<and> \<not> contains_nul v"
    by (auto simp: normalize_process_def Let_def split: if_splits)
  have "sorted_wrt (<) (map fst env')"
    unfolding env' by (intro dedup_keys_sorted sorted_fst) simp
  moreover have "set env' \<subseteq> set env"
    using dedup_keys_set [of "sort env"] by (simp add: env')
  moreover have "fst ` set env' = fst ` set env"
    by (simp add: env' dedup_keys_keys)
  ultimately show ?thesis
    using ok env' by auto
qed

theorem process_environment_sanitised_witness:
  "sorted_wrt (<) (map fst (dedup_keys (sort [(''NO_COLOR'', ''1''), (''CI'', ''2''), (''CI'', ''1'')])))"
proof -
  let ?env = "[(''NO_COLOR'', ''1''), (''CI'', ''2''), (''CI'', ''1'')]"
  have "str_trim ''ls'' = ''ls''" "\<not> contains_nul ''ls''"
    "\<not> contains_nul ''NO_COLOR''" "\<not> contains_nul ''CI''" "\<not> contains_nul ''1''" "\<not> contains_nul ''2''"
    by code_simp+
  then have "normalize demo_fs demo_urls demo_engine (Process ''ls'' [] False (path_of ''/w'') ?env) =
      Inr (Process ''ls'' [] (windows_script_program ''ls'' \<or> invokes_shell (normalized_executable_name ''ls'') [])
        (normalize_path demo_fs demo_engine (path_of ''/w'')) (dedup_keys (sort ?env)))"
    by (simp add: normalize_process_def is_allowed_child_env_key_def Let_def del: sort_key_simps)
  from process_environment_sanitised [OF this] show ?thesis by blast
qed

text \<open>Tool exposure and the profile defaults agree, with one exception: a profile denies a tool
  by default exactly when it does not expose it, except that the web profile allows
  interaction tools by default although it does not expose them.\<close>

theorem exposure_matches_default:
  "is_exposed_to acc profile \<longleftrightarrow> default_kind profile (ToolUse name acc) \<noteq> Deny
     \<and> (profile, acc) \<noteq> (Profile_Web, Interaction)"
  by (cases profile; cases acc) (simp_all add: profile_default_def)

text \<open>A file rule means what its author wrote: after normalisation a rule with a path prefix
  matches exactly the effects of its class whose path lies below the normalised prefix, as long as
  that path is absolute and made of ordinary names.\<close>

theorem normalized_file_rule:
  assumes "normalize_rule fs ul r base = Inr r'"
    and "pr_resource_prefix r = Some prefix" and "pr_effect r = Some c"
    and "c \<in> {Class_FileRead, Class_FileWrite, Class_FileDelete, Class_PlanWrite}"
    and "normalize_for_policy fs (if is_absolute (path_of prefix) then path_of prefix
           else path_join base (path_of prefix)) = RootDir # map Normal ns"
    and "list_all normal_name ns" and "effect_path eff = Some p"
  shows "pr_action r' = pr_action r
    \<and> (rule_matches r' eff \<longleftrightarrow> class_of eff = c \<and> path_starts_with p (RootDir # map Normal ns))"
proof -
  let ?d = "path_display (RootDir # map Normal ns)"
  have "normalize_rule_prefix fs ul base c prefix = Inr ?d"
    using assms(4,5) by (auto simp: normalize_rule_prefix_def Let_def)
  then have r': "r' = r\<lparr>pr_resource_prefix := Some ?d\<rparr>"
    using assms(1-3) by (auto simp: normalize_rule_def split: sum.splits if_splits)
  have "effect_matches_prefix eff ?d \<longleftrightarrow> path_starts_with p (path_of ?d)"
    using assms(7) by (cases eff) auto
  then show ?thesis
    using assms(3) by (auto simp: r' rule_matches_def path_display_roundtrip [OF assms(6)])
qed

theorem normalized_file_rule_witness:
  "rule_matches (deny_reads\<lparr>pr_resource_prefix := Some ''/w/a''\<rparr>) (FileRead (path_of ''/w/a'')) \<longleftrightarrow>
     class_of (FileRead (path_of ''/w/a'')) = Class_FileRead
       \<and> path_starts_with (path_of ''/w/a'') (RootDir # map Normal [''w'', ''a''])"
proof -
  let ?r = "deny_reads\<lparr>pr_resource_prefix := Some ''a''\<rparr>"
  have a: "path_of ''a'' = [Normal ''a'']" "is_absolute [Normal ''a''] = False" "\<not> contains_nul ''a''"
    by code_simp+
  have n: "normalize_for_policy demo_fs (path_join (path_of ''/w'') [Normal ''a'']) = RootDir # map Normal [''w'', ''a'']"
    by (simp add: demo_policy path_join_def)
  have d: "path_display (RootDir # map Normal [''w'', ''a'']) = ''/w/a''"
    by (simp add: path_display_def)
  have "normalize_rule demo_fs demo_urls ?r (path_of ''/w'') =
      Inr (deny_reads\<lparr>pr_resource_prefix := Some ''/w/a''\<rparr>)"
    using n d by (simp add: normalize_rule_def rule_validate_def normalize_rule_prefix_def deny_reads_def a)
  from normalized_file_rule [OF this, of "''a''" Class_FileRead "[''w'', ''a'']" "FileRead (path_of ''/w/a'')" "path_of ''/w/a''"]
  show ?thesis using n by (auto simp: deny_reads_def a normal_name_def)
qed

end
