(* ===== verification/Runtime_Policy.thy ===== *)
theory Runtime_Policy
  imports Attachments
begin

text \<open>
  The image runtime policy of \<open>crates/axiom-inference/src/runtime_policy.rs\<close>: the structural
  checks of a publisher policy and the arithmetic that turns an aspect ratio into pixel
  dimensions (greatest common divisor by the Euclidean loop, integer square root). The
  arithmetic is on natural numbers: ratio parts have at most two digits, so no \<open>u64\<close>
  product of the source can overflow.
\<close>

record runtime_lora =
  lora_name :: string
  lora_sha256 :: string
  lora_strength :: f64
  lora_patches :: nat

record image_runtime_settings =
  default_aspect_ratio :: string
  aspect_ratios :: "string list"
  max_pixels :: nat
  max_references :: nat
  sampler :: string
  cfg :: f64
  sigmas :: "f64 list"
  uncensored_models :: "string list"
  lora :: "runtime_lora option"

record image_runtime_policy =
  protocol :: nat
  minimum_client :: nat
  required_features :: "string list"
  extensions :: "(string \<times> json) list"
  image_settings :: image_runtime_settings

section \<open>Dimensions\<close>

definition BAD_RATIO :: string where
  "BAD_RATIO = ''Unsupported image aspect ratio.''"

definition BAD_POLICY :: string where
  "BAD_POLICY = ''Unsupported image runtime policy. Update Axiom before generating.''"

definition parse_ratio_part :: "string \<Rightarrow> string + nat" where
  "parse_ratio_part s =
     (if s = [] \<or> 2 < length s \<or> starts_with s ''0'' \<or> \<not> list_all is_ascii_digit s
      then Inl BAD_RATIO
      else (case parse_u64_digits s of None \<Rightarrow> Inl BAD_RATIO | Some n \<Rightarrow> Inr n))"

text \<open>\<open>while b != 0 { (a, b) = (b, a % b); }\<close>\<close>

function gcd_loop :: "nat \<Rightarrow> nat \<Rightarrow> nat" where
  "gcd_loop a b = (if b = 0 then a else gcd_loop b (a mod b))"
  by pat_completeness auto
termination
  by (relation "measure snd") auto

text \<open>\<open>u64::isqrt\<close>: the integer square root, two bits at a time.\<close>

function isqrt :: "nat \<Rightarrow> nat" where
  "isqrt n = (if n = 0 then 0
     else (let r = 2 * isqrt (n div 4) in if (r + 1) * (r + 1) \<le> n then r + 1 else r))"
  by pat_completeness auto
termination
  by (relation "measure id") auto

definition scaled_dimensions :: "nat \<Rightarrow> nat \<Rightarrow> nat \<Rightarrow> string + image_dimensions" where
  "scaled_dimensions mp w0 h0 =
     (if h0 * 4 < w0 \<or> w0 * 4 < h0 then Inl BAD_RATIO
      else (let a = gcd_loop w0 h0; w = w0 div a; h = h0 div a;
                scale = isqrt (mp div (1024 * w * h))
            in if scale = 0 \<or> min w h * scale * 32 < 256 then Inl BAD_RATIO
               else if u32_max < w * scale * 32 \<or> u32_max < h * scale * 32 then Inl BAD_RATIO
               else (let size = \<lparr>dim_width = w * scale * 32, dim_height = h * scale * 32\<rparr>
                     in case dimensions_validate size of
                          Inl _ \<Rightarrow> Inl BAD_RATIO | Inr _ \<Rightarrow> Inr size)))"

definition dimensions :: "image_runtime_policy \<Rightarrow> string \<Rightarrow> string + image_dimensions" where
  "dimensions p ratio =
     (if \<not> list_ex (\<lambda>r. r = ratio) (aspect_ratios (image_settings p)) then Inl BAD_RATIO
      else (case split_once '':'' ratio of
          None \<Rightarrow> Inl BAD_RATIO
        | Some (ws, hs) \<Rightarrow>
            (case parse_ratio_part ws of
               Inl e \<Rightarrow> Inl e
             | Inr w \<Rightarrow>
                 (case parse_ratio_part hs of
                    Inl e \<Rightarrow> Inl e
                  | Inr h \<Rightarrow> scaled_dimensions (max_pixels (image_settings p)) w h))))"

section \<open>Policy validation\<close>

definition references_use_default_size :: "image_runtime_policy \<Rightarrow> bool" where
  "references_use_default_size p =
     (case Option.bind (map_of (extensions p) ''reference_uses_default_size'') as_bool of
        Some b \<Rightarrow> b | None \<Rightarrow> False)"

definition uncensored :: "image_runtime_policy \<Rightarrow> string \<Rightarrow> bool" where
  "uncensored p model = list_ex (\<lambda>m. m = model) (uncensored_models (image_settings p))"

fun strictly_decreasing :: "f64 list \<Rightarrow> bool" where
  "strictly_decreasing (Finite a # Finite b # xs) = (b < a \<and> strictly_decreasing (Finite b # xs))"
| "strictly_decreasing [_] = True"
| "strictly_decreasing [] = True"
| "strictly_decreasing _ = False"

definition header_rejected :: "codec \<Rightarrow> image_runtime_policy \<Rightarrow> bool" where
  "header_rejected k p \<longleftrightarrow>
     protocol p \<noteq> 1 \<or> minimum_client p \<noteq> 1 \<or> required_features p \<noteq> []
   \<or> 32 < length (extensions p)
   \<or> (case json_to_vec k (JObject (extensions p)) of None \<Rightarrow> True | Some v \<Rightarrow> 8192 < length v)
   \<or> (case map_of (extensions p) ''reference_uses_default_size'' of
        None \<Rightarrow> False | Some v \<Rightarrow> as_bool v = None)"

definition settings_rejected :: "image_runtime_settings \<Rightarrow> bool" where
  "settings_rejected s \<longleftrightarrow>
     \<not> (256 * 256 \<le> max_pixels s \<and> max_pixels s \<le> MAX_GENERATED_IMAGE_PIXELS)
   \<or> 5 < max_references s
   \<or> aspect_ratios s = [] \<or> 32 < length (aspect_ratios s)
   \<or> default_aspect_ratio s \<notin> set (aspect_ratios s)
   \<or> sampler s \<notin> {''euler'', ''heun'', ''dpmpp_2m''}
   \<or> \<not> f64_in 0 20 (cfg s)
   \<or> \<not> (2 \<le> length (sigmas s) \<and> length (sigmas s) \<le> 65)
   \<or> hd (sigmas s) \<noteq> Finite 1 \<or> last (sigmas s) \<noteq> Finite 0
   \<or> list_ex (\<lambda>x. \<not> f64_in 0 1 x) (sigmas s)
   \<or> \<not> strictly_decreasing (sigmas s)
   \<or> 32 < length (uncensored_models s)"

fun check_ratios :: "image_runtime_policy \<Rightarrow> string list \<Rightarrow> string list \<Rightarrow> string + unit" where
  "check_ratios p seen [] = Inr ()"
| "check_ratios p seen (r # rs) =
     (if r \<in> set seen then Inl BAD_POLICY
      else (case dimensions p r of Inl e \<Rightarrow> Inl e | Inr _ \<Rightarrow> check_ratios p (r # seen) rs))"

fun check_models :: "string list \<Rightarrow> string list \<Rightarrow> string + unit" where
  "check_models seen [] = Inr ()"
| "check_models seen (m # ms) =
     (if m \<in> set seen \<or> 170 < length m \<or> CHR '':'' \<notin> set m
         \<or> \<not> list_all (\<lambda>b. is_ascii_alphanumeric b \<or> b \<in> set ''-:._'') m
      then Inl BAD_POLICY else check_models (m # seen) ms)"

definition lora_rejected :: "runtime_lora \<Rightarrow> bool" where
  "lora_rejected l \<longleftrightarrow>
     122 < length (lora_name l) \<or> \<not> ends_with (lora_name l) ''.safetensors''
   \<or> \<not> (case lora_name l of [] \<Rightarrow> False | b # _ \<Rightarrow> is_ascii_alphanumeric b)
   \<or> \<not> list_all (\<lambda>b. is_ascii_alphanumeric b \<or> b \<in> set ''-_.'') (lora_name l)
   \<or> length (lora_sha256 l) \<noteq> 64
   \<or> \<not> list_all (\<lambda>b. is_ascii_hexdigit b \<and> \<not> is_ascii_uppercase b) (lora_sha256 l)
   \<or> \<not> f64_in 0 2 (lora_strength l)
   \<or> \<not> (1 \<le> lora_patches l \<and> lora_patches l \<le> 4096)"

definition policy_validate :: "codec \<Rightarrow> image_runtime_policy \<Rightarrow> string + unit" where
  "policy_validate k p =
     (if header_rejected k p \<or> settings_rejected (image_settings p) then Inl BAD_POLICY
      else and_then (check_ratios p [] (aspect_ratios (image_settings p)))
          (and_then (check_models [] (uncensored_models (image_settings p)))
          (case lora (image_settings p) of
             None \<Rightarrow> Inr ()
           | Some l \<Rightarrow> if lora_rejected l then Inl BAD_POLICY else Inr ())))"

definition default_policy :: image_runtime_policy where
  "default_policy =
     \<lparr>protocol = 1, minimum_client = 1, required_features = [], extensions = [],
      image_settings =
       \<lparr>default_aspect_ratio = ''2:3'',
        aspect_ratios = [''1:1'', ''2:3'', ''3:2'', ''3:4'', ''4:3'', ''9:16'', ''16:9'', ''1:2'',
          ''2:1'', ''9:21'', ''21:9''],
        max_pixels = MAX_GENERATED_IMAGE_PIXELS, max_references = 5, sampler = ''euler'',
        cfg = Finite 1,
        sigmas = map Finite [1, 978453 / 1000000, 95418 / 100000, 926626 / 1000000,
          89508 / 100000, 845148 / 1000000, 704534 / 1000000, 414568 / 1000000, 0],
        uncensored_models = [''chutes:qwen3.8-27b'', ''chutes-preview:qwen3.8-27b''],
        lora = Some \<lparr>lora_name = ''uncensored.safetensors'',
          lora_sha256 = ''83aba822ad8ee10a1e836828f5088259d93bce7b5f3419b46dbc0258c2be46a9'',
          lora_strength = Finite (9 / 10), lora_patches = 192\<rparr>\<rparr>\<rparr>"

section \<open>Facts\<close>

declare gcd_loop.simps [simp del] isqrt.simps [simp del]

lemma gcd_loop_eq: "gcd_loop a b = gcd a b"
proof (induction a b rule: gcd_loop.induct)
  case (1 a b)
  show ?case
  proof (cases "b = 0")
    case True
    then show ?thesis by (simp add: gcd_loop.simps)
  next
    case False
    with 1 show ?thesis by (simp add: gcd_loop.simps [of a b] flip: gcd_red_nat)
  qed
qed

lemma isqrt_bounds: "isqrt n * isqrt n \<le> n \<and> n < (isqrt n + 1) * (isqrt n + 1)"
proof (induction n rule: isqrt.induct)
  case (1 n)
  show ?case
  proof (cases "n = 0")
    case True
    then show ?thesis by (simp add: isqrt.simps)
  next
    case False
    let ?q = "isqrt (n div 4)"
    have q: "?q * ?q \<le> n div 4" "n div 4 < (?q + 1) * (?q + 1)"
      using 1 False by auto
    have lo: "2 * ?q * (2 * ?q) \<le> n"
      using mult_le_mono2 [OF q(1), of 4] by (simp add: algebra_simps)
    have "n < 4 * (n div 4 + 1)" by simp
    also have "\<dots> \<le> 4 * ((?q + 1) * (?q + 1))" using q(2) by simp
    finally have hi: "n < (2 * ?q + 2) * (2 * ?q + 2)" by (simp add: algebra_simps)
    show ?thesis
      using False lo hi by (auto simp: isqrt.simps [of n] Let_def)
  qed
qed

lemma isqrt_mono_le: "m * m \<le> n \<Longrightarrow> m \<le> isqrt n"
proof (rule ccontr)
  assume "m * m \<le> n" and "\<not> m \<le> isqrt n"
  then have "(isqrt n + 1) * (isqrt n + 1) \<le> m * m" by (intro mult_le_mono) auto
  with isqrt_bounds [of n] \<open>m * m \<le> n\<close> show False by linarith
qed

lemma gcd_div_cross:
  fixes w h :: nat shows "w div gcd w h * h = h div gcd w h * w"
  by (metis div_mult_swap gcd_dvd1 gcd_dvd2 mult.commute)

lemma scaled_dimensions_ok:
  assumes "scaled_dimensions mp w0 h0 = Inr d"
  shows "dimensions_validate d = Inr ()"
    and "dim_width d * h0 = dim_height d * w0"
    and "dim_width d * dim_height d \<le> mp"
proof -
  define w where "w = w0 div gcd w0 h0"
  define h where "h = h0 div gcd w0 h0"
  define s where "s = isqrt (mp div (1024 * w * h))"
  from assms have d: "d = \<lparr>dim_width = w * s * 32, dim_height = h * s * 32\<rparr>"
    and v: "dimensions_validate d = Inr ()" and s: "s \<noteq> 0"
    by (auto simp: scaled_dimensions_def gcd_loop_eq Let_def w_def h_def s_def
        split: if_splits sum.splits)
  show "dimensions_validate d = Inr ()" by (rule v)
  show "dim_width d * h0 = dim_height d * w0"
    using gcd_div_cross [of w0 h0] by (simp add: d w_def h_def ac_simps)
  have "s * s \<le> mp div (1024 * w * h)"
    using isqrt_bounds [of "mp div (1024 * w * h)"] by (simp add: s_def)
  then have "1024 * w * h * (s * s) \<le> 1024 * w * h * (mp div (1024 * w * h))"
    by (rule mult_le_mono2)
  also have "\<dots> \<le> mp" by (rule times_div_less_eq_dividend)
  finally show "dim_width d * dim_height d \<le> mp"
    by (simp add: d algebra_simps)
qed

lemma dimensions_ok:
  assumes "dimensions p ratio = Inr d"
  shows "\<exists>ws hs. split_once '':'' ratio = Some (ws, hs)
    \<and> dim_width d * decimal_value hs = dim_height d * decimal_value ws
    \<and> dim_width d * dim_height d \<le> max_pixels (image_settings p)
    \<and> dimensions_validate d = Inr ()"
proof -
  from assms obtain ws hs w h where s: "split_once '':'' ratio = Some (ws, hs)"
    and w: "parse_ratio_part ws = Inr w" and h: "parse_ratio_part hs = Inr h"
    and d: "scaled_dimensions (max_pixels (image_settings p)) w h = Inr d"
    by (auto simp: dimensions_def split: if_splits option.splits sum.splits)
  have "w = decimal_value ws" "h = decimal_value hs"
    using w h by (auto simp: parse_ratio_part_def parse_u64_digits_def split: if_splits)
  with s scaled_dimensions_ok [OF d] show ?thesis by auto
qed

lemma check_ratios_ok:
  "check_ratios p seen rs = Inr u \<Longrightarrow> r \<in> set rs \<Longrightarrow> \<exists>d. dimensions p r = Inr d"
  by (induction p seen rs rule: check_ratios.induct) (auto split: if_splits sum.splits)

lemma check_ratios_distinct:
  "check_ratios p seen rs = Inr u \<Longrightarrow> distinct rs \<and> set rs \<inter> set seen = {}"
  by (induction p seen rs rule: check_ratios.induct) (auto split: if_splits sum.splits)

lemma policy_validate_ok:
  "policy_validate k p = Inr u \<Longrightarrow>
     \<not> settings_rejected (image_settings p) \<and> check_ratios p [] (aspect_ratios (image_settings p)) = Inr ()"
  by (auto simp: policy_validate_def split: if_splits)

text \<open>C21. A runtime policy that validates always yields usable image sizes: every aspect ratio it
  lists, its default among them, has dimensions; they are multiples of 32 between 256 and 8192,
  have exactly the ratio asked for, and stay within the policy's pixel budget and the
  service-wide one. No ratio is listed twice.\<close>

theorem validated_policy_dimensions:
  assumes "policy_validate k p = Inr ()"
  shows "default_aspect_ratio (image_settings p) \<in> set (aspect_ratios (image_settings p))
    \<and> distinct (aspect_ratios (image_settings p))
    \<and> (\<forall>ratio \<in> set (aspect_ratios (image_settings p)). \<exists>d ws hs.
        dimensions p ratio = Inr d \<and> split_once '':'' ratio = Some (ws, hs)
      \<and> dim_width d * decimal_value hs = dim_height d * decimal_value ws
      \<and> 32 dvd dim_width d \<and> 32 dvd dim_height d
      \<and> dim_width d \<in> {256..8192} \<and> dim_height d \<in> {256..8192}
      \<and> dim_width d * dim_height d \<le> max_pixels (image_settings p)
      \<and> max_pixels (image_settings p) \<le> MAX_GENERATED_IMAGE_PIXELS)"
proof -
  note ok = policy_validate_ok [OF assms]
  have "\<exists>d ws hs. dimensions p ratio = Inr d \<and> split_once '':'' ratio = Some (ws, hs)
      \<and> dim_width d * decimal_value hs = dim_height d * decimal_value ws
      \<and> 32 dvd dim_width d \<and> 32 dvd dim_height d
      \<and> dim_width d \<in> {256..8192} \<and> dim_height d \<in> {256..8192}
      \<and> dim_width d * dim_height d \<le> max_pixels (image_settings p)
      \<and> max_pixels (image_settings p) \<le> MAX_GENERATED_IMAGE_PIXELS"
    if "ratio \<in> set (aspect_ratios (image_settings p))" for ratio
  proof -
    from ok that obtain d where d: "dimensions p ratio = Inr d"
      using check_ratios_ok by blast
    with dimensions_ok [OF d] ok show ?thesis
      by (auto simp: dimensions_validate_def settings_rejected_def split: if_splits)
  qed
  moreover have "distinct (aspect_ratios (image_settings p))"
    using check_ratios_distinct ok by blast
  ultimately show ?thesis
    using ok by (simp add: settings_rejected_def)
qed

text \<open>The sizes of the default policy.\<close>

lemma default_part: "parse_ratio_part ''1'' = Inr 1" "parse_ratio_part ''2'' = Inr 2"
  "parse_ratio_part ''3'' = Inr 3" "parse_ratio_part ''4'' = Inr 4" "parse_ratio_part ''9'' = Inr 9"
  "parse_ratio_part ''16'' = Inr 16" "parse_ratio_part ''21'' = Inr 21"
  by (simp_all add: parse_ratio_part_def parse_u64_digits_def starts_with_def is_ascii_digit_def in_range_def
      byte_def decimal_value_def digit_value_def usize_max_def)

lemma default_scaled:
  "scaled_dimensions 2359296 1 1 = Inr \<lparr>dim_width = 1536, dim_height = 1536\<rparr>"
  "scaled_dimensions 2359296 2 3 = Inr \<lparr>dim_width = 1216, dim_height = 1824\<rparr>"
  "scaled_dimensions 2359296 3 2 = Inr \<lparr>dim_width = 1824, dim_height = 1216\<rparr>"
  "scaled_dimensions 2359296 3 4 = Inr \<lparr>dim_width = 1248, dim_height = 1664\<rparr>"
  "scaled_dimensions 2359296 4 3 = Inr \<lparr>dim_width = 1664, dim_height = 1248\<rparr>"
  "scaled_dimensions 2359296 9 16 = Inr \<lparr>dim_width = 1152, dim_height = 2048\<rparr>"
  "scaled_dimensions 2359296 16 9 = Inr \<lparr>dim_width = 2048, dim_height = 1152\<rparr>"
  "scaled_dimensions 2359296 1 2 = Inr \<lparr>dim_width = 1056, dim_height = 2112\<rparr>"
  "scaled_dimensions 2359296 2 1 = Inr \<lparr>dim_width = 2112, dim_height = 1056\<rparr>"
  "scaled_dimensions 2359296 9 21 = Inr \<lparr>dim_width = 960, dim_height = 2240\<rparr>"
  "scaled_dimensions 2359296 21 9 = Inr \<lparr>dim_width = 2240, dim_height = 960\<rparr>"
  by (simp_all add: scaled_dimensions_def gcd_loop.simps isqrt.simps Let_def u32_max_def
      dimensions_validate_def attachment_limits)

lemma default_settings_accepted: "\<not> settings_rejected (image_settings default_policy)"
  by (simp add: settings_rejected_def default_policy_def attachment_limits f64_in_def)

lemma default_ratios_accepted:
  "check_ratios default_policy [] (aspect_ratios (image_settings default_policy)) = Inr ()"
  by (simp add: default_policy_def dimensions_def default_part default_scaled attachment_limits
      del: One_nat_def)

lemma default_models_accepted:
  "check_models [] (uncensored_models (image_settings default_policy)) = Inr ()"
  by (simp add: default_policy_def is_ascii_alphanumeric_def is_ascii_digit_def
      is_ascii_uppercase_def is_ascii_lowercase_def in_range_def byte_def)

lemma default_lora_accepted:
  "\<exists>l. lora (image_settings default_policy) = Some l \<and> \<not> lora_rejected l"
  by (simp add: default_policy_def lora_rejected_def ends_with_def strip_suffix_def
      is_ascii_alphanumeric_def is_ascii_digit_def is_ascii_hexdigit_def
      is_ascii_uppercase_def is_ascii_lowercase_def in_range_def byte_def f64_in_def)
    (rule exI [of _ "rev ''uncensored''"], simp)

lemma default_policy_accepted:
  "json_to_vec k (JObject []) = Some v \<Longrightarrow> length v \<le> 8192 \<Longrightarrow> policy_validate k default_policy = Inr ()"
  using default_settings_accepted default_ratios_accepted default_models_accepted default_lora_accepted
  by (auto simp: policy_validate_def header_rejected_def and_then_def) (simp_all add: default_policy_def)

theorem validated_policy_dimensions_witness:
  "\<exists>d. dimensions default_policy ''2:3'' = Inr d \<and> dim_width d * dim_height d \<le> MAX_GENERATED_IMAGE_PIXELS"
proof -
  have "policy_validate identity_codec default_policy = Inr ()"
    by (rule default_policy_accepted [of _ "[]"]) (simp_all add: identity_codec_def)
  from validated_policy_dimensions [OF this] show ?thesis
    by (fastforce simp: default_policy_def)
qed

text \<open>The built-in runtime policy passes its own validation.\<close>

theorem default_policy_valid:
  assumes "json_to_vec k (JObject []) = Some v" and "length v \<le> 8192"
  shows "policy_validate k default_policy = Inr ()"
  by (rule default_policy_accepted [OF assms])

theorem default_policy_valid_witness: "policy_validate identity_codec default_policy = Inr ()"
  by (rule default_policy_valid [of _ "[]"]) (simp_all add: identity_codec_def)

end
