(* ===== verification/Secure_Errors.thy ===== *)
theory Secure_Errors
  imports Inference_Types
begin

text \<open>
  The typed failures of the encrypted client, \<open>crates/axiom-secure-client/src/error.rs\<close>, and the
  mapping of remote failures to them: \<open>error_for_status\<close> (\<open>catalog.rs\<close>), \<open>stream_failure\<close> and
  \<open>error_for_status_body\<close> (\<open>relay/client.rs\<close>). The JSON decoder of the error body is a
  parameter that returns the public detail, if there is one.
\<close>

datatype secure_error_code =
    Code_Configuration | Code_Authentication | Code_InsufficientCredit | Code_RateLimited
  | Code_TrialCapacity | Code_ModelUnavailable | Code_CapabilityMismatch
  | Code_AttestationUnavailable | Code_AttestationRejected | Code_OutdatedTee
  | Code_AttestationExpired | Code_AttestationKeyChanged | Code_ProtocolUnsupported
  | Code_SessionNotAccepted | Code_ReceiptUnavailable | Code_InvalidRequest | Code_InvalidResponse
  | Code_Cancelled | Code_Transient | Code_StreamTimeout | Code_ResponseTooLarge
  | Code_ProviderDisconnected

primrec code_as_str :: "secure_error_code \<Rightarrow> string" where
  "code_as_str Code_Configuration = ''CONFIGURATION_ERROR''"
| "code_as_str Code_Authentication = ''AUTHENTICATION_FAILED''"
| "code_as_str Code_InsufficientCredit = ''INSUFFICIENT_CREDIT''"
| "code_as_str Code_RateLimited = ''RATE_LIMITED''"
| "code_as_str Code_TrialCapacity = ''TRIAL_CAPACITY''"
| "code_as_str Code_ModelUnavailable = ''MODEL_UNAVAILABLE''"
| "code_as_str Code_CapabilityMismatch = ''CAPABILITY_MISMATCH''"
| "code_as_str Code_AttestationUnavailable = ''ATTESTATION_UNAVAILABLE''"
| "code_as_str Code_AttestationRejected = ''ATTESTATION_REJECTED''"
| "code_as_str Code_OutdatedTee = ''PROVIDER_TDX_OUT_OF_DATE''"
| "code_as_str Code_AttestationExpired = ''ATTESTATION_EXPIRED''"
| "code_as_str Code_AttestationKeyChanged = ''ATTESTATION_KEY_CHANGED''"
| "code_as_str Code_ProtocolUnsupported = ''PROTOCOL_UNSUPPORTED''"
| "code_as_str Code_SessionNotAccepted = ''SESSION_NOT_ACCEPTED''"
| "code_as_str Code_ReceiptUnavailable = ''RECEIPT_UNAVAILABLE''"
| "code_as_str Code_InvalidRequest = ''INVALID_REQUEST''"
| "code_as_str Code_InvalidResponse = ''INVALID_RESPONSE''"
| "code_as_str Code_Cancelled = ''CANCELLED''"
| "code_as_str Code_Transient = ''TRANSIENT_FAILURE''"
| "code_as_str Code_StreamTimeout = ''STREAM_TIMEOUT''"
| "code_as_str Code_ResponseTooLarge = ''RESPONSE_TOO_LARGE''"
| "code_as_str Code_ProviderDisconnected = ''PROVIDER_DISCONNECTED''"

record secure_error =
  se_kind :: provider_failure
  se_code :: secure_error_code
  se_detail :: string
  se_retryable :: bool
  se_retry_at :: "int option"

definition INSUFFICIENT_CREDIT_MESSAGE :: string where
  "INSUFFICIENT_CREDIT_MESSAGE = ''Insufficient balance. Top up your Axiom balance to continue.''"

definition balance_detail :: "provider_failure \<Rightarrow> string \<Rightarrow> string" where
  "balance_detail kind detail =
     (if kind = Fail_InsufficientCredit then INSUFFICIENT_CREDIT_MESSAGE else detail)"

primrec default_code :: "provider_failure \<Rightarrow> secure_error_code" where
  "default_code Fail_Configuration = Code_Configuration"
| "default_code Fail_LocalAuthentication = Code_Authentication"
| "default_code Fail_Authentication = Code_Authentication"
| "default_code Fail_InsufficientCredit = Code_InsufficientCredit"
| "default_code Fail_RateLimited = Code_RateLimited"
| "default_code Fail_ModelUnavailable = Code_ModelUnavailable"
| "default_code Fail_CapabilityMismatch = Code_CapabilityMismatch"
| "default_code Fail_AttestationUnavailable = Code_AttestationUnavailable"
| "default_code Fail_SessionEstablishment = Code_AttestationUnavailable"
| "default_code Fail_AttestationRejected = Code_AttestationRejected"
| "default_code Fail_Encryption = Code_InvalidRequest"
| "default_code Fail_InvalidRequest = Code_InvalidRequest"
| "default_code Fail_Decryption = Code_InvalidResponse"
| "default_code Fail_InvalidResponse = Code_InvalidResponse"
| "default_code Fail_Transient = Code_Transient"
| "default_code Fail_Cancelled = Code_Cancelled"

definition default_retryable :: "provider_failure \<Rightarrow> bool" where
  "default_retryable kind \<longleftrightarrow>
     kind \<in> {Fail_RateLimited, Fail_AttestationUnavailable, Fail_SessionEstablishment, Fail_Transient}"

definition secure_error_new :: "provider_failure \<Rightarrow> string \<Rightarrow> secure_error" where
  "secure_error_new kind detail =
     \<lparr>se_kind = kind, se_code = default_code kind, se_detail = balance_detail kind detail,
      se_retryable = default_retryable kind, se_retry_at = None\<rparr>"

definition with_code ::
  "provider_failure \<Rightarrow> secure_error_code \<Rightarrow> string \<Rightarrow> bool \<Rightarrow> secure_error" where
  "with_code kind code detail retryable =
     \<lparr>se_kind = kind, se_code = code, se_detail = balance_detail kind detail,
      se_retryable = retryable, se_retry_at = None\<rparr>"

definition with_retry_at :: "secure_error \<Rightarrow> int option \<Rightarrow> secure_error" where
  "with_retry_at e t = e\<lparr>se_retry_at := t\<rparr>"

definition requires_reattest_and_reencrypt :: "secure_error \<Rightarrow> bool" where
  "requires_reattest_and_reencrypt e \<longleftrightarrow> se_code e = Code_AttestationKeyChanged"

definition err_configuration :: "string \<Rightarrow> secure_error" where
  "err_configuration = secure_error_new Fail_Configuration"

definition err_catalog :: "string \<Rightarrow> secure_error" where
  "err_catalog = secure_error_new Fail_InvalidResponse"

definition err_capability :: "string \<Rightarrow> secure_error" where
  "err_capability = secure_error_new Fail_CapabilityMismatch"

definition err_cancelled :: secure_error where
  "err_cancelled = secure_error_new Fail_Cancelled ''operation cancelled''"

definition err_attestation :: "string \<Rightarrow> secure_error" where
  "err_attestation = secure_error_new Fail_AttestationRejected"

definition err_session :: "string \<Rightarrow> secure_error" where
  "err_session = secure_error_new Fail_SessionEstablishment"

lemmas secure_error_defs = secure_error_new_def with_code_def with_retry_at_def balance_detail_def
  err_configuration_def err_catalog_def err_capability_def err_cancelled_def err_attestation_def
  err_session_def

section \<open>Remote failures\<close>

definition error_for_status :: "nat \<Rightarrow> secure_error" where
  "error_for_status status =
     (if status \<in> {401, 403}
      then secure_error_new Fail_Authentication ''Axiom authentication failed''
      else if status = 402
      then secure_error_new Fail_InsufficientCredit INSUFFICIENT_CREDIT_MESSAGE
      else if status = 404
      then secure_error_new Fail_ModelUnavailable ''selected model is unavailable''
      else if status \<in> {408, 425} \<or> 500 \<le> status \<and> status \<le> 504
      then secure_error_new Fail_Transient ''Axiom service is temporarily unavailable''
      else if status = 429
      then secure_error_new Fail_RateLimited ''Axiom is rate limited. Wait before trying again.''
      else if status \<in> {400, 409, 415, 422}
      then secure_error_new Fail_InvalidRequest ''Axiom rejected the request contract''
      else secure_error_new Fail_InvalidResponse ''Axiom returned an unexpected status'')"

definition stream_failure :: "string option \<Rightarrow> secure_error" where
  "stream_failure code =
     (if code \<in> {Some ''insufficient_credit'', Some ''INSUFFICIENT_CREDIT''}
      then secure_error_new Fail_InsufficientCredit INSUFFICIENT_CREDIT_MESSAGE
      else (let (c, detail) =
          (if code = Some ''ATTESTATION_KEY_CHANGED''
           then (Code_AttestationKeyChanged, ''The worker changed before inference. Verify a new session.'')
           else if code = Some ''response_too_large''
           then (Code_ResponseTooLarge, ''The model response exceeded the response size budget.'')
           else if code = Some ''provider_timeout''
           then (Code_StreamTimeout, ''The provider stopped responding. Please retry.'')
           else if code = Some ''provider_disconnected''
           then (Code_ProviderDisconnected, ''The provider connection was interrupted.'')
           else (Code_Transient, ''The provider could not finish this response. Please retry.''))
        in with_code Fail_Transient c detail True))"

record public_error_detail =
  ped_code :: "string option"
  ped_retry_at :: "int option"

definition error_for_code :: "nat \<Rightarrow> string \<Rightarrow> int option \<Rightarrow> secure_error" where
  "error_for_code status code retry_at =
     (if code = ''concurrent_stream_limit'' \<and> status = 429
      then secure_error_new Fail_RateLimited
        ''Too many requests are already active for this account. Wait for a reply or stop a running request, then try again.''
      else if code = ''trial_capacity'' \<and> status = 503
      then with_retry_at (with_code Fail_RateLimited Code_TrialCapacity
        ''Free trials are currently at capacity. Please try again later.'' True) retry_at
      else if code = ''ATTESTATION_KEY_CHANGED''
      then with_code Fail_AttestationRejected Code_AttestationKeyChanged
        ''provider attestation key changed before inference'' True
      else if code = ''ATTESTATION_EXPIRED''
      then with_code Fail_AttestationUnavailable Code_AttestationExpired
        ''provider attestation lease expired'' True
      else if code \<in> {''ATTESTATION_UNAVAILABLE'', ''PROVIDER_ATTESTATION_UNAVAILABLE''}
      then with_code Fail_AttestationUnavailable Code_AttestationUnavailable
        ''provider attestation is temporarily unavailable'' True
      else if code = ''PROVIDER_TDX_OUT_OF_DATE''
      then with_code Fail_AttestationRejected Code_OutdatedTee
        (''The provider'' @ [CHR 0x27] @ ''s Intel TDX environment is OutOfDate and requires security updates.'') False
      else if code \<in> {''PROVIDER_TDX_REJECTED'', ''PROVIDER_GPU_ATTESTATION_REJECTED'',
          ''PROVIDER_TLS_BINDING_REJECTED'', ''ATTESTATION_REJECTED'', ''PROVIDER_ATTESTATION_REJECTED''}
      then err_attestation
        (''The provider'' @ [CHR 0x27] @ ''s security evidence failed verification. See verification diagnostics.'')
      else if code = ''PROTOCOL_UNSUPPORTED''
      then with_code Fail_CapabilityMismatch Code_ProtocolUnsupported
        ''provider protocol is not supported'' False
      else if code = ''SESSION_NOT_ACCEPTED''
      then with_code Fail_SessionEstablishment Code_SessionNotAccepted
        ''provider worker session was not accepted'' True
      else if code = ''RECEIPT_UNAVAILABLE''
      then with_code Fail_InvalidResponse Code_ReceiptUnavailable
        ''provider response receipt is unavailable'' True
      else error_for_status status)"

definition error_for_status_body ::
  "(string \<Rightarrow> public_error_detail option) \<Rightarrow> nat \<Rightarrow> string \<Rightarrow> secure_error" where
  "error_for_status_body decode status body =
     (case decode body of
        None \<Rightarrow> error_for_status status
      | Some detail \<Rightarrow>
          (case ped_code detail of
             None \<Rightarrow> error_for_status status
           | Some code \<Rightarrow> error_for_code status code (ped_retry_at detail)))"

section \<open>Properties\<close>

lemma code_as_str_inj: "code_as_str a = code_as_str b \<Longrightarrow> a = b"
  by (cases a; cases b) simp_all

text \<open>The kinds under which a request may be repeated.\<close>

lemma error_for_status_retryable:
  "se_retryable (error_for_status status) \<longleftrightarrow>
     status \<in> {408, 425, 429} \<or> 500 \<le> status \<and> status \<le> 504"
  by (auto simp: error_for_status_def secure_error_defs default_retryable_def)

definition local_messages :: "string list" where
  "local_messages =
    [''Axiom authentication failed'',
     ''selected model is unavailable'',
     ''Axiom service is temporarily unavailable'',
     ''Axiom is rate limited. Wait before trying again.'',
     ''Axiom rejected the request contract'',
     ''Axiom returned an unexpected status'',
     ''Too many requests are already active for this account. Wait for a reply or stop a running request, then try again.'',
     ''Free trials are currently at capacity. Please try again later.'',
     ''provider attestation key changed before inference'',
     ''provider attestation lease expired'',
     ''provider attestation is temporarily unavailable'',
     ''provider protocol is not supported'',
     ''provider worker session was not accepted'',
     ''provider response receipt is unavailable'',
     INSUFFICIENT_CREDIT_MESSAGE,
     ''The provider'' @ [CHR 0x27] @ ''s Intel TDX environment is OutOfDate and requires security updates.'',
     ''The provider'' @ [CHR 0x27] @ ''s security evidence failed verification. See verification diagnostics.'']"

lemma error_for_status_local:
  "se_detail (error_for_status status) \<in> set local_messages"
  "se_kind (error_for_status status) \<noteq> Fail_AttestationRejected"
  "se_retry_at (error_for_status status) = None"
  by (simp_all add: error_for_status_def secure_error_defs local_messages_def)

text \<open>The shapes of \<open>error_for_code\<close>, so that a property of its result is a property of its builders.\<close>

lemma if_both: "P a \<Longrightarrow> P c \<Longrightarrow> P (if b then a else c)"
  by simp

lemma error_for_code_shapes:
  assumes "P (error_for_status status)"
    and "\<And>k d. d \<in> set local_messages \<Longrightarrow> k \<noteq> Fail_AttestationRejected \<Longrightarrow> P (secure_error_new k d)"
    and "\<And>d. d \<in> set local_messages \<Longrightarrow> P (err_attestation d)"
    and "\<And>k c d r. d \<in> set local_messages \<Longrightarrow> k \<noteq> Fail_AttestationRejected \<Longrightarrow> P (with_code k c d r)"
    and "\<And>d. d \<in> set local_messages \<Longrightarrow>
      P (with_code Fail_AttestationRejected Code_AttestationKeyChanged d True)"
    and "\<And>d. d \<in> set local_messages \<Longrightarrow> P (with_code Fail_AttestationRejected Code_OutdatedTee d False)"
    and "\<And>d. d \<in> set local_messages \<Longrightarrow>
      P (with_retry_at (with_code Fail_RateLimited Code_TrialCapacity d True) retry_at)"
  shows "P (error_for_code status code retry_at)"
  unfolding error_for_code_def
  by (intro if_both [where P = P] assms) (simp_all add: local_messages_def)

lemma balance_detail_local: "d \<in> set local_messages \<Longrightarrow> balance_detail k d \<in> set local_messages"
  by (simp add: balance_detail_def) (simp add: local_messages_def)

lemmas secure_error_builders = secure_error_new_def with_code_def with_retry_at_def err_attestation_def

lemma error_for_code_local:
  "se_detail (error_for_code status code retry_at) \<in> set local_messages"
  by (rule error_for_code_shapes [where P = "\<lambda>e. se_detail e \<in> set local_messages"])
    (simp_all add: error_for_status_local secure_error_builders balance_detail_local)

lemma error_for_code_final:
  "se_kind (error_for_code status code retry_at) = Fail_AttestationRejected \<Longrightarrow>
     se_retryable (error_for_code status code retry_at) \<longleftrightarrow>
     requires_reattest_and_reencrypt (error_for_code status code retry_at)"
  by (rule error_for_code_shapes [where P = "\<lambda>e. se_kind e = Fail_AttestationRejected \<longrightarrow>
        (se_retryable e \<longleftrightarrow> requires_reattest_and_reencrypt e)", THEN mp])
    (simp_all add: error_for_status_local secure_error_builders requires_reattest_and_reencrypt_def
      default_retryable_def)

lemma error_for_code_retry_at:
  "se_retry_at (error_for_code status code retry_at) \<noteq> None \<Longrightarrow>
     se_code (error_for_code status code retry_at) = Code_TrialCapacity"
  by (rule error_for_code_shapes [where P = "\<lambda>e. se_retry_at e \<noteq> None \<longrightarrow> se_code e = Code_TrialCapacity", THEN mp])
    (simp_all add: error_for_status_local secure_error_builders)

lemma error_for_status_body_cases:
  "error_for_status_body decode status body = error_for_status status
   \<or> (\<exists>code retry_at. error_for_status_body decode status body = error_for_code status code retry_at)"
  unfolding error_for_status_body_def by (auto split: option.splits)

text \<open>C25. A rejected attestation is final: whatever status and body the relay answers with, a failure
  classified as rejected evidence may be retried only when the evidence changed key (which
  requires a fresh attestation and encryption); the failure text is one of a fixed list of local
  messages and never text of the remote side; and a retry time is kept only for a trial at
  capacity.\<close>

theorem rejected_attestation_final:
  "(se_kind (error_for_status_body decode status body) = Fail_AttestationRejected \<longrightarrow>
      (se_retryable (error_for_status_body decode status body) \<longleftrightarrow>
       requires_reattest_and_reencrypt (error_for_status_body decode status body)))
   \<and> se_detail (error_for_status_body decode status body) \<in> set local_messages
   \<and> (se_retry_at (error_for_status_body decode status body) \<noteq> None \<longrightarrow>
       se_code (error_for_status_body decode status body) = Code_TrialCapacity)"
  using error_for_status_body_cases [of decode status body] error_for_status_local [of status]
    error_for_code_local error_for_code_final error_for_code_retry_at
  by (elim disjE exE) simp_all

theorem rejected_attestation_final_witness:
  "\<not> se_retryable (error_for_status_body (\<lambda>s. Some \<lparr>ped_code = Some s, ped_retry_at = None\<rparr>) 409
     ''PROVIDER_TDX_OUT_OF_DATE'')"
  using rejected_attestation_final [of "\<lambda>s. Some \<lparr>ped_code = Some s, ped_retry_at = None\<rparr>" 409
      "''PROVIDER_TDX_OUT_OF_DATE''"]
  by (simp add: error_for_status_body_def error_for_code_def secure_error_defs
      requires_reattest_and_reencrypt_def)

end
