(* ===== verification/Relay_Stream.thy ===== *)
theory Relay_Stream
  imports Secure_Errors "HOL-Library.Char_ord" "HOL-Library.List_Lexorder"
begin

text \<open>
  The encrypted relay stream, \<open>crates/axiom-secure-client/src/relay/\<close>: the payloads of
  \<open>dto.rs\<close>, the server-sent-event decoder of \<open>sse.rs\<close> and the stream deadline of \<open>deadline.rs\<close>.
  The JSON decoders of the payloads are third-party code and the fields of the parameter
  \<open>relay_codec\<close>; a JSON object is its entry list in key order, as \<open>serde_json::Map\<close> keeps it.
\<close>

section \<open>Payloads\<close>

definition MAX_CIPHERTEXT_HEX_CHARS :: nat where
  "MAX_CIPHERTEXT_HEX_CHARS = 40 * 1024 * 1024 + 1024"

definition MIN_CIPHERTEXT_HEX_CHARS :: nat where
  "MIN_CIPHERTEXT_HEX_CHARS = 144"

type_synonym ciphertext = string

definition ciphertext_new :: "string \<Rightarrow> secure_error + ciphertext" where
  "ciphertext_new value =
     (if length value < MIN_CIPHERTEXT_HEX_CHARS \<or> MAX_CIPHERTEXT_HEX_CHARS < length value
         \<or> \<not> 2 dvd length value \<or> \<not> list_all is_ascii_hexdigit value
      then Inl (secure_error_new Fail_InvalidResponse ''relay ciphertext is invalid'')
      else Inr value)"

record relay_usage =
  us_prompt_tokens :: "nat option"
  us_completion_tokens :: "nat option"
  us_total_tokens :: "nat option"
  us_cached_prompt_tokens :: "nat option"

record encrypted_function_call_delta =
  efd_name :: "ciphertext option"
  efd_arguments :: "ciphertext option"

record encrypted_tool_call_delta =
  etd_index :: nat
  etd_id :: "string option"
  etd_kind :: "string option"
  etd_function :: "encrypted_function_call_delta option"

record created_payload =
  cp_run_id :: string
  cp_inference_encryption :: string

record delta_payload =
  dp_run_id :: string
  dp_encrypted_delta :: "ciphertext option"
  dp_encrypted_reasoning_delta :: "ciphertext option"
  dp_encrypted_refusal_delta :: "ciphertext option"
  dp_encrypted_tool_calls :: "encrypted_tool_call_delta list"
  dp_sequence :: nat
  dp_response_id :: "string option"
  dp_content_field :: "string option"
  dp_reasoning_field :: "string option"
  dp_refusal_field :: "string option"

record completed_payload =
  mp_run_id :: string
  mp_usage :: relay_usage
  mp_finish_reason :: string
  mp_proof :: "json option"

record run_payload =
  rp_run_id :: string

record cancelled_payload =
  xp_run_id :: string
  xp_reason :: "string option"

record failed_payload =
  fp_run_id :: string
  fp_error :: string
  fp_code :: "string option"

datatype relay_event =
    RunCreated created_payload
  | Accounting request_usage
  | Finalizing run_payload
  | Delta delta_payload
  | MessageCompleted completed_payload
  | RunCompleted run_payload
  | Run_Cancelled cancelled_payload
  | Run_Failed failed_payload

text \<open>The \<open>Part\<close> of a receipt that is sent in chunks.\<close>

record proof_part =
  part_run_id :: string
  part_index :: nat
  part_data :: string

record relay_codec =
  de_created :: "string \<Rightarrow> created_payload option"
  de_accounting :: "string \<Rightarrow> request_usage option"
  de_delta :: "string \<Rightarrow> delta_payload option"
  de_completed :: "string \<Rightarrow> completed_payload option"
  de_run :: "string \<Rightarrow> run_payload option"
  de_cancelled :: "string \<Rightarrow> cancelled_payload option"
  de_failed :: "string \<Rightarrow> failed_payload option"
  de_part :: "string \<Rightarrow> proof_part option"

section \<open>The event decoder\<close>

record sse_decoder =
  sd_event_limit :: nat
  sd_stream_limit :: nat
  sd_total_bytes :: nat
  sd_event_bytes :: nat
  sd_line :: string
  sd_event_name :: "string option"
  sd_data :: "string list"
  sd_proof_run_id :: "string option"
  sd_proof_parts :: nat
  sd_proof_body :: string

definition sse_new :: "nat \<Rightarrow> nat \<Rightarrow> sse_decoder" where
  "sse_new event_limit stream_limit =
     \<lparr>sd_event_limit = event_limit, sd_stream_limit = stream_limit, sd_total_bytes = 0,
      sd_event_bytes = 0, sd_line = [], sd_event_name = None, sd_data = [],
      sd_proof_run_id = None, sd_proof_parts = 0, sd_proof_body = []\<rparr>"

definition too_large :: secure_error where
  "too_large = with_code Fail_InvalidResponse Code_ResponseTooLarge
     ''Response exceeded the allowed size.'' False"

definition sse_invalid :: "string \<Rightarrow> secure_error" where
  "sse_invalid = secure_error_new Fail_InvalidResponse"

definition schema_error :: secure_error where
  "schema_error = sse_invalid ''relay SSE event schema is invalid''"

definition decode_with :: "('a \<Rightarrow> relay_event) \<Rightarrow> 'a option \<Rightarrow> secure_error + relay_event option" where
  "decode_with variant r =
     (case r of None \<Rightarrow> Inl schema_error | Some payload \<Rightarrow> Inr (Some (variant payload)))"

definition parse_event :: "relay_codec \<Rightarrow> string \<Rightarrow> string \<Rightarrow> secure_error + relay_event option" where
  "parse_event rc name data =
     (if name = ''run.created'' then decode_with RunCreated (de_created rc data)
      else if name = ''run.accounting'' then decode_with Accounting (de_accounting rc data)
      else if name = ''message.encrypted_delta'' then decode_with Delta (de_delta rc data)
      else if name = ''message.encrypted_completed''
      then decode_with MessageCompleted (de_completed rc data)
      else if name = ''run.completed'' then decode_with RunCompleted (de_run rc data)
      else if name = ''run.finalizing'' then decode_with Finalizing (de_run rc data)
      else if name = ''run.cancelled'' then decode_with Run_Cancelled (de_cancelled rc data)
      else if name = ''run.failed'' then decode_with Run_Failed (de_failed rc data)
      else Inr None)"

definition MAX_PROOF_BODY :: nat where
  "MAX_PROOF_BODY = (32 * 1024 * 1024 div 3 + 1) * 4"

definition part_rejected :: "sse_decoder \<Rightarrow> proof_part \<Rightarrow> bool" where
  "part_rejected d part \<longleftrightarrow>
     part_run_id part = [] \<or> 256 < length (part_run_id part)
   \<or> part_index part \<noteq> sd_proof_parts d
   \<or> part_data part = [] \<or> 256 * 1024 < length (part_data part)
   \<or> MAX_PROOF_BODY < saturating_add (length (sd_proof_body d)) (length (part_data part))
   \<or> (case sd_proof_run_id d of None \<Rightarrow> False | Some i \<Rightarrow> i \<noteq> part_run_id part)"

definition accept_part ::
  "relay_codec \<Rightarrow> sse_decoder \<Rightarrow> string \<Rightarrow> (sse_decoder, secure_error, relay_event list) outcome" where
  "accept_part rc d data =
     (case de_part rc data of
        None \<Rightarrow> (d, Inl (sse_invalid ''invalid receipt chunk''))
      | Some part \<Rightarrow>
          if part_rejected d part
          then (d, Inl (sse_invalid ''receipt chunk sequence or size is invalid''))
          else (d\<lparr>sd_proof_run_id := Some (part_run_id part),
                  sd_proof_parts := u64_incr (sd_proof_parts d),
                  sd_proof_body := sd_proof_body d @ part_data part\<rparr>, Inr []))"

text \<open>The receipt of a completed message: the chunk count is removed from the proof, and the
  collected body put in its place.\<close>

definition obj_remove :: "string \<Rightarrow> (string \<times> json) list \<Rightarrow> (string \<times> json) list" where
  "obj_remove k entries = filter (\<lambda>(k', _). k' \<noteq> k) entries"

definition attach_proof ::
  "sse_decoder \<Rightarrow> completed_payload \<Rightarrow> (sse_decoder, secure_error, completed_payload) outcome" where
  "attach_proof d payload =
     (case mp_proof payload of
        Some (JObject entries) \<Rightarrow>
          (let count = map_of entries ''response_body_chunk_count'';
               rest = obj_remove ''response_body_chunk_count'' entries in
           if 0 < sd_proof_parts d \<or> count \<noteq> None then
             (if Option.bind count as_u64 \<noteq> Some (sd_proof_parts d) \<or> sd_proof_parts d = 0
                 \<or> sd_proof_run_id d \<noteq> Some (mp_run_id payload)
                 \<or> map_of rest ''response_body_base64'' \<noteq> None
              then (d, Inl (sse_invalid ''incomplete or duplicated receipt chunks''))
              else (d\<lparr>sd_proof_body := [], sd_proof_parts := 0, sd_proof_run_id := None\<rparr>,
                    Inr (payload\<lparr>mp_proof := Some (JObject
                      (bt_insert ''response_body_base64'' (JString (sd_proof_body d)) rest))\<rparr>)))
           else (d, Inr (payload\<lparr>mp_proof := Some (JObject rest)\<rparr>)))
      | _ \<Rightarrow>
          if 0 < sd_proof_parts d
          then (d, Inl (sse_invalid ''receipt chunks have no terminal proof''))
          else (d, Inr payload))"

definition accept_event ::
  "relay_codec \<Rightarrow> sse_decoder \<Rightarrow> string \<Rightarrow> string \<Rightarrow>
     (sse_decoder, secure_error, relay_event list) outcome" where
  "accept_event rc d name data =
     (if name = ''message.proof_chunk'' then accept_part rc d data
      else (case parse_event rc name data of
          Inl e \<Rightarrow> (d, Inl e)
        | Inr None \<Rightarrow> (d, Inr [])
        | Inr (Some (MessageCompleted payload)) \<Rightarrow>
            (case attach_proof d payload of
               (d', Inl e) \<Rightarrow> (d', Inl e)
             | (d', Inr payload') \<Rightarrow> (d', Inr [MessageCompleted payload']))
        | Inr (Some ev) \<Rightarrow> (d, Inr [ev])))"

definition accept_field ::
  "sse_decoder \<Rightarrow> string \<Rightarrow> (sse_decoder, secure_error, relay_event list) outcome" where
  "accept_field d line =
     (let (field, raw) = (case split_once '':'' line of Some p \<Rightarrow> p | None \<Rightarrow> (line, []));
          v = (case strip_prefix '' '' raw of Some r \<Rightarrow> r | None \<Rightarrow> raw) in
      if field = ''event'' then
        (if sd_event_name d = None then (d\<lparr>sd_event_name := Some v\<rparr>, Inr [])
         else (d, Inl (sse_invalid ''relay SSE event name is duplicated'')))
      else if field = ''data'' then (d\<lparr>sd_data := sd_data d @ [v]\<rparr>, Inr [])
      else (d, Inr []))"

definition accept_line ::
  "relay_codec \<Rightarrow> sse_decoder \<Rightarrow> string \<Rightarrow> (sse_decoder, secure_error, relay_event list) outcome" where
  "accept_line rc d line =
     (if \<not> from_utf8_ok line then (d, Inl (sse_invalid ''relay SSE control data is not UTF-8''))
      else if line = [] then
        (if sd_event_name d = None \<and> sd_data d = [] then (d\<lparr>sd_event_bytes := 0\<rparr>, Inr [])
         else (let name = (case sd_event_name d of None \<Rightarrow> ''message'' | Some n \<Rightarrow> n);
                   d1 = d\<lparr>sd_event_name := None\<rparr> in
           if sd_data d = [] then (d1, Inl (sse_invalid ''relay SSE event data is missing''))
           else accept_event rc (d1\<lparr>sd_data := [], sd_event_bytes := 0\<rparr>) name
                  (str_join [char_of (10::nat)] (sd_data d))))
      else if starts_with line '':'' then (d, Inr [])
      else accept_field d line)"

text \<open>\<open>line.pop()\<close> on a trailing carriage return.\<close>

definition strip_cr :: "string \<Rightarrow> string" where
  "strip_cr line = (if line \<noteq> [] \<and> last line = char_of (13::nat) then butlast line else line)"

fun feed_bytes ::
  "relay_codec \<Rightarrow> sse_decoder \<Rightarrow> relay_event list \<Rightarrow> string \<Rightarrow>
     (sse_decoder, secure_error, relay_event list) outcome" where
  "feed_bytes rc d events [] = (d, Inr events)"
| "feed_bytes rc d events (b # bytes) =
     (let d1 = d\<lparr>sd_line := sd_line d @ [b]\<rparr> in
      if sd_event_limit d < saturating_add (sd_event_bytes d1) (length (sd_line d1))
      then (d1, Inl too_large)
      else if b = char_of (10::nat) then
        (let line = strip_cr (sd_line d) in
         case accept_line rc
                (d1\<lparr>sd_line := [], sd_event_bytes := saturating_add (sd_event_bytes d) (length line + 1)\<rparr>)
                line of
           (d2, Inl e) \<Rightarrow> (d2, Inl e)
         | (d2, Inr evs) \<Rightarrow> feed_bytes rc d2 (events @ evs) bytes)
      else feed_bytes rc d1 events bytes)"

definition feed ::
  "relay_codec \<Rightarrow> sse_decoder \<Rightarrow> string \<Rightarrow> (sse_decoder, secure_error, relay_event list) outcome" where
  "feed rc d bytes =
     (case checked_add (sd_total_bytes d) (length bytes) of
        None \<Rightarrow> (d, Inl too_large)
      | Some n \<Rightarrow>
          (let d1 = d\<lparr>sd_total_bytes := n\<rparr> in
           if sd_stream_limit d < n then (d1, Inl too_large) else feed_bytes rc d1 [] bytes))"

definition sse_finish :: "sse_decoder \<Rightarrow> secure_error + unit" where
  "sse_finish d =
     (if sd_line d = [] \<and> sd_event_name d = None \<and> sd_data d = [] \<and> sd_event_bytes d = 0
         \<and> sd_proof_parts d = 0
      then Inr () else Inl (sse_invalid ''relay SSE stream ended inside an event''))"

section \<open>The stream deadline\<close>

datatype deadline_stage = Stage_First | Stage_Progress | Stage_Receipt

text \<open>Instants are seconds on the monotonic clock; \<open>now\<close> is the reading the method takes.\<close>

record stream_deadline =
  dl_deadline :: nat
  dl_stage :: deadline_stage
  dl_finalizing :: bool

definition deadline_new :: "nat \<Rightarrow> stream_deadline" where
  "deadline_new now = \<lparr>dl_deadline = now + 300, dl_stage = Stage_First, dl_finalizing = False\<rparr>"

definition deadline_observe :: "nat \<Rightarrow> stream_deadline \<Rightarrow> relay_event \<Rightarrow> stream_deadline" where
  "deadline_observe now d ev =
     (if dl_finalizing d then d
      else (case ev of
          Delta _ \<Rightarrow> d\<lparr>dl_deadline := now + 90, dl_stage := Stage_Progress\<rparr>
        | Finalizing _ \<Rightarrow> \<lparr>dl_deadline = now + 60, dl_stage = Stage_Receipt, dl_finalizing = True\<rparr>
        | MessageCompleted _ \<Rightarrow>
            \<lparr>dl_deadline = now + 60, dl_stage = Stage_Receipt, dl_finalizing = True\<rparr>
        | _ \<Rightarrow> d))"

definition deadline_error :: "stream_deadline \<Rightarrow> secure_error" where
  "deadline_error d = with_code Fail_Transient Code_StreamTimeout
     (case dl_stage d of
        Stage_First \<Rightarrow> ''Timed out waiting for the model to start responding.''
      | Stage_Receipt \<Rightarrow> ''Timed out waiting for the final response receipt.''
      | Stage_Progress \<Rightarrow> ''The provider stopped responding.'') True"

section \<open>Chunking\<close>

abbreviation set_total :: "nat \<Rightarrow> sse_decoder \<Rightarrow> sse_decoder" where
  "set_total n \<equiv> sd_total_bytes_update (\<lambda>_. n)"

lemma accept_event_total:
  "accept_event rc (set_total n d) name data = apfst (set_total n) (accept_event rc d name data)"
  by (auto simp: accept_event_def accept_part_def part_rejected_def attach_proof_def Let_def
      split: option.splits sum.splits relay_event.splits json.splits prod.splits if_splits)

lemma set_total_commute:
  "(set_total n d)\<lparr>sd_line := l\<rparr> = set_total n (d\<lparr>sd_line := l\<rparr>)"
  "(set_total n d)\<lparr>sd_event_bytes := m\<rparr> = set_total n (d\<lparr>sd_event_bytes := m\<rparr>)"
  "(set_total n d)\<lparr>sd_event_name := x\<rparr> = set_total n (d\<lparr>sd_event_name := x\<rparr>)"
  "(set_total n d)\<lparr>sd_data := ds\<rparr> = set_total n (d\<lparr>sd_data := ds\<rparr>)"
  by (cases d; simp)+

lemma accept_line_total:
  "accept_line rc (set_total n d) line = apfst (set_total n) (accept_line rc d line)"
  by (auto simp: accept_line_def accept_field_def Let_def set_total_commute accept_event_total
      split: option.splits prod.splits)

lemma feed_bytes_total:
  "feed_bytes rc (set_total n d) evs bytes = apfst (set_total n) (feed_bytes rc d evs bytes)"
proof (induction bytes arbitrary: d evs)
  case (Cons b bytes)
  let ?l = "strip_cr (sd_line d)"
  let ?d = "d\<lparr>sd_line := [], sd_event_bytes := saturating_add (sd_event_bytes d) (length ?l + 1)\<rparr>"
  obtain d2 r where "accept_line rc ?d ?l = (d2, r)" by fastforce
  moreover have "accept_line rc (set_total n ?d) ?l = (set_total n d2, r)"
    using calculation by (simp only: accept_line_total apfst_conv)
  ultimately show ?case
    using Cons [of "d\<lparr>sd_line := sd_line d @ [b]\<rparr>" evs] Cons [of d2]
    by (cases r) (auto simp: Let_def set_total_commute)
qed simp

lemma feed_bytes_keeps_total: "feed_bytes rc d evs bytes = (d', r) \<Longrightarrow> sd_total_bytes d' = sd_total_bytes d"
  using feed_bytes_total [of rc "sd_total_bytes d" d evs bytes]
  by (cases d; cases d') (simp add: prod_eq_iff)

definition same_frame :: "sse_decoder \<Rightarrow> sse_decoder \<Rightarrow> bool" where
  "same_frame d d' \<longleftrightarrow> sd_stream_limit d' = sd_stream_limit d \<and> sd_event_limit d' = sd_event_limit d
     \<and> sd_line d' = sd_line d"

lemma accept_part_frame: "same_frame d (fst (accept_part rc d data))"
  by (simp add: same_frame_def accept_part_def split: option.split)

lemma attach_proof_frame: "same_frame d (fst (attach_proof d payload))"
  by (simp add: same_frame_def attach_proof_def Let_def split: option.split json.split)

lemma accept_event_frame: "same_frame d (fst (accept_event rc d name data))"
  using accept_part_frame [of d rc data] attach_proof_frame [of d]
  by (auto simp: accept_event_def same_frame_def prod_eq_iff
      split: sum.splits option.splits relay_event.splits prod.splits)

lemma accept_field_frame: "same_frame d (fst (accept_field d line))"
  by (simp add: same_frame_def accept_field_def Let_def split: option.split prod.split)

lemma accept_line_frame: "same_frame d (fst (accept_line rc d line))"
  using accept_event_frame [of "d\<lparr>sd_event_name := None, sd_data := [], sd_event_bytes := 0\<rparr>" rc]
    accept_field_frame [of d line]
  by (simp add: accept_line_def same_frame_def Let_def)

lemma feed_bytes_keeps_limits:
  "feed_bytes rc d evs bytes = (d', r) \<Longrightarrow>
     sd_stream_limit d' = sd_stream_limit d \<and> sd_event_limit d' = sd_event_limit d"
proof (induction bytes arbitrary: d evs)
  case (Cons b bytes)
  let ?l = "strip_cr (sd_line d)"
  let ?d = "d\<lparr>sd_line := [], sd_event_bytes := saturating_add (sd_event_bytes d) (length ?l + 1)\<rparr>"
  obtain d2 x where "accept_line rc ?d ?l = (d2, x)" by fastforce
  with accept_line_frame [of ?d rc ?l] Cons.prems Cons.IH show ?case
    by (cases x) (fastforce simp: Let_def same_frame_def split: if_splits)+
qed simp

lemma feed_bytes_append:
  "feed_bytes rc d evs (xs @ ys) =
     (case feed_bytes rc d evs xs of
        (d1, Inl e) \<Rightarrow> (d1, Inl e) | (d1, Inr es) \<Rightarrow> feed_bytes rc d1 es ys)"
  by (induction xs arbitrary: d evs) (auto simp: Let_def split: prod.splits sum.splits)

lemma feed_bytes_events:
  "feed_bytes rc d evs bytes =
     (case feed_bytes rc d [] bytes of
        (d1, Inl e) \<Rightarrow> (d1, Inl e) | (d1, Inr es) \<Rightarrow> (d1, Inr (evs @ es)))"
proof (induction bytes arbitrary: d evs)
  case (Cons b bytes)
  let ?l = "strip_cr (sd_line d)"
  let ?d = "d\<lparr>sd_line := [], sd_event_bytes := saturating_add (sd_event_bytes d) (length ?l + 1)\<rparr>"
  obtain d2 r where line: "accept_line rc ?d ?l = (d2, r)" by fastforce
  show ?case
  proof (cases r)
    case (Inl e)
    with line Cons [of "d\<lparr>sd_line := sd_line d @ [b]\<rparr>" evs] show ?thesis by (simp add: Let_def)
  next
    case (Inr x)
    with line Cons [of "d\<lparr>sd_line := sd_line d @ [b]\<rparr>" evs] Cons [of d2 "evs @ x"] Cons [of d2 x]
    show ?thesis by (auto simp: Let_def split: prod.splits sum.splits)
  qed
qed simp

lemma feed_ok_iff:
  "feed rc d bytes = (d', Inr es) \<longleftrightarrow>
     sd_total_bytes d + length bytes \<le> min usize_max (sd_stream_limit d)
   \<and> feed_bytes rc (set_total (sd_total_bytes d + length bytes) d) [] bytes = (d', Inr es)"
  by (auto simp: feed_def checked_add_def Let_def)

interpretation sse: chunked_decoder "feed rc" for rc
proof
  fix d d2 :: sse_decoder and a b :: string and es
  let ?n = "sd_total_bytes d + length a"
  show "feed rc d (a @ b) = (d2, Inr es) \<longleftrightarrow>
    (\<exists>d1 es1 es2. feed rc d a = (d1, Inr es1) \<and> feed rc d1 b = (d2, Inr es2) \<and> es = es1 @ es2)"
    (is "?lhs \<longleftrightarrow> ?rhs")
  proof (cases "feed_bytes rc (set_total ?n d) [] a")
    case (Pair d1 r)
    have total: "sd_total_bytes d1 = ?n" and limit: "sd_stream_limit d1 = sd_stream_limit d"
      using feed_bytes_keeps_total [OF Pair] feed_bytes_keeps_limits [OF Pair] by simp_all
    have whole: "feed_bytes rc (set_total (?n + length b) d) [] a = (set_total (?n + length b) d1, r)"
      using feed_bytes_total [of rc "?n + length b" "set_total ?n d" "[]" a] Pair by simp
    show ?thesis
    proof (cases r)
      case (Inl e)
      with Pair whole show ?thesis by (auto simp: feed_ok_iff feed_bytes_append add.assoc)
    next
      case (Inr es1)
      have "?lhs \<longleftrightarrow> ?n + length b \<le> min usize_max (sd_stream_limit d)
          \<and> feed_bytes rc (set_total (?n + length b) d1) es1 b = (d2, Inr es)"
        using whole Inr by (simp add: feed_ok_iff feed_bytes_append add.assoc)
      also have "\<dots> \<longleftrightarrow> ?n + length b \<le> min usize_max (sd_stream_limit d)
          \<and> (\<exists>es2. feed_bytes rc (set_total (?n + length b) d1) [] b = (d2, Inr es2) \<and> es = es1 @ es2)"
        by (subst feed_bytes_events) (auto split: prod.splits sum.splits)
      also have "\<dots> \<longleftrightarrow> ?rhs"
        using Pair Inr total limit by (auto simp: feed_ok_iff)
      finally show ?thesis .
    qed
  qed
qed

section \<open>Bounds\<close>

text \<open>What the decoder holds between two chunks: the current line and the data of the current event
  fit the event limit, and the collected receipt fits its limit.\<close>

definition proof_wf :: "sse_decoder \<Rightarrow> bool" where
  "proof_wf d \<longleftrightarrow> length (sd_proof_body d) \<le> MAX_PROOF_BODY \<and> sd_proof_parts d \<le> length (sd_proof_body d)
     \<and> (sd_proof_parts d = 0 \<longleftrightarrow> sd_proof_run_id d = None) \<and> (sd_proof_parts d = 0 \<longrightarrow> sd_proof_body d = [])"

definition data_bytes :: "sse_decoder \<Rightarrow> nat" where
  "data_bytes d = sum_list (map length (sd_data d))"

definition sse_wf :: "sse_decoder \<Rightarrow> bool" where
  "sse_wf d \<longleftrightarrow> proof_wf d \<and> data_bytes d \<le> sd_event_bytes d
     \<and> sd_event_bytes d + length (sd_line d) \<le> sd_event_limit d"

lemma MAX_PROOF_BODY_small: "MAX_PROOF_BODY < usize_max"
  by (simp add: MAX_PROOF_BODY_def usize_max_def)

lemma accept_part_wf:
  assumes "accept_part rc d data = (d', Inr es)" and "proof_wf d"
  shows "proof_wf d' \<and> sd_data d' = sd_data d \<and> sd_event_bytes d' = sd_event_bytes d"
proof -
  from assms(1) obtain part where ok: "\<not> part_rejected d part" and
    d': "d' = d\<lparr>sd_proof_run_id := Some (part_run_id part), sd_proof_parts := u64_incr (sd_proof_parts d),
        sd_proof_body := sd_proof_body d @ part_data part\<rparr>"
    by (auto simp: accept_part_def split: option.splits if_splits)
  have small: "length (sd_proof_body d) + length (part_data part) \<le> MAX_PROOF_BODY" "part_data part \<noteq> []"
    using ok MAX_PROOF_BODY_small by (auto simp: part_rejected_def saturating_add_def min_def split: if_splits)
  have "sd_proof_parts d < usize_max"
    using assms(2) MAX_PROOF_BODY_small by (auto simp: proof_wf_def)
  moreover have "1 \<le> length (part_data part)" using small(2) by (cases "part_data part") simp_all
  ultimately show ?thesis
    using assms(2) small(1) by (auto simp: d' proof_wf_def)
qed

lemma attach_proof_wf:
  "attach_proof d payload = (d', Inr payload') \<Longrightarrow> proof_wf d \<Longrightarrow>
     proof_wf d' \<and> sd_data d' = sd_data d \<and> sd_event_bytes d' = sd_event_bytes d"
  by (auto simp: attach_proof_def proof_wf_def Let_def split: option.splits json.splits if_splits)

lemma accept_event_wf:
  assumes "accept_event rc d name data = (d', Inr es)" and "proof_wf d"
  shows "proof_wf d' \<and> sd_data d' = sd_data d \<and> sd_event_bytes d' = sd_event_bytes d"
proof (cases "name = ''message.proof_chunk''")
  case True
  with assms accept_part_wf show ?thesis by (simp add: accept_event_def)
next
  case False
  with assms show ?thesis
    by (auto simp: accept_event_def dest: attach_proof_wf
        split: sum.splits option.splits relay_event.splits prod.splits)
qed

lemma split_once_length: "split_once p s = Some (a, b) \<Longrightarrow> length b \<le> length s"
proof (induction p s arbitrary: a b rule: split_once.induct)
  case (2 p c s)
  then show ?case
    by (auto split: option.splits) (metis Suc_le_length_iff le_add2 length_Cons length_append)
qed (auto split: if_splits)

lemma accept_field_wf:
  assumes "accept_field d line = (d', Inr es)"
  shows "sd_event_bytes d' = sd_event_bytes d \<and> data_bytes d' \<le> data_bytes d + length line
    \<and> (proof_wf d \<longrightarrow> proof_wf d')"
proof -
  obtain field raw where f: "(case split_once '':'' line of Some p \<Rightarrow> p | None \<Rightarrow> (line, [])) = (field, raw)"
    by fastforce
  have raw: "length raw \<le> length line"
    using f by (auto split: option.splits dest: split_once_length)
  define v where "v = (case strip_prefix '' '' raw of Some r \<Rightarrow> r | None \<Rightarrow> raw)"
  have "length v \<le> length raw" by (auto simp: v_def split: option.splits)
  with raw assms show ?thesis
    by (auto simp: accept_field_def f Let_def data_bytes_def proof_wf_def simp flip: v_def split: if_splits)
qed

lemma accept_line_wf:
  assumes "accept_line rc d line = (d', Inr es)" and "proof_wf d"
    and "data_bytes d + length line \<le> sd_event_bytes d" and "sd_event_bytes d \<le> sd_event_limit d"
    and "sd_line d = []"
  shows "sse_wf d'"
proof -
  have frame: "same_frame d d'" using accept_line_frame [of d rc line] assms(1) by simp
  have "proof_wf d' \<and> data_bytes d' \<le> sd_event_bytes d' \<and> sd_event_bytes d' \<le> sd_event_bytes d"
  proof (cases "line = []")
    case True
    let ?d = "d\<lparr>sd_event_name := None, sd_data := [], sd_event_bytes := 0\<rparr>"
    have "proof_wf ?d" using assms(2) by (simp add: proof_wf_def)
    with True assms(1,2) accept_event_wf [of rc ?d _ _ d' es] show ?thesis
      by (auto simp: accept_line_def Let_def data_bytes_def proof_wf_def split: if_splits)
  next
    case False
    with assms(1-3) accept_field_wf [of d line d' es] show ?thesis
      by (auto simp: accept_line_def split: if_splits)
  qed
  with frame assms(4,5) show ?thesis by (simp add: sse_wf_def same_frame_def)
qed

lemma strip_cr_length: "length (strip_cr l) \<le> length l"
  by (simp add: strip_cr_def)

lemma feed_bytes_wf:
  "feed_bytes rc d evs bytes = (d', Inr es) \<Longrightarrow> sse_wf d \<Longrightarrow> sd_event_limit d < usize_max \<Longrightarrow> sse_wf d'"
proof (induction bytes arbitrary: d evs)
  case (Cons b bytes)
  let ?l = "strip_cr (sd_line d)"
  let ?n = "saturating_add (sd_event_bytes d) (length ?l + 1)"
  let ?d = "d\<lparr>sd_line := [], sd_event_bytes := ?n\<rparr>"
  have fits: "sd_event_bytes d + length (sd_line d) + 1 \<le> sd_event_limit d"
    using Cons.prems by (auto simp: Let_def saturating_add_gt_iff split: if_splits)
  then have n: "?n = sd_event_bytes d + length ?l + 1" "?n \<le> sd_event_limit d"
    using strip_cr_length [of "sd_line d"] Cons.prems(3) by (auto simp: saturating_add_def)
  show ?case
  proof (cases "b = char_of (10::nat)")
    case True
    with Cons.prems(1) obtain d2 x where line: "accept_line rc ?d ?l = (d2, Inr x)"
      and rest: "feed_bytes rc d2 (evs @ x) bytes = (d', Inr es)"
      by (auto simp: Let_def split: if_splits prod.splits sum.splits)
    have "sse_wf d2"
      by (rule accept_line_wf [OF line]) (use Cons.prems(2) n in \<open>auto simp: sse_wf_def proof_wf_def data_bytes_def\<close>)
    moreover have "sd_event_limit d2 = sd_event_limit d"
      using accept_line_frame [of ?d rc ?l] line by (simp add: same_frame_def)
    ultimately show ?thesis using Cons.IH [OF rest] Cons.prems(3) by simp
  next
    case False
    let ?d1 = "d\<lparr>sd_line := sd_line d @ [b]\<rparr>"
    have "feed_bytes rc ?d1 evs bytes = (d', Inr es)"
      using Cons.prems(1) False by (auto simp: Let_def split: if_splits)
    moreover have "sse_wf ?d1"
      using Cons.prems(2) fits by (simp add: sse_wf_def proof_wf_def data_bytes_def)
    ultimately show ?thesis using Cons.IH [of ?d1] Cons.prems(3) by simp
  qed
qed simp

lemma feed_chunks_wf:
  assumes "feed_chunks (feed rc) d cs = (d', Inr es)" and "sse_wf d" and "sd_event_limit d < usize_max"
    and "sd_total_bytes d \<le> sd_stream_limit d"
  shows "sse_wf d' \<and> sd_event_limit d' = sd_event_limit d \<and> sd_total_bytes d' \<le> sd_stream_limit d
    \<and> sd_total_bytes d' = sd_total_bytes d + length (concat cs)"
proof (cases "cs = []")
  case False
  then have "feed rc d (concat cs) = (d', Inr es)"
    using assms(1) sse.feed_chunks_concat by blast
  then have total: "sd_total_bytes d + length (concat cs) \<le> sd_stream_limit d"
    and bytes: "feed_bytes rc (set_total (sd_total_bytes d + length (concat cs)) d) [] (concat cs) = (d', Inr es)"
    by (auto simp: feed_ok_iff)
  have "sse_wf (set_total (sd_total_bytes d + length (concat cs)) d)"
    using assms(2) by (simp add: sse_wf_def proof_wf_def data_bytes_def)
  with feed_bytes_wf [OF bytes] feed_bytes_keeps_total [OF bytes] feed_bytes_keeps_limits [OF bytes] total assms(3)
  show ?thesis by simp
qed (use assms in auto)

section \<open>Receipts\<close>

text \<open>Accepting the chunks of a receipt one after the other.\<close>

definition accept_parts :: "relay_codec \<Rightarrow> sse_decoder \<Rightarrow> string list \<Rightarrow> secure_error + sse_decoder" where
  "accept_parts rc = try_fold (\<lambda>d raw. case accept_part rc d raw of (d', Inl e) \<Rightarrow> Inl e | (d', Inr _) \<Rightarrow> Inr d')"

lemma accept_parts_run_id:
  "accept_parts rc d raws = Inr d' \<Longrightarrow> sd_proof_run_id d = Some i \<Longrightarrow> sd_proof_run_id d' = Some i"
proof (induction raws arbitrary: d)
  case (Cons raw raws)
  then obtain d1 es where "accept_part rc d raw = (d1, Inr es)" "accept_parts rc d1 raws = Inr d'"
    by (auto simp: accept_parts_def split: prod.splits sum.splits)
  with Cons show ?case
    by (auto simp: accept_part_def part_rejected_def split: option.splits if_splits)
qed (simp add: accept_parts_def)

lemma accept_parts_collects:
  assumes "accept_parts rc d raws = Inr d'" and "proof_wf d"
  shows "proof_wf d' \<and> (\<exists>parts. map (de_part rc) raws = map Some parts
    \<and> map part_index parts = [sd_proof_parts d..<sd_proof_parts d + length parts]
    \<and> sd_proof_parts d' = sd_proof_parts d + length parts
    \<and> sd_proof_body d' = sd_proof_body d @ concat (map part_data parts)
    \<and> (\<forall>part \<in> set parts. sd_proof_run_id d' = Some (part_run_id part)))"
  using assms
proof (induction raws arbitrary: d)
  case Nil
  then show ?case by (simp add: accept_parts_def)
next
  case (Cons raw raws)
  from Cons.prems(1) obtain d1 es where step: "accept_part rc d raw = (d1, Inr es)"
    and rest: "accept_parts rc d1 raws = Inr d'"
    by (auto simp: accept_parts_def split: prod.splits sum.splits)
  from step obtain part where part: "de_part rc raw = Some part" "part_index part = sd_proof_parts d"
    and d1: "sd_proof_run_id d1 = Some (part_run_id part)" "sd_proof_parts d1 = u64_incr (sd_proof_parts d)"
      "sd_proof_body d1 = sd_proof_body d @ part_data part"
    by (auto simp: accept_part_def part_rejected_def split: option.splits if_splits)
  have wf1: "proof_wf d1" using accept_part_wf [OF step Cons.prems(2)] by simp
  have incr: "sd_proof_parts d1 = Suc (sd_proof_parts d)"
    using Cons.prems(2) MAX_PROOF_BODY_small by (simp add: d1(2) proof_wf_def)
  from Cons.IH [OF rest wf1] obtain parts where wf': "proof_wf d'" and IH:
    "map (de_part rc) raws = map Some parts"
    "map part_index parts = [sd_proof_parts d1..<sd_proof_parts d1 + length parts]"
    "sd_proof_parts d' = sd_proof_parts d1 + length parts"
    "sd_proof_body d' = sd_proof_body d1 @ concat (map part_data parts)"
    "\<forall>part \<in> set parts. sd_proof_run_id d' = Some (part_run_id part)"
    by blast
  have same: "sd_proof_run_id d' = sd_proof_run_id d1"
    using accept_parts_run_id [OF rest d1(1)] d1(1) by simp
  show ?case
    using wf' IH part d1(1,3) incr same
    by (intro conjI exI [of _ "part # parts"]) (auto simp: upt_conv_Cons simp del: upt_Suc)
qed

lemma map_of_obj_remove: "map_of (obj_remove k m) = (map_of m)(k := None)"
  by (induction m) (auto simp: obj_remove_def fun_eq_iff)

section \<open>The history of a deadline\<close>

text \<open>The deadline after the events \<open>evs\<close>, each with the time it is observed at.\<close>

definition deadline_after :: "nat \<Rightarrow> (nat \<times> relay_event) list \<Rightarrow> stream_deadline" where
  "deadline_after start evs = fold (\<lambda>(now, ev) d. deadline_observe now d ev) evs (deadline_new start)"

fun is_delta :: "relay_event \<Rightarrow> bool" where
  "is_delta (Delta _) = True" | "is_delta _ = False"

fun is_final :: "relay_event \<Rightarrow> bool" where
  "is_final (Finalizing _) = True" | "is_final (MessageCompleted _) = True" | "is_final _ = False"

lemma deadline_observe_finalizing: "dl_finalizing d \<Longrightarrow> deadline_observe now d ev = d"
  by (simp add: deadline_observe_def)

lemma deadline_fold_finalizing:
  "dl_finalizing d \<Longrightarrow> fold (\<lambda>(now, ev) d. deadline_observe now d ev) evs d = d"
  by (induction evs) (auto simp: deadline_observe_finalizing)

lemma deadline_observe_cases:
  "\<not> dl_finalizing d \<Longrightarrow> deadline_observe now d ev =
     (if is_final ev then \<lparr>dl_deadline = now + 60, dl_stage = Stage_Receipt, dl_finalizing = True\<rparr>
      else if is_delta ev then d\<lparr>dl_deadline := now + 90, dl_stage := Stage_Progress\<rparr> else d)"
  by (cases ev) (simp_all add: deadline_observe_def)

lemma deadline_fold:
  "\<not> dl_finalizing d \<Longrightarrow>
   dl_deadline (fold (\<lambda>(now, ev) d. deadline_observe now d ev) evs d) =
     (case filter (\<lambda>e. is_final (snd e)) evs of
        (t, _) # _ \<Rightarrow> t + 60
      | [] \<Rightarrow> (case filter (\<lambda>e. is_delta (snd e)) evs of [] \<Rightarrow> dl_deadline d | ds \<Rightarrow> fst (last ds) + 90))"
proof (induction evs arbitrary: d)
  case (Cons e evs)
  obtain t ev where e: "e = (t, ev)" by fastforce
  let ?d = "deadline_observe t d ev"
  consider "is_final ev" | "\<not> is_final ev" by blast
  then show ?case
  proof cases
    case 1
    then have "dl_finalizing ?d" "dl_deadline ?d = t + 60"
      using Cons.prems by (simp_all add: deadline_observe_cases)
    then show ?thesis using 1 by (simp add: e deadline_fold_finalizing)
  next
    case 2
    then have "\<not> dl_finalizing ?d" "dl_deadline ?d = (if is_delta ev then t + 90 else dl_deadline d)"
      using Cons.prems by (simp_all add: deadline_observe_cases)
    then show ?thesis using Cons.IH [of ?d] 2 by (auto simp: e split: list.splits)
  qed
qed simp

section \<open>Properties\<close>

text \<open>C22. How the relay stream is cut into chunks makes no difference: a stream fed in any sequence of
  chunks decodes without error exactly when it does in one piece, to the same events in the same
  order, and leaves the same decoder.\<close>

theorem sse_chunking_invariant:
  "cs \<noteq> [] \<Longrightarrow> feed_chunks (feed rc) d cs = (d', Inr es) \<longleftrightarrow> feed rc d (concat cs) = (d', Inr es)"
  by (rule sse.feed_chunks_concat)

text \<open>C23. The decoder's memory is bounded by its limits: after any accepted chunks of a fresh stream
  the bytes seen fit the stream limit, the unfinished line and the data of the unfinished event
  together fit the event limit, and a receipt collected from chunks fits the receipt limit.\<close>

theorem sse_memory_bounded:
  assumes "feed_chunks (feed rc) (sse_new event_limit stream_limit) cs = (d, Inr es)"
    and "event_limit < usize_max"
  shows "length (concat cs) \<le> stream_limit
    \<and> sum_list (map length (sd_data d)) + length (sd_line d) \<le> event_limit
    \<and> length (sd_proof_body d) \<le> (32 * 1024 * 1024 div 3 + 1) * 4"
proof -
  have "sse_wf (sse_new event_limit stream_limit)"
    by (simp add: sse_wf_def proof_wf_def data_bytes_def sse_new_def)
  with feed_chunks_wf [OF assms(1)] assms(2) show ?thesis
    by (auto simp: sse_new_def sse_wf_def proof_wf_def data_bytes_def MAX_PROOF_BODY_def)
qed

text \<open>C24. A receipt sent in chunks is the chunks' data in order: when the chunks are accepted and
  a completed message then takes the receipt, the chunks were numbered from zero without a gap, all
  belong to the run of the message, and the receipt's body is their concatenation, with the chunk count
  removed.\<close>

theorem receipt_reassembled:
  assumes "accept_parts rc (sse_new event_limit stream_limit) raws = Inr d" and "raws \<noteq> []"
    and "attach_proof d payload = (d', Inr payload')"
  shows "\<exists>parts body. map (de_part rc) raws = map Some parts \<and> map part_index parts = [0..<length parts]
    \<and> (\<forall>p \<in> set parts. part_run_id p = mp_run_id payload)
    \<and> mp_proof payload' = Some (JObject body)
    \<and> map_of body ''response_body_base64'' = Some (JString (concat (map part_data parts)))
    \<and> map_of body ''response_body_chunk_count'' = None"
proof -
  have "proof_wf (sse_new event_limit stream_limit)" by (simp add: proof_wf_def sse_new_def)
  from accept_parts_collects [OF assms(1) this] obtain parts where parts:
    "map (de_part rc) raws = map Some parts" "map part_index parts = [0..<length parts]"
    "sd_proof_parts d = length parts" "sd_proof_body d = concat (map part_data parts)"
    "\<forall>part \<in> set parts. sd_proof_run_id d = Some (part_run_id part)"
    by (auto simp: sse_new_def)
  from parts(1) assms(2) have "parts \<noteq> []" by auto
  with assms(3) parts(3) obtain entries where
    "mp_proof payload' = Some (JObject (bt_insert ''response_body_base64'' (JString (sd_proof_body d))
       (obj_remove ''response_body_chunk_count'' entries)))"
    "sd_proof_run_id d = Some (mp_run_id payload)"
    by (auto simp: attach_proof_def Let_def split: option.splits json.splits if_splits)
  with parts show ?thesis by (intro exI conjI) (auto simp: map_of_obj_remove)
qed

text \<open>Only progress moves the deadline of a stream: it is one minute after the first event that
  finalizes the response, otherwise a minute and a half after the last delta, and five minutes after the
  start when there was neither, whatever other events arrive.\<close>

theorem deadline_follows_progress:
  "dl_deadline (deadline_after start evs) =
     (case filter (\<lambda>e. is_final (snd e)) evs of
        (t, _) # _ \<Rightarrow> t + 60
      | [] \<Rightarrow> (case filter (\<lambda>e. is_delta (snd e)) evs of [] \<Rightarrow> start + 300 | ds \<Rightarrow> fst (last ds) + 90))"
  using deadline_fold [of "deadline_new start" evs]
  by (simp add: deadline_after_def deadline_new_def split: list.split)

section \<open>Witnesses\<close>

text \<open>A codec that reads the payloads of a small stream: a run identifier on its own, and receipt
  chunks of one letter.\<close>

definition demo_relay_codec :: relay_codec where
  "demo_relay_codec = \<lparr>de_created = (\<lambda>_. None), de_accounting = (\<lambda>_. None), de_delta = (\<lambda>_. None),
     de_completed = (\<lambda>_. None), de_run = (\<lambda>s. Some \<lparr>rp_run_id = s\<rparr>), de_cancelled = (\<lambda>_. None),
     de_failed = (\<lambda>_. None),
     de_part = (\<lambda>s. if s = ''0'' then Some \<lparr>part_run_id = ''r1'', part_index = 0, part_data = ''QU''\<rparr>
                    else if s = ''1'' then Some \<lparr>part_run_id = ''r1'', part_index = 1, part_data = ''JD''\<rparr>
                    else None)\<rparr>"

lemma feed_bytes_line:
  assumes "char_of (10::nat) \<notin> set bs" and "sd_event_bytes d + length (sd_line d) + length bs < sd_event_limit d"
    and "sd_event_limit d \<le> usize_max"
  shows "feed_bytes rc d evs (bs @ char_of (10::nat) # rest) =
    (case accept_line rc (d\<lparr>sd_line := [], sd_event_bytes := sd_event_bytes d + length (strip_cr (sd_line d @ bs)) + 1\<rparr>)
            (strip_cr (sd_line d @ bs)) of
       (d2, Inl e) \<Rightarrow> (d2, Inl e) | (d2, Inr es) \<Rightarrow> feed_bytes rc d2 (evs @ es) rest)"
  using assms
proof (induction bs arbitrary: d)
  case Nil
  then show ?case
    using strip_cr_length [of "sd_line d"] by (simp add: Let_def saturating_add_def)
next
  case (Cons b bs)
  then have "b \<noteq> char_of (10::nat)" by auto
  with Cons show ?case using Cons.IH [of "d\<lparr>sd_line := sd_line d @ [b]\<rparr>"] by (simp add: Let_def saturating_add_def)
qed

text \<open>A decoder between two events reads the text of one event as that event.\<close>

abbreviation line_feed :: char where "line_feed \<equiv> char_of (10::nat)"

definition plain_line :: "string \<Rightarrow> bool" where
  "plain_line = list_all (\<lambda>c. byte c < 128 \<and> byte c \<noteq> 10 \<and> byte c \<noteq> 13)"

definition event_text :: "string \<Rightarrow> string \<Rightarrow> string" where
  "event_text name data = ''event: '' @ name @ line_feed # ''data: '' @ data @ line_feed # [line_feed]"

definition idle :: "sse_decoder \<Rightarrow> bool" where
  "idle d \<longleftrightarrow> sd_line d = [] \<and> sd_event_name d = None \<and> sd_data d = [] \<and> sd_event_bytes d = 0"

lemma plain_line_facts:
  assumes "plain_line s"
  shows "line_feed \<notin> set s" "strip_cr s = s" "from_utf8_ok s"
proof -
  have b: "byte line_feed = 10" "byte (char_of (13::nat)) = 13" by (simp_all add: byte_def)
  show "line_feed \<notin> set s" using assms b by (auto simp: plain_line_def list_all_iff)
  have "byte (last s) \<noteq> 13" if "s \<noteq> []"
    using assms last_in_set [OF that] by (auto simp: plain_line_def list_all_iff)
  then have "s = [] \<or> last s \<noteq> char_of (13::nat)" using b(2) by metis
  then show "strip_cr s = s" by (auto simp: strip_cr_def)
  have "utf8_chars s = Some (map (\<lambda>c. [c]) s)"
    using assms unfolding plain_line_def by (induction s) auto
  then show "from_utf8_ok s" by (simp add: from_utf8_ok_def)
qed

lemma plain_line_append [simp]: "plain_line (a @ b) \<longleftrightarrow> plain_line a \<and> plain_line b"
  by (simp add: plain_line_def)

lemma feed_bytes_event:
  assumes d: "idle d" and plain: "plain_line name" "plain_line data"
    and fits: "length name + length data + 15 < sd_event_limit d" "sd_event_limit d \<le> usize_max"
  shows "feed_bytes rc d evs (event_text name data @ rest) =
    (case accept_event rc d name data of
       (d2, Inl e) \<Rightarrow> (d2, Inl e) | (d2, Inr es) \<Rightarrow> feed_bytes rc d2 (evs @ es) rest)"
proof -
  let ?d1 = "d\<lparr>sd_line := [], sd_event_bytes := length (''event: '' @ name) + 1, sd_event_name := Some name\<rparr>"
  let ?d2 = "?d1\<lparr>sd_line := [], sd_event_bytes := length (''event: '' @ name) + 1 + length (''data: '' @ data) + 1,
    sd_data := [data]\<rparr>"
  have prefixes: "plain_line ''event: ''" "plain_line ''data: ''" by (simp_all add: plain_line_def byte_def)
  have plains: "plain_line (''event: '' @ name)" "plain_line (''data: '' @ data)"
    unfolding plain_line_append using prefixes plain by blast+
  note event = plain_line_facts [OF plains(1)] and data = plain_line_facts [OF plains(2)]
  have l1: "feed_bytes rc d evs ((''event: '' @ name) @ line_feed # r) = feed_bytes rc ?d1 evs r" for r
    using d fits prefixes plain event
    by (subst feed_bytes_line) (simp_all add: idle_def accept_line_def accept_field_def starts_with_def)
  have l2: "feed_bytes rc ?d1 evs ((''data: '' @ data) @ line_feed # r) = feed_bytes rc ?d2 evs r" for r
    using d fits prefixes plain data
    by (subst feed_bytes_line) (simp_all add: idle_def accept_line_def accept_field_def starts_with_def)
  have idle_again: "d\<lparr>sd_line := [], sd_event_name := None, sd_data := [], sd_event_bytes := 0\<rparr> = d"
    using d by (cases d) (simp add: idle_def)
  have l3: "feed_bytes rc ?d2 evs ([] @ line_feed # r) =
    (case accept_event rc d name data of
       (d2, Inl e) \<Rightarrow> (d2, Inl e) | (d2, Inr es) \<Rightarrow> feed_bytes rc d2 (evs @ es) r)" for r
    using d fits plain_line_facts(3) [of "[]"]
    by (subst feed_bytes_line) (simp_all add: idle_again idle_def accept_line_def strip_cr_def plain_line_def Let_def)
  show ?thesis using l1 [of "(''data: '' @ data) @ line_feed # [] @ line_feed # rest"] l2 [of "[] @ line_feed # rest"] l3 [of rest]
    by (simp add: event_text_def)
qed

lemma feed_event:
  assumes "idle d" "plain_line name" "plain_line data" "length name + length data + 15 < sd_event_limit d"
    "sd_event_limit d \<le> usize_max" "sd_total_bytes d + length (event_text name data) \<le> sd_stream_limit d"
    "sd_stream_limit d \<le> usize_max"
  shows "feed rc d (event_text name data) =
    accept_event rc (d\<lparr>sd_total_bytes := sd_total_bytes d + length (event_text name data)\<rparr>) name data"
proof -
  have "feed rc d (event_text name data) =
      feed_bytes rc (d\<lparr>sd_total_bytes := sd_total_bytes d + length (event_text name data)\<rparr>) [] (event_text name data @ [])"
    using assms(6,7) by (simp add: feed_def checked_add_def)
  also have "\<dots> = accept_event rc (d\<lparr>sd_total_bytes := sd_total_bytes d + length (event_text name data)\<rparr>) name data"
    using assms by (subst feed_bytes_event) (auto simp: idle_def split: prod.split sum.split)
  finally show ?thesis .
qed

definition demo_stream :: string where
  "demo_stream = event_text ''run.completed'' ''r1''"

lemma plain_demo: "plain_line ''run.completed''" "plain_line ''r1''"
  by (simp_all add: plain_line_def byte_def)

lemma demo_run_completed:
  "feed demo_relay_codec (sse_new 100 100) demo_stream =
     ((sse_new 100 100)\<lparr>sd_total_bytes := 31\<rparr>, Inr [RunCompleted \<lparr>rp_run_id = ''r1''\<rparr>])"
proof -
  have "length (event_text ''run.completed'' ''r1'') = 31" by (simp add: event_text_def)
  then show ?thesis
    unfolding demo_stream_def
    by (subst feed_event) (simp_all add: idle_def sse_new_def usize_max_def plain_demo accept_event_def
        parse_event_def decode_with_def demo_relay_codec_def)
qed

theorem sse_chunking_invariant_witness:
  "feed_chunks (feed demo_relay_codec) (sse_new 100 100)
     [take 15 demo_stream, drop 15 demo_stream] =
     ((sse_new 100 100)\<lparr>sd_total_bytes := 31\<rparr>, Inr [RunCompleted \<lparr>rp_run_id = ''r1''\<rparr>])"
  using demo_run_completed by (subst sse_chunking_invariant) simp_all

theorem receipt_reassembled_witness:
  "\<exists>d d' payload' body. accept_parts demo_relay_codec (sse_new 100 100) [''0'', ''1''] = Inr d
    \<and> attach_proof d \<lparr>mp_run_id = ''r1'', mp_usage = \<lparr>us_prompt_tokens = None, us_completion_tokens = None,
        us_total_tokens = None, us_cached_prompt_tokens = None\<rparr>, mp_finish_reason = ''stop'',
        mp_proof = Some (JObject [(''response_body_chunk_count'', JNumber (PosInt 2))])\<rparr> = (d', Inr payload')
    \<and> mp_proof payload' = Some (JObject body)
    \<and> map_of body ''response_body_base64'' = Some (JString ''QUJD'')"
proof -
  let ?payload = "\<lparr>mp_run_id = ''r1'', mp_usage = \<lparr>us_prompt_tokens = None, us_completion_tokens = None,
    us_total_tokens = None, us_cached_prompt_tokens = None\<rparr>, mp_finish_reason = ''stop'',
    mp_proof = Some (JObject [(''response_body_chunk_count'', JNumber (PosInt 2))])\<rparr>"
  define d where "d = (sse_new 100 100)\<lparr>sd_proof_run_id := Some ''r1'', sd_proof_parts := 2, sd_proof_body := ''QUJD''\<rparr>"
  have parts: "accept_parts demo_relay_codec (sse_new 100 100) [''0'', ''1''] = Inr d"
  proof -
    have one: "accept_part demo_relay_codec (sse_new 100 100) ''0'' =
      ((sse_new 100 100)\<lparr>sd_proof_run_id := Some ''r1'', sd_proof_parts := 1, sd_proof_body := ''QU''\<rparr>, Inr [])"
      by (simp add: accept_part_def part_rejected_def demo_relay_codec_def sse_new_def MAX_PROOF_BODY_def
          saturating_add_def usize_max_def)
    have two: "accept_part demo_relay_codec ((sse_new 100 100)\<lparr>sd_proof_run_id := Some ''r1'', sd_proof_parts := 1,
      sd_proof_body := ''QU''\<rparr>) ''1'' = (d, Inr [])"
      by (simp add: accept_part_def part_rejected_def demo_relay_codec_def sse_new_def MAX_PROOF_BODY_def
          saturating_add_def usize_max_def d_def)
    show ?thesis by (simp add: accept_parts_def one two [simplified])
  qed
  obtain d' payload' where a: "attach_proof d ?payload = (d', Inr payload')"
    by (simp add: attach_proof_def obj_remove_def as_u64_def d_def)
  from receipt_reassembled [OF parts _ a] obtain ps body where
    ps: "map (de_part demo_relay_codec) [''0'', ''1''] = map Some ps" and body: "mp_proof payload' = Some (JObject body)"
      "map_of body ''response_body_base64'' = Some (JString (concat (map part_data ps)))"
    by blast
  from ps have "concat (map part_data ps) = ''QUJD''"
    by (auto simp: demo_relay_codec_def map_eq_Cons_conv)
  with parts a body show ?thesis by auto
qed

theorem sse_memory_bounded_witness:
  "\<exists>d. feed_chunks (feed demo_relay_codec) (sse_new 100 100) [demo_stream] = (d, Inr [RunCompleted \<lparr>rp_run_id = ''r1''\<rparr>])
    \<and> sum_list (map length (sd_data d)) + length (sd_line d) \<le> 100"
  using sse_memory_bounded [of demo_relay_codec 100 100 "[demo_stream]"] demo_run_completed
  by (auto simp: usize_max_def)

end
