(* ===== verification/Near_Crypto.thy ===== *)
theory Near_Crypto
  imports Relay_Stream
begin

text \<open>
  The field encryption of the NEAR provider,
  \<open>crates/axiom-secure-client/src/providers/near/crypto.rs\<close>: key conversion, the wire format
  (ephemeral public key, nonce, ciphertext with tag) and its bounds. The primitives of the third-party
  crates (hex, X25519, HKDF, XChaCha20-Poly1305, SHA-512, Edwards decompression) are the fields of the
  parameter \<open>near_prims\<close>; random values are arguments. A byte array is a string of its length.
\<close>

unbundle bit_operations_syntax

section \<open>Primitives and constants\<close>

record near_prims =
  hex_encode :: "string \<Rightarrow> string"
  hex_decode :: "string \<Rightarrow> string option"
  x25519_public :: "string \<Rightarrow> string"
  diffie_hellman :: "string \<Rightarrow> string \<Rightarrow> string"
  hkdf_expand :: "string \<Rightarrow> string \<Rightarrow> string option"
  aead_encrypt :: "string \<Rightarrow> string \<Rightarrow> string \<Rightarrow> string option"
  aead_decrypt :: "string \<Rightarrow> string \<Rightarrow> string \<Rightarrow> string option"
  edwards_to_montgomery :: "string \<Rightarrow> string option"
  ed25519_public :: "string \<Rightarrow> string"
  sha512 :: "string \<Rightarrow> string"

definition HKDF_INFO :: string where "HKDF_INFO = ''ed25519_encryption''"

definition EPHEMERAL_PUBLIC_BYTES :: nat where "EPHEMERAL_PUBLIC_BYTES = 32"

definition NONCE_BYTES :: nat where "NONCE_BYTES = 24"

definition TAG_BYTES :: nat where "TAG_BYTES = 16"

definition WIRE_PREFIX_BYTES :: nat where
  "WIRE_PREFIX_BYTES = EPHEMERAL_PUBLIC_BYTES + NONCE_BYTES"

definition MINIMUM_WIRE_BYTES :: nat where
  "MINIMUM_WIRE_BYTES = WIRE_PREFIX_BYTES + TAG_BYTES"

definition MAXIMUM_WIRE_BYTES :: nat where
  "MAXIMUM_WIRE_BYTES = 20 * 1024 * 1024 + MINIMUM_WIRE_BYTES"

lemmas wire_sizes = EPHEMERAL_PUBLIC_BYTES_def NONCE_BYTES_def TAG_BYTES_def WIRE_PREFIX_BYTES_def
  MINIMUM_WIRE_BYTES_def MAXIMUM_WIRE_BYTES_def

definition crypto_error :: "string \<Rightarrow> secure_error" where
  "crypto_error = secure_error_new Fail_Encryption"

definition decryption_error :: "string \<Rightarrow> secure_error" where
  "decryption_error = secure_error_new Fail_Decryption"

section \<open>Keys\<close>

definition ed25519_public_to_x25519 :: "near_prims \<Rightarrow> string \<Rightarrow> secure_error + string" where
  "ed25519_public_to_x25519 p key =
     ok_or (crypto_error ''public key is not a valid Ed25519 point'') (edwards_to_montgomery p key)"

text \<open>The bit masks on the first and last byte of the secret, on eight-bit words.\<close>

definition mask_byte :: "(8 word \<Rightarrow> 8 word) \<Rightarrow> char \<Rightarrow> char" where
  "mask_byte f c = char_of (unat (f (word_of_nat (byte c))))"

definition clamp :: "string \<Rightarrow> string" where
  "clamp k = (let k1 = k[0 := mask_byte (\<lambda>w. w AND 0xf8) (k ! 0)];
                  k2 = k1[31 := mask_byte (\<lambda>w. w AND 0x7f) (k1 ! 31)] in
              k2[31 := mask_byte (\<lambda>w. w OR 0x40) (k2 ! 31)])"

definition ed25519_secret_to_x25519 :: "near_prims \<Rightarrow> string \<Rightarrow> secure_error + string" where
  "ed25519_secret_to_x25519 p secret =
     (if length secret \<noteq> 64 then Inl (crypto_error ''Ed25519 secret has an invalid length'')
      else Inr (clamp (take 32 (sha512 p (take 32 secret)))))"

definition derive_key :: "near_prims \<Rightarrow> string \<Rightarrow> secure_error + string" where
  "derive_key p shared = ok_or (crypto_error ''key derivation failed'') (hkdf_expand p shared HKDF_INFO)"

definition public_key_from_hex :: "near_prims \<Rightarrow> string \<Rightarrow> secure_error + string" where
  "public_key_from_hex p value =
     (if length (strip_0x value) \<noteq> 64 then Inl (crypto_error ''public key has an invalid length'')
      else rbind (ok_or (crypto_error ''public key is not valid hex'') (hex_decode p (strip_0x value)))
        (\<lambda>key. if length key \<noteq> 32 then Inl (crypto_error ''public key has an invalid length'')
               else rbind (ed25519_public_to_x25519 p key) (\<lambda>_. Inr key)))"

record client_identity =
  ci_public_key :: string
  ci_x25519_secret :: string

text \<open>\<open>generate\<close> with the random seed; \<open>expect\<close> cannot fail, as the expanded secret has 64 bytes.\<close>

definition identity_generate :: "near_prims \<Rightarrow> string \<Rightarrow> client_identity option" where
  "identity_generate p seed =
     (case ed25519_secret_to_x25519 p (seed @ ed25519_public p seed) of
        Inl _ \<Rightarrow> None
      | Inr secret \<Rightarrow> Some \<lparr>ci_public_key = ed25519_public p seed, ci_x25519_secret = secret\<rparr>)"

section \<open>Encryption\<close>

definition encrypt_hex :: "near_prims \<Rightarrow> string \<Rightarrow> string \<Rightarrow> string \<Rightarrow> string \<Rightarrow> secure_error + string" where
  "encrypt_hex p ephemeral nonce recipient plaintext =
     (if MAXIMUM_WIRE_BYTES - MINIMUM_WIRE_BYTES < length plaintext
      then Inl (crypto_error ''plaintext exceeds the protocol limit'')
      else rbind (ed25519_public_to_x25519 p recipient) (\<lambda>recipient_x25519.
        rbind (derive_key p (diffie_hellman p ephemeral recipient_x25519)) (\<lambda>key.
        rbind (ok_or (crypto_error ''payload encryption failed'') (aead_encrypt p key nonce plaintext))
          (\<lambda>ciphertext. Inr (hex_encode p (x25519_public p ephemeral @ nonce @ ciphertext))))))"

definition decrypt_hex :: "near_prims \<Rightarrow> string \<Rightarrow> string \<Rightarrow> secure_error + string" where
  "decrypt_hex p secret wire_hex =
     (if min (MAXIMUM_WIRE_BYTES * 2) usize_max < length wire_hex
      then Inl (decryption_error ''ciphertext exceeds the protocol limit'')
      else rbind (ok_or (decryption_error ''ciphertext is not valid hex'') (hex_decode p (strip_0x wire_hex)))
        (\<lambda>wire. if length wire < MINIMUM_WIRE_BYTES \<or> MAXIMUM_WIRE_BYTES < length wire
          then Inl (decryption_error ''ciphertext has an invalid length'')
          else (let ephemeral_public = take EPHEMERAL_PUBLIC_BYTES wire;
                    nonce = take (WIRE_PREFIX_BYTES - EPHEMERAL_PUBLIC_BYTES) (drop EPHEMERAL_PUBLIC_BYTES wire);
                    ciphertext = drop WIRE_PREFIX_BYTES wire in
             rbind (derive_key p (diffie_hellman p secret ephemeral_public)) (\<lambda>key.
               ok_or (decryption_error ''ciphertext authentication failed'')
                 (aead_decrypt p key nonce ciphertext)))))"

text \<open>\<open>encrypt\<close> and \<open>decrypt\<close> of \<open>near/inference.rs\<close>: the ciphertext as a checked hex string, the
  plaintext as UTF-8.\<close>

definition near_encrypt :: "near_prims \<Rightarrow> string \<Rightarrow> string \<Rightarrow> string \<Rightarrow> string \<Rightarrow> secure_error + ciphertext" where
  "near_encrypt p ephemeral nonce model_key bytes =
     rbind (encrypt_hex p ephemeral nonce model_key bytes) ciphertext_new"

definition near_decrypt :: "near_prims \<Rightarrow> client_identity \<Rightarrow> ciphertext \<Rightarrow> secure_error + string" where
  "near_decrypt p identity c =
     rbind (decrypt_hex p (ci_x25519_secret identity) c)
       (\<lambda>bytes. if from_utf8_ok bytes then Inr bytes
                else Inl (secure_error_new Fail_Decryption ''decrypted relay value is not UTF-8''))"

section \<open>What the primitives promise\<close>

text \<open>The documented behaviour of the crates: hexadecimal text decodes back and is lower-case
  hexadecimal of twice the length; the AEAD adds a tag of sixteen bytes and opens what it sealed; both
  sides of a Diffie-Hellman exchange agree; a converted public key belongs to the converted secret.\<close>

definition prims_laws :: "near_prims \<Rightarrow> bool" where
  "prims_laws p \<longleftrightarrow>
     (\<forall>b. hex_decode p (hex_encode p b) = Some b \<and> length (hex_encode p b) = 2 * length b
        \<and> list_all is_ascii_hexdigit (hex_encode p b))
   \<and> (\<forall>k n m. length k = 32 \<and> length n = NONCE_BYTES \<and> length m \<le> 20 * 1024 * 1024 \<longrightarrow>
        (\<exists>c. aead_encrypt p k n m = Some c \<and> length c = length m + TAG_BYTES \<and> aead_decrypt p k n c = Some m))
   \<and> (\<forall>a b. length a = 32 \<and> length b = 32 \<longrightarrow>
        diffie_hellman p a (x25519_public p b) = diffie_hellman p b (x25519_public p a))
   \<and> (\<forall>a. length a = 32 \<longrightarrow> length (x25519_public p a) = EPHEMERAL_PUBLIC_BYTES)
   \<and> (\<forall>s. \<exists>k. hkdf_expand p s HKDF_INFO = Some k \<and> length k = 32)
   \<and> (\<forall>seed. length seed = 32 \<longrightarrow> length (ed25519_public p seed) = 32 \<and> length (sha512 p seed) = 64
        \<and> edwards_to_montgomery p (ed25519_public p seed)
            = Some (x25519_public p (clamp (take 32 (sha512 p seed)))))"

section \<open>Lemmas\<close>

lemma hexdigit_plain: "is_ascii_hexdigit c \<Longrightarrow> byte c < 128 \<and> \<not> is_whitespace [c] \<and> c \<noteq> CHR ''x''"
  by (auto simp: is_ascii_hexdigit_def is_ascii_digit_def in_range_def is_whitespace_def Let_def byte_def)

lemma strip_0x_hex:
  assumes "list_all is_ascii_hexdigit s"
  shows "strip_0x s = s"
proof -
  have "str_trim s = s"
    using assms hexdigit_plain by (intro str_trim_plain) (auto simp: list_all_iff)
  moreover have "strip_prefix ''0x'' s = None"
    using assms hexdigit_plain [of "CHR ''x''"] by (auto simp: strip_prefix_None_iff)
  ultimately show ?thesis by (simp add: strip_0x_def)
qed

lemma byte_mask [simp]: "byte (mask_byte f c) = unat (f (word_of_nat (byte c)))"
proof -
  have "unat (f (word_of_nat (byte c))) < 2 ^ LENGTH(8)" by (rule unsigned_less)
  then show ?thesis by (simp add: mask_byte_def byte_def)
qed

lemma low_bits_cleared: "8 dvd unat (w AND 0xf8 :: 8 word)"
proof -
  have "take_bit 3 (w AND 0xf8 :: 8 word) = 0" by (simp add: take_bit_and)
  then have "take_bit 3 (unat (w AND 0xf8 :: 8 word)) = 0"
    by (metis unsigned_0 unsigned_take_bit_eq)
  then show ?thesis by (simp add: take_bit_eq_mod mod_0_imp_dvd)
qed

lemma high_bits_fixed:
  "64 \<le> unat ((w AND 0x7f) OR 0x40 :: 8 word)" "unat ((w AND 0x7f) OR 0x40 :: 8 word) < 128"
proof -
  let ?v = "(w AND 0x7f) OR 0x40 :: 8 word"
  have "?v = take_bit 7 w OR 0x40" by (simp add: take_bit_eq_mask mask_eq_exp_minus_1)
  then have "take_bit 7 ?v = ?v" by (simp add: take_bit_or)
  then have "take_bit 7 (unat ?v) = unat ?v" by (metis unsigned_take_bit_eq)
  then show "unat ?v < 128" using take_bit_nat_less_exp [of 7 "unat ?v"] by simp
  have "bit ?v 6" by (simp add: bit_simps)
  then have "bit (unat ?v) 6" by (simp add: bit_simps)
  then have "odd (unat ?v div 2 ^ 6)" by (simp add: bit_iff_odd)
  then show "64 \<le> unat ?v" by (cases "unat ?v < 64") auto
qed

lemma clamp_length [simp]: "length (clamp k) = length k"
  by (simp add: clamp_def Let_def)

lemma clamp_bytes:
  assumes "length k = 32"
  shows "8 dvd byte (clamp k ! 0)" "64 \<le> byte (clamp k ! 31)" "byte (clamp k ! 31) < 128"
proof -
  have last: "byte (clamp k ! 31) = unat ((word_of_nat (byte (k ! 31)) AND 0x7f) OR 0x40 :: 8 word)"
    using assms by (simp add: clamp_def Let_def)
  show "8 dvd byte (clamp k ! 0)"
    using assms by (simp add: clamp_def Let_def low_bits_cleared)
  show "64 \<le> byte (clamp k ! 31)" "byte (clamp k ! 31) < 128"
    unfolding last by (rule high_bits_fixed)+
qed

lemma identity_generate_ok:
  assumes "prims_laws p" and "length seed = 32"
  shows "identity_generate p seed =
    Some \<lparr>ci_public_key = ed25519_public p seed, ci_x25519_secret = clamp (take 32 (sha512 p seed))\<rparr>"
  using assms by (simp add: identity_generate_def ed25519_secret_to_x25519_def prims_laws_def)

lemma wire_split:
  assumes "length e = EPHEMERAL_PUBLIC_BYTES" and "length n = NONCE_BYTES"
  shows "take EPHEMERAL_PUBLIC_BYTES (e @ n @ c) = e"
    and "take (WIRE_PREFIX_BYTES - EPHEMERAL_PUBLIC_BYTES) (drop EPHEMERAL_PUBLIC_BYTES (e @ n @ c)) = n"
    and "drop WIRE_PREFIX_BYTES (e @ n @ c) = c"
  using assms by (simp_all add: WIRE_PREFIX_BYTES_def)

lemma decrypt_sealed:
  assumes laws: "prims_laws p" and sizes: "length nonce = 24" "length m \<le> 20 * 1024 * 1024"
    and eph: "length e = EPHEMERAL_PUBLIC_BYTES" and sealed: "length sealed = length m + TAG_BYTES"
      "aead_decrypt p key nonce sealed = Some m"
    and key: "hkdf_expand p (diffie_hellman p secret e) HKDF_INFO = Some key"
  shows "decrypt_hex p secret (hex_encode p (e @ nonce @ sealed)) = Inr m"
proof -
  define wire where "wire = e @ nonce @ sealed"
  have len: "length wire = 72 + length m"
    using eph sizes(1) sealed(1) by (simp add: wire_def wire_sizes)
  have hex: "hex_decode p (hex_encode p wire) = Some wire" "length (hex_encode p wire) = 2 * length wire"
    "list_all is_ascii_hexdigit (hex_encode p wire)"
    using laws by (simp_all add: prims_laws_def)
  note parts = wire_split [OF eph, of nonce sealed, folded wire_def, unfolded NONCE_BYTES_def, OF sizes(1)]
  have bounds: "\<not> (min (MAXIMUM_WIRE_BYTES * 2) usize_max < length (hex_encode p wire))"
    "\<not> (length wire < MINIMUM_WIRE_BYTES \<or> MAXIMUM_WIRE_BYTES < length wire)"
    using sizes(2) len hex(2) by (simp_all add: wire_sizes usize_max_def)
  show ?thesis
    unfolding wire_def [symmetric] decrypt_hex_def if_not_P [OF bounds(1)] strip_0x_hex [OF hex(3)] hex(1) ok_or_simps
      rbind_simps if_not_P [OF bounds(2)]
    using key sealed by (simp add: parts derive_key_def)
qed

section \<open>Properties\<close>

text \<open>The secret derived from an Ed25519 seed is a clamped X25519 scalar: thirty-two bytes whose
  value is a multiple of eight, with the highest bit clear and the next one set.\<close>

theorem secret_clamped:
  assumes "length secret = 64" and "length (sha512 p (take 32 secret)) = 64"
  shows "\<exists>k. ed25519_secret_to_x25519 p secret = Inr k \<and> length k = 32
    \<and> 8 dvd byte (k ! 0) \<and> 64 \<le> byte (k ! 31) \<and> byte (k ! 31) < 128"
  using assms clamp_bytes [of "take 32 (sha512 p (take 32 secret))"]
  by (simp add: ed25519_secret_to_x25519_def)

text \<open>C28. What is encrypted to a client identity is what it decrypts: every plaintext up to the
  protocol limit encrypts to a well-formed ciphertext that the relay format accepts, and the identity
  that owns the key decrypts it to the same bytes; text decrypts to the same text.\<close>

theorem near_encrypt_roundtrip:
  assumes laws: "prims_laws p"
    and sizes: "length seed = 32" "length ephemeral = 32" "length nonce = 24" "length m \<le> 20 * 1024 * 1024"
    and identity: "identity_generate p seed = Some identity"
  shows "\<exists>c. near_encrypt p ephemeral nonce (ci_public_key identity) m = Inr c
    \<and> 144 \<le> length c \<and> length c \<le> 40 * 1024 * 1024 + 1024
    \<and> decrypt_hex p (ci_x25519_secret identity) c = Inr m
    \<and> (from_utf8_ok m \<longrightarrow> near_decrypt p identity c = Inr m)"
proof -
  define secret where "secret = clamp (take 32 (sha512 p seed))"
  have id: "ci_public_key identity = ed25519_public p seed" "ci_x25519_secret identity = secret"
    using identity identity_generate_ok [OF laws sizes(1)] by (auto simp: secret_def)
  have secret: "length secret = 32" using laws sizes(1) by (simp add: secret_def prims_laws_def)
  have conv: "edwards_to_montgomery p (ed25519_public p seed) = Some (x25519_public p secret)"
    using laws sizes(1) by (simp add: prims_laws_def secret_def)
  have dh: "diffie_hellman p ephemeral (x25519_public p secret) = diffie_hellman p secret (x25519_public p ephemeral)"
    using laws sizes(2) secret by (simp add: prims_laws_def)
  from laws obtain key where key:
    "hkdf_expand p (diffie_hellman p secret (x25519_public p ephemeral)) HKDF_INFO = Some key" "length key = 32"
    unfolding prims_laws_def by blast
  from laws key(2) sizes(3,4) obtain sealed where sealed: "aead_encrypt p key nonce m = Some sealed"
    "length sealed = length m + TAG_BYTES" "aead_decrypt p key nonce sealed = Some m"
    unfolding prims_laws_def NONCE_BYTES_def by blast
  define wire where "wire = x25519_public p ephemeral @ nonce @ sealed"
  have eph: "length (x25519_public p ephemeral) = EPHEMERAL_PUBLIC_BYTES"
    using laws sizes(2) by (simp add: prims_laws_def)
  have len: "length wire = 72 + length m"
    using eph sizes(3) sealed(2) by (simp add: wire_def wire_sizes)
  have hex: "hex_decode p (hex_encode p wire) = Some wire" "length (hex_encode p wire) = 2 * length wire"
    "list_all is_ascii_hexdigit (hex_encode p wire)"
    using laws by (simp_all add: prims_laws_def)
  have enc: "encrypt_hex p ephemeral nonce (ci_public_key identity) m = Inr (hex_encode p wire)"
    using sizes(4) conv dh key sealed
    by (simp add: encrypt_hex_def ed25519_public_to_x25519_def derive_key_def id wire_sizes wire_def)
  have dec: "decrypt_hex p (ci_x25519_secret identity) (hex_encode p wire) = Inr m"
    unfolding wire_def id using laws sizes(3,4) eph sealed key by (intro decrypt_sealed)
  have c: "ciphertext_new (hex_encode p wire) = Inr (hex_encode p wire)"
    "144 \<le> length (hex_encode p wire)" "length (hex_encode p wire) \<le> 40 * 1024 * 1024 + 1024"
    using hex len sizes(4)
    by (simp_all add: ciphertext_new_def MIN_CIPHERTEXT_HEX_CHARS_def MAX_CIPHERTEXT_HEX_CHARS_def wire_sizes)
  show ?thesis
    using enc dec c by (intro exI [of _ "hex_encode p wire"]) (simp add: near_encrypt_def near_decrypt_def)
qed

section \<open>Witnesses\<close>

text \<open>Primitives that satisfy the laws: true hexadecimal text, and a cipher that appends an empty tag.\<close>

definition hex_digit :: "nat \<Rightarrow> char" where
  "hex_digit n = char_of (if n < 10 then 48 + n else 87 + n)"

definition hex_value :: "char \<Rightarrow> nat" where
  "hex_value c = (if byte c < 58 then byte c - 48 else byte c - 87)"

fun hex_pairs :: "string \<Rightarrow> string option" where
  "hex_pairs [] = Some []"
| "hex_pairs [c] = None"
| "hex_pairs (a # b # s) = map_option ((#) (char_of (hex_value a * 16 + hex_value b))) (hex_pairs s)"

definition demo_prims :: near_prims where
  "demo_prims = \<lparr>
     hex_encode = (\<lambda>s. concat (map (\<lambda>c. [hex_digit (byte c div 16), hex_digit (byte c mod 16)]) s)),
     hex_decode = hex_pairs,
     x25519_public = (\<lambda>s. s),
     diffie_hellman = (\<lambda>_ _. replicate 32 nul),
     hkdf_expand = (\<lambda>_ _. Some (replicate 32 nul)),
     aead_encrypt = (\<lambda>_ _ m. Some (m @ replicate 16 nul)),
     aead_decrypt = (\<lambda>_ _ c. Some (take (length c - 16) c)),
     edwards_to_montgomery = (\<lambda>k. Some (clamp k)),
     ed25519_public = (\<lambda>seed. seed),
     sha512 = (\<lambda>seed. seed @ seed)\<rparr>"

lemma byte_hex_digit: "n < 16 \<Longrightarrow> byte (hex_digit n) = (if n < 10 then 48 + n else 87 + n)"
  by (simp add: byte_def hex_digit_def)

lemma hex_pairs_encode:
  "hex_pairs (concat (map (\<lambda>c. [hex_digit (byte c div 16), hex_digit (byte c mod 16)]) s)) = Some s"
proof (induction s)
  case (Cons c s)
  have "byte c div 16 < 16" using byte_le [of c] by simp
  then have "hex_value (hex_digit (byte c div 16)) * 16 + hex_value (hex_digit (byte c mod 16)) = byte c"
    by (simp add: hex_value_def byte_hex_digit)
  with Cons show ?case by simp
qed simp

lemma demo_prims_laws: "prims_laws demo_prims"
proof -
  have "is_ascii_hexdigit (hex_digit n)" if "n < 16" for n
    using that by (auto simp: is_ascii_hexdigit_def is_ascii_digit_def in_range_def byte_hex_digit)
  moreover have "byte c div 16 < 16" for c using byte_le [of c] by simp
  ultimately have "list_all is_ascii_hexdigit (hex_encode demo_prims s) \<and> length (hex_encode demo_prims s) = 2 * length s" for s
    by (induction s) (simp_all add: demo_prims_def)
  then show ?thesis
    unfolding prims_laws_def by (simp add: demo_prims_def hex_pairs_encode wire_sizes)
qed

lemma demo_hash: "hex_encode demo_prims (replicate n nul) = replicate (n + n) (CHR ''0'')"
proof -
  have "hex_digit 0 = CHR ''0''" by code_simp
  then show ?thesis by (induction n) (simp_all add: demo_prims_def nul_def byte_def)
qed

lemma demo_decode: "hex_decode demo_prims (replicate (n + n) (CHR ''0'')) = Some (replicate n nul)"
  using hex_pairs_encode [of "replicate n nul"] unfolding demo_hash [symmetric] by (simp add: demo_prims_def)

theorem secret_clamped_witness:
  "\<exists>k. ed25519_secret_to_x25519 demo_prims (replicate 64 nul) = Inr k \<and> 64 \<le> byte (k ! 31)"
  using secret_clamped [of "replicate 64 nul" demo_prims] by (auto simp: demo_prims_def)

theorem near_encrypt_roundtrip_witness:
  "\<exists>identity c. identity_generate demo_prims (replicate 32 nul) = Some identity
    \<and> near_encrypt demo_prims (replicate 32 nul) (replicate 24 nul) (ci_public_key identity) ''hi'' = Inr c
    \<and> decrypt_hex demo_prims (ci_x25519_secret identity) c = Inr ''hi''"
proof -
  obtain identity where id: "identity_generate demo_prims (replicate 32 nul) = Some identity"
    using identity_generate_ok [OF demo_prims_laws, of "replicate 32 nul"] by simp
  with near_encrypt_roundtrip [OF demo_prims_laws, of "replicate 32 nul" "replicate 32 nul" "replicate 24 nul" "''hi''"]
  show ?thesis by auto
qed

end
