(* ===== verification/Near_Response.thy ===== *)
theory Near_Response
  imports Near_Crypto Inference
begin

text \<open>
  Responses of the NEAR provider, \<open>crates/axiom-secure-client/src/providers/near/inference.rs\<close>: the
  response types of \<open>crates/axiom-inference/src/lib.rs\<close>, token usage, the signed receipt
  (\<open>verify_near_proof\<close>), the signed transcript of a stream (\<open>parse_raw_stream\<close>), and the
  decryption of a whole completion (\<open>decrypt_completion\<close>). JSON and base64 decoding, SHA-256 and Ed25519
  are third-party code and the fields of the parameter \<open>near_lib\<close>.
\<close>

section \<open>Responses\<close>

record token_usage =
  tu_input_tokens :: nat
  tu_output_tokens :: nat
  tu_total_tokens :: nat

datatype finish_reason =
  Fin_Stop | Fin_Length | Fin_ToolCalls | Fin_ContentFilter | Fin_Cancelled | Fin_Other string

datatype provider_security_state =
    Prov_Unverified | Prov_Verifying | Prov_Verified | Prov_Degraded | Prov_Outdated | Prov_Failed
  | Prov_UnattestedDevelopment

datatype provider_event =
    Ev_Accounting request_usage
  | Ev_SecurityState provider_security_state
  | Ev_SecurityEvidence security_evidence
  | Ev_ResponseVerified
  | Ev_Status bool string
  | Ev_TextDelta string
  | Ev_ReasoningDelta string
  | Ev_RefusalDelta string
  | Ev_ToolCallDelta tool_call_delta
  | Ev_Usage nat nat
  | Ev_Finished finish_reason

record assistant_turn =
  at_text :: string
  at_reasoning :: "string option"
  at_tool_calls :: "tool_call list"

record inference_response =
  resp_assistant :: assistant_turn
  resp_reasoning :: "string option"
  resp_refusal :: "string option"
  resp_usage :: token_usage
  resp_finish_reason :: "finish_reason option"

section \<open>Wire types and third-party code\<close>

record raw_function_delta =
  rfd_name :: "string option"
  rfd_arguments :: "string option"

record raw_tool_delta =
  rtd_index :: nat
  rtd_id :: "string option"
  rtd_kind :: "string option"
  rtd_function :: "raw_function_delta option"

record raw_stream_delta =
  rsd_content :: "string option"
  rsd_reasoning_content :: "string option"
  rsd_refusal :: "string option"
  rsd_tool_calls :: "raw_tool_delta list option"

record raw_stream_choice =
  rsc_delta :: raw_stream_delta
  rsc_text :: "string option"
  rsc_finish_reason :: "string option"

record raw_stream_chunk =
  rch_id :: "string option"
  rch_model :: "string option"
  rch_choices :: "raw_stream_choice list"
  rch_usage :: "json option"

record raw_function_call =
  rfc_name :: string
  rfc_arguments :: string

record raw_tool_call =
  rtc_id :: string
  rtc_kind :: string
  rtc_function :: raw_function_call

record raw_message =
  rm_content :: "string option"
  rm_reasoning_content :: "string option"
  rm_refusal :: "string option"
  rm_tool_calls :: "raw_tool_call list"

record raw_completion_choice =
  rcc_message :: raw_message
  rcc_finish_reason :: "string option"

record raw_completion =
  rco_id :: string
  rco_model :: "string option"
  rco_choices :: "raw_completion_choice list"
  rco_usage :: "json option"

record encrypted_function_call =
  efc_name :: ciphertext
  efc_arguments :: ciphertext

record encrypted_tool_call =
  etc_id :: string
  etc_kind :: string
  etc_function :: encrypted_function_call

record relay_completion =
  rc_id :: string
  rc_model :: "string option"
  rc_content :: "ciphertext option"
  rc_reasoning_content :: "ciphertext option"
  rc_refusal :: "ciphertext option"
  rc_tool_calls :: "encrypted_tool_call list"
  rc_finish_reason :: string
  rc_usage :: relay_usage
  rc_proof :: "json option"

record near_proof =
  np_provider :: string
  np_protocol :: string
  np_chat_id :: string
  np_model :: string
  np_request_hash :: string
  np_response_hash :: string
  np_response_body_base64 :: string
  np_signed_text :: string
  np_signature :: string
  np_signing_address :: string

record near_lib =
  nl_prims :: near_prims
  nl_stream_chunk :: "string \<Rightarrow> raw_stream_chunk option"
  nl_completion :: "string \<Rightarrow> raw_completion option"
  nl_proof :: "json \<Rightarrow> near_proof option"
  nl_json_valid :: "string \<Rightarrow> bool"
  nl_base64_decode :: "string \<Rightarrow> string option"
  nl_sha256 :: "string \<Rightarrow> string"
  nl_key_valid :: "string \<Rightarrow> bool"
  nl_signature_valid :: "string \<Rightarrow> bool"
  nl_verify_strict :: "string \<Rightarrow> string \<Rightarrow> string \<Rightarrow> bool"

definition near_invalid :: "string \<Rightarrow> secure_error" where
  "near_invalid = secure_error_new Fail_InvalidResponse"

definition invalid_request :: "string \<Rightarrow> secure_error" where
  "invalid_request = secure_error_new Fail_InvalidRequest"

section \<open>Small checks\<close>

definition near_validate_call_id :: "string \<Rightarrow> secure_error + unit" where
  "near_validate_call_id i =
     (if i = [] \<or> MAX_TOOL_CALL_ID_CHARS < length (str_chars i)
         \<or> \<not> list_all (\<lambda>b. is_ascii_alphanumeric b \<or> b \<in> set ''_.:-'') i
      then Inl (invalid_request ''tool call ID is invalid'') else Inr ())"

definition validate_run_id :: "string \<Rightarrow> secure_error + unit" where
  "validate_run_id v =
     (if v = [] \<or> 256 < length v \<or> has_control v then Inl (near_invalid ''relay run ID is invalid'') else Inr ())"

definition validate_tool_arguments :: "near_lib \<Rightarrow> string \<Rightarrow> secure_error + unit" where
  "validate_tool_arguments nl arguments =
     (if nl_json_valid nl arguments then Inr ()
      else Inl (near_invalid ''decrypted tool arguments are not valid JSON''))"

definition parse_finish_reason :: "string \<Rightarrow> secure_error + finish_reason" where
  "parse_finish_reason v =
     (if v = ''stop'' then Inr Fin_Stop else if v = ''length'' then Inr Fin_Length
      else if v = ''tool_calls'' then Inr Fin_ToolCalls
      else if v = ''content_filter'' then Inr Fin_ContentFilter
      else Inl (near_invalid ''relay finish reason is invalid''))"

definition validate_finish_shape :: "finish_reason \<Rightarrow> tool_call list \<Rightarrow> secure_error + unit" where
  "validate_finish_shape reason calls =
     (if (reason = Fin_ToolCalls) \<noteq> (calls \<noteq> [])
      then Inl (near_invalid ''relay finish reason conflicts with tool calls'') else Inr ())"

definition MAX_PLAINTEXT_STREAM_BYTES :: nat where
  "MAX_PLAINTEXT_STREAM_BYTES = MAX_MESSAGE_TEXT_BYTES"

definition append_bounded :: "string \<Rightarrow> string \<Rightarrow> secure_error + string" where
  "append_bounded target fragment =
     (if MAX_PLAINTEXT_STREAM_BYTES < saturating_add (length target) (length fragment)
      then Inl (near_invalid ''decrypted relay stream exceeds the configured limit'')
      else Inr (target @ fragment))"

definition optional_ciphertext :: "string option \<Rightarrow> secure_error + ciphertext option" where
  "optional_ciphertext value =
     (case value of None \<Rightarrow> Inr None
      | Some v \<Rightarrow> if v = [] then Inr None else try_option ciphertext_new (Some v))"

definition required_ciphertext :: "string \<Rightarrow> string \<Rightarrow> secure_error + ciphertext" where
  "required_ciphertext value detail =
     (if value = [] then Inl (near_invalid detail)
      else (case ciphertext_new value of Inl _ \<Rightarrow> Inl (near_invalid detail) | Inr c \<Rightarrow> Inr c))"

section \<open>Usage\<close>

definition parse_i128 :: "string \<Rightarrow> int option" where
  "parse_i128 s =
     (let (neg, ds) = (case s of [] \<Rightarrow> (False, [])
                       | c # r \<Rightarrow> if c = CHR ''-'' then (True, r) else if c = CHR ''+'' then (False, r)
                                  else (False, s));
          v = (if neg then - int (decimal_value ds) else int (decimal_value ds)) in
      if ds \<noteq> [] \<and> list_all is_ascii_digit ds \<and> - (2 ^ 127) \<le> v \<and> v < 2 ^ 127 then Some v else None)"

definition token_value :: "json \<Rightarrow> nat option" where
  "token_value v =
     (case v of
        JNumber (PosInt n) \<Rightarrow> Some n
      | JNumber (NegInt i) \<Rightarrow> Some (nat (max i 0))
      | JNumber (Float (Finite r)) \<Rightarrow> Some (min (nat \<lfloor>max r 0\<rfloor>) u64_max)
      | JString s \<Rightarrow> map_option (\<lambda>i. nat (min (max i 0) (int u64_max))) (parse_i128 s)
      | _ \<Rightarrow> None)"

fun find_map :: "('a \<Rightarrow> 'b option) \<Rightarrow> 'a list \<Rightarrow> 'b option" where
  "find_map f [] = None"
| "find_map f (x # xs) = (case f x of Some y \<Rightarrow> Some y | None \<Rightarrow> find_map f xs)"

definition as_object :: "json \<Rightarrow> (string \<times> json) list option" where
  "as_object v = (case v of JObject m \<Rightarrow> Some m | _ \<Rightarrow> None)"

definition json_get :: "(string \<times> json) list option \<Rightarrow> string \<Rightarrow> json option" where
  "json_get obj k = Option.bind obj (\<lambda>m. map_of m k)"

definition provider_usage :: "json option \<Rightarrow> relay_usage" where
  "provider_usage value =
     (let obj = Option.bind value as_object;
          token = find_map (\<lambda>name. Option.bind (json_get obj name) token_value);
          prompt = token [''prompt_tokens'', ''input_tokens''];
          cached = (case token [''cached_prompt_tokens''] of Some n \<Rightarrow> Some n
                    | None \<Rightarrow> find_map (\<lambda>name. Option.bind
                        (json_get (Option.bind (json_get obj name) as_object) ''cached_tokens'') token_value)
                        [''prompt_tokens_details'', ''input_tokens_details'']) in
      \<lparr>us_prompt_tokens = prompt,
       us_completion_tokens = token [''completion_tokens'', ''output_tokens''],
       us_total_tokens = token [''total_tokens''],
       us_cached_prompt_tokens = map_option (\<lambda>v. case prompt of None \<Rightarrow> v | Some p \<Rightarrow> min v p) cached\<rparr>)"

definition normalize_usage :: "relay_usage \<Rightarrow> secure_error + token_usage" where
  "normalize_usage u =
     (let input = (case us_prompt_tokens u of None \<Rightarrow> 0 | Some n \<Rightarrow> n);
          output = (case us_completion_tokens u of None \<Rightarrow> 0 | Some n \<Rightarrow> n) in
      if (case us_cached_prompt_tokens u of None \<Rightarrow> False
          | Some cached \<Rightarrow> (case us_prompt_tokens u of None \<Rightarrow> True | Some prompt \<Rightarrow> prompt < cached))
      then Inl (near_invalid ''relay cached-token usage is inconsistent'')
      else Inr \<lparr>tu_input_tokens = input, tu_output_tokens = output,
        tu_total_tokens = (case us_total_tokens u of None \<Rightarrow> saturating_add input output | Some n \<Rightarrow> n)\<rparr>)"

definition json_value_is_truthy :: "json \<Rightarrow> bool" where
  "json_value_is_truthy v =
     (case v of
        JNull \<Rightarrow> False
      | JBool b \<Rightarrow> b
      | JNumber (PosInt n) \<Rightarrow> n \<noteq> 0
      | JNumber (NegInt i) \<Rightarrow> i \<noteq> 0
      | JNumber (Float f) \<Rightarrow> f \<noteq> Finite 0
      | JString s \<Rightarrow> s \<noteq> []
      | JArray xs \<Rightarrow> xs \<noteq> []
      | JObject m \<Rightarrow> m \<noteq> [])"

section \<open>Signed receipts\<close>

definition NEAR_PROVIDER_ID :: string where "NEAR_PROVIDER_ID = ''near''"

definition NEAR_E2EE_PROTOCOL :: string where "NEAR_E2EE_PROTOCOL = ''near-v3''"

definition NEAR_RECEIPT_RAW_RESPONSE_BYTES :: nat where
  "NEAR_RECEIPT_RAW_RESPONSE_BYTES = 32 * 1024 * 1024"

definition lower_hex :: "string \<Rightarrow> bool" where
  "lower_hex = list_all (\<lambda>b. is_ascii_hexdigit b \<and> \<not> is_ascii_uppercase b)"

definition canonical_hash :: "string \<Rightarrow> bool" where
  "canonical_hash v \<longleftrightarrow> length v = 64 \<and> lower_hex v"

definition canonical_signing_address :: "string \<Rightarrow> bool" where
  "canonical_signing_address = canonical_hash"

definition verify_ed25519_signature :: "near_lib \<Rightarrow> string \<Rightarrow> string \<Rightarrow> string \<Rightarrow> secure_error + unit" where
  "verify_ed25519_signature nl signed_text encoded_signature expected_address =
     (if 1024 < length signed_text \<or> \<not> canonical_signing_address expected_address
         \<or> length encoded_signature \<noteq> 128 \<or> \<not> lower_hex encoded_signature
      then Inl (near_invalid ''NEAR completion signature encoding is invalid'')
      else rbind (ok_or (near_invalid ''NEAR receipt key is invalid'') (hex_decode (nl_prims nl) expected_address))
        (\<lambda>key. if length key \<noteq> 32 \<or> \<not> nl_key_valid nl key
          then Inl (near_invalid ''NEAR receipt key is invalid'')
          else rbind (ok_or (near_invalid ''NEAR receipt signature is invalid'')
                        (hex_decode (nl_prims nl) encoded_signature))
            (\<lambda>sig. if \<not> nl_signature_valid nl sig
              then Inl (near_invalid ''NEAR receipt signature is invalid'')
              else if nl_verify_strict nl key signed_text sig then Inr ()
              else Inl (near_invalid ''NEAR completion signature does not match attestation''))))"

definition verify_near_proof ::
  "near_lib \<Rightarrow> json \<Rightarrow> string \<Rightarrow> string \<Rightarrow> string \<Rightarrow> secure_error + (near_proof \<times> string)" where
  "verify_near_proof nl value request_hash signing_address model =
     rbind (ok_or (near_invalid ''NEAR completion receipt schema is invalid'') (nl_proof nl value)) (\<lambda>proof.
     if np_provider proof \<noteq> NEAR_PROVIDER_ID \<or> np_protocol proof \<noteq> NEAR_E2EE_PROTOCOL
     then Inl (near_invalid ''NEAR completion receipt protocol is invalid'')
     else if np_chat_id proof = [] \<or> 256 < length (np_chat_id proof) \<or> has_control (np_chat_id proof)
        \<or> np_model proof \<noteq> model \<or> \<not> canonical_hash (np_request_hash proof)
        \<or> \<not> canonical_hash (np_response_hash proof) \<or> np_request_hash proof \<noteq> request_hash
        \<or> \<not> canonical_signing_address (np_signing_address proof) \<or> np_signing_address proof \<noteq> signing_address
     then Inl (near_invalid ''NEAR completion receipt binding is invalid'')
     else if min (div_ceil NEAR_RECEIPT_RAW_RESPONSE_BYTES 3 * 4) usize_max < length (np_response_body_base64 proof)
     then Inl (near_invalid ''NEAR completion receipt response exceeds its bound'')
     else rbind (ok_or (near_invalid ''NEAR completion receipt response encoding is invalid'')
                   (nl_base64_decode nl (np_response_body_base64 proof))) (\<lambda>raw_body.
     if raw_body = [] \<or> NEAR_RECEIPT_RAW_RESPONSE_BYTES < length raw_body
     then Inl (near_invalid ''NEAR completion receipt response exceeds its bound'')
     else if hex_encode (nl_prims nl) (nl_sha256 nl raw_body) \<noteq> np_response_hash proof
     then Inl (near_invalid ''NEAR completion receipt response hash is invalid'')
     else if np_signed_text proof \<noteq>
        np_model proof @ '':'' @ np_request_hash proof @ '':'' @ np_response_hash proof
     then Inl (near_invalid ''NEAR completion receipt signed text is invalid'')
     else and_then (verify_ed25519_signature nl (np_signed_text proof) (np_signature proof) (np_signing_address proof))
       (Inr (proof, raw_body))))"

section \<open>The signed transcript of a stream\<close>

record verified_transcript =
  vt_chat_id :: string
  vt_model :: "string option"
  vt_sequence_count :: nat
  vt_response :: inference_response

text \<open>The local variables of \<open>parse_raw_stream\<close>.\<close>

record raw_stream =
  rs_chat_id :: "string option"
  rs_model :: "string option"
  rs_content :: string
  rs_reasoning :: string
  rs_refusal :: string
  rs_tool_calls :: accumulator
  rs_usage :: relay_usage
  rs_finish_reason :: string
  rs_sequence_count :: nat
  rs_done :: bool

definition raw_stream_init :: raw_stream where
  "raw_stream_init = \<lparr>rs_chat_id = None, rs_model = None, rs_content = [], rs_reasoning = [],
     rs_refusal = [], rs_tool_calls = [], rs_usage = provider_usage None, rs_finish_reason = ''stop'',
     rs_sequence_count = 0, rs_done = False\<rparr>"

definition empty_choice :: raw_stream_choice where
  "empty_choice = \<lparr>rsc_delta = \<lparr>rsd_content = None, rsd_reasoning_content = None, rsd_refusal = None,
     rsd_tool_calls = None\<rparr>, rsc_text = None, rsc_finish_reason = None\<rparr>"

definition nonempty :: "string option \<Rightarrow> string option" where
  "nonempty v = (if v = Some [] then None else v)"

definition decrypt_raw :: "near_lib \<Rightarrow> client_identity \<Rightarrow> string \<Rightarrow> secure_error + string" where
  "decrypt_raw nl identity v = rbind (ciphertext_new v) (near_decrypt (nl_prims nl) identity)"

definition raw_tool_delta_decrypt ::
  "near_lib \<Rightarrow> client_identity \<Rightarrow> raw_tool_delta \<Rightarrow> secure_error + tool_call_delta" where
  "raw_tool_delta_decrypt nl identity d =
     rbind (try_option (decrypt_raw nl identity) (nonempty (Option.bind (rtd_function d) rfd_name))) (\<lambda>name.
     rbind (try_option (decrypt_raw nl identity) (nonempty (Option.bind (rtd_function d) rfd_arguments))) (\<lambda>arguments.
     Inr \<lparr>d_index = rtd_index d, d_id = rtd_id d, d_kind = rtd_kind d, d_name = name, d_arguments = arguments\<rparr>))"

definition push_or :: "string \<Rightarrow> accumulator \<Rightarrow> tool_call_delta \<Rightarrow> secure_error + accumulator" where
  "push_or detail acc d =
     (case push acc d of (acc', Inl _) \<Rightarrow> Inl (near_invalid detail) | (acc', Inr _) \<Rightarrow> Inr acc')"

text \<open>Decryption of an optional field into its text.\<close>

definition append_decrypted ::
  "near_lib \<Rightarrow> client_identity \<Rightarrow> string \<Rightarrow> ciphertext option \<Rightarrow> secure_error + string" where
  "append_decrypted nl identity target c =
     (case c of None \<Rightarrow> Inr target
      | Some v \<Rightarrow> rbind (near_decrypt (nl_prims nl) identity v) (append_bounded target))"

definition accept_chunk_ids :: "raw_stream \<Rightarrow> raw_stream_chunk \<Rightarrow> secure_error + raw_stream" where
  "accept_chunk_ids st chunk =
     rbind (case rch_id chunk of None \<Rightarrow> Inr st
            | Some v \<Rightarrow> and_then (validate_run_id v)
                (if rs_chat_id st \<noteq> None \<and> rs_chat_id st \<noteq> Some v
                 then Inl (near_invalid ''signed NEAR stream changes its chat ID'')
                 else Inr (st\<lparr>rs_chat_id := Some v\<rparr>))) (\<lambda>st.
     rbind (case rch_model chunk of None \<Rightarrow> Inr st
            | Some v \<Rightarrow> if rs_model st \<noteq> None \<and> rs_model st \<noteq> Some v
                then Inl (near_invalid ''signed NEAR stream changes its model'')
                else Inr (st\<lparr>rs_model := Some v\<rparr>)) (\<lambda>st.
     Inr (case rch_usage chunk of None \<Rightarrow> st
          | Some u \<Rightarrow> if json_value_is_truthy u then st\<lparr>rs_usage := provider_usage (Some u)\<rparr> else st)))"

definition accept_choice ::
  "near_lib \<Rightarrow> client_identity \<Rightarrow> raw_stream \<Rightarrow> raw_stream_choice \<Rightarrow> secure_error + raw_stream" where
  "accept_choice nl identity st0 choice =
     (let st = (case rsc_finish_reason choice of None \<Rightarrow> st0 | Some v \<Rightarrow> st0\<lparr>rs_finish_reason := v\<rparr>);
          delta = rsc_delta choice;
          calls = (case rsd_tool_calls delta of None \<Rightarrow> [] | Some cs \<Rightarrow> cs) in
     rbind (optional_ciphertext (rsd_content delta)) (\<lambda>content0.
     rbind (if content0 \<noteq> None then Inr content0 else optional_ciphertext (rsc_text choice)) (\<lambda>content.
     rbind (optional_ciphertext (rsd_reasoning_content delta)) (\<lambda>reasoning.
     rbind (optional_ciphertext (rsd_refusal delta)) (\<lambda>refusal.
     rbind (if content \<noteq> None \<or> reasoning \<noteq> None \<or> refusal \<noteq> None \<or> calls \<noteq> []
            then ok_or (near_invalid ''signed NEAR stream sequence overflowed'') (checked_add (rs_sequence_count st) 1)
            else Inr (rs_sequence_count st)) (\<lambda>count.
     rbind (append_decrypted nl identity (rs_content st) content) (\<lambda>text.
     rbind (append_decrypted nl identity (rs_reasoning st) reasoning) (\<lambda>reasoning_text.
     rbind (append_decrypted nl identity (rs_refusal st) refusal) (\<lambda>refusal_text.
     rbind (try_fold (\<lambda>acc d. rbind (raw_tool_delta_decrypt nl identity d)
              (push_or ''signed NEAR tool-call fragments are invalid'' acc)) (rs_tool_calls st) calls) (\<lambda>acc.
     Inr (st\<lparr>rs_content := text, rs_reasoning := reasoning_text, rs_refusal := refusal_text,
              rs_tool_calls := acc, rs_sequence_count := count\<rparr>)))))))))))"

definition accept_chunk ::
  "near_lib \<Rightarrow> client_identity \<Rightarrow> raw_stream \<Rightarrow> raw_stream_chunk \<Rightarrow> secure_error + raw_stream" where
  "accept_chunk nl identity st chunk =
     rbind (accept_chunk_ids st chunk) (\<lambda>st.
       accept_choice nl identity st (case rch_choices chunk of [] \<Rightarrow> empty_choice | c # _ \<Rightarrow> c))"

text \<open>\<open>str::split\<close> at a character.\<close>

fun str_split :: "char \<Rightarrow> string \<Rightarrow> string list" where
  "str_split c [] = [[]]"
| "str_split c (x # xs) =
     (if x = c then [] # str_split c xs
      else (case str_split c xs of [] \<Rightarrow> [[x]] | y # ys \<Rightarrow> (x # y) # ys))"

definition raw_stream_line ::
  "near_lib \<Rightarrow> client_identity \<Rightarrow> raw_stream \<Rightarrow> string \<Rightarrow> secure_error + raw_stream" where
  "raw_stream_line nl identity st raw_line =
     (case strip_prefix ''data:'' (strip_cr raw_line) of
        None \<Rightarrow> Inr st
      | Some rest \<Rightarrow>
          (let payload = str_trim (case strip_prefix '' '' rest of Some r \<Rightarrow> r | None \<Rightarrow> rest) in
           if payload = ''[DONE]'' then
             (if rs_done st then Inl (near_invalid ''signed NEAR stream repeats its terminal marker'')
              else Inr (st\<lparr>rs_done := True\<rparr>))
           else if rs_done st then Inl (near_invalid ''signed NEAR stream contains data after completion'')
           else rbind (ok_or (near_invalid ''signed NEAR stream event is invalid'') (nl_stream_chunk nl payload))
             (accept_chunk nl identity st)))"

text \<open>\<open>finish\<close> of an accumulator with the checks every caller makes on the calls.\<close>

definition finish_tool_calls :: "near_lib \<Rightarrow> string \<Rightarrow> accumulator \<Rightarrow> secure_error + tool_call list" where
  "finish_tool_calls nl detail acc =
     rbind (case accumulator_finish acc of Inl _ \<Rightarrow> Inl (near_invalid detail) | Inr calls \<Rightarrow> Inr calls) (\<lambda>calls.
     and_then (try_each (\<lambda>call. and_then (near_validate_call_id (tc_id call))
         (validate_tool_arguments nl (fn_arguments (tc_function call)))) calls) (Inr calls))"

definition some_nonempty :: "string \<Rightarrow> string option" where
  "some_nonempty s = (if s = [] then None else Some s)"

definition parse_raw_stream :: "near_lib \<Rightarrow> string \<Rightarrow> client_identity \<Rightarrow> secure_error + verified_transcript" where
  "parse_raw_stream nl bytes identity =
     (if \<not> from_utf8_ok bytes then Inl (near_invalid ''signed NEAR stream is not valid UTF-8'')
      else rbind (try_fold (raw_stream_line nl identity) raw_stream_init (str_split (char_of (10::nat)) bytes)) (\<lambda>st.
      if \<not> rs_done st then Inl (near_invalid ''signed NEAR stream omitted its terminal marker'')
      else rbind (ok_or (near_invalid ''signed NEAR stream omitted its chat ID'') (rs_chat_id st)) (\<lambda>chat_id.
      rbind (finish_tool_calls nl ''signed NEAR tool-call stream is incomplete'' (rs_tool_calls st)) (\<lambda>calls.
      rbind (parse_finish_reason (rs_finish_reason st)) (\<lambda>reason.
      and_then (validate_finish_shape reason calls)
      (rbind (normalize_usage (rs_usage st)) (\<lambda>usage.
      Inr \<lparr>vt_chat_id = chat_id, vt_model = rs_model st, vt_sequence_count = rs_sequence_count st,
           vt_response = \<lparr>resp_assistant = \<lparr>at_text = rs_content st, at_reasoning = None, at_tool_calls = calls\<rparr>,
             resp_reasoning = some_nonempty (rs_reasoning st), resp_refusal = some_nonempty (rs_refusal st),
             resp_usage = usage, resp_finish_reason = Some reason\<rparr>\<rparr>)))))))"

section \<open>Whole completions\<close>

fun decrypt_tool_calls_from ::
  "near_lib \<Rightarrow> client_identity \<Rightarrow> string list \<Rightarrow> encrypted_tool_call list \<Rightarrow> secure_error + tool_call list" where
  "decrypt_tool_calls_from nl identity seen [] = Inr []"
| "decrypt_tool_calls_from nl identity seen (call # calls) =
     and_then (near_validate_call_id (etc_id call))
     (if etc_kind call \<noteq> ''function'' \<or> etc_id call \<in> set seen
      then Inl (near_invalid ''relay tool call metadata is invalid'')
      else rbind (near_decrypt (nl_prims nl) identity (efc_name (etc_function call))) (\<lambda>name.
      rbind (near_decrypt (nl_prims nl) identity (efc_arguments (etc_function call))) (\<lambda>arguments.
      and_then (validate_tool_arguments nl arguments)
      (rbind (decrypt_tool_calls_from nl identity (etc_id call # seen) calls) (\<lambda>rest.
      Inr (\<lparr>tc_id = etc_id call, tc_kind = etc_kind call,
            tc_function = \<lparr>fn_name = name, fn_arguments = arguments\<rparr>\<rparr> # rest))))))"

definition decrypt_tool_calls ::
  "near_lib \<Rightarrow> client_identity \<Rightarrow> encrypted_tool_call list \<Rightarrow> secure_error + tool_call list" where
  "decrypt_tool_calls nl identity calls =
     (if MAX_TOOL_CALLS < length calls then Inl (near_invalid ''relay returned too many tool calls'')
      else decrypt_tool_calls_from nl identity [] calls)"

definition decrypt_relay_completion ::
  "near_lib \<Rightarrow> model_info \<Rightarrow> client_identity \<Rightarrow> relay_completion \<Rightarrow> secure_error + inference_response" where
  "decrypt_relay_completion nl model identity completion =
     and_then (validate_run_id (rc_id completion))
     (if (case rc_model completion of None \<Rightarrow> False
          | Some v \<Rightarrow> v \<noteq> mi_upstream_model model \<and> v \<noteq> mi_id model)
      then Inl (near_invalid ''relay response model does not match verified session'')
      else rbind (try_option (near_decrypt (nl_prims nl) identity) (rc_content completion)) (\<lambda>content.
      rbind (try_option (near_decrypt (nl_prims nl) identity) (rc_reasoning_content completion)) (\<lambda>reasoning.
      rbind (try_option (near_decrypt (nl_prims nl) identity) (rc_refusal completion)) (\<lambda>refusal.
      rbind (decrypt_tool_calls nl identity (rc_tool_calls completion)) (\<lambda>calls.
      let body = (case content of None \<Rightarrow> [] | Some t \<Rightarrow> t) in
      if body = [] \<and> (reasoning = None \<or> reasoning = Some []) \<and> refusal = None \<and> calls = []
      then Inl (near_invalid ''relay completion has no usable output'')
      else rbind (parse_finish_reason (rc_finish_reason completion)) (\<lambda>reason.
      and_then (validate_finish_shape reason calls)
      (rbind (normalize_usage (rc_usage completion)) (\<lambda>usage.
      Inr \<lparr>resp_assistant = \<lparr>at_text = body, at_reasoning = None, at_tool_calls = calls\<rparr>,
           resp_reasoning = reasoning, resp_refusal = refusal, resp_usage = usage,
           resp_finish_reason = Some reason\<rparr>))))))))"

definition raw_tool_call_encrypted :: "raw_tool_call \<Rightarrow> secure_error + encrypted_tool_call" where
  "raw_tool_call_encrypted call =
     rbind (required_ciphertext (rfc_name (rtc_function call)) ''signed NEAR tool name is invalid'') (\<lambda>name.
     rbind (required_ciphertext (rfc_arguments (rtc_function call)) ''signed NEAR tool arguments are invalid'') (\<lambda>arguments.
     Inr \<lparr>etc_id = rtc_id call, etc_kind = rtc_kind call,
          etc_function = \<lparr>efc_name = name, efc_arguments = arguments\<rparr>\<rparr>))"

definition parse_raw_completion :: "near_lib \<Rightarrow> string \<Rightarrow> secure_error + relay_completion" where
  "parse_raw_completion nl bytes =
     rbind (ok_or (near_invalid ''signed NEAR completion JSON is invalid'') (nl_completion nl bytes)) (\<lambda>raw.
     and_then (validate_run_id (rco_id raw))
     (case rco_choices raw of
        [] \<Rightarrow> Inl (near_invalid ''signed NEAR completion has no choice'')
      | choice # _ \<Rightarrow>
     rbind (try_map raw_tool_call_encrypted (rm_tool_calls (rcc_message choice))) (\<lambda>calls.
     rbind (optional_ciphertext (rm_content (rcc_message choice))) (\<lambda>content.
     rbind (optional_ciphertext (rm_reasoning_content (rcc_message choice))) (\<lambda>reasoning.
     rbind (optional_ciphertext (rm_refusal (rcc_message choice))) (\<lambda>refusal.
     Inr \<lparr>rc_id = rco_id raw, rc_model = rco_model raw, rc_content = content, rc_reasoning_content = reasoning,
          rc_refusal = refusal, rc_tool_calls = calls,
          rc_finish_reason = (case rcc_finish_reason choice of None \<Rightarrow> ''stop'' | Some r \<Rightarrow> r),
          rc_usage = provider_usage (rco_usage raw), rc_proof = None\<rparr>))))))"

definition decrypt_completion ::
  "near_lib \<Rightarrow> model_info \<Rightarrow> client_identity \<Rightarrow> string \<Rightarrow> string \<Rightarrow> relay_completion \<Rightarrow>
     secure_error + inference_response" where
  "decrypt_completion nl model identity request_hash signing_address completion =
     rbind (ok_or (near_invalid ''NEAR completion omitted its signed receipt'') (rc_proof completion)) (\<lambda>value.
     rbind (verify_near_proof nl value request_hash signing_address (mi_upstream_model model)) (\<lambda>(proof, raw_body).
     if np_chat_id proof \<noteq> rc_id completion
     then Inl (near_invalid ''NEAR receipt chat ID does not match the relay response'')
     else rbind (parse_raw_completion nl raw_body) (\<lambda>raw.
     if rc_id raw \<noteq> np_chat_id proof
     then Inl (near_invalid ''NEAR receipt chat ID does not match its response bytes'')
     else rbind (decrypt_relay_completion nl model identity raw) (\<lambda>verified.
     rbind (decrypt_relay_completion nl model identity completion) (\<lambda>provisional.
     if provisional \<noteq> verified
     then Inl (near_invalid ''relay completion does not match the signed NEAR response'')
     else Inr verified)))))"

section \<open>What a receipt establishes\<close>

text \<open>The key of the attested signing address signed the model, the request and the response bytes.\<close>

definition receipt_signs :: "near_lib \<Rightarrow> string \<Rightarrow> string \<Rightarrow> string \<Rightarrow> string \<Rightarrow> bool" where
  "receipt_signs nl request_hash signing_address model body \<longleftrightarrow>
     (\<exists>key sig. hex_decode (nl_prims nl) signing_address = Some key \<and> length key = 32 \<and> nl_key_valid nl key
        \<and> nl_verify_strict nl key
            (model @ '':'' @ request_hash @ '':'' @ hex_encode (nl_prims nl) (nl_sha256 nl body)) sig)"

lemma verify_ed25519_signature_ok:
  assumes "verify_ed25519_signature nl t s a = Inr u"
  shows "\<exists>key sig. hex_decode (nl_prims nl) a = Some key \<and> length key = 32 \<and> nl_key_valid nl key
    \<and> nl_verify_strict nl key t sig"
  using assms by (auto simp: verify_ed25519_signature_def split: if_splits)

lemma verify_near_proof_ok:
  assumes "verify_near_proof nl value request_hash signing_address model = Inr (proof, body)"
  shows "nl_proof nl value = Some proof" "receipt_signs nl request_hash signing_address model body"
    "body \<noteq> []" "length body \<le> NEAR_RECEIPT_RAW_RESPONSE_BYTES" "np_model proof = model"
    "np_request_hash proof = request_hash"
proof -
  have sig: "verify_ed25519_signature nl (np_signed_text proof) (np_signature proof) (np_signing_address proof) = Inr ()"
    and signed: "np_signed_text proof = np_model proof @ '':'' @ np_request_hash proof @ '':'' @ np_response_hash proof"
    and bound: "np_model proof = model" "np_request_hash proof = request_hash"
      "np_signing_address proof = signing_address" "hex_encode (nl_prims nl) (nl_sha256 nl body) = np_response_hash proof"
      "body \<noteq> []" "length body \<le> NEAR_RECEIPT_RAW_RESPONSE_BYTES" "nl_proof nl value = Some proof"
    using assms unfolding verify_near_proof_def by (auto split: if_splits)
  from bound show "nl_proof nl value = Some proof" "body \<noteq> []" "length body \<le> NEAR_RECEIPT_RAW_RESPONSE_BYTES"
    "np_model proof = model" "np_request_hash proof = request_hash" by simp_all
  show "receipt_signs nl request_hash signing_address model body"
    using verify_ed25519_signature_ok [OF sig] unfolding receipt_signs_def signed bound by simp
qed

section \<open>Properties\<close>

text \<open>A completion is accepted only when it is the signed one: the response returned is the decryption
  of the response bytes in the receipt, the key of the attested signing address signed the model, the
  request hash and the hash of those bytes, and the receipt's bytes stay within 32 MiB.\<close>

theorem completion_authenticated:
  assumes "decrypt_completion nl model identity request_hash signing_address completion = Inr response"
  shows "\<exists>body raw. receipt_signs nl request_hash signing_address (mi_upstream_model model) body
    \<and> length body \<le> 32 * 1024 * 1024
    \<and> parse_raw_completion nl body = Inr raw \<and> rc_id raw = rc_id completion
    \<and> decrypt_relay_completion nl model identity raw = Inr response
    \<and> decrypt_relay_completion nl model identity completion = Inr response"
proof -
  from assms obtain v receipt body raw where
    r: "verify_near_proof nl v request_hash signing_address (mi_upstream_model model) = Inr (receipt, body)"
    and "parse_raw_completion nl body = Inr raw" "rc_id raw = rc_id completion"
    "decrypt_relay_completion nl model identity raw = Inr response"
    "decrypt_relay_completion nl model identity completion = Inr response"
    unfolding decrypt_completion_def by (auto split: prod.splits if_splits)
  with verify_near_proof_ok(2,4) [OF r] show ?thesis unfolding NEAR_RECEIPT_RAW_RESPONSE_BYTES_def by blast
qed

end
