(* ===== verification/Near_Stream.thy ===== *)
theory Near_Stream
  imports Near_Response
begin

text \<open>
  The streaming side of the NEAR provider, \<open>providers/near/inference.rs\<close>: the state machine
  \<open>StreamState\<close> that consumes the relay events and the loop \<open>stream\<close> that feeds it from the
  event decoder under the stream deadline. The receiving end of the event channel and the cancellation
  token appear as the function \<open>takes\<close>: whether the channel takes the next event, by the number of events
  sent before. One turn of the loop's \<open>select\<close> is a \<open>stream_input\<close>; the events of one chunk are
  observed at one reading of the clock.
\<close>

section \<open>State\<close>

record stream_state =
  ss_expected_request_hash :: string
  ss_expected_signing_address :: string
  ss_expected_model :: string
  ss_run_id :: "string option"
  ss_response_id :: "string option"
  ss_next_sequence :: "nat option"
  ss_text :: string
  ss_reasoning :: string
  ss_refusal :: string
  ss_tool_calls :: accumulator
  ss_usage :: "token_usage option"
  ss_finish_reason :: "finish_reason option"
  ss_verified_events :: "provider_event list"
  ss_message_completed :: bool
  ss_run_completed :: bool

definition stream_state_new :: "string \<Rightarrow> string \<Rightarrow> string \<Rightarrow> stream_state" where
  "stream_state_new request_hash signing_address model =
     \<lparr>ss_expected_request_hash = request_hash, ss_expected_signing_address = signing_address,
      ss_expected_model = model, ss_run_id = None, ss_response_id = None, ss_next_sequence = Some 1,
      ss_text = [], ss_reasoning = [], ss_refusal = [], ss_tool_calls = [], ss_usage = None,
      ss_finish_reason = None, ss_verified_events = [], ss_message_completed = False,
      ss_run_completed = False\<rparr>"

text \<open>The state together with the events the channel has taken.\<close>

type_synonym emitter = "stream_state \<times> provider_event list"

text \<open>A loop of operations that stops at the first error.\<close>

fun try_run :: "('s \<Rightarrow> 'a \<Rightarrow> ('s, 'e, unit) outcome) \<Rightarrow> 's \<Rightarrow> 'a list \<Rightarrow> ('s, 'e, unit) outcome" where
  "try_run f s [] = (s, Inr ())"
| "try_run f s (x # xs) = obind (f s x) (\<lambda>s' _. try_run f s' xs)"

definition stream_send ::
  "(nat \<Rightarrow> bool) \<Rightarrow> provider_event list \<Rightarrow> provider_event \<Rightarrow> (provider_event list, secure_error, unit) outcome" where
  "stream_send takes sent ev =
     (if takes (length sent) then (sent @ [ev], Inr ()) else (sent, Inl err_cancelled))"

definition emit :: "(nat \<Rightarrow> bool) \<Rightarrow> stream_state \<Rightarrow> provider_event list \<Rightarrow> provider_event \<Rightarrow>
    (emitter, secure_error, unit) outcome" where
  "emit takes st sent ev = apfst (Pair st) (stream_send takes sent ev)"

definition require_run :: "stream_state \<Rightarrow> string \<Rightarrow> secure_error + unit" where
  "require_run st run_id =
     (if ss_run_id st = Some run_id then Inr ()
      else Inl (near_invalid ''relay event run ID is inconsistent''))"

definition INFERENCE_ENCRYPTION :: string where "INFERENCE_ENCRYPTION = ''provider_e2ee_v2''"

section \<open>Deltas\<close>

text \<open>One optional encrypted text of a delta: decrypted, appended within the bound, and emitted.\<close>

definition delta_text ::
  "near_lib \<Rightarrow> client_identity \<Rightarrow> (nat \<Rightarrow> bool) \<Rightarrow> (stream_state \<Rightarrow> string) \<Rightarrow>
   (string \<Rightarrow> stream_state \<Rightarrow> stream_state) \<Rightarrow> (string \<Rightarrow> provider_event) \<Rightarrow>
   ciphertext option \<Rightarrow> emitter \<Rightarrow> (emitter, secure_error, unit) outcome" where
  "delta_text nl identity takes field set_field event c = (\<lambda>(st, sent).
     case c of
       None \<Rightarrow> ((st, sent), Inr ())
     | Some v \<Rightarrow>
         (case near_decrypt (nl_prims nl) identity v of
            Inl e \<Rightarrow> ((st, sent), Inl e)
          | Inr t \<Rightarrow>
              (case append_bounded (field st) t of
                 Inl e \<Rightarrow> ((st, sent), Inl e)
               | Inr s \<Rightarrow> emit takes (set_field s st) sent (event t))))"

definition delta_tool_call ::
  "near_lib \<Rightarrow> client_identity \<Rightarrow> stream_state \<Rightarrow> encrypted_tool_call_delta \<Rightarrow>
     (stream_state, secure_error, unit) outcome" where
  "delta_tool_call nl identity st enc =
     (case rbind (try_option (near_decrypt (nl_prims nl) identity) (Option.bind (etd_function enc) efd_name)) (\<lambda>name.
           rbind (try_option (near_decrypt (nl_prims nl) identity) (Option.bind (etd_function enc) efd_arguments))
           (\<lambda>arguments. Inr \<lparr>d_index = etd_index enc, d_id = etd_id enc, d_kind = etd_kind enc,
                             d_name = name, d_arguments = arguments\<rparr>)) of
        Inl e \<Rightarrow> (st, Inl e)
      | Inr delta \<Rightarrow>
          (case push (ss_tool_calls st) delta of
             (acc, Inl _) \<Rightarrow> (st\<lparr>ss_tool_calls := acc\<rparr>, Inl (near_invalid ''relay tool-call fragments are invalid''))
           | (acc, Inr _) \<Rightarrow>
               (st\<lparr>ss_tool_calls := acc, ss_verified_events := ss_verified_events st @ [Ev_ToolCallDelta delta]\<rparr>,
                Inr ())))"

definition accept_sequence :: "stream_state \<Rightarrow> delta_payload \<Rightarrow> (stream_state, secure_error, unit) outcome" where
  "accept_sequence st payload =
     (if ss_next_sequence st \<noteq> None \<and> ss_next_sequence st \<noteq> Some (dp_sequence payload)
      then (st, Inl (near_invalid ''relay event sequence is invalid''))
      else (case checked_add (dp_sequence payload) 1 of
          None \<Rightarrow> (st, Inl (near_invalid ''relay event sequence overflowed''))
        | Some n \<Rightarrow>
            (let st1 = st\<lparr>ss_next_sequence := Some n\<rparr> in
             case dp_response_id payload of
               None \<Rightarrow> (st1, Inr ())
             | Some i \<Rightarrow>
                 (case validate_run_id i of
                    Inl e \<Rightarrow> (st1, Inl e)
                  | Inr _ \<Rightarrow>
                      if ss_response_id st1 \<noteq> None \<and> ss_response_id st1 \<noteq> Some i
                      then (st1, Inl (near_invalid ''NEAR relay delta changed its response ID''))
                      else (st1\<lparr>ss_response_id := Some i\<rparr>, Inr ())))))"

definition with_sent :: "provider_event list \<Rightarrow> (stream_state, secure_error, unit) outcome \<Rightarrow>
    (emitter, secure_error, unit) outcome" where
  "with_sent sent r = apfst (\<lambda>st. (st, sent)) r"

definition accept_delta ::
  "near_lib \<Rightarrow> client_identity \<Rightarrow> (nat \<Rightarrow> bool) \<Rightarrow> emitter \<Rightarrow> delta_payload \<Rightarrow>
     (emitter, secure_error, unit) outcome" where
  "accept_delta nl identity takes = (\<lambda>(st, sent) payload.
     case require_run st (dp_run_id payload) of
       Inl e \<Rightarrow> ((st, sent), Inl e)
     | Inr _ \<Rightarrow>
         if ss_message_completed st
         then ((st, sent), Inl (near_invalid ''relay emitted a delta after message completion''))
         else obind (with_sent sent (accept_sequence st payload)) (\<lambda>em _.
           obind (delta_text nl identity takes ss_text (\<lambda>s. ss_text_update (\<lambda>_. s)) Ev_TextDelta
                    (dp_encrypted_delta payload) em) (\<lambda>em _.
           obind (delta_text nl identity takes ss_reasoning (\<lambda>s. ss_reasoning_update (\<lambda>_. s)) Ev_ReasoningDelta
                    (dp_encrypted_reasoning_delta payload) em) (\<lambda>em _.
           obind (delta_text nl identity takes ss_refusal (\<lambda>s. ss_refusal_update (\<lambda>_. s)) Ev_RefusalDelta
                    (dp_encrypted_refusal_delta payload) em) (\<lambda>(st, sent) _.
           with_sent sent (try_run (delta_tool_call nl identity) st (dp_encrypted_tool_calls payload)))))))"

section \<open>Completion\<close>

definition stream_response :: "stream_state \<Rightarrow> tool_call list \<Rightarrow> token_usage \<Rightarrow> finish_reason \<Rightarrow> inference_response" where
  "stream_response st calls usage reason =
     \<lparr>resp_assistant = \<lparr>at_text = ss_text st, at_reasoning = None, at_tool_calls = calls\<rparr>,
      resp_reasoning = some_nonempty (ss_reasoning st), resp_refusal = some_nonempty (ss_refusal st),
      resp_usage = usage, resp_finish_reason = Some reason\<rparr>"

definition provisional_response ::
  "near_lib \<Rightarrow> stream_state \<Rightarrow> token_usage \<Rightarrow> finish_reason \<Rightarrow> secure_error + inference_response" where
  "provisional_response nl st usage reason =
     rbind (finish_tool_calls nl ''relay tool-call stream is incomplete'' (ss_tool_calls st)) (\<lambda>calls.
     and_then (validate_finish_shape reason calls) (Inr (stream_response st calls usage reason)))"

text \<open>The checks of a completed message: the receipt, the signed transcript, and the agreement of the
  provisional response with it.\<close>

definition check_completed ::
  "near_lib \<Rightarrow> client_identity \<Rightarrow> stream_state \<Rightarrow> completed_payload \<Rightarrow> secure_error + (token_usage \<times> finish_reason)" where
  "check_completed nl identity st payload =
     and_then (require_run st (mp_run_id payload))
     (if ss_message_completed st then Inl (near_invalid ''relay message completion is duplicated'')
      else rbind (ok_or (near_invalid ''NEAR stream omitted its signed receipt'') (mp_proof payload)) (\<lambda>value.
      rbind (verify_near_proof nl value (ss_expected_request_hash st) (ss_expected_signing_address st)
               (ss_expected_model st)) (\<lambda>(proof, raw_body).
      if ss_response_id st \<noteq> None \<and> ss_response_id st \<noteq> Some (np_chat_id proof)
      then Inl (near_invalid ''NEAR stream receipt chat ID does not match provisional deltas'')
      else rbind (parse_raw_stream nl raw_body identity) (\<lambda>verified.
      if vt_chat_id verified \<noteq> np_chat_id proof
         \<or> vt_model verified \<noteq> None \<and> vt_model verified \<noteq> Some (ss_expected_model st)
      then Inl (near_invalid ''NEAR stream receipt metadata does not match its response bytes'')
      else (let next = (case ss_next_sequence st of None \<Rightarrow> 1 | Some n \<Rightarrow> n) in
        if next = 0 then Inl (near_invalid ''relay sequence state is invalid'')
        else if vt_sequence_count verified \<noteq> next - 1
        then Inl (near_invalid ''relay stream delta count does not match the signed NEAR response'')
        else rbind (parse_finish_reason (mp_finish_reason payload)) (\<lambda>reason.
        rbind (normalize_usage (mp_usage payload)) (\<lambda>usage.
        rbind (provisional_response nl st usage reason) (\<lambda>provisional.
        if provisional \<noteq> vt_response verified
        then Inl (near_invalid ''relay stream does not match the signed NEAR response'')
        else Inr (usage, reason)))))))))"

definition accept_completed ::
  "near_lib \<Rightarrow> client_identity \<Rightarrow> stream_state \<Rightarrow> completed_payload \<Rightarrow> (stream_state, secure_error, unit) outcome" where
  "accept_completed nl identity st payload =
     (case check_completed nl identity st payload of
        Inl e \<Rightarrow> (st, Inl e)
      | Inr (usage, reason) \<Rightarrow>
          (st\<lparr>ss_verified_events := ss_verified_events st @
                [Ev_Usage (tu_input_tokens usage) (tu_output_tokens usage), Ev_Finished reason],
              ss_usage := Some usage, ss_finish_reason := Some reason, ss_message_completed := True\<rparr>, Inr ()))"

section \<open>Relay events\<close>

definition accept ::
  "near_lib \<Rightarrow> client_identity \<Rightarrow> (nat \<Rightarrow> bool) \<Rightarrow> emitter \<Rightarrow> relay_event \<Rightarrow>
     (emitter, secure_error, unit) outcome" where
  "accept nl identity takes = (\<lambda>(st, sent) event.
     if ss_run_completed st
     then ((st, sent), Inl (near_invalid ''relay emitted data after terminal completion''))
     else (case event of
       Finalizing payload \<Rightarrow> ((st, sent), require_run st (rp_run_id payload))
     | Accounting usage \<Rightarrow>
         (case require_run st (ru_request_id usage) of
            Inl e \<Rightarrow> ((st, sent), Inl e)
          | Inr _ \<Rightarrow>
              if \<not> validate_counters usage \<or> ru_response_verified usage
              then ((st, sent), Inl (near_invalid ''invalid operational accounting''))
              else emit takes st sent (Ev_Accounting usage))
     | RunCreated payload \<Rightarrow>
         if ss_run_id st \<noteq> None \<or> cp_inference_encryption payload \<noteq> INFERENCE_ENCRYPTION
         then ((st, sent), Inl (near_invalid ''relay run creation contract is invalid''))
         else (case validate_run_id (cp_run_id payload) of
             Inl e \<Rightarrow> ((st, sent), Inl e)
           | Inr _ \<Rightarrow> emit takes (st\<lparr>ss_run_id := Some (cp_run_id payload)\<rparr>) sent
               (Ev_Status True ''Attested end-to-end encrypted inference connected''))
     | Delta payload \<Rightarrow> accept_delta nl identity takes (st, sent) payload
     | MessageCompleted payload \<Rightarrow> with_sent sent (accept_completed nl identity st payload)
     | RunCompleted payload \<Rightarrow>
         (case require_run st (rp_run_id payload) of
            Inl e \<Rightarrow> ((st, sent), Inl e)
          | Inr _ \<Rightarrow>
              if \<not> ss_message_completed st
              then ((st, sent), Inl (near_invalid ''relay run completed before its message''))
              else ((st\<lparr>ss_run_completed := True\<rparr>, sent), Inr ()))
     | Run_Cancelled payload \<Rightarrow>
         (case require_run st (xp_run_id payload) of
            Inl e \<Rightarrow> ((st, sent), Inl e)
          | Inr _ \<Rightarrow>
              ((st, sent), Inl (if xp_reason payload = Some ''insufficient_credit''
                 then secure_error_new Fail_InsufficientCredit INSUFFICIENT_CREDIT_MESSAGE else err_cancelled)))
     | Run_Failed payload \<Rightarrow>
         (case require_run st (fp_run_id payload) of
            Inl e \<Rightarrow> ((st, sent), Inl e)
          | Inr _ \<Rightarrow> ((st, sent), Inl (stream_failure (fp_code payload))))))"

definition stream_finish :: "near_lib \<Rightarrow> stream_state \<Rightarrow> secure_error + (inference_response \<times> provider_event list)" where
  "stream_finish nl st =
     (if \<not> ss_message_completed st \<or> \<not> ss_run_completed st
      then Inl (near_invalid ''relay stream ended without terminal completion'')
      else rbind (finish_tool_calls nl ''relay tool-call stream is incomplete'' (ss_tool_calls st)) (\<lambda>calls.
      rbind (ok_or (near_invalid ''relay stream has no finish reason'') (ss_finish_reason st)) (\<lambda>reason.
      and_then (validate_finish_shape reason calls)
      (Inr (stream_response st calls (case ss_usage st of None \<Rightarrow> \<lparr>tu_input_tokens = 0, tu_output_tokens = 0,
              tu_total_tokens = 0\<rparr> | Some u \<Rightarrow> u) reason, ss_verified_events st)))))"

section \<open>The stream\<close>

datatype stream_input =
    In_Chunk nat string
  | In_Broken
  | In_Timeout
  | In_Cancelled

record near_run =
  nr_decoder :: sse_decoder
  nr_deadline :: stream_deadline
  nr_emitter :: emitter

definition stream_event ::
  "near_lib \<Rightarrow> client_identity \<Rightarrow> (nat \<Rightarrow> bool) \<Rightarrow> nat \<Rightarrow> near_run \<Rightarrow> relay_event \<Rightarrow>
     (near_run, secure_error, unit) outcome" where
  "stream_event nl identity takes now run ev =
     (let run1 = run\<lparr>nr_deadline := deadline_observe now (nr_deadline run) ev\<rparr> in
      apfst (\<lambda>em. run1\<lparr>nr_emitter := em\<rparr>) (accept nl identity takes (nr_emitter run) ev))"

definition stream_step ::
  "near_lib \<Rightarrow> relay_codec \<Rightarrow> client_identity \<Rightarrow> (nat \<Rightarrow> bool) \<Rightarrow> near_run \<Rightarrow> stream_input \<Rightarrow>
     (near_run, secure_error, unit) outcome" where
  "stream_step nl rc identity takes run input =
     (case input of
        In_Timeout \<Rightarrow> (run, Inl (deadline_error (nr_deadline run)))
      | In_Cancelled \<Rightarrow> (run, Inl err_cancelled)
      | In_Broken \<Rightarrow> (run, Inl (with_code Fail_Transient Code_ProviderDisconnected
          ''The connection to the provider was interrupted.'' True))
      | In_Chunk now bytes \<Rightarrow>
          (case feed rc (nr_decoder run) bytes of
             (d, Inl e) \<Rightarrow> (run\<lparr>nr_decoder := d\<rparr>, Inl e)
           | (d, Inr events) \<Rightarrow>
               try_run (stream_event nl identity takes now) (run\<lparr>nr_decoder := d\<rparr>) events))"

definition emit_verified_events ::
  "(nat \<Rightarrow> bool) \<Rightarrow> provider_event list \<Rightarrow> provider_event list \<Rightarrow> (provider_event list, secure_error, unit) outcome" where
  "emit_verified_events takes sent events =
     obind (try_run (stream_send takes) sent events) (\<lambda>sent _. stream_send takes sent Ev_ResponseVerified)"

definition stream_end ::
  "near_lib \<Rightarrow> (nat \<Rightarrow> bool) \<Rightarrow> near_run \<Rightarrow> (near_run, secure_error, inference_response) outcome" where
  "stream_end nl takes run =
     (case sse_finish (nr_decoder run) of
        Inl e \<Rightarrow> (run, Inl e)
      | Inr _ \<Rightarrow>
          (case stream_finish nl (fst (nr_emitter run)) of
             Inl e \<Rightarrow> (run, Inl e)
           | Inr (response, events) \<Rightarrow>
               (case emit_verified_events takes (snd (nr_emitter run)) events of
                  (sent, Inl e) \<Rightarrow> (run\<lparr>nr_emitter := (fst (nr_emitter run), sent)\<rparr>, Inl e)
                | (sent, Inr _) \<Rightarrow> (run\<lparr>nr_emitter := (fst (nr_emitter run), sent)\<rparr>, Inr response))))"

definition stream_start :: "nat \<Rightarrow> nat \<Rightarrow> string \<Rightarrow> string \<Rightarrow> string \<Rightarrow> nat \<Rightarrow> near_run" where
  "stream_start event_limit stream_limit request_hash signing_address model now =
     \<lparr>nr_decoder = sse_new event_limit stream_limit, nr_deadline = deadline_new now,
      nr_emitter = (stream_state_new request_hash signing_address model, [])\<rparr>"

definition near_stream ::
  "near_lib \<Rightarrow> relay_codec \<Rightarrow> client_identity \<Rightarrow> (nat \<Rightarrow> bool) \<Rightarrow> near_run \<Rightarrow> stream_input list \<Rightarrow>
     (near_run, secure_error, inference_response) outcome" where
  "near_stream nl rc identity takes run inputs =
     obind (try_run (stream_step nl rc identity takes) run inputs) (\<lambda>run _. stream_end nl takes run)"

section \<open>Invariants\<close>

text \<open>Events that commit a result: they wait for the verified transcript.\<close>

fun committed :: "provider_event \<Rightarrow> bool" where
  "committed (Ev_ToolCallDelta _) = True"
| "committed (Ev_Usage _ _) = True"
| "committed (Ev_Finished _) = True"
| "committed Ev_ResponseVerified = True"
| "committed _ = False"

fun text_delta :: "provider_event \<Rightarrow> string" where
  "text_delta (Ev_TextDelta s) = s" | "text_delta _ = []"

fun reasoning_delta :: "provider_event \<Rightarrow> string" where
  "reasoning_delta (Ev_ReasoningDelta s) = s" | "reasoning_delta _ = []"

fun refusal_delta :: "provider_event \<Rightarrow> string" where
  "refusal_delta (Ev_RefusalDelta s) = s" | "refusal_delta _ = []"

definition quiet :: "provider_event list \<Rightarrow> bool" where
  "quiet sent \<longleftrightarrow> list_all (\<lambda>ev. \<not> committed ev) sent"

definition binding :: "stream_state \<Rightarrow> string \<times> string \<times> string" where
  "binding st = (ss_expected_request_hash st, ss_expected_signing_address st, ss_expected_model st)"

definition core_inv :: "string \<times> string \<times> string \<Rightarrow> bool \<Rightarrow> emitter \<Rightarrow> bool" where
  "core_inv b c em \<longleftrightarrow>
     binding (fst em) = b \<and> ss_message_completed (fst em) = c \<and> quiet (snd em)
   \<and> ss_text (fst em) = concat (map text_delta (snd em))
   \<and> ss_reasoning (fst em) = concat (map reasoning_delta (snd em))
   \<and> ss_refusal (fst em) = concat (map refusal_delta (snd em))
   \<and> length (ss_text (fst em)) \<le> MAX_PLAINTEXT_STREAM_BYTES
   \<and> length (ss_reasoning (fst em)) \<le> MAX_PLAINTEXT_STREAM_BYTES
   \<and> length (ss_refusal (fst em)) \<le> MAX_PLAINTEXT_STREAM_BYTES
   \<and> list_all (\<lambda>ev. committed ev \<and> ev \<noteq> Ev_ResponseVerified) (ss_verified_events (fst em))"

lemma quiet_simps [simp]: "quiet []" "quiet (xs @ [ev]) \<longleftrightarrow> quiet xs \<and> \<not> committed ev"
  by (auto simp: quiet_def)

lemma with_sent_iff [simp]: "with_sent sent r = ((st, sent'), q) \<longleftrightarrow> r = (st, q) \<and> sent' = sent"
  by (auto simp: with_sent_def apfst_def map_prod_def split: prod.splits)

lemma emit_iff [simp]: "emit takes st sent ev = ((st', sent'), q) \<longleftrightarrow> st' = st
    \<and> (if takes (length sent) then sent' = sent @ [ev] \<and> q = Inr () else sent' = sent \<and> q = Inl err_cancelled)"
  by (auto simp: emit_def stream_send_def apfst_def map_prod_def)

lemma try_run_ok_inv:
  assumes "try_run f s xs = (s', Inr ())" and "P s"
    and "\<And>s x s'. f s x = (s', Inr ()) \<Longrightarrow> P s \<Longrightarrow> P s'"
  shows "P s'"
  using assms(1,2) by (induction xs arbitrary: s) (auto intro: assms(3))

lemma try_run_inv:
  assumes "P s" and "\<And>s x. P s \<Longrightarrow> P (fst (f s x))"
  shows "P (fst (try_run f s xs))"
  using assms(1)
proof (induction xs arbitrary: s)
  case (Cons x xs)
  then show ?case using assms(2) [of s x]
    by (cases "f s x"; cases "snd (f s x)") (auto simp: obind_def)
qed simp

lemma append_bounded_ok: "append_bounded t f = Inr s \<Longrightarrow> s = t @ f \<and> length s \<le> MAX_PLAINTEXT_STREAM_BYTES"
  by (auto simp: append_bounded_def MAX_PLAINTEXT_STREAM_BYTES_def MAX_MESSAGE_TEXT_BYTES_def saturating_add_def
      usize_max_def split: if_splits)

lemma delta_text_ok:
  assumes "delta_text nl identity takes field set_field event c (st, sent) = ((st', sent'), Inr ())"
  shows "st' = st \<and> sent' = sent \<or>
    (\<exists>t. st' = set_field (field st @ t) st \<and> sent' = sent @ [event t]
       \<and> length (field st @ t) \<le> MAX_PLAINTEXT_STREAM_BYTES)"
  using assms by (auto simp: delta_text_def dest!: append_bounded_ok split: option.splits sum.splits if_splits)

lemma delta_texts_inv:
  assumes "core_inv b c (st, sent)"
  shows "delta_text nl identity takes ss_text (\<lambda>s. ss_text_update (\<lambda>_. s)) Ev_TextDelta v (st, sent) = (em, Inr ())
      \<Longrightarrow> core_inv b c em"
    and "delta_text nl identity takes ss_reasoning (\<lambda>s. ss_reasoning_update (\<lambda>_. s)) Ev_ReasoningDelta v (st, sent)
      = (em, Inr ()) \<Longrightarrow> core_inv b c em"
    and "delta_text nl identity takes ss_refusal (\<lambda>s. ss_refusal_update (\<lambda>_. s)) Ev_RefusalDelta v (st, sent)
      = (em, Inr ()) \<Longrightarrow> core_inv b c em"
  using assms by (cases em; auto dest!: delta_text_ok simp: core_inv_def binding_def)+

lemma accept_sequence_inv:
  assumes "accept_sequence st p = (st', Inr ())" and "core_inv b c (st, sent)"
  shows "core_inv b c (st', sent)"
  using assms by (auto simp: accept_sequence_def core_inv_def binding_def Let_def split: if_splits option.splits sum.splits)

lemma delta_tool_call_inv:
  assumes "delta_tool_call nl identity st enc = (st', Inr ())" and "core_inv b c (st, sent)"
  shows "core_inv b c (st', sent)"
  using assms by (auto simp: delta_tool_call_def core_inv_def binding_def split: sum.splits prod.splits)

lemma accept_delta_inv:
  assumes ok: "accept_delta nl identity takes em p = (em', Inr ())" and inv: "core_inv b c em"
  shows "core_inv b c em' \<and> \<not> c"
proof -
  obtain st sent where em: "em = (st, sent)" by fastforce
  from ok obtain em1 em2 em3 em4 where steps: "\<not> ss_message_completed st"
    "with_sent sent (accept_sequence st p) = (em1, Inr ())"
    "delta_text nl identity takes ss_text (\<lambda>s. ss_text_update (\<lambda>_. s)) Ev_TextDelta (dp_encrypted_delta p) em1 = (em2, Inr ())"
    "delta_text nl identity takes ss_reasoning (\<lambda>s. ss_reasoning_update (\<lambda>_. s)) Ev_ReasoningDelta
       (dp_encrypted_reasoning_delta p) em2 = (em3, Inr ())"
    "delta_text nl identity takes ss_refusal (\<lambda>s. ss_refusal_update (\<lambda>_. s)) Ev_RefusalDelta
       (dp_encrypted_refusal_delta p) em3 = (em4, Inr ())"
    "with_sent (snd em4) (try_run (delta_tool_call nl identity) (fst em4) (dp_encrypted_tool_calls p)) = (em', Inr ())"
    unfolding accept_delta_def em by (auto split: sum.splits if_splits prod.splits)
  have "core_inv b c em1" using steps(2) inv accept_sequence_inv by (cases em1) (auto simp: em)
  then have "core_inv b c em2" using steps(3) delta_texts_inv(1) by (cases em1) auto
  then have "core_inv b c em3" using steps(4) delta_texts_inv(2) by (cases em2) auto
  then have inv4: "core_inv b c (fst em4, snd em4)" using steps(5) delta_texts_inv(3) by (cases em3) auto
  have "core_inv b c em'"
    using steps(6) try_run_ok_inv [where P = "\<lambda>st. core_inv b c (st, snd em4)", OF _ inv4 delta_tool_call_inv]
    by (cases em') auto
  moreover have "\<not> c" using steps(1) inv by (simp add: em core_inv_def)
  ultimately show ?thesis by simp
qed

text \<open>The state agrees with a transcript whose receipt was verified.\<close>

definition authenticated :: "near_lib \<Rightarrow> client_identity \<Rightarrow> stream_state \<Rightarrow> bool" where
  "authenticated nl identity st \<longleftrightarrow> (\<exists>v receipt body tr usage reason.
     verify_near_proof nl v (ss_expected_request_hash st) (ss_expected_signing_address st) (ss_expected_model st)
       = Inr (receipt, body)
   \<and> parse_raw_stream nl body identity = Inr tr
   \<and> ss_usage st = Some usage \<and> ss_finish_reason st = Some reason
   \<and> provisional_response nl st usage reason = Inr (vt_response tr))"

definition stream_inv :: "near_lib \<Rightarrow> client_identity \<Rightarrow> string \<times> string \<times> string \<Rightarrow> emitter \<Rightarrow> bool" where
  "stream_inv nl identity b em \<longleftrightarrow>
     core_inv b (ss_message_completed (fst em)) em
   \<and> (ss_message_completed (fst em) \<longrightarrow> authenticated nl identity (fst em))"

lemma provisional_response_frame:
  "provisional_response nl (st\<lparr>ss_run_id := r\<rparr>) = provisional_response nl st"
  "provisional_response nl (st\<lparr>ss_run_completed := rc\<rparr>) = provisional_response nl st"
  "provisional_response nl (st\<lparr>ss_verified_events := evs, ss_usage := u, ss_finish_reason := f, ss_message_completed := m\<rparr>)
     = provisional_response nl st"
  by (simp_all add: provisional_response_def stream_response_def fun_eq_iff)

lemma check_completed_ok:
  assumes "check_completed nl identity st payload = Inr (usage, reason)"
  shows "\<not> ss_message_completed st \<and> (\<exists>v receipt body tr.
    verify_near_proof nl v (ss_expected_request_hash st) (ss_expected_signing_address st) (ss_expected_model st)
       = Inr (receipt, body)
    \<and> parse_raw_stream nl body identity = Inr tr \<and> provisional_response nl st usage reason = Inr (vt_response tr))"
  using assms unfolding check_completed_def by (auto simp: Let_def split: if_splits prod.splits)

lemma accept_completed_inv:
  assumes ok: "accept_completed nl identity st payload = (st', Inr ())" and inv: "stream_inv nl identity b (st, sent)"
  shows "stream_inv nl identity b (st', sent)"
proof -
  from ok obtain usage reason where check: "check_completed nl identity st payload = Inr (usage, reason)"
    and st': "st' = st\<lparr>ss_verified_events := ss_verified_events st @
        [Ev_Usage (tu_input_tokens usage) (tu_output_tokens usage), Ev_Finished reason],
      ss_usage := Some usage, ss_finish_reason := Some reason, ss_message_completed := True\<rparr>"
    by (auto simp: accept_completed_def split: sum.splits prod.splits)
  have "authenticated nl identity st'"
    using check_completed_ok [OF check] unfolding authenticated_def st' provisional_response_frame by simp
  moreover have "core_inv b True (st', sent)"
    using inv by (auto simp: stream_inv_def core_inv_def binding_def st')
  ultimately show ?thesis by (simp add: stream_inv_def st')
qed

lemma accept_inv:
  assumes ok: "accept nl identity takes em ev = (em', Inr ())" and inv: "stream_inv nl identity b em"
  shows "stream_inv nl identity b em'"
proof -
  obtain st sent where em: "em = (st, sent)" by fastforce
  show ?thesis
  proof (cases ev)
    case (Delta p)
    then have "accept_delta nl identity takes em p = (em', Inr ())"
      using ok by (simp add: accept_def em split: if_splits)
    with inv show ?thesis using accept_delta_inv by (fastforce simp: stream_inv_def core_inv_def)
  next
    case (MessageCompleted p)
    then have "with_sent sent (accept_completed nl identity st p) = (em', Inr ())"
      using ok by (simp add: accept_def em split: if_splits)
    with inv show ?thesis using accept_completed_inv by (cases em') (auto simp: em)
  qed (use ok inv in \<open>cases em'; auto simp: accept_def em stream_inv_def core_inv_def binding_def authenticated_def
      provisional_response_frame split: if_splits sum.splits\<close>)+
qed

lemma stream_finish_authentic:
  assumes "stream_finish nl st = Inr (response, events)" and "authenticated nl identity st"
  shows "\<exists>v receipt body tr.
    verify_near_proof nl v (ss_expected_request_hash st) (ss_expected_signing_address st) (ss_expected_model st)
       = Inr (receipt, body)
    \<and> parse_raw_stream nl body identity = Inr tr \<and> response = vt_response tr"
  using assms unfolding authenticated_def stream_finish_def provisional_response_def
  by (auto split: if_splits) metis

subsection \<open>Nothing is committed early\<close>

lemma obind_fst_inv:
  assumes "P (fst r)" and "\<And>s x. P s \<Longrightarrow> P (fst (k s x))"
  shows "P (fst (obind r k))"
  using assms by (cases r; cases "snd r") auto

lemma emit_quiet: "quiet sent \<Longrightarrow> \<not> committed ev \<Longrightarrow> quiet (snd (fst (emit takes st sent ev)))"
  by (simp add: emit_def stream_send_def)

lemma delta_text_quiet:
  "(\<And>t. \<not> committed (event t)) \<Longrightarrow> quiet (snd em)
     \<Longrightarrow> quiet (snd (fst (delta_text nl identity takes field set_field event c em)))"
  by (auto simp: delta_text_def emit_quiet split: prod.splits option.splits sum.splits)

lemma with_sent_snd [simp]: "snd (fst (with_sent sent r)) = sent"
  by (simp add: with_sent_def)

lemma accept_delta_quiet: "quiet (snd em) \<Longrightarrow> quiet (snd (fst (accept_delta nl identity takes em p)))"
  unfolding accept_delta_def
  by (auto split: prod.splits sum.splits intro!: obind_fst_inv [where P = "\<lambda>em. quiet (snd em)"] delta_text_quiet)

lemma accept_quiet: "quiet (snd em) \<Longrightarrow> quiet (snd (fst (accept nl identity takes em ev)))"
  by (cases em; cases ev) (auto simp: accept_def emit_quiet accept_delta_quiet split: sum.splits)

lemma stream_event_emitter:
  "fst (stream_event nl identity takes now run ev) = run\<lparr>nr_deadline := deadline_observe now (nr_deadline run) ev,
     nr_emitter := fst (accept nl identity takes (nr_emitter run) ev)\<rparr>"
  "snd (stream_event nl identity takes now run ev) = snd (accept nl identity takes (nr_emitter run) ev)"
  by (simp_all add: stream_event_def Let_def)

lemma stream_step_quiet:
  assumes "quiet (snd (nr_emitter run))"
  shows "quiet (snd (nr_emitter (fst (stream_step nl rc identity takes run input))))"
proof -
  have "quiet (snd (nr_emitter (fst (try_run (stream_event nl identity takes now) (run\<lparr>nr_decoder := d\<rparr>) evs))))" for now d evs
    using assms by (intro try_run_inv [where P = "\<lambda>r. quiet (snd (nr_emitter r))"])
      (simp_all add: stream_event_emitter accept_quiet)
  with assms show ?thesis by (auto simp: stream_step_def split: stream_input.splits prod.splits sum.splits)
qed

lemma stream_step_inv:
  assumes "stream_step nl rc identity takes run input = (run', Inr ())" and "stream_inv nl identity b (nr_emitter run)"
  shows "stream_inv nl identity b (nr_emitter run')"
proof -
  have event: "stream_inv nl identity b (nr_emitter r')"
    if "stream_event nl identity takes now r ev = (r', Inr ())" "stream_inv nl identity b (nr_emitter r)" for now r ev r'
    using that accept_inv [of nl identity takes "nr_emitter r" ev "fst (accept nl identity takes (nr_emitter r) ev)" b]
    by (auto simp: prod_eq_iff stream_event_emitter)
  from assms(1) obtain now bytes d evs where "input = In_Chunk now bytes"
    "try_run (stream_event nl identity takes now) (run\<lparr>nr_decoder := d\<rparr>) evs = (run', Inr ())"
    by (auto simp: stream_step_def split: stream_input.splits prod.splits sum.splits)
  with assms(2) show ?thesis
    using try_run_ok_inv [where P = "\<lambda>r. stream_inv nl identity b (nr_emitter r)", OF _ _ event] by fastforce
qed

lemma try_run_send:
  "try_run (stream_send takes) sent evs = (sent', r) \<Longrightarrow>
     \<exists>k. sent' = sent @ take k evs \<and> (r = Inr () \<longrightarrow> length evs \<le> k)"
proof (induction evs arbitrary: sent)
  case (Cons ev evs)
  show ?case
  proof (cases "takes (length sent)")
    case True
    with Cons.prems have "try_run (stream_send takes) (sent @ [ev]) evs = (sent', r)"
      by (simp add: stream_send_def [of takes sent ev])
    from Cons.IH [OF this] obtain k where "sent' = (sent @ [ev]) @ take k evs \<and> (r = Inr () \<longrightarrow> length evs \<le> k)"
      by blast
    then show ?thesis by (intro exI [of _ "Suc k"]) simp
  next
    case False
    with Cons.prems show ?thesis by (intro exI [of _ 0]) (auto simp: stream_send_def [of takes sent ev])
  qed
qed simp

lemma emit_verified_events_sent:
  assumes "emit_verified_events takes sent evs = (sent', r)"
  shows "if r = Inr () then sent' = sent @ evs @ [Ev_ResponseVerified] else \<exists>k. sent' = sent @ take k evs"
  using assms try_run_send [of takes sent evs]
  by (cases "try_run (stream_send takes) sent evs"; cases "snd (try_run (stream_send takes) sent evs)")
    (auto simp: emit_verified_events_def stream_send_def [of takes _ Ev_ResponseVerified] obind_def split: if_splits
      intro: exI [of _ "length evs"])

lemma near_stream_cases:
  assumes "near_stream nl rc identity takes (stream_start el sl rh sa m now) inputs = (run, result)"
  shows "quiet (snd (nr_emitter run)) \<and> (\<exists>e. result = Inl e) \<or>
    (\<exists>em response events sent. stream_inv nl identity (rh, sa, m) em \<and> stream_finish nl (fst em) = Inr (response, events)
      \<and> nr_emitter run = (fst em, sent)
      \<and> (result = Inr response \<and> sent = snd em @ events @ [Ev_ResponseVerified]
         \<or> (\<exists>e k. result = Inl e \<and> sent = snd em @ take k events)))"
proof -
  let ?run = "stream_start el sl rh sa m now"
  obtain run1 r where steps: "try_run (stream_step nl rc identity takes) ?run inputs = (run1, r)" by fastforce
  have start: "stream_inv nl identity (rh, sa, m) (nr_emitter ?run)" "quiet (snd (nr_emitter ?run))"
    by (simp_all add: stream_start_def stream_state_new_def stream_inv_def core_inv_def binding_def)
  have "quiet (snd (nr_emitter (fst (try_run (stream_step nl rc identity takes) ?run inputs))))"
    by (rule try_run_inv [where P = "\<lambda>r. quiet (snd (nr_emitter r))"]) (rule start(2), rule stream_step_quiet)
  then have quiet1: "quiet (snd (nr_emitter run1))" by (simp add: steps)
  show ?thesis
  proof (cases r)
    case (Inl e)
    with steps assms quiet1 show ?thesis by (auto simp: near_stream_def)
  next
    case (Inr u)
    then have inv: "stream_inv nl identity (rh, sa, m) (nr_emitter run1)"
      using try_run_ok_inv [where P = "\<lambda>r. stream_inv nl identity (rh, sa, m) (nr_emitter r)", OF _ start(1) stream_step_inv]
        steps by simp
    have last: "stream_end nl takes run1 = (run, result)" using assms steps Inr by (simp add: near_stream_def)
    show ?thesis
    proof (cases "\<exists>response events. sse_finish (nr_decoder run1) = Inr () \<and> stream_finish nl (fst (nr_emitter run1)) = Inr (response, events)")
      case True
      then obtain response events sent q where fin: "sse_finish (nr_decoder run1) = Inr ()"
        "stream_finish nl (fst (nr_emitter run1)) = Inr (response, events)"
        "emit_verified_events takes (snd (nr_emitter run1)) events = (sent, q)"
        by fastforce
      with last inv emit_verified_events_sent [OF fin(3)] show ?thesis
        by (intro disjI2 exI [of _ "nr_emitter run1"] exI [of _ response] exI [of _ events] exI [of _ sent])
          (auto simp: stream_end_def split: sum.splits if_splits)
    next
      case False
      with last quiet1 show ?thesis by (auto simp: stream_end_def split: sum.splits prod.splits)
    qed
  qed
qed

lemma committed_silent:
  "list_all committed evs \<Longrightarrow> concat (map text_delta evs) = [] \<and> concat (map reasoning_delta evs) = []
     \<and> concat (map refusal_delta evs) = []"
  by (induction evs) (auto elim: committed.elims)

lemma stream_commits_end:
  assumes inv: "stream_inv nl identity b em"
    and fin: "stream_finish nl (fst em) = Inr (response, events)" and em: "nr_emitter run = (fst em, sent)"
    and sent: "result = Inr response \<and> sent = snd em @ events @ [Ev_ResponseVerified]
      \<or> (\<exists>e k. result = Inl e \<and> sent = snd em @ take k events)"
  shows "(Ev_ResponseVerified \<in> set (snd (nr_emitter run)) \<longleftrightarrow> (\<exists>response. result = Inr response))
    \<and> ((\<exists>ev \<in> set (snd (nr_emitter run)). committed ev) \<longrightarrow> authenticated nl identity (fst (nr_emitter run)))
    \<and> (\<forall>response. result = Inr response \<longrightarrow>
         last (snd (nr_emitter run)) = Ev_ResponseVerified
       \<and> at_text (resp_assistant response) = concat (map text_delta (snd (nr_emitter run)))
       \<and> resp_reasoning response = some_nonempty (concat (map reasoning_delta (snd (nr_emitter run))))
       \<and> resp_refusal response = some_nonempty (concat (map refusal_delta (snd (nr_emitter run))))
       \<and> length (at_text (resp_assistant response)) \<le> MAX_PLAINTEXT_STREAM_BYTES)"
proof -
  have events: "events = ss_verified_events (fst em)" "ss_message_completed (fst em)"
    and response: "at_text (resp_assistant response) = ss_text (fst em)"
      "resp_reasoning response = some_nonempty (ss_reasoning (fst em))"
      "resp_refusal response = some_nonempty (ss_refusal (fst em))"
    using fin by (auto simp: stream_finish_def stream_response_def split: if_splits)
  have core: "core_inv b True em" and auth: "authenticated nl identity (fst em)"
    using inv events(2) by (simp_all add: stream_inv_def)
  then have q: "quiet (snd em)" "list_all (\<lambda>ev. committed ev \<and> ev \<noteq> Ev_ResponseVerified) events"
    by (simp_all add: core_inv_def events(1))
  then have c: "list_all committed events" by (simp add: list_all_iff)
  have unsent: "Ev_ResponseVerified \<notin> set (snd em)" "Ev_ResponseVerified \<notin> set events"
    using q by (fastforce simp: quiet_def list_all_iff)+
  have verified: "Ev_ResponseVerified \<in> set sent \<longleftrightarrow> (\<exists>response. result = Inr response)"
    using sent unsent by (auto dest: in_set_takeD)
  show ?thesis
    using sent core auth verified by (auto simp: em core_inv_def response committed_silent [OF c])
qed

section \<open>Properties\<close>

text \<open>C26. A streamed response is returned only when it is the signed one: whatever chunks, failures and
  cancellations the stream goes through, a returned response is the response parsed and decrypted from the
  bytes of a receipt, and the key of the attested signing address signed the expected model, the hash of
  the request that was sent and the hash of those bytes.\<close>

theorem stream_authenticated:
  assumes "near_stream nl rc identity takes (stream_start el sl request_hash signing_address model now) inputs
    = (run, Inr response)"
  shows "\<exists>body tr. receipt_signs nl request_hash signing_address model body
    \<and> parse_raw_stream nl body identity = Inr tr \<and> response = vt_response tr"
proof -
  from near_stream_cases [OF assms] obtain em events where
    inv: "stream_inv nl identity (request_hash, signing_address, model) em"
    and fin: "stream_finish nl (fst em) = Inr (response, events)" by auto
  have "ss_message_completed (fst em)" using fin by (auto simp: stream_finish_def split: if_splits)
  with inv have "authenticated nl identity (fst em)" "binding (fst em) = (request_hash, signing_address, model)"
    by (simp_all add: stream_inv_def core_inv_def)
  with stream_finish_authentic [OF fin] show ?thesis using verify_near_proof_ok(2) by (fastforce simp: binding_def)
qed

text \<open>C27. What the application sees of a stream: the signal that the response is verified is sent exactly
  when the response is returned, and as the last event; no tool call, usage or finish event is sent
  before the transcript is authenticated; and the text, reasoning and refusal deltas sent are together
  the text, reasoning and refusal of the response returned, each within 16 MiB.\<close>

theorem stream_commits_last:
  assumes "near_stream nl rc identity takes (stream_start el sl request_hash signing_address model now) inputs
    = (run, result)"
  shows "(Ev_ResponseVerified \<in> set (snd (nr_emitter run)) \<longleftrightarrow> (\<exists>response. result = Inr response))
    \<and> ((\<exists>ev \<in> set (snd (nr_emitter run)). committed ev) \<longrightarrow> authenticated nl identity (fst (nr_emitter run)))
    \<and> (\<forall>response. result = Inr response \<longrightarrow>
         last (snd (nr_emitter run)) = Ev_ResponseVerified
       \<and> at_text (resp_assistant response) = concat (map text_delta (snd (nr_emitter run)))
       \<and> resp_reasoning response = some_nonempty (concat (map reasoning_delta (snd (nr_emitter run))))
       \<and> resp_refusal response = some_nonempty (concat (map refusal_delta (snd (nr_emitter run))))
       \<and> length (at_text (resp_assistant response)) \<le> MAX_PLAINTEXT_STREAM_BYTES)"
proof -
  from near_stream_cases [OF assms] consider
    (early) e where "quiet (snd (nr_emitter run))" "result = Inl e"
  | (late) em response events sent where "stream_inv nl identity (request_hash, signing_address, model) em"
      "stream_finish nl (fst em) = Inr (response, events)" "nr_emitter run = (fst em, sent)"
      "result = Inr response \<and> sent = snd em @ events @ [Ev_ResponseVerified]
        \<or> (\<exists>e k. result = Inl e \<and> sent = snd em @ take k events)"
    by blast
  then show ?thesis
  proof cases
    case early
    then show ?thesis by (auto simp: quiet_def list_all_iff)
  next
    case late
    then show ?thesis by (rule stream_commits_end)
  qed
qed

section \<open>Witnesses\<close>

text \<open>A provider whose response is an empty stream with one chunk and its terminal marker, and a relay
  that announces, completes and ends the run.\<close>

definition demo_body :: string where
  "demo_body = ''data: c'' @ char_of (10::nat) # ''data: [DONE]''"

definition demo_receipt :: near_proof where
  "demo_receipt = \<lparr>np_provider = ''near'', np_protocol = ''near-v3'', np_chat_id = ''chat'', np_model = ''m'',
     np_request_hash = replicate 64 (CHR ''0''), np_response_hash = replicate 64 (CHR ''0''),
     np_response_body_base64 = demo_body,
     np_signed_text = ''m:'' @ replicate 64 (CHR ''0'') @ '':'' @ replicate 64 (CHR ''0''),
     np_signature = replicate 128 (CHR ''0''), np_signing_address = replicate 64 (CHR ''0'')\<rparr>"

definition demo_usage :: relay_usage where
  "demo_usage = \<lparr>us_prompt_tokens = None, us_completion_tokens = None, us_total_tokens = Some 0,
     us_cached_prompt_tokens = None\<rparr>"

definition demo_lib :: near_lib where
  "demo_lib = \<lparr>nl_prims = demo_prims,
     nl_stream_chunk = (\<lambda>s. if s = ''c'' then Some \<lparr>rch_id = Some ''chat'', rch_model = None, rch_choices = [],
       rch_usage = Some (JObject [(''total_tokens'', JNumber (PosInt 0))])\<rparr> else None),
     nl_completion = (\<lambda>_. Some \<lparr>rco_id = ''chat'', rco_model = None, rco_choices = [\<lparr>rcc_message = \<lparr>rm_content = None,
       rm_reasoning_content = None, rm_refusal = Some (replicate 144 (CHR ''0'')), rm_tool_calls = []\<rparr>,
       rcc_finish_reason = None\<rparr>], rco_usage = Some (JObject [(''total_tokens'', JNumber (PosInt 0))])\<rparr>), nl_proof = (\<lambda>_. Some demo_receipt), nl_json_valid = (\<lambda>_. True),
     nl_base64_decode = Some, nl_sha256 = (\<lambda>_. replicate 32 nul), nl_key_valid = (\<lambda>_. True),
     nl_signature_valid = (\<lambda>_. True), nl_verify_strict = (\<lambda>_ _ _. True)\<rparr>"

definition demo_relay :: relay_codec where
  "demo_relay = demo_relay_codec\<lparr>
     de_created := (\<lambda>s. Some \<lparr>cp_run_id = s, cp_inference_encryption = ''provider_e2ee_v2''\<rparr>),
     de_completed := (\<lambda>s. Some \<lparr>mp_run_id = s, mp_usage = demo_usage, mp_finish_reason = ''stop'', mp_proof = Some JNull\<rparr>)\<rparr>"

definition demo_identity :: client_identity where
  "demo_identity = \<lparr>ci_public_key = [], ci_x25519_secret = []\<rparr>"

definition demo_response :: inference_response where
  "demo_response = \<lparr>resp_assistant = \<lparr>at_text = [], at_reasoning = None, at_tool_calls = []\<rparr>, resp_reasoning = None,
     resp_refusal = None, resp_usage = \<lparr>tu_input_tokens = 0, tu_output_tokens = 0, tu_total_tokens = 0\<rparr>,
     resp_finish_reason = Some Fin_Stop\<rparr>"

lemma demo_provider_usage:
  "provider_usage (Some (JObject [(''total_tokens'', JNumber (PosInt 0))])) = demo_usage"
  by (simp add: provider_usage_def demo_usage_def json_get_def as_object_def token_value_def Let_def)

lemma demo_transcript:
  "parse_raw_stream demo_lib demo_body demo_identity = Inr \<lparr>vt_chat_id = ''chat'', vt_model = None,
     vt_sequence_count = 0, vt_response = demo_response\<rparr>"
proof -
  let ?st = "raw_stream_init\<lparr>rs_chat_id := Some ''chat'', rs_usage := demo_usage\<rparr>"
  have lines: "str_split (char_of (10::nat)) demo_body = [''data: c'', ''data: [DONE]'']" "from_utf8_ok demo_body"
    "strip_cr ''data: c'' = ''data: c''" "strip_cr ''data: [DONE]'' = ''data: [DONE]''"
    "str_trim ''c'' = ''c''" "str_trim ''[DONE]'' = ''[DONE]''" "\<not> has_control ''chat''"
    by code_simp+
  have "raw_stream_line demo_lib demo_identity raw_stream_init ''data: c'' = Inr ?st"
    by (simp add: raw_stream_line_def lines demo_lib_def raw_stream_init_def accept_chunk_def accept_chunk_ids_def
        validate_run_id_def json_value_is_truthy_def accept_choice_def empty_choice_def optional_ciphertext_def
        append_decrypted_def demo_provider_usage Let_def)
  moreover have "raw_stream_line demo_lib demo_identity ?st ''data: [DONE]'' = Inr (?st\<lparr>rs_done := True\<rparr>)"
    by (simp add: raw_stream_line_def lines raw_stream_init_def)
  ultimately show ?thesis
    by (simp add: parse_raw_stream_def lines raw_stream_init_def finish_tool_calls_def accumulator_finish_def
        parse_finish_reason_def validate_finish_shape_def normalize_usage_def demo_usage_def some_nonempty_def
        demo_response_def)
qed

lemma demo_hex: "lower_hex (replicate n (CHR ''0''))"
  by (simp add: lower_hex_def list_all_iff is_ascii_hexdigit_def is_ascii_digit_def is_ascii_uppercase_def in_range_def byte_def)

lemma demo_verified:
  "verify_near_proof demo_lib v (replicate 64 (CHR ''0'')) (replicate 64 (CHR ''0'')) ''m'' = Inr (demo_receipt, demo_body)"
proof -
  have "\<not> has_control ''chat''" "length demo_body = 20" "demo_body \<noteq> []" by code_simp+
  moreover have "verify_ed25519_signature demo_lib (np_signed_text demo_receipt) (np_signature demo_receipt)
      (np_signing_address demo_receipt) = Inr ()"
    using demo_decode [of 32] demo_decode [of 64]
    by (simp add: verify_ed25519_signature_def demo_lib_def demo_receipt_def
        canonical_signing_address_def canonical_hash_def demo_hex)
  ultimately show ?thesis
    by (simp add: verify_near_proof_def demo_lib_def demo_receipt_def NEAR_PROVIDER_ID_def NEAR_E2EE_PROTOCOL_def
        canonical_signing_address_def canonical_hash_def demo_hex demo_hash [of 32, simplified] NEAR_RECEIPT_RAW_RESPONSE_BYTES_def
        div_ceil_def usize_max_def)
qed

abbreviation demo_key :: string where "demo_key \<equiv> replicate 64 (CHR ''0'')"

definition demo_state :: "bool \<Rightarrow> stream_state" where
  "demo_state completed = (stream_state_new demo_key demo_key ''m'')\<lparr>ss_run_id := Some ''r'',
     ss_verified_events := (if completed then [Ev_Usage 0 0, Ev_Finished Fin_Stop] else []),
     ss_usage := (if completed then Some (resp_usage demo_response) else None),
     ss_finish_reason := (if completed then Some Fin_Stop else None), ss_message_completed := completed\<rparr>"

definition demo_connected :: provider_event where
  "demo_connected = Ev_Status True ''Attested end-to-end encrypted inference connected''"

lemma demo_accept_created:
  "accept demo_lib demo_identity (\<lambda>_. True) (stream_state_new demo_key demo_key ''m'', [])
     (RunCreated \<lparr>cp_run_id = ''r'', cp_inference_encryption = ''provider_e2ee_v2''\<rparr>) =
     ((demo_state False, [demo_connected]), Inr ())"
proof -
  have "validate_run_id ''r'' = Inr ()" by code_simp
  then show ?thesis
    by (simp add: accept_def stream_state_new_def INFERENCE_ENCRYPTION_def demo_state_def demo_connected_def)
qed

lemma demo_accept_completed:
  "accept demo_lib demo_identity (\<lambda>_. True) (demo_state False, sent)
     (MessageCompleted \<lparr>mp_run_id = ''r'', mp_usage = demo_usage, mp_finish_reason = ''stop'', mp_proof = Some JNull\<rparr>) =
     ((demo_state True, sent), Inr ())"
proof -
  have "provisional_response demo_lib (demo_state False) (resp_usage demo_response) Fin_Stop = Inr demo_response"
    by (simp add: provisional_response_def finish_tool_calls_def accumulator_finish_def demo_state_def stream_state_new_def
        validate_finish_shape_def stream_response_def demo_response_def some_nonempty_def)
  then have "check_completed demo_lib demo_identity (demo_state False)
      \<lparr>mp_run_id = ''r'', mp_usage = demo_usage, mp_finish_reason = ''stop'', mp_proof = Some JNull\<rparr> =
      Inr (resp_usage demo_response, Fin_Stop)"
    by (simp add: check_completed_def demo_state_def stream_state_new_def require_run_def demo_verified demo_transcript
        parse_finish_reason_def normalize_usage_def demo_usage_def demo_response_def Let_def demo_receipt_def)
  then show ?thesis
    by (simp add: accept_def accept_completed_def demo_state_def stream_state_new_def with_sent_def demo_response_def)
qed

lemma demo_accept_run_completed:
  "accept demo_lib demo_identity (\<lambda>_. True) (demo_state True, sent) (RunCompleted \<lparr>rp_run_id = ''r''\<rparr>) =
     (((demo_state True)\<lparr>ss_run_completed := True\<rparr>, sent), Inr ())"
  by (simp add: accept_def demo_state_def stream_state_new_def require_run_def)

lemma demo_finish:
  "stream_finish demo_lib ((demo_state True)\<lparr>ss_run_completed := True\<rparr>) =
     Inr (demo_response, [Ev_Usage 0 0, Ev_Finished Fin_Stop])"
  by (simp add: stream_finish_def demo_state_def stream_state_new_def finish_tool_calls_def accumulator_finish_def
      validate_finish_shape_def stream_response_def demo_response_def some_nonempty_def)

lemma demo_plain: "plain_line ''run.created''" "plain_line ''message.encrypted_completed''" "plain_line ''run.completed''"
  "plain_line ''r''"
  by (simp_all add: plain_line_def byte_def)

definition demo_inputs :: "stream_input list" where
  "demo_inputs = [In_Chunk 1 (event_text ''run.created'' ''r''),
     In_Chunk 2 (event_text ''message.encrypted_completed'' ''r''), In_Chunk 3 (event_text ''run.completed'' ''r'')]"

lemma demo_streamed:
  "\<exists>run. near_stream demo_lib demo_relay demo_identity (\<lambda>_. True) (stream_start 1000 1000 demo_key demo_key ''m'' 0) demo_inputs
     = (run, Inr demo_response)
   \<and> snd (nr_emitter run) = [demo_connected, Ev_Usage 0 0, Ev_Finished Fin_Stop, Ev_ResponseVerified]"
proof -
  define d where "d n = (sse_new 1000 1000)\<lparr>sd_total_bytes := n\<rparr>" for n
  have len: "length (event_text ''run.created'' ''r'') = 28" "length (event_text ''run.completed'' ''r'') = 30"
    "length (event_text ''message.encrypted_completed'' ''r'') = 44" by (simp_all add: event_text_def)
  have fits: "idle (d n)" "sd_event_limit (d n) = 1000" "sd_stream_limit (d n) = 1000" "sd_total_bytes (d n) = n"
    "(1000::nat) \<le> usize_max" "(d n)\<lparr>sd_total_bytes := k\<rparr> = d k" for n k
    by (simp_all add: d_def idle_def sse_new_def usize_max_def)
  note decode = accept_event_def parse_event_def decode_with_def demo_relay_def demo_relay_codec_def
  have f1: "feed demo_relay (d 0) (event_text ''run.created'' ''r'') =
      (d 28, Inr [RunCreated \<lparr>cp_run_id = ''r'', cp_inference_encryption = ''provider_e2ee_v2''\<rparr>])"
    by (subst feed_event) (simp_all add: fits demo_plain len decode)
  have f2: "feed demo_relay (d 28) (event_text ''message.encrypted_completed'' ''r'') =
      (d 72, Inr [MessageCompleted \<lparr>mp_run_id = ''r'', mp_usage = demo_usage, mp_finish_reason = ''stop'', mp_proof = Some JNull\<rparr>])"
    by (subst feed_event) (simp_all add: fits demo_plain len decode attach_proof_def, simp add: d_def sse_new_def)
  have f3: "feed demo_relay (d 72) (event_text ''run.completed'' ''r'') = (d 102, Inr [RunCompleted \<lparr>rp_run_id = ''r''\<rparr>])"
    by (subst feed_event) (simp_all add: fits demo_plain len decode)
  have start: "stream_start 1000 1000 demo_key demo_key ''m'' 0 = \<lparr>nr_decoder = d 0, nr_deadline = deadline_new 0,
      nr_emitter = (stream_state_new demo_key demo_key ''m'', [])\<rparr>"
    by (simp add: stream_start_def d_def sse_new_def)
  have fin: "sse_finish (d 102) = Inr ()" by (simp add: d_def sse_new_def sse_finish_def)
  show ?thesis
    unfolding near_stream_def demo_inputs_def start
    by (simp add: stream_step_def f1 f2 f3 stream_event_def Let_def demo_accept_created demo_accept_completed
        demo_accept_run_completed stream_end_def fin demo_finish emit_verified_events_def stream_send_def)
qed

theorem stream_authenticated_witness:
  "\<exists>body. receipt_signs demo_lib demo_key demo_key ''m'' body"
  using demo_streamed stream_authenticated by blast

theorem stream_commits_last_witness:
  "\<exists>run. near_stream demo_lib demo_relay demo_identity (\<lambda>_. True) (stream_start 1000 1000 demo_key demo_key ''m'' 0) demo_inputs
     = (run, Inr demo_response) \<and> last (snd (nr_emitter run)) = Ev_ResponseVerified"
  using demo_streamed stream_commits_last by blast

text \<open>A completion whose refusal is the encryption of the empty text.\<close>

definition demo_model :: model_info where
  "demo_model = \<lparr>mi_id = ''m'', mi_label = [], mi_short_label = [], mi_provider_id = ''near'', mi_provider_label = [],
     mi_upstream_model = ''m'', mi_provider_base_url = [], mi_e2ee_protocol = ''near-v3'', mi_e2ee_encryption_version = 2,
     mi_attestation_protocol = [], mi_context_window_tokens = 0, mi_max_output_tokens = 0, mi_input_price = None,
     mi_output_price = None, mi_supported_reasoning_efforts = [], mi_supported_thinking_modes = [],
     mi_reasoning_replay = False, mi_supports_tools = False, mi_supports_parallel_tools = False,
     mi_supports_streaming = True, mi_supports_images = False, mi_file_mime_types = [], mi_reasoning_parameters = [],
     mi_thinking_parameters = []\<rparr>"

definition demo_completion :: relay_completion where
  "demo_completion = \<lparr>rc_id = ''chat'', rc_model = None, rc_content = None, rc_reasoning_content = None,
     rc_refusal = Some (replicate 144 (CHR ''0'')), rc_tool_calls = [], rc_finish_reason = ''stop'',
     rc_usage = demo_usage, rc_proof = None\<rparr>"

lemma demo_decrypt_empty: "near_decrypt demo_prims demo_identity (replicate 144 (CHR ''0'')) = Inr []"
proof -
  have hex: "list_all is_ascii_hexdigit (replicate 144 (CHR ''0''))"
    using demo_hex [of 144] by (simp add: lower_hex_def list_all_iff)
  have key: "derive_key demo_prims k = Inr (replicate 32 nul)" "aead_decrypt demo_prims k n (replicate 16 nul) = Some []" for k n
    by (simp_all add: derive_key_def demo_prims_def)
  have utf8: "from_utf8_ok []" by code_simp
  show ?thesis
    unfolding near_decrypt_def decrypt_hex_def strip_0x_hex [OF hex] demo_decode [of 72, simplified]
    by (simp add: wire_sizes usize_max_def key utf8)
qed

lemma demo_completion_response:
  "\<exists>response. decrypt_completion demo_lib demo_model demo_identity demo_key demo_key
     (demo_completion\<lparr>rc_proof := Some JNull\<rparr>) = Inr response"
proof -
  have c: "ciphertext_new (replicate 144 (CHR ''0'')) = Inr (replicate 144 (CHR ''0''))"
    using demo_hex [of 144]
    by (simp add: ciphertext_new_def MIN_CIPHERTEXT_HEX_CHARS_def MAX_CIPHERTEXT_HEX_CHARS_def lower_hex_def list_all_iff)
  have id: "validate_run_id ''chat'' = Inr ()" by code_simp
  have raw: "parse_raw_completion demo_lib demo_body = Inr demo_completion"
    by (simp add: parse_raw_completion_def demo_lib_def id optional_ciphertext_def try_option_def c demo_completion_def
        demo_provider_usage)
  obtain response where dec: "decrypt_relay_completion demo_lib demo_model demo_identity demo_completion = Inr response"
    by (simp add: decrypt_relay_completion_def demo_completion_def id try_option_def demo_lib_def demo_decrypt_empty
        decrypt_tool_calls_def parse_finish_reason_def validate_finish_shape_def normalize_usage_def demo_usage_def)
  have same: "decrypt_relay_completion demo_lib demo_model demo_identity (demo_completion\<lparr>rc_proof := Some JNull\<rparr>) =
      decrypt_relay_completion demo_lib demo_model demo_identity demo_completion"
    by (simp add: decrypt_relay_completion_def Let_def cong: if_cong)
  show ?thesis
    by (simp add: decrypt_completion_def demo_verified demo_model_def [THEN arg_cong, of mi_upstream_model] raw same dec
        demo_receipt_def demo_completion_def [THEN arg_cong, of rc_id])
qed

theorem completion_authenticated_witness:
  "\<exists>body. receipt_signs demo_lib demo_key demo_key (mi_upstream_model demo_model) body"
  using demo_completion_response completion_authenticated by blast

end
