(* ===== verification/Endpoint.thy ===== *)
theory Endpoint
  imports Secure_Errors Url_Lib
begin

text \<open>
  Where the encrypted client may connect and whom it trusts:
  \<open>crates/axiom-secure-client/src/config.rs\<close> (\<open>EndpointPolicy\<close>, \<open>is_public_address\<close>, limits),
  \<open>http.rs\<close> (the loopback exception, the addresses a client is pinned to, bounded bodies) and
  \<open>security.rs\<close> (signed trust policies). Name resolution, JSON and signature verification are
  parameters.
\<close>

unbundle bit_operations_syntax

section \<open>Public addresses\<close>

text \<open>The address classes of \<open>std::net\<close> that the check uses.\<close>

fun v4_private :: "8 word \<Rightarrow> 8 word \<Rightarrow> bool" where
  "v4_private a b \<longleftrightarrow> a = 10 \<or> a = 172 \<and> 16 \<le> b \<and> b \<le> 31 \<or> a = 192 \<and> b = 168"

fun v4_documentation :: "8 word \<Rightarrow> 8 word \<Rightarrow> 8 word \<Rightarrow> bool" where
  "v4_documentation a b c \<longleftrightarrow>
     a = 192 \<and> b = 0 \<and> c = 2 \<or> a = 198 \<and> b = 51 \<and> c = 100 \<or> a = 203 \<and> b = 0 \<and> c = 113"

fun is_public_address :: "ip_addr \<Rightarrow> bool" where
  "is_public_address (V4 a b c d) \<longleftrightarrow>
     \<not> (v4_private a b
        \<or> a = 127
        \<or> a = 169 \<and> b = 254
        \<or> a = 255 \<and> b = 255 \<and> c = 255 \<and> d = 255
        \<or> v4_documentation a b c
        \<or> a = 0 \<and> b = 0 \<and> c = 0 \<and> d = 0
        \<or> 224 \<le> a \<and> a \<le> 239
        \<or> a = 0
        \<or> a = 100 \<and> 64 \<le> b \<and> b \<le> 127
        \<or> a = 192 \<and> b = 0 \<and> c = 0
        \<or> a = 198 \<and> 18 \<le> b \<and> b \<le> 19
        \<or> 240 \<le> a)"
| "is_public_address (V6 gs) \<longleftrightarrow>
     \<not> (gs = [0, 0, 0, 0, 0, 0, 0, 1]
        \<or> gs = [0, 0, 0, 0, 0, 0, 0, 0]
        \<or> hd gs AND 0xfe00 = 0xfc00
        \<or> hd gs AND 0xffc0 = 0xfe80
        \<or> hd gs AND 0xff00 = 0xff00
        \<or> hd gs = 0x2001 \<and> gs ! 1 = 0x0db8)"

section \<open>Endpoint policy\<close>

record endpoint_policy =
  require_https :: bool
  reject_local_addresses :: bool
  allow_redirects :: bool

definition default_endpoint_policy :: endpoint_policy where
  "default_endpoint_policy = \<lparr>require_https = True, reject_local_addresses = True, allow_redirects = False\<rparr>"

record secure_client_limits =
  model_catalog_bytes :: nat
  trust_policy_bytes :: nat
  attestation_report_bytes :: nat
  attestation_quote_bytes :: nat
  nvidia_evidence_bytes :: nat
  nvidia_jwt_bytes :: nat
  nvidia_jwks_bytes :: nat
  intel_collateral_bytes :: nat
  relay_error_bytes :: nat
  relay_response_bytes :: nat
  relay_sse_event_bytes :: nat
  relay_stream_bytes :: nat
  serialized_relay_request_bytes :: nat

definition default_limits :: secure_client_limits where
  "default_limits = \<lparr>model_catalog_bytes = 4 * 1024 * 1024, trust_policy_bytes = 128 * 1024,
     attestation_report_bytes = 16 * 1024 * 1024, attestation_quote_bytes = 256 * 1024,
     nvidia_evidence_bytes = 1024 * 1024, nvidia_jwt_bytes = 256 * 1024, nvidia_jwks_bytes = 1024 * 1024,
     intel_collateral_bytes = 2 * 1024 * 1024, relay_error_bytes = 4 * 1024,
     relay_response_bytes = 96 * 1024 * 1024, relay_sse_event_bytes = 48 * 1024 * 1024,
     relay_stream_bytes = 128 * 1024 * 1024, serialized_relay_request_bytes = 64 * 1024 * 1024\<rparr>"

text \<open>The configuration, its durations in seconds and without the operator's pool and direct pins.\<close>

record secure_client_config =
  accept_outdated_near_tcb :: bool
  relay_base_url :: url
  request_timeout :: nat
  attestation_timeout :: nat
  catalog_max_stale :: nat
  verified_session_ttl :: nat
  trust_policy_cache_path :: "string option"
  trust_policy_refresh_interval :: nat
  client_limits :: secure_client_limits
  client_endpoint_policy :: endpoint_policy

definition secure_client_config_new :: "url_lib \<Rightarrow> string \<Rightarrow> secure_error + secure_client_config" where
  "secure_client_config_new ul base =
     (case parse_url ul base of
        Inl _ \<Rightarrow> Inl (err_configuration ''invalid relay URL'')
      | Inr url \<Rightarrow>
          if url_scheme url \<noteq> ''https'' then Inl (err_configuration ''production relay URL must use HTTPS'')
          else Inr \<lparr>accept_outdated_near_tcb = False, relay_base_url = url, request_timeout = 120,
            attestation_timeout = 60, catalog_max_stale = 30 * 60, verified_session_ttl = 240,
            trust_policy_cache_path = None, trust_policy_refresh_interval = 300,
            client_limits = default_limits, client_endpoint_policy = default_endpoint_policy\<rparr>)"

definition accept_outdated_tee_for_provider ::
  "string \<Rightarrow> secure_client_config \<Rightarrow> secure_client_config \<times> (secure_error + unit)" where
  "accept_outdated_tee_for_provider provider c =
     (if provider \<noteq> ''near'' then (c, Inl (err_configuration ''this provider has no supported outdated-TEE exception''))
      else (c\<lparr>accept_outdated_near_tcb := True\<rparr>, Inr ()))"

definition accepts_outdated_tcb :: "secure_client_config \<Rightarrow> string \<Rightarrow> bool" where
  "accepts_outdated_tcb c provider \<longleftrightarrow> provider = ''near'' \<and> accept_outdated_near_tcb c"

definition validate_provider_url :: "url_lib \<Rightarrow> endpoint_policy \<Rightarrow> string \<Rightarrow> secure_error + url" where
  "validate_provider_url ul ep value =
     (case parse_url ul value of
        Inl _ \<Rightarrow> Inl (err_catalog ''provider URL is invalid'')
      | Inr url \<Rightarrow>
          if require_https ep \<and> url_scheme url \<noteq> ''https''
          then Inl (err_catalog ''provider URL must use HTTPS'')
          else if url_username url \<noteq> [] \<or> url_password url \<noteq> None
          then Inl (err_catalog ''provider URL must not include credentials'')
          else if reject_local_addresses ep \<and> url_host_str url = Some ''localhost''
          then Inl (err_catalog ''provider URL must not target localhost'')
          else if reject_local_addresses ep
             \<and> (case parse_ip (case url_host_str url of None \<Rightarrow> [] | Some h \<Rightarrow> h) of
                  None \<Rightarrow> False | Some address \<Rightarrow> \<not> is_public_address address)
          then Inl (err_catalog ''provider URL must use a public address'')
          else Inr url)"

definition loopback_https :: "url \<Rightarrow> bool" where
  "loopback_https url \<longleftrightarrow>
     url_scheme url = ''https''
   \<and> url_host_str url \<in> {Some ''localhost'', Some ''127.0.0.1'', Some ''[::1]''}
   \<and> url_username url = [] \<and> url_password url = None"

text \<open>The additional root certificate of a local relay: the file system gives the contents of an openable
  file (\<open>None\<close> inside when reading fails), and \<open>certificate\<close> recognises one PEM certificate.\<close>

definition read_local_ca ::
  "(string \<Rightarrow> string option option) \<Rightarrow> (string \<Rightarrow> bool) \<Rightarrow> url \<Rightarrow> string option \<Rightarrow> secure_error + string option" where
  "read_local_ca files certificate origin path =
     (case path of
        None \<Rightarrow> Inr None
      | Some path \<Rightarrow>
          if \<not> loopback_https origin then Inl (err_configuration ''local relay CA requires a loopback HTTPS API'')
          else rbind (ok_or (err_configuration ''local relay CA is unavailable'') (files path)) (\<lambda>file.
          rbind (ok_or (err_configuration ''local relay CA is unreadable'') file) (\<lambda>contents.
          let pem = take (64 * 1024 + 1) contents in
          if 64 * 1024 < length pem \<or> \<not> certificate pem then Inl (err_configuration ''invalid local relay CA'')
          else Inr (Some pem))))"

text \<open>The addresses a client is pinned to: those of an address literal, or what the resolver returned.\<close>

definition pinned_addresses ::
  "(string \<Rightarrow> nat \<Rightarrow> secure_error + ip_addr list) \<Rightarrow> endpoint_policy \<Rightarrow> url \<Rightarrow> secure_error + ip_addr list" where
  "pinned_addresses lookup_host ep url =
     rbind (ok_or (err_catalog ''endpoint URL has no host'') (url_host_str url)) (\<lambda>host.
     rbind (ok_or (err_catalog ''endpoint URL has no usable port'') (url_port url)) (\<lambda>port.
     rbind (case parse_ip host of Some ip \<Rightarrow> Inr [ip] | None \<Rightarrow> lookup_host host port) (\<lambda>addresses.
     if addresses = [] \<or> reject_local_addresses ep \<and> (\<exists>a \<in> set addresses. \<not> is_public_address a)
     then Inl (err_session ''endpoint resolved to a disallowed address'')
     else Inr addresses)))"

text \<open>\<open>relay_client\<close>: the loopback exception holds only for the configured relay's own origin.\<close>

definition relay_addresses ::
  "(url \<Rightarrow> string) \<Rightarrow> (string \<Rightarrow> nat \<Rightarrow> secure_error + ip_addr list) \<Rightarrow> endpoint_policy \<Rightarrow> url \<Rightarrow> url \<Rightarrow>
     secure_error + ip_addr list" where
  "relay_addresses origin lookup_host ep relay_base url =
     (if origin url \<noteq> origin relay_base then Inl (err_configuration ''relay origin changed'')
      else pinned_addresses lookup_host
        (if loopback_https relay_base then ep\<lparr>reject_local_addresses := False\<rparr> else ep) url)"

section \<open>Bounded bodies\<close>

fun read_body :: "nat \<Rightarrow> string \<Rightarrow> string option list \<Rightarrow> secure_error + string" where
  "read_body limit body [] = Inr body"
| "read_body limit body (None # chunks) = Inl (err_session ''remote response body failed'')"
| "read_body limit body (Some chunk # chunks) =
     (if limit < saturating_add (length body) (length chunk)
      then Inl (err_session ''remote response exceeds the configured limit'')
      else read_body limit (body @ chunk) chunks)"

definition bounded_body :: "nat option \<Rightarrow> string option list \<Rightarrow> nat \<Rightarrow> secure_error + string" where
  "bounded_body content_length chunks limit =
     (if (case content_length of None \<Rightarrow> False | Some n \<Rightarrow> limit < n)
      then Inl (err_session ''remote response exceeds the configured limit'')
      else read_body limit [] chunks)"

section \<open>Trust policies\<close>

record trust_policy =
  tp_sequence :: nat
  tp_version :: string
  tp_expires_at :: nat
  tp_accepted_intel_statuses :: "string list"
  tp_require_nvidia_verified :: bool
  tp_require_model_binding :: bool
  tp_require_live_tls_binding :: bool
  tp_nvidia_anchor_sha256 :: "string list"

record signed_policy =
  sp_schema_version :: nat
  sp_sequence :: nat
  sp_version :: string
  sp_issued_at :: nat
  sp_not_before :: nat
  sp_expires_at :: nat
  sp_accepted_intel_statuses :: "string list"
  sp_require_nvidia_verified :: bool
  sp_require_model_binding :: bool
  sp_require_live_tls_binding :: bool
  sp_nvidia_anchor_sha256 :: "string list"

record policy_envelope =
  pe_policy :: signed_policy
  pe_signature :: string

text \<open>The envelope's decoder, the hexadecimal decoder, the canonical JSON of the document, and the two
  checks of the signing key and of a signature.\<close>

record policy_lib =
  pl_envelope :: "string \<Rightarrow> policy_envelope option"
  pl_hex_decode :: "string \<Rightarrow> string option"
  pl_canonical :: "signed_policy \<Rightarrow> string option"
  pl_key_valid :: "string \<Rightarrow> bool"
  pl_signature_valid :: "string \<Rightarrow> bool"
  pl_verify_strict :: "string \<Rightarrow> string \<Rightarrow> string \<Rightarrow> bool"

definition POLICY_SIGNING_KEY_HEX :: string where
  "POLICY_SIGNING_KEY_HEX = ''ba3609d6b3164683e1fa9ff70471b893c165cd6f59a4b6c19e5e6b4b89ccf766''"

definition anchor_invalid :: "string \<Rightarrow> bool" where
  "anchor_invalid f \<longleftrightarrow>
     length f \<noteq> 64 \<or> \<not> list_all (\<lambda>b. is_ascii_hexdigit b \<and> \<not> is_ascii_uppercase b) f"

definition document_rejected :: "signed_policy \<Rightarrow> nat \<Rightarrow> nat \<Rightarrow> bool \<Rightarrow> bool" where
  "document_rejected d minimum_sequence now permit_expired \<longleftrightarrow>
     sp_schema_version d \<noteq> 2
   \<or> sp_sequence d < minimum_sequence
   \<or> now < sp_issued_at d
   \<or> now < sp_not_before d
   \<or> \<not> permit_expired \<and> sp_expires_at d \<le> now
   \<or> sp_expires_at d < sp_not_before d
   \<or> sp_accepted_intel_statuses d \<noteq> [''UpToDate'']
   \<or> \<not> sp_require_nvidia_verified d
   \<or> \<not> sp_require_model_binding d
   \<or> \<not> sp_require_live_tls_binding d
   \<or> sp_nvidia_anchor_sha256 d = []
   \<or> (\<exists>f \<in> set (sp_nvidia_anchor_sha256 d). anchor_invalid f)
   \<or> str_trim (sp_version d) = []"

definition policy_of :: "signed_policy \<Rightarrow> trust_policy" where
  "policy_of d = \<lparr>tp_sequence = sp_sequence d, tp_version = sp_version d, tp_expires_at = sp_expires_at d,
     tp_accepted_intel_statuses = sp_accepted_intel_statuses d,
     tp_require_nvidia_verified = sp_require_nvidia_verified d,
     tp_require_model_binding = sp_require_model_binding d,
     tp_require_live_tls_binding = sp_require_live_tls_binding d,
     tp_nvidia_anchor_sha256 = sp_nvidia_anchor_sha256 d\<rparr>"

definition from_signed_json_inner :: "policy_lib \<Rightarrow> string \<Rightarrow> nat \<Rightarrow> nat \<Rightarrow> bool \<Rightarrow> secure_error + trust_policy" where
  "from_signed_json_inner pl input minimum_sequence now permit_expired =
     rbind (ok_or (err_configuration ''trust policy schema is invalid'') (pl_envelope pl input)) (\<lambda>envelope.
     rbind (ok_or (err_configuration ''trust policy key is invalid'') (pl_hex_decode pl POLICY_SIGNING_KEY_HEX)) (\<lambda>key.
     if length key \<noteq> 32 \<or> \<not> pl_key_valid pl key then Inl (err_configuration ''trust policy key is invalid'')
     else rbind (case pl_hex_decode pl (pe_signature envelope) of
          Some s \<Rightarrow> if pl_signature_valid pl s then Inr s else Inl (err_configuration ''trust policy signature is invalid'')
        | None \<Rightarrow> Inl (err_configuration ''trust policy signature is invalid'')) (\<lambda>signature.
     rbind (ok_or (err_configuration ''trust policy is invalid'') (pl_canonical pl (pe_policy envelope))) (\<lambda>canonical.
     if \<not> pl_verify_strict pl key canonical signature
     then Inl (err_configuration ''trust policy signature is invalid'')
     else if document_rejected (pe_policy envelope) minimum_sequence now permit_expired
     then Inl (err_configuration ''trust policy is expired, rolled back, or weakens mandatory checks'')
     else Inr (policy_of (pe_policy envelope))))))"

definition from_signed_json :: "policy_lib \<Rightarrow> string \<Rightarrow> nat \<Rightarrow> nat \<Rightarrow> secure_error + trust_policy" where
  "from_signed_json pl input minimum_sequence now = from_signed_json_inner pl input minimum_sequence now False"

definition from_signed_json_for_rollback :: "policy_lib \<Rightarrow> string \<Rightarrow> nat \<Rightarrow> nat \<Rightarrow> secure_error + trust_policy" where
  "from_signed_json_for_rollback pl input minimum_sequence now =
     from_signed_json_inner pl input minimum_sequence now True"

definition is_valid_at :: "trust_policy \<Rightarrow> nat \<Rightarrow> bool" where
  "is_valid_at p now \<longleftrightarrow> now < tp_expires_at p"

section \<open>Reserved blocks\<close>

text \<open>The reserved networks as address blocks (a first address and a prefix length), and the number of an
  address.\<close>

definition V4_RESERVED :: "(ip_addr \<times> nat) list" where
  "V4_RESERVED = [(V4 0 0 0 0, 8), (V4 10 0 0 0, 8), (V4 100 64 0 0, 10), (V4 127 0 0 0, 8), (V4 169 254 0 0, 16),
     (V4 172 16 0 0, 12), (V4 192 0 0 0, 24), (V4 192 0 2 0, 24), (V4 192 168 0 0, 16), (V4 198 18 0 0, 15),
     (V4 198 51 100 0, 24), (V4 203 0 113 0, 24), (V4 224 0 0 0, 4), (V4 240 0 0 0, 4)]"

definition V6_RESERVED :: "(ip_addr \<times> nat) list" where
  "V6_RESERVED = [(V6 [0, 0, 0, 0, 0, 0, 0, 0], 128), (V6 [0, 0, 0, 0, 0, 0, 0, 1], 128),
     (V6 [0xfc00, 0, 0, 0, 0, 0, 0, 0], 7), (V6 [0xfe80, 0, 0, 0, 0, 0, 0, 0], 10),
     (V6 [0xff00, 0, 0, 0, 0, 0, 0, 0], 8), (V6 [0x2001, 0xdb8, 0, 0, 0, 0, 0, 0], 32)]"

fun ip_number :: "ip_addr \<Rightarrow> nat" where
  "ip_number (V4 a b c d) = unat a * 2 ^ 24 + unat b * 2 ^ 16 + unat c * 2 ^ 8 + unat d"
| "ip_number (V6 gs) = foldl (\<lambda>n g. n * 2 ^ 16 + unat g) 0 gs"

definition in_block :: "nat \<Rightarrow> ip_addr \<Rightarrow> ip_addr \<times> nat \<Rightarrow> bool" where
  "in_block width a b \<longleftrightarrow> ip_number a div 2 ^ (width - snd b) = ip_number (fst b) div 2 ^ (width - snd b)"

fun reserved :: "ip_addr \<Rightarrow> bool" where
  "reserved (V4 a b c d) \<longleftrightarrow> list_ex (in_block 32 (V4 a b c d)) V4_RESERVED"
| "reserved (V6 gs) \<longleftrightarrow> list_ex (in_block 128 (V6 gs)) V6_RESERVED"

lemma digit_eq: "\<lbrakk>x < k; y < k\<rbrakk> \<Longrightarrow> a * k + x = b * k + y \<longleftrightarrow> a = b \<and> x = y" for a b k x y :: nat
  by (metis add.commute add_right_cancel div_mult_self1 div_less add_cancel_right_left bot_nat_0.extremum_strict)

lemma unat_byte [simp]: "unat a < 256" for a :: "8 word"
  using unsigned_less [of a] by simp

lemma unat_segment [simp]: "unat a < 65536" for a :: "16 word"
  using unsigned_less [of a] by simp

lemma octets_div:
  fixes a b c d :: nat
  assumes "b < 256" "c < 256" "d < 256"
  defines "n \<equiv> a * 2 ^ 24 + b * 2 ^ 16 + c * 2 ^ 8 + d"
  shows "n div 2 ^ 24 = a" "n div 2 ^ 28 = a div 16" "n div 2 ^ 16 = a * 256 + b" "n div 2 ^ 22 = a * 4 + b div 64"
    "n div 2 ^ 20 = a * 16 + b div 16" "n div 2 ^ 17 = a * 128 + b div 2" "n div 2 ^ 8 = (a * 256 + b) * 256 + c"
  using assms by simp_all

text \<open>What a prefix of each length used above compares.\<close>

lemma v4_block:
  "in_block 32 (V4 a b c d) (V4 a' b' c' d', 4) \<longleftrightarrow> unat a div 16 = unat a' div 16"
  "in_block 32 (V4 a b c d) (V4 a' b' c' d', 8) \<longleftrightarrow> a = a'"
  "in_block 32 (V4 a b c d) (V4 a' b' c' d', 10) \<longleftrightarrow> a = a' \<and> unat b div 64 = unat b' div 64"
  "in_block 32 (V4 a b c d) (V4 a' b' c' d', 12) \<longleftrightarrow> a = a' \<and> unat b div 16 = unat b' div 16"
  "in_block 32 (V4 a b c d) (V4 a' b' c' d', 15) \<longleftrightarrow> a = a' \<and> unat b div 2 = unat b' div 2"
  "in_block 32 (V4 a b c d) (V4 a' b' c' d', 16) \<longleftrightarrow> a = a' \<and> b = b'"
  "in_block 32 (V4 a b c d) (V4 a' b' c' d', 24) \<longleftrightarrow> a = a' \<and> b = b' \<and> c = c'"
proof -
  have d: "unat x div 64 < 4" "unat x div 16 < 16" "unat x div 2 < 128" for x :: "8 word"
    using unat_byte [of x] by linarith+
  note q = in_block_def octets_div digit_eq d word_unat_eq_iff
  show "in_block 32 (V4 a b c d) (V4 a' b' c' d', 4) \<longleftrightarrow> unat a div 16 = unat a' div 16"
    by (simp add: in_block_def octets_div del: power_numeral)
  show "in_block 32 (V4 a b c d) (V4 a' b' c' d', 8) \<longleftrightarrow> a = a'" by (simp add: q del: power_numeral)
  show "in_block 32 (V4 a b c d) (V4 a' b' c' d', 10) \<longleftrightarrow> a = a' \<and> unat b div 64 = unat b' div 64"
    by (simp add: q del: power_numeral)
  show "in_block 32 (V4 a b c d) (V4 a' b' c' d', 12) \<longleftrightarrow> a = a' \<and> unat b div 16 = unat b' div 16"
    by (simp add: q del: power_numeral)
  show "in_block 32 (V4 a b c d) (V4 a' b' c' d', 15) \<longleftrightarrow> a = a' \<and> unat b div 2 = unat b' div 2"
    by (simp add: q del: power_numeral)
  show "in_block 32 (V4 a b c d) (V4 a' b' c' d', 16) \<longleftrightarrow> a = a' \<and> b = b'" by (simp add: q del: power_numeral)
  show "in_block 32 (V4 a b c d) (V4 a' b' c' d', 24) \<longleftrightarrow> a = a' \<and> b = b' \<and> c = c'"
  proof -
    have "(unat a * 256 + unat b) * 256 + unat c = (unat a' * 256 + unat b') * 256 + unat c'
      \<longleftrightarrow> a = a' \<and> b = b' \<and> c = c'"
      unfolding digit_eq [OF unat_byte unat_byte] by (simp add: word_unat_eq_iff)
    then show ?thesis by (simp add: in_block_def octets_div del: power_numeral)
  qed
qed

text \<open>A byte in a dyadic interval.\<close>

lemma byte_interval:
  "unat b div 64 = 1 \<longleftrightarrow> 64 \<le> b \<and> b \<le> 127" "unat b div 16 = 1 \<longleftrightarrow> 16 \<le> b \<and> b \<le> 31"
  "unat b div 2 = 9 \<longleftrightarrow> 18 \<le> b \<and> b \<le> 19" "unat b div 16 = 14 \<longleftrightarrow> 224 \<le> b \<and> b \<le> 239"
  "unat b div 16 = 15 \<longleftrightarrow> 240 \<le> b" for b :: "8 word"
  using unat_byte [of b] by (simp_all add: word_le_nat_alt, linarith+)

lemma v4_reserved_iff:
  "reserved (V4 a b c d) \<longleftrightarrow>
     a = 0 \<or> a = 10 \<or> a = 100 \<and> 64 \<le> b \<and> b \<le> 127 \<or> a = 127 \<or> a = 169 \<and> b = 254
   \<or> a = 172 \<and> 16 \<le> b \<and> b \<le> 31 \<or> a = 192 \<and> b = 0 \<and> c = 0 \<or> a = 192 \<and> b = 0 \<and> c = 2
   \<or> a = 192 \<and> b = 168 \<or> a = 198 \<and> 18 \<le> b \<and> b \<le> 19 \<or> a = 198 \<and> b = 51 \<and> c = 100
   \<or> a = 203 \<and> b = 0 \<and> c = 113 \<or> 224 \<le> a \<and> a \<le> 239 \<or> 240 \<le> a"
  by (simp add: V4_RESERVED_def v4_block byte_interval byte_interval(1,2) [simplified])

lemma v4_public_iff: "is_public_address (V4 a b c d) \<longleftrightarrow> \<not> reserved (V4 a b c d)"
proof -
  have "\<not> is_public_address (V4 a b c d) \<Longrightarrow> reserved (V4 a b c d)"
    unfolding is_public_address.simps v4_reserved_iff v4_private.simps v4_documentation.simps not_not
    by (elim disjE conjE) simp_all
  moreover have "reserved (V4 a b c d) \<Longrightarrow> \<not> is_public_address (V4 a b c d)"
    unfolding is_public_address.simps v4_reserved_iff v4_private.simps v4_documentation.simps not_not
    by (elim disjE conjE) simp_all
  ultimately show ?thesis by blast
qed

text \<open>The same for the segments of an IPv6 address: its number is a numeral to base \<open>2 ^ 16\<close>.\<close>

abbreviation segments_number :: "nat \<Rightarrow> 16 word list \<Rightarrow> nat" where
  "segments_number \<equiv> foldl (\<lambda>n g. n * 2 ^ 16 + unat g)"

lemma segments_number_inject:
  "length gs = length hs \<Longrightarrow> segments_number m gs = segments_number n hs \<longleftrightarrow> m = n \<and> gs = hs"
proof (induction gs arbitrary: hs rule: rev_induct)
  case (snoc g gs)
  then obtain h hs' where "hs = hs' @ [h]" "length gs = length hs'" by (cases hs rule: rev_cases) simp_all
  with snoc.IH show ?case by (simp add: digit_eq word_unat_eq_iff conj_ac)
qed simp

lemma segments_number_acc: "segments_number n gs = n * 2 ^ (16 * length gs) + segments_number 0 gs"
  by (induction gs rule: rev_induct) (simp_all add: algebra_simps power_add)

lemma segments_number_less: "segments_number 0 gs < 2 ^ (16 * length gs)"
proof (induction gs rule: rev_induct)
  case (snoc g gs)
  then have "(segments_number 0 gs + 1) * 2 ^ 16 \<le> 2 ^ (16 * length gs) * 2 ^ 16"
    by (intro mult_right_mono) simp_all
  with unat_segment [of g] show ?case by (simp add: power_add del: unat_segment)
qed simp

lemma segments_div:
  "length gs = 7 \<Longrightarrow> segments_number 0 (g # gs) div 2 ^ (112 + k) = unat g div 2 ^ k"
  "length hs = 6 \<Longrightarrow> segments_number 0 (g # h # hs) div 2 ^ 96 = unat g * 65536 + unat h"
  using segments_number_acc [of "unat g" gs] segments_number_less [of gs]
    segments_number_acc [of "unat g * 65536 + unat h" hs] segments_number_less [of hs]
  by (simp_all add: power_add div_mult2_eq)

lemma segment_mask:
  "g AND 0xfe00 = 0xfc00 \<longleftrightarrow> unat g div 2 ^ 9 = 126" "g AND 0xffc0 = 0xfe80 \<longleftrightarrow> unat g div 2 ^ 6 = 1018"
  "g AND 0xff00 = 0xff00 \<longleftrightarrow> unat g div 2 ^ 8 = 255" for g :: "16 word"
proof -
  have keep: "g AND push_bit n (mask (16 - n)) = k \<longleftrightarrow> unat g div 2 ^ n = unat k div 2 ^ n"
    if "push_bit n (drop_bit n k) = k" for n and k :: "16 word"
  proof -
    have "g AND push_bit n (mask (16 - n)) = push_bit n (drop_bit n g)"
      by (rule bit_word_eqI) (auto simp: bit_simps)
    moreover have "drop_bit n (push_bit n (drop_bit n h)) = drop_bit n h" for h :: "16 word"
      by (rule bit_word_eqI) (auto simp: bit_simps dest: bit_imp_le_length)
    ultimately have "g AND push_bit n (mask (16 - n)) = k \<longleftrightarrow> drop_bit n g = drop_bit n k"
      by (metis that)
    also have "\<dots> \<longleftrightarrow> drop_bit n (unat g) = drop_bit n (unat k)" by (simp add: word_unat_eq_iff unat_drop_bit_eq)
    finally show ?thesis by (simp only: drop_bit_eq_div)
  qed
  note e = mask_eq_exp_minus_1 push_bit_eq_mult drop_bit_eq_div
  show "g AND 0xfe00 = 0xfc00 \<longleftrightarrow> unat g div 2 ^ 9 = 126" using keep [of 9 "0xfc00"] by (simp add: e)
  show "g AND 0xffc0 = 0xfe80 \<longleftrightarrow> unat g div 2 ^ 6 = 1018" using keep [of 6 "0xfe80"] by (simp add: e)
  show "g AND 0xff00 = 0xff00 \<longleftrightarrow> unat g div 2 ^ 8 = 255" using keep [of 8 "0xff00"] by (simp add: e)
qed

lemma v6_block:
  assumes "length gs = 7" "length hs = 7"
  shows "in_block 128 (V6 (g # gs)) (V6 (h # hs), 7) \<longleftrightarrow> unat g div 2 ^ 9 = unat h div 2 ^ 9"
    "in_block 128 (V6 (g # gs)) (V6 (h # hs), 8) \<longleftrightarrow> unat g div 2 ^ 8 = unat h div 2 ^ 8"
    "in_block 128 (V6 (g # gs)) (V6 (h # hs), 10) \<longleftrightarrow> unat g div 2 ^ 6 = unat h div 2 ^ 6"
    "in_block 128 (V6 (g # gs)) (V6 (h # hs), 128) \<longleftrightarrow> g = h \<and> gs = hs"
    "in_block 128 (V6 (g # gs)) (V6 (h # hs), 32) \<longleftrightarrow> g = h \<and> gs ! 0 = hs ! 0"
proof -
  have d: "segments_number 0 (x # xs) div 2 ^ (121 - i) = unat x div 2 ^ (9 - i)"
    if "length xs = 7" "i \<le> 9" for x xs i
    using segments_div(1) [OF that(1), of x "9 - i"] that(2) by (simp add: Nat.add_diff_assoc)
  show "in_block 128 (V6 (g # gs)) (V6 (h # hs), 7) \<longleftrightarrow> unat g div 2 ^ 9 = unat h div 2 ^ 9"
    using assms d [of _ 0] by (simp add: in_block_def del: power_numeral foldl_Cons)
  show "in_block 128 (V6 (g # gs)) (V6 (h # hs), 8) \<longleftrightarrow> unat g div 2 ^ 8 = unat h div 2 ^ 8"
    using assms d [of _ 1] by (simp add: in_block_def del: power_numeral foldl_Cons)
  show "in_block 128 (V6 (g # gs)) (V6 (h # hs), 10) \<longleftrightarrow> unat g div 2 ^ 6 = unat h div 2 ^ 6"
    using assms d [of _ 3] by (simp add: in_block_def del: power_numeral foldl_Cons)
  show "in_block 128 (V6 (g # gs)) (V6 (h # hs), 128) \<longleftrightarrow> g = h \<and> gs = hs"
    using assms segments_number_inject [of "g # gs" "h # hs" 0 0] by (simp add: in_block_def)
  show "in_block 128 (V6 (g # gs)) (V6 (h # hs), 32) \<longleftrightarrow> g = h \<and> gs ! 0 = hs ! 0"
    using assms by (cases gs; cases hs)
      (simp_all add: in_block_def segments_div(2) digit_eq word_unat_eq_iff del: power_numeral foldl_Cons)
qed

lemma v6_public_iff:
  assumes "length gs = 8"
  shows "is_public_address (V6 gs) \<longleftrightarrow> \<not> reserved (V6 gs)"
proof -
  obtain g hs where gs: "gs = g # hs" "length hs = 7" using assms by (cases gs) simp_all
  show ?thesis
    using gs(2) by (auto simp: gs(1) V6_RESERVED_def v6_block segment_mask)
qed


declare is_public_address.simps [simp del] reserved.simps [simp del]

text \<open>C33. Equivalence: the address check accepts exactly the addresses outside the reserved blocks, for
  IPv4 and for IPv6. The blocks are those the check is meant to exclude; an IPv4 address mapped into IPv6 is in
  none of them, so the mapped loopback address counts as public although the plain one does not.\<close>

theorem address_check_exact:
  "(is_public_address (V4 a b c d) \<longleftrightarrow> \<not> reserved (V4 a b c d))
   \<and> (is_public_address (V6 [g0, g1, g2, g3, g4, g5, g6, g7]) \<longleftrightarrow> \<not> reserved (V6 [g0, g1, g2, g3, g4, g5, g6, g7]))
   \<and> \<not> is_public_address (V4 127 0 0 1) \<and> is_public_address (V6 [0, 0, 0, 0, 0, 0xffff, 0x7f00, 1])"
  using v6_public_iff [of "[g0, g1, g2, g3, g4, g5, g6, g7]"] v4_public_iff [of a b c d]
  by (simp only: list.size) (simp add: is_public_address.simps)

section \<open>Where the client connects\<close>

fun ip_wf :: "ip_addr \<Rightarrow> bool" where
  "ip_wf (V4 a b c d) = True"
| "ip_wf (V6 gs) \<longleftrightarrow> length gs = 8"

lemma public_iff: "ip_wf a \<Longrightarrow> is_public_address a \<longleftrightarrow> \<not> reserved a"
  by (cases a) (simp_all add: v4_public_iff v6_public_iff)

lemma validated_url:
  "validate_provider_url ul default_endpoint_policy v = Inr u \<longleftrightarrow>
     parse_url ul v = Inr u \<and> url_scheme u = ''https'' \<and> url_username u = [] \<and> url_password u = None
   \<and> url_host_str u \<noteq> Some ''localhost''
   \<and> (\<forall>h a. url_host_str u = Some h \<and> parse_ip h = Some a \<longrightarrow> is_public_address a)"
proof -
  have host: "(case parse_ip (case host of None \<Rightarrow> [] | Some h \<Rightarrow> h) of None \<Rightarrow> False | Some address \<Rightarrow> \<not> is_public_address address)
    \<longleftrightarrow> (\<exists>h a. host = Some h \<and> parse_ip h = Some a \<and> \<not> is_public_address a)" for host
    by (cases host) (auto simp: parse_ip_Nil split: option.splits)
  show ?thesis
  proof (cases "parse_url ul v")
    case (Inr w)
    show ?thesis
      unfolding validate_provider_url_def Inr sum.case guard_Inr_iff host default_endpoint_policy_def endpoint_policy.select_convs
      by (cases "w = u"; simp; blast)
  qed (simp add: validate_provider_url_def)
qed

lemma pinned_nonempty: "pinned_addresses lookup_host ep u = Inr addrs \<Longrightarrow> addrs \<noteq> []"
  by (auto simp: pinned_addresses_def split: if_splits)

lemma pinned_public:
  assumes "pinned_addresses lookup_host ep u = Inr addrs" "reject_local_addresses ep"
  shows "\<forall>a \<in> set addrs. is_public_address a"
  using assms by (auto simp: pinned_addresses_def split: sum.splits option.splits if_splits)

lemma pinned_wf:
  assumes "pinned_addresses lookup_host ep u = Inr addrs" "\<And>h n as. lookup_host h n = Inr as \<Longrightarrow> list_all ip_wf as"
  shows "list_all ip_wf addrs"
proof -
  obtain h n where h: "(case parse_ip h of Some ip \<Rightarrow> Inr [ip] | None \<Rightarrow> lookup_host h n) = Inr addrs"
    using assms(1) by (auto simp: pinned_addresses_def split: if_splits)
  show ?thesis
  proof (cases "parse_ip h")
    case (Some ip)
    then show ?thesis using h parse_ip_v6 [of h] by (cases ip) auto
  qed (use h assms(2) in auto)
qed


abbreviation demo_endpoint :: url where
  "demo_endpoint \<equiv> \<lparr>url_scheme = ''https'', url_username = [], url_password = None,
     url_host_str = Some ''relay.example'', url_port = Some 443, url_without_fragment = ''https://relay.example/''\<rparr>"


text \<open>The loopback exception of the relay applies to the configured relay's own origin only.\<close>

lemma relay_addresses_public:
  assumes "relay_addresses origin lookup_host ep relay_base u = Inr addrs" "reject_local_addresses ep"
  shows "origin u = origin relay_base \<and> addrs \<noteq> []
    \<and> (loopback_https relay_base \<or> (\<forall>a \<in> set addrs. is_public_address a))"
  using assms pinned_public [of lookup_host ep u addrs] pinned_nonempty [of lookup_host _ u addrs]
  by (auto simp: relay_addresses_def split: if_splits)

section \<open>Accepted trust policies\<close>

lemma accepted_iff:
  "from_signed_json_inner pl input m now e = Inr p \<longleftrightarrow>
     (\<exists>env key sg canonical. pl_envelope pl input = Some env \<and> pl_hex_decode pl POLICY_SIGNING_KEY_HEX = Some key
        \<and> length key = 32 \<and> pl_key_valid pl key \<and> pl_hex_decode pl (pe_signature env) = Some sg
        \<and> pl_signature_valid pl sg \<and> pl_canonical pl (pe_policy env) = Some canonical
        \<and> pl_verify_strict pl key canonical sg \<and> \<not> document_rejected (pe_policy env) m now e
        \<and> p = policy_of (pe_policy env))"
proof -
  have key: "(case pl_hex_decode pl (pe_signature env) of
      Some s \<Rightarrow> if pl_signature_valid pl s then Inr s else Inl (err_configuration ''trust policy signature is invalid'')
    | None \<Rightarrow> Inl (err_configuration ''trust policy signature is invalid'')) = Inr sg
    \<longleftrightarrow> pl_hex_decode pl (pe_signature env) = Some sg \<and> pl_signature_valid pl sg" for env sg
    by (auto split: option.splits)
  show ?thesis unfolding from_signed_json_inner_def success_iffs key by blast
qed

lemma rejected_later:
  "\<not> document_rejected d m now e \<Longrightarrow> now \<le> later \<Longrightarrow>
     document_rejected d m' later False \<longleftrightarrow> sp_sequence d < m' \<or> sp_expires_at d \<le> later"
  by (auto simp: document_rejected_def)

text \<open>C34. Error: a trust policy that is accepted was signed by the built-in key over its canonical form, is
  unexpired, at or above the rollback floor, and turns every mandatory check on. Accepted once, the same
  document is accepted at a later time and for another floor exactly while it is unexpired and its sequence
  number reaches the floor; a failed signature rejects it whatever it says.\<close>

theorem trust_policy_strict:
  assumes "from_signed_json pl input m now = Inr p"
  shows "(\<exists>env key sg canonical. pl_envelope pl input = Some env \<and> pl_hex_decode pl POLICY_SIGNING_KEY_HEX = Some key
        \<and> pl_hex_decode pl (pe_signature env) = Some sg \<and> pl_canonical pl (pe_policy env) = Some canonical
        \<and> pl_verify_strict pl key canonical sg \<and> p = policy_of (pe_policy env))
    \<and> is_valid_at p now \<and> m \<le> tp_sequence p \<and> tp_accepted_intel_statuses p = [''UpToDate'']
    \<and> tp_require_nvidia_verified p \<and> tp_require_model_binding p \<and> tp_require_live_tls_binding p
    \<and> tp_nvidia_anchor_sha256 p \<noteq> [] \<and> (\<forall>f \<in> set (tp_nvidia_anchor_sha256 p). length f = 64)
    \<and> (\<forall>m' later. now \<le> later \<longrightarrow>
          (from_signed_json pl input m' later = Inr p \<longleftrightarrow> m' \<le> tp_sequence p \<and> is_valid_at p later))"
proof -
  obtain env key sg canonical where e: "pl_envelope pl input = Some env"
      "pl_hex_decode pl POLICY_SIGNING_KEY_HEX = Some key" "length key = 32" "pl_key_valid pl key"
      "pl_hex_decode pl (pe_signature env) = Some sg" "pl_signature_valid pl sg"
      "pl_canonical pl (pe_policy env) = Some canonical" "pl_verify_strict pl key canonical sg"
    and d: "\<not> document_rejected (pe_policy env) m now False" and p: "p = policy_of (pe_policy env)"
    using assms by (auto simp: from_signed_json_def accepted_iff)
  have "from_signed_json pl input m' later = Inr p \<longleftrightarrow> m' \<le> tp_sequence p \<and> is_valid_at p later" if "now \<le> later" for m' later
    using e rejected_later [OF d that, of m']
    by (auto simp: from_signed_json_def accepted_iff p policy_of_def is_valid_at_def)
  moreover have "is_valid_at p now \<and> m \<le> tp_sequence p \<and> tp_accepted_intel_statuses p = [''UpToDate'']
    \<and> tp_require_nvidia_verified p \<and> tp_require_model_binding p \<and> tp_require_live_tls_binding p
    \<and> tp_nvidia_anchor_sha256 p \<noteq> [] \<and> (\<forall>f \<in> set (tp_nvidia_anchor_sha256 p). length f = 64)"
    using d by (auto simp: document_rejected_def p policy_of_def is_valid_at_def anchor_invalid_def)
  ultimately show ?thesis using e p by blast
qed

abbreviation demo_document :: signed_policy where
  "demo_document \<equiv> \<lparr>sp_schema_version = 2, sp_sequence = 7, sp_version = ''v7'', sp_issued_at = 10, sp_not_before = 10,
     sp_expires_at = 90, sp_accepted_intel_statuses = [''UpToDate''], sp_require_nvidia_verified = True,
     sp_require_model_binding = True, sp_require_live_tls_binding = True,
     sp_nvidia_anchor_sha256 = [replicate 64 (CHR ''a'')]\<rparr>"

abbreviation demo_policy_lib :: policy_lib where
  "demo_policy_lib \<equiv> \<lparr>pl_envelope = \<lambda>_. Some \<lparr>pe_policy = demo_document, pe_signature = ''00''\<rparr>,
     pl_hex_decode = \<lambda>_. Some (replicate 32 (CHR ''k'')), pl_canonical = \<lambda>_. Some ''{}'', pl_key_valid = \<lambda>_. True,
     pl_signature_valid = \<lambda>_. True, pl_verify_strict = \<lambda>_ _ _. True\<rparr>"

theorem trust_policy_strict_witness:
  "from_signed_json demo_policy_lib [] 7 20 = Inr (policy_of demo_document)
   \<and> is_valid_at (policy_of demo_document) 20 \<and> from_signed_json demo_policy_lib [] 8 20 \<noteq> Inr (policy_of demo_document)"
proof -
  have "\<not> anchor_invalid (replicate 64 (CHR ''a''))"
    unfolding anchor_invalid_def list_all_iff set_replicate_conv_if length_replicate
    by (simp add: is_ascii_hexdigit_def is_ascii_uppercase_def in_range_def byte_def)
  moreover have "str_trim ''v7'' \<noteq> []" by (simp add: visible_text visible_def byte_def)
  ultimately have "from_signed_json demo_policy_lib [] 7 20 = Inr (policy_of demo_document)"
    by (simp add: from_signed_json_def accepted_iff document_rejected_def)
  then show ?thesis using trust_policy_strict [of demo_policy_lib "[]" 7 20 "policy_of demo_document"]
    by (simp add: policy_of_def)
qed

section \<open>Bodies\<close>

lemma read_body_bound: "limit < usize_max \<Longrightarrow> read_body limit body chunks = Inr b \<Longrightarrow> length body \<le> limit \<Longrightarrow>
    b = body @ concat (map the chunks) \<and> None \<notin> set chunks \<and> length b \<le> limit"
proof (induction limit body chunks rule: read_body.induct)
  case (3 limit body chunk chunks)
  then show ?case by (auto simp: saturating_add_gt_iff split: if_splits)
qed simp_all

end
