(* ===== verification/Lease.thy ===== *)
theory Lease
  imports Endpoint
begin

text \<open>
  Verified provider material: \<open>crates/axiom-secure-client/src/lease.rs\<close>. The relay's key lease is bound
  to the key that this device verified (\<open>AttestationBinding::verify\<close>), and verified material is cached per
  model until it expires (\<open>VerifiedMaterialCache\<close>). The clock is an argument; the hexadecimal decoder and the
  hexadecimal SHA-256 digest are parameters. The per-model mutexes only order the operations.
\<close>

section \<open>The attestation binding\<close>

record provider_key_lease =
  kl_model_id :: string
  kl_model :: string
  kl_base_url :: string
  kl_provider :: string
  kl_attestation_protocol :: string
  kl_encryption_version :: nat
  kl_e2ee_protocol :: string
  kl_model_public_key :: string
  kl_verified :: bool
  kl_attestation_generation :: nat
  kl_model_key_fingerprint :: string
  kl_keyset_digest :: "string option"
  kl_response_signing_address :: "string option"
  kl_response_signing_key_fingerprint :: "string option"
  kl_hard_expires_at :: nat

record attestation_binding =
  ab_generation :: nat
  ab_model_key_fingerprint :: string
  ab_keyset_digest :: "string option"
  ab_hard_expires_at :: nat

record digest_lib =
  dl_hex_decode :: "string \<Rightarrow> string option"
  dl_sha256_hex :: "string \<Rightarrow> string"

definition normalize_key :: "string \<Rightarrow> secure_error + string" where
  "normalize_key value =
     (let v = strip_0x value in
      if length v \<noteq> 64 \<or> \<not> list_all is_ascii_hexdigit v
      then Inl (err_attestation ''attested model key is invalid'')
      else Inr (to_ascii_lowercase v))"

definition key_fingerprint :: "digest_lib \<Rightarrow> string \<Rightarrow> secure_error + string" where
  "key_fingerprint dl key =
     rbind (normalize_key key) (\<lambda>normalized.
     rbind (ok_or (err_attestation ''attested model key is invalid'') (dl_hex_decode dl normalized)) (\<lambda>bytes.
     Inr (dl_sha256_hex dl bytes)))"

definition trim_slashes :: "string \<Rightarrow> string" where
  "trim_slashes = trim_end_by (\<lambda>c. c = CHR ''/'')"

definition binding_verify ::
  "digest_lib \<Rightarrow> nat \<Rightarrow> provider_key_lease \<Rightarrow> model_info \<Rightarrow> string \<Rightarrow> secure_error + attestation_binding" where
  "binding_verify dl now wire model locally_verified_model_key =
     rbind (normalize_key locally_verified_model_key) (\<lambda>local_key.
     rbind (normalize_key (kl_model_public_key wire)) (\<lambda>relay_key.
     rbind (key_fingerprint dl local_key) (\<lambda>fingerprint.
     if kl_model_id wire \<noteq> mi_id model
      \<or> kl_model wire \<noteq> mi_upstream_model model
      \<or> kl_provider wire \<noteq> mi_provider_id model
      \<or> kl_attestation_protocol wire \<noteq> mi_attestation_protocol model
      \<or> kl_e2ee_protocol wire \<noteq> mi_e2ee_protocol model
      \<or> kl_encryption_version wire \<noteq> mi_e2ee_encryption_version model
      \<or> trim_slashes (kl_base_url wire) \<noteq> trim_slashes (mi_provider_base_url model)
      \<or> \<not> kl_verified wire
      \<or> relay_key \<noteq> local_key
      \<or> kl_model_key_fingerprint wire \<noteq> fingerprint
      \<or> kl_attestation_generation wire = 0
     then Inl (err_attestation ''backend attestation lease does not match local provider evidence'')
     else if kl_hard_expires_at wire \<le> now
     then Inl (with_code Fail_AttestationUnavailable Code_AttestationExpired ''backend attestation lease is expired'' True)
     else Inr \<lparr>ab_generation = kl_attestation_generation wire, ab_model_key_fingerprint = fingerprint,
                ab_keyset_digest = kl_keyset_digest wire, ab_hard_expires_at = kl_hard_expires_at wire\<rparr>)))"

section \<open>The cache of verified material\<close>

record 't cached_material =
  cm_model :: model_info
  cm_policy :: trust_policy
  cm_expires_at :: nat
  cm_material :: 't

type_synonym 't material_cache = "string \<Rightarrow> 't cached_material option"

definition cache_get :: "nat \<Rightarrow> 't material_cache \<Rightarrow> model_info \<Rightarrow> trust_policy \<Rightarrow> 't option" where
  "cache_get now entries model policy =
     (case entries (mi_id model) of
        None \<Rightarrow> None
      | Some cached \<Rightarrow>
          if now < cm_expires_at cached \<and> cm_model cached = model \<and> cm_policy cached = policy
          then Some (cm_material cached) else None)"

definition cache_insert ::
  "nat \<Rightarrow> model_info \<Rightarrow> trust_policy \<Rightarrow> 't \<Rightarrow> nat \<Rightarrow> nat \<Rightarrow> 't material_cache \<Rightarrow> 't material_cache" where
  "cache_insert now model policy material provider_hard_expiry maximum_ttl entries =
     entries(mi_id model \<mapsto>
       \<lparr>cm_model = model, cm_policy = policy,
        cm_expires_at = min provider_hard_expiry (saturating_add now maximum_ttl), cm_material = material\<rparr>)"

definition cache_invalidate :: "string \<Rightarrow> 't material_cache \<Rightarrow> 't material_cache" where
  "cache_invalidate model_id entries = entries(model_id := None)"

text \<open>The operations that change the cache, in the order the locks give them.\<close>

datatype 't cache_op =
    Op_Insert nat model_info trust_policy 't nat nat
  | Op_Invalidate string

primrec cache_apply :: "'t cache_op \<Rightarrow> 't material_cache \<Rightarrow> 't material_cache" where
  "cache_apply (Op_Insert now model policy material hard ttl) c = cache_insert now model policy material hard ttl c"
| "cache_apply (Op_Invalidate model_id) c = cache_invalidate model_id c"

definition cache_run :: "'t cache_op list \<Rightarrow> 't material_cache" where
  "cache_run ops = fold cache_apply ops (\<lambda>_. None)"

section \<open>Stores whose operations each write one key\<close>

text \<open>The contract the cache offers its clients: an operation writes the key it names and no other, so the
  content of a key is what the last operation on it wrote.\<close>

locale keyed_store =
  fixes apply_op :: "'op \<Rightarrow> 'store \<Rightarrow> 'store"
    and lookup :: "'store \<Rightarrow> 'key \<Rightarrow> 'entry option"
    and key_of :: "'op \<Rightarrow> 'key"
    and written :: "'op \<Rightarrow> 'entry option"
  assumes lookup_apply: "lookup (apply_op op s) k = (if k = key_of op then written op else lookup s k)"
begin

lemma lookup_untouched: "\<forall>op \<in> set ops. key_of op \<noteq> k \<Longrightarrow> lookup (fold apply_op ops s) k = lookup s k"
  by (induction ops arbitrary: s) (auto simp: lookup_apply)

lemma lookup_last:
  "lookup (fold apply_op ops s) k = Some e \<longleftrightarrow>
     (\<exists>pre op post. ops = pre @ op # post \<and> key_of op = k \<and> written op = Some e \<and> (\<forall>o' \<in> set post. key_of o' \<noteq> k))
   \<or> (\<forall>op \<in> set ops. key_of op \<noteq> k) \<and> lookup s k = Some e"
proof (induction ops rule: rev_induct)
  case (snoc op ops)
  show ?case
  proof (cases "key_of op = k")
    case True
    then have "lookup (fold apply_op (ops @ [op]) s) k = Some e \<longleftrightarrow> written op = Some e" by (simp add: lookup_apply)
    moreover have "ops @ [op] = pre @ o' # post \<and> key_of o' = k \<and> (\<forall>o'' \<in> set post. key_of o'' \<noteq> k) \<longleftrightarrow>
        pre = ops \<and> o' = op \<and> post = []" for pre o' post
      using True by (cases post rule: rev_cases) auto
    ultimately show ?thesis using True by (metis (no_types, lifting) in_set_conv_decomp)
  next
    case False
    then have "lookup (fold apply_op (ops @ [op]) s) k = lookup (fold apply_op ops s) k" by (simp add: lookup_apply)
    moreover have "(\<exists>pre o' post. ops @ [op] = pre @ o' # post \<and> key_of o' = k \<and> written o' = Some e \<and> (\<forall>o'' \<in> set post. key_of o'' \<noteq> k))
       \<longleftrightarrow> (\<exists>pre o' post. ops = pre @ o' # post \<and> key_of o' = k \<and> written o' = Some e \<and> (\<forall>o'' \<in> set post. key_of o'' \<noteq> k))"
      (is "?l \<longleftrightarrow> ?r")
    proof
      assume ?l
      then obtain pre o' post where w: "ops @ [op] = pre @ o' # post" "key_of o' = k" "written o' = Some e"
        "\<forall>o'' \<in> set post. key_of o'' \<noteq> k" by blast
      then show ?r using False by (cases post rule: rev_cases) auto
    next
      assume ?r
      then obtain pre o' post where "ops = pre @ o' # post" "key_of o' = k" "written o' = Some e"
        "\<forall>o'' \<in> set post. key_of o'' \<noteq> k" by blast
      then have "ops @ [op] = pre @ o' # (post @ [op])" "\<forall>o'' \<in> set (post @ [op]). key_of o'' \<noteq> k"
        using False by auto
      then show ?l using \<open>key_of o' = k\<close> \<open>written o' = Some e\<close> by blast
    qed
    ultimately show ?thesis using False snoc.IH by auto
  qed
qed simp

end

primrec op_key :: "'t cache_op \<Rightarrow> string" where
  "op_key (Op_Insert now model policy material hard ttl) = mi_id model"
| "op_key (Op_Invalidate model_id) = model_id"

primrec op_entry :: "'t cache_op \<Rightarrow> 't cached_material option" where
  "op_entry (Op_Insert now model policy material hard ttl) =
     cache_insert now model policy material hard ttl (\<lambda>_. None) (mi_id model)"
| "op_entry (Op_Invalidate model_id) = None"

interpretation material: keyed_store cache_apply "\<lambda>c k. c k" op_key op_entry
proof (unfold_locales)
  fix op :: "'a cache_op" and s k
  show "cache_apply op s k = (if k = op_key op then op_entry op else s k)"
    by (cases op) (simp_all add: cache_insert_def cache_invalidate_def)
qed

section \<open>Correctness\<close>

text \<open>Verified material is returned exactly when the last operation on its model inserted it, for
  the same model description and trust policy, and neither the provider's hard expiry nor the maximal lifetime
  since its insertion has passed.\<close>

theorem material_fresh:
  "cache_get now (cache_run ops) model policy = Some m \<longleftrightarrow>
     (\<exists>pre post t hard ttl. ops = pre @ Op_Insert t model policy m hard ttl # post
        \<and> (\<forall>op \<in> set post. op_key op \<noteq> mi_id model) \<and> now < hard \<and> now < saturating_add t ttl)"
  (is "?l \<longleftrightarrow> ?r")
proof
  assume ?l
  then obtain e where e: "cache_run ops (mi_id model) = Some e" "now < cm_expires_at e" "cm_model e = model"
      "cm_policy e = policy" "cm_material e = m"
    by (auto simp: cache_get_def split: option.splits if_splits)
  then obtain pre op post where w: "ops = pre @ op # post" "op_key op = mi_id model" "op_entry op = Some e"
      "\<forall>op \<in> set post. op_key op \<noteq> mi_id model"
    unfolding cache_run_def material.lookup_last by auto
  obtain t hard ttl where "op = Op_Insert t model policy m hard ttl" "now < hard" "now < saturating_add t ttl"
    using e(2-) w(2,3) by (cases op) (auto simp: cache_insert_def)
  with w show ?r by blast
next
  assume ?r
  then obtain pre post t hard ttl where w: "ops = pre @ Op_Insert t model policy m hard ttl # post"
      "\<forall>op \<in> set post. op_key op \<noteq> mi_id model" and x: "now < hard" "now < saturating_add t ttl" by blast
  let ?op = "Op_Insert t model policy m hard ttl"
  have "cache_run ops (mi_id model) = op_entry ?op"
    by (simp add: cache_run_def w(1) material.lookup_untouched [OF w(2)] material.lookup_apply del: cache_apply.simps)
  with x show ?l by (simp add: cache_get_def cache_insert_def)
qed

end
