(* ===== verification/Near_Attestation.thy ===== *)
theory Near_Attestation
  imports Lease Near_Response
begin

text \<open>
  Local verification of a NEAR worker, \<open>providers/near/attestation.rs\<close>: the report and its identity, the
  Intel quote and what it binds, NVIDIA's verdict, and the evidence that is shown (\<open>verify_model\<close>). The quote
  verifier (\<open>dcap_qvl\<close>), X.509, P-384, Base64, JSON parsing and the HTTP exchanges are fields of the parameter
  \<open>att_lib\<close>; the nonce, the clock and cancellation are arguments.
\<close>

section \<open>Parameters\<close>

text \<open>What the quote verifier returns, certificates, and an HTTP reply: its status, announced length and chunks.\<close>

record td10_report =
  td_report_data :: string
  td_mr_config_id :: string
  td_mr_td :: string

record verified_quote =
  vq_td10 :: "td10_report option"
  vq_status :: string
  vq_advisory_ids :: "string list"

record certificate =
  ct_valid_now :: bool
  ct_public_key :: string

record http_reply =
  hr_status :: nat
  hr_content_length :: "nat option"
  hr_chunks :: "string option list"

record att_lib =
  al_near :: near_lib
  al_parse_json :: "string \<Rightarrow> json option"
  al_json_bytes :: "json \<Rightarrow> string option"
  al_lease :: "json \<Rightarrow> provider_key_lease option"
  al_fetch_and_verify :: "string \<Rightarrow> verified_quote option"
  al_nvidia_client :: "secure_error + unit"
  al_nras :: "string \<Rightarrow> http_reply option"
  al_nvidia_jwks :: "http_reply option"
  al_jws_header :: "string \<Rightarrow> (string \<times> string) option"
  al_jwks :: "string \<Rightarrow> (string option \<times> string list option) list option"
  al_base64url_decode :: "string \<Rightarrow> string option"
  al_x509 :: "string \<Rightarrow> certificate option"
  al_certificate_signed_by :: "certificate \<Rightarrow> certificate \<Rightarrow> bool"
  al_p384_key :: "string \<Rightarrow> string option"
  al_p384_signature :: "string \<Rightarrow> string option"
  al_p384_verify :: "string \<Rightarrow> string \<Rightarrow> string \<Rightarrow> bool"

abbreviation hex_of :: "att_lib \<Rightarrow> string \<Rightarrow> string" where
  "hex_of al \<equiv> hex_encode (nl_prims (al_near al))"

abbreviation hex_bytes :: "att_lib \<Rightarrow> string \<Rightarrow> string option" where
  "hex_bytes al \<equiv> hex_decode (nl_prims (al_near al))"

abbreviation sha256 :: "att_lib \<Rightarrow> string \<Rightarrow> string" where
  "sha256 al \<equiv> nl_sha256 (al_near al)"

section \<open>JSON access\<close>

fun value_get :: "string \<Rightarrow> json \<Rightarrow> json option" where
  "value_get k (JObject m) = map_of m k"
| "value_get k v = None"

fun value_index :: "nat \<Rightarrow> json \<Rightarrow> json option" where
  "value_index i (JArray vs) = (if i < length vs then Some (vs ! i) else None)"
| "value_index i v = None"

fun value_str :: "json \<Rightarrow> string option" where
  "value_str (JString s) = Some s"
| "value_str v = None"

definition parse_json_object :: "att_lib \<Rightarrow> json \<Rightarrow> (string \<times> json) list option" where
  "parse_json_object al v =
     (case v of
        JObject m \<Rightarrow> Some m
      | JString encoded \<Rightarrow> (case al_parse_json al encoded of Some (JObject m) \<Rightarrow> Some m | _ \<Rightarrow> None)
      | _ \<Rightarrow> None)"

section \<open>The report\<close>

record attestation_report =
  rp_signing_algo :: "string option"
  rp_signing_public_key :: "string option"
  rp_signing_address :: "string option"
  rp_nonce :: "string option"
  rp_request_nonce :: "string option"
  rp_tls_fingerprint :: "string option"
  rp_tls_cert_fingerprint :: "string option"
  rp_model_name :: "string option"
  rp_intel_quote :: "string option"
  rp_nvidia_payload :: "json option"
  rp_app_compose :: "string option"
  rp_info :: "json option"
  rp_tcb_info :: "json option"

text \<open>The derived decoder: a missing or null field is \<open>None\<close>, a field of another type fails the whole.\<close>

definition opt_str_field :: "string \<Rightarrow> json \<Rightarrow> string option option" where
  "opt_str_field k v =
     (case value_get k v of None \<Rightarrow> Some None | Some JNull \<Rightarrow> Some None
      | Some (JString s) \<Rightarrow> Some (Some s) | Some _ \<Rightarrow> None)"

definition opt_value_field :: "string \<Rightarrow> json \<Rightarrow> json option" where
  "opt_value_field k v = (case value_get k v of None \<Rightarrow> None | Some JNull \<Rightarrow> None | Some x \<Rightarrow> Some x)"

definition deserialize_json_object :: "att_lib \<Rightarrow> json option \<Rightarrow> json option option" where
  "deserialize_json_object al v =
     (case v of
        None \<Rightarrow> Some None
      | Some JNull \<Rightarrow> Some None
      | Some (JObject m) \<Rightarrow> Some (Some (JObject m))
      | Some (JString encoded) \<Rightarrow>
          if str_trim encoded = [] then Some None
          else (case al_parse_json al encoded of Some (JObject m) \<Rightarrow> Some (Some (JObject m)) | _ \<Rightarrow> None)
      | Some _ \<Rightarrow> None)"

definition report_of_json :: "att_lib \<Rightarrow> json \<Rightarrow> attestation_report option" where
  "report_of_json al v =
     Option.bind (opt_str_field ''signing_algo'' v) (\<lambda>signing_algo.
     Option.bind (opt_str_field ''signing_public_key'' v) (\<lambda>signing_public_key.
     Option.bind (opt_str_field ''signing_address'' v) (\<lambda>signing_address.
     Option.bind (opt_str_field ''nonce'' v) (\<lambda>nonce.
     Option.bind (opt_str_field ''request_nonce'' v) (\<lambda>request_nonce.
     Option.bind (opt_str_field ''tls_fingerprint'' v) (\<lambda>tls_fingerprint.
     Option.bind (opt_str_field ''tls_cert_fingerprint'' v) (\<lambda>tls_cert_fingerprint.
     Option.bind (opt_str_field ''model_name'' v) (\<lambda>model_name.
     Option.bind (opt_str_field ''intel_quote'' v) (\<lambda>intel_quote.
     Option.bind (deserialize_json_object al (value_get ''nvidia_payload'' v)) (\<lambda>nvidia_payload.
     Option.bind (opt_str_field ''app_compose'' v) (\<lambda>app_compose.
     Some \<lparr>rp_signing_algo = signing_algo, rp_signing_public_key = signing_public_key,
       rp_signing_address = signing_address, rp_nonce = nonce, rp_request_nonce = request_nonce,
       rp_tls_fingerprint = tls_fingerprint, rp_tls_cert_fingerprint = tls_cert_fingerprint,
       rp_model_name = model_name, rp_intel_quote = intel_quote, rp_nvidia_payload = nvidia_payload,
       rp_app_compose = app_compose, rp_info = opt_value_field ''info'' v,
       rp_tcb_info = opt_value_field ''tcb_info'' v\<rparr>)))))))))))"

definition or_else :: "'a option \<Rightarrow> 'a option \<Rightarrow> 'a option" where
  "or_else a b = (case a of Some x \<Rightarrow> Some x | None \<Rightarrow> b)"

definition echoed_nonce :: "attestation_report \<Rightarrow> string option" where
  "echoed_nonce r = or_else (rp_request_nonce r) (rp_nonce r)"

definition report_tls_fingerprint :: "attestation_report \<Rightarrow> string option" where
  "report_tls_fingerprint r = or_else (rp_tls_cert_fingerprint r) (rp_tls_fingerprint r)"

definition att_key :: "att_lib \<Rightarrow> string \<Rightarrow> string \<Rightarrow> secure_error + string" where
  "att_key al detail value =
     (case public_key_from_hex (nl_prims (al_near al)) value of Inl _ \<Rightarrow> Inl (err_attestation detail) | Inr k \<Rightarrow> Inr k)"

definition report_model_key :: "att_lib \<Rightarrow> attestation_report \<Rightarrow> secure_error + string" where
  "report_model_key al r =
     rbind (ok_or (err_attestation ''attestation omitted the model key'')
              (or_else (rp_signing_public_key r) (rp_signing_address r))) (\<lambda>primary.
     rbind (att_key al ''attestation model key is invalid'' primary) (\<lambda>key.
     case (rp_signing_public_key r, rp_signing_address r) of
       (Some public, Some address) \<Rightarrow>
         rbind (att_key al ''attestation signing address is invalid'' address) (\<lambda>address_key.
         if key \<noteq> address_key then Inl (err_attestation ''attestation model key aliases disagree'')
         else rbind (att_key al ''attestation model key is invalid'' public) (\<lambda>public_key.
           if key \<noteq> public_key then Inl (err_attestation ''attestation model key aliases disagree'')
           else Inr key))
     | _ \<Rightarrow> Inr key))"

definition nonempty_str :: "string option \<Rightarrow> string option" where
  "nonempty_str v = (case v of Some [] \<Rightarrow> None | _ \<Rightarrow> v)"

definition report_workload_manifest :: "att_lib \<Rightarrow> attestation_report \<Rightarrow> secure_error + string" where
  "report_workload_manifest al r =
     (case nonempty_str (rp_app_compose r) of
        Some v \<Rightarrow> Inr v
      | None \<Rightarrow>
          let info = Option.bind (rp_info r) (parse_json_object al);
              nested = or_else (Option.bind (Option.bind info (\<lambda>m. map_of m ''tcb_info'')) (parse_json_object al))
                               (Option.bind (rp_tcb_info r) (parse_json_object al))
          in ok_or (err_attestation ''attestation omitted the workload manifest'')
               (nonempty_str (Option.bind (Option.bind nested (\<lambda>m. map_of m ''app_compose'')) value_str)))"

text \<open>\<open>Map::remove\<close> and the fields of the response that a selected report inherits.\<close>

definition add_missing :: "(string \<times> json) list \<Rightarrow> (string \<times> json) list \<Rightarrow> (string \<times> json) list" where
  "add_missing outer selected =
     fold (\<lambda>(name, field) m. if map_of m name = None then m @ [(name, field)] else m) outer selected"

fun normalize_report :: "json \<Rightarrow> secure_error + json" where
  "normalize_report (JObject object) =
     (case map_of object ''model_attestations'' of
        None \<Rightarrow> Inr (JObject object)
      | Some attestations \<Rightarrow>
          let outer = filter (\<lambda>(k, _). k \<noteq> ''model_attestations'') object in
          (case attestations of
             JArray reports \<Rightarrow>
               (case reports of
                  [selected] \<Rightarrow>
                    (case selected of
                       JObject m \<Rightarrow> Inr (JObject (add_missing outer m))
                     | _ \<Rightarrow> Inl (err_attestation ''selected model attestation must be an object''))
                | _ \<Rightarrow> Inl (err_attestation ''attestation response must select exactly one model''))
           | _ \<Rightarrow> Inl (err_attestation ''model attestations must be an array'')))"
| "normalize_report v = Inl (err_attestation ''attestation report must be an object'')"

definition decode_hex_32 :: "att_lib \<Rightarrow> string \<Rightarrow> string \<Rightarrow> secure_error + string" where
  "decode_hex_32 al value detail =
     (if length (strip_0x value) \<noteq> 64 then Inl (err_attestation detail)
      else rbind (ok_or (err_attestation detail) (hex_bytes al (strip_0x value))) (\<lambda>bytes.
        if length bytes \<noteq> 32 then Inl (err_attestation detail) else Inr bytes))"

definition validate_report_identity ::
  "att_lib \<Rightarrow> attestation_report \<Rightarrow> string \<Rightarrow> string \<Rightarrow> string \<Rightarrow> secure_error + unit" where
  "validate_report_identity al r nonce upstream_model expected_signing_algo =
     (if rp_signing_algo r \<noteq> Some expected_signing_algo
      then Inl (err_attestation ''attestation signing algorithm does not match the request'')
      else rbind (ok_or (err_attestation ''attestation did not echo the request nonce'') (echoed_nonce r)) (\<lambda>echoed.
      rbind (decode_hex_32 al echoed ''attestation nonce is invalid'') (\<lambda>decoded.
      if decoded \<noteq> nonce then Inl (err_attestation ''attestation nonce does not match the challenge'')
      else if rp_model_name r \<noteq> Some upstream_model
      then Inl (err_attestation ''attested model does not match the selected model'')
      else rbind (ok_or (err_attestation ''attestation omitted TLS binding'') (report_tls_fingerprint r)) (\<lambda>tls.
      rbind (decode_hex_32 al tls ''attestation TLS fingerprint is invalid'') (\<lambda>_. Inr ())))))"

definition decode_quote :: "att_lib \<Rightarrow> string \<Rightarrow> nat \<Rightarrow> secure_error + string" where
  "decode_quote al value limit =
     rbind (ok_or (err_attestation ''Intel quote encoding is invalid'')
        (or_else (hex_bytes al (strip_0x value)) (nl_base64_decode (al_near al) (strip_0x value)))) (\<lambda>bytes.
     if bytes = [] \<or> limit < length bytes then Inl (err_attestation ''Intel quote exceeds its configured bounds'')
     else Inr bytes)"

section \<open>Intel and NVIDIA\<close>

record intel_evidence =
  ie_status :: string
  ie_advisory_ids :: "string list"
  ie_mr_td :: string
  ie_compose_hash :: string

definition verify_report_data :: "att_lib \<Rightarrow> string \<Rightarrow> string \<Rightarrow> string \<Rightarrow> string \<Rightarrow> secure_error + unit" where
  "verify_report_data al report_data signing_material tls_fingerprint nonce =
     (if length report_data \<noteq> 64 then Inl (err_attestation ''Intel report data must be exactly 64 bytes'')
      else if signing_material = [] then Inl (err_attestation ''attested signing material is invalid'')
      else if take 32 report_data \<noteq> sha256 al (signing_material @ tls_fingerprint) \<or> drop 32 report_data \<noteq> nonce
      then Inl (err_attestation ''Intel report data does not bind the signing key, TLS key, and nonce'')
      else Inr ())"

definition expected_config_id :: "string \<Rightarrow> string" where
  "expected_config_id compose_hash = CHR 0x01 # compose_hash @ replicate 15 (CHR 0x00)"

definition verify_intel :: "att_lib \<Rightarrow> string \<Rightarrow> string \<Rightarrow> string \<Rightarrow> string \<Rightarrow> string \<Rightarrow> secure_error + intel_evidence" where
  "verify_intel al quote signing_material tls_fingerprint nonce workload_manifest =
     rbind (ok_or (err_attestation ''Intel TDX quote or collateral verification failed'') (al_fetch_and_verify al quote)) (\<lambda>verified.
     rbind (ok_or (err_attestation ''Intel quote does not contain a supported TDX report'') (vq_td10 verified)) (\<lambda>td.
     rbind (verify_report_data al (td_report_data td) signing_material tls_fingerprint nonce) (\<lambda>_.
     let compose_hash = sha256 al workload_manifest in
     if td_mr_config_id td \<noteq> expected_config_id compose_hash
     then Inl (err_attestation ''Intel quote does not bind the workload manifest'')
     else Inr \<lparr>ie_status = vq_status verified, ie_advisory_ids = vq_advisory_ids verified,
                ie_mr_td = hex_of al (td_mr_td td), ie_compose_hash = hex_of al compose_hash\<rparr>)))"

definition accept_intel_status :: "string \<Rightarrow> trust_policy \<Rightarrow> secure_client_config \<Rightarrow> secure_error + bool" where
  "accept_intel_status status policy config =
     (if status = ''UpToDate'' \<and> status \<in> set (tp_accepted_intel_statuses policy) then Inr False
      else if status = ''OutOfDate'' then
        (if accepts_outdated_tcb config NEAR_PROVIDER_ID then Inr True
         else Inl (with_code Fail_AttestationRejected Code_OutdatedTee
           ''The provider's Intel TDX environment is OutOfDate and requires security updates.'' False))
      else Inl (err_attestation
        (if status = ''OutOfDateConfigurationNeeded'' then ''Intel TDX status is OutOfDateConfigurationNeeded''
         else if status = ''ConfigurationNeeded'' then ''Intel TDX status is ConfigurationNeeded''
         else if status = ''SWHardeningNeeded'' then ''Intel TDX status is SWHardeningNeeded''
         else if status = ''ConfigurationAndSWHardeningNeeded''
         then ''Intel TDX status is ConfigurationAndSWHardeningNeeded''
         else if status = ''Revoked'' then ''Intel TDX status is Revoked''
         else ''Intel TDX status is rejected by policy; see verification diagnostics'')))"

definition decode_certificate :: "att_lib \<Rightarrow> string \<Rightarrow> secure_error + string" where
  "decode_certificate al encoded =
     (if 64 * 1024 < length encoded then Inl (err_attestation ''NVIDIA certificate exceeds its configured bound'')
      else ok_or (err_attestation ''NVIDIA certificate encoding is invalid'') (nl_base64_decode (al_near al) encoded))"

definition decode_jws_json :: "att_lib \<Rightarrow> (string \<Rightarrow> 'a option) \<Rightarrow> string \<Rightarrow> string \<Rightarrow> secure_error + 'a" where
  "decode_jws_json al decode encoded detail =
     rbind (ok_or (err_attestation detail) (al_base64url_decode al encoded)) (\<lambda>bytes.
     ok_or (err_attestation detail) (decode bytes))"

definition eq_ignore_ascii_case :: "string \<Rightarrow> string \<Rightarrow> bool" where
  "eq_ignore_ascii_case a b \<longleftrightarrow> to_ascii_lowercase a = to_ascii_lowercase b"

definition signing_chain :: "(string option \<times> string list option) list \<Rightarrow> string \<Rightarrow> string list option" where
  "signing_chain keys kid =
     (case find (\<lambda>(k, _). k = Some kid) keys of
        Some (_, Some chain) \<Rightarrow> if 2 \<le> length chain then Some chain else None
      | _ \<Rightarrow> None)"

definition verdict_passed :: "json \<Rightarrow> bool" where
  "verdict_passed payload \<longleftrightarrow>
     (case value_get ''x-nvidia-overall-att-result'' payload of
        Some (JBool b) \<Rightarrow> b
      | Some (JString v) \<Rightarrow> to_ascii_lowercase v \<in> {''true'', ''success'', ''pass''}
      | _ \<Rightarrow> False)"

definition nonce_matches :: "string \<Rightarrow> string \<Rightarrow> json \<Rightarrow> bool" where
  "nonce_matches field expected v \<longleftrightarrow>
     (case Option.bind (value_get field v) value_str of None \<Rightarrow> False | Some n \<Rightarrow> eq_ignore_ascii_case n expected)"

definition verify_nvidia_jwt :: "att_lib \<Rightarrow> string \<Rightarrow> string \<Rightarrow> string \<Rightarrow> string list \<Rightarrow> secure_error + unit" where
  "verify_nvidia_jwt al jwt jwks_json expected_nonce approved_anchor_sha256 =
     (case str_split (CHR ''.'') jwt of
        [encoded_header, encoded_payload, encoded_signature] \<Rightarrow>
          rbind (decode_jws_json al (al_jws_header al) encoded_header ''NVIDIA JWT header is invalid'') (\<lambda>(alg, kid).
          if alg \<noteq> ''ES384'' \<or> kid = []
          then Inl (err_attestation ''NVIDIA verdict uses an unsupported signing algorithm'')
          else rbind (ok_or (err_attestation ''NVIDIA JWKS is invalid'') (al_jwks al jwks_json)) (\<lambda>keys.
          rbind (ok_or (err_attestation ''NVIDIA signing key is absent from JWKS'') (signing_chain keys kid)) (\<lambda>chain.
          rbind (decode_certificate al (chain ! 0)) (\<lambda>leaf_der.
          rbind (decode_certificate al (chain ! 1)) (\<lambda>presented_intermediate.
          if hex_of al (sha256 al presented_intermediate) \<notin> set approved_anchor_sha256
          then Inl (err_attestation ''NVIDIA certificate chain does not match the signed trust policy'')
          else rbind (ok_or (err_attestation ''NVIDIA anchor is invalid'') (al_x509 al presented_intermediate)) (\<lambda>anchor.
          rbind (ok_or (err_attestation ''NVIDIA leaf certificate is invalid'') (al_x509 al leaf_der)) (\<lambda>leaf.
          if \<not> ct_valid_now leaf \<or> \<not> ct_valid_now anchor
          then Inl (err_attestation ''NVIDIA signing certificate is outside its validity period'')
          else if \<not> al_certificate_signed_by al leaf anchor
          then Inl (err_attestation ''NVIDIA leaf is not signed by the pinned anchor'')
          else rbind (ok_or (err_attestation ''NVIDIA leaf does not contain a P-384 key'') (al_p384_key al (ct_public_key leaf))) (\<lambda>key.
          rbind (ok_or (err_attestation ''NVIDIA JWT signature is malformed'') (al_base64url_decode al encoded_signature)) (\<lambda>signature_bytes.
          rbind (ok_or (err_attestation ''NVIDIA JWT signature is malformed'') (al_p384_signature al signature_bytes)) (\<lambda>signature.
          if \<not> al_p384_verify al key (encoded_header @ ''.'' @ encoded_payload) signature
          then Inl (err_attestation ''NVIDIA JWT signature is invalid'')
          else rbind (decode_jws_json al (al_parse_json al) encoded_payload ''NVIDIA JWT payload is invalid'') (\<lambda>payload.
          if \<not> verdict_passed payload then Inl (err_attestation ''NVIDIA attestation verdict is not a pass'')
          else if \<not> nonce_matches ''eat_nonce'' expected_nonce payload
          then Inl (err_attestation ''NVIDIA verdict nonce does not match the challenge'')
          else Inr ())))))))))))
      | _ \<Rightarrow> Inl (err_attestation ''NVIDIA verdict JWT is malformed''))"

definition reply_body :: "http_reply option \<Rightarrow> string \<Rightarrow> string \<Rightarrow> nat \<Rightarrow> secure_error + string" where
  "reply_body reply failed rejected limit =
     rbind (ok_or (err_attestation failed) reply) (\<lambda>r.
     if hr_status r \<noteq> 200 then Inl (err_attestation rejected)
     else bounded_body (hr_content_length r) (hr_chunks r) limit)"

definition verify_nvidia ::
  "att_lib \<Rightarrow> json \<Rightarrow> string \<Rightarrow> secure_client_config \<Rightarrow> string list \<Rightarrow> secure_error + unit" where
  "verify_nvidia al payload expected_nonce config approved_anchor_sha256 =
     rbind (ok_or (err_attestation ''NVIDIA evidence is invalid'') (al_json_bytes al payload)) (\<lambda>payload_bytes.
     if nvidia_evidence_bytes (client_limits config) < length payload_bytes
     then Inl (err_attestation ''NVIDIA evidence exceeds its configured bound'')
     else if \<not> nonce_matches ''nonce'' (hex_of al expected_nonce) payload
     then Inl (err_attestation ''NVIDIA evidence nonce does not match the challenge'')
     else rbind (al_nvidia_client al) (\<lambda>_.
     rbind (reply_body (al_nras al payload_bytes) ''NVIDIA NRAS request failed'' ''NVIDIA NRAS rejected the evidence''
              (nvidia_jwt_bytes (client_limits config))) (\<lambda>response.
     rbind (ok_or (err_attestation ''NVIDIA NRAS response is invalid'') (al_parse_json al response)) (\<lambda>nras.
     rbind (ok_or (err_attestation ''NVIDIA NRAS response omitted its verdict'')
              (Option.bind (Option.bind (value_index 0 nras) (value_index 1)) value_str)) (\<lambda>jwt.
     if nvidia_jwt_bytes (client_limits config) < length jwt
     then Inl (err_attestation ''NVIDIA verdict exceeds its configured bound'')
     else rbind (reply_body (al_nvidia_jwks al) ''NVIDIA JWKS request failed'' ''NVIDIA JWKS request was rejected''
                   (nvidia_jwks_bytes (client_limits config))) (\<lambda>jwks.
     verify_nvidia_jwt al jwt jwks (hex_of al expected_nonce) approved_anchor_sha256))))))"

section \<open>Evidence\<close>

definition check :: "string \<Rightarrow> string \<Rightarrow> string \<Rightarrow> evidence_check" where
  "check i label status = \<lparr>ec_id = i, ec_label = label, ec_status = status, ec_passed = True\<rparr>"

abbreviation NEAR_ATTESTATION_PROTOCOL :: string where
  "NEAR_ATTESTATION_PROTOCOL \<equiv> ''near-tdx-nvidia-v2''"

abbreviation NEAR_ENCRYPTION_VERSION :: nat where
  "NEAR_ENCRYPTION_VERSION \<equiv> 2"

definition build_evidence ::
  "att_lib \<Rightarrow> nat \<Rightarrow> string \<Rightarrow> trust_policy \<Rightarrow> string \<Rightarrow> string \<Rightarrow> intel_evidence \<Rightarrow> string \<Rightarrow> security_evidence" where
  "build_evidence al now model_id policy model_key tls_fingerprint intel workload_manifest =
     \<lparr>se_state = Sec_Verified, se_provider_id = NEAR_PROVIDER_ID, se_model_id = model_id,
      se_attestation_protocol = NEAR_ATTESTATION_PROTOCOL, se_e2ee_protocol = NEAR_E2EE_PROTOCOL,
      se_e2ee_encryption_version = NEAR_ENCRYPTION_VERSION, se_trust_policy_version = tp_version policy,
      se_verified_at_unix_seconds = now, se_attestation_generation = None, se_hard_expires_at_unix_seconds = None,
      se_model_key_fingerprint = hex_of al (sha256 al model_key),
      se_tls_spki_fingerprint = Some (hex_of al tls_fingerprint),
      se_checks = [check ''nonce_freshness'' ''Fresh challenge'' ''matched'', check ''model_binding'' ''Model identity'' ''matched'',
        check ''model_key_binding'' ''Model encryption key'' ''bound'', check ''tls_binding'' ''Attested worker TLS key'' ''quote-bound'',
        check ''intel_tdx'' ''Intel TDX'' (ie_status intel), check ''nvidia_gpu'' ''NVIDIA GPU'' ''verified'',
        check ''workload_manifest'' ''Workload manifest'' ''quote-bound''],
      se_provider_claims = [\<lparr>ecl_name = ''intel_mr_td'', ecl_value = ie_mr_td intel\<rparr>,
        \<lparr>ecl_name = ''workload_manifest_sha256'', ecl_value = ie_compose_hash intel\<rparr>,
        \<lparr>ecl_name = ''intel_advisory_ids'', ecl_value = str_join '','' (ie_advisory_ids intel)\<rparr>],
      se_workload_manifest = Some workload_manifest\<rparr>"

fun fail_check :: "string \<Rightarrow> evidence_check list \<Rightarrow> evidence_check list" where
  "fail_check i [] = []"
| "fail_check i (c # cs) = (if ec_id c = i then c\<lparr>ec_passed := False\<rparr> # cs else c # fail_check i cs)"

definition degrade_evidence :: "security_evidence \<Rightarrow> security_evidence" where
  "degrade_evidence e =
     e\<lparr>se_state := Sec_Degraded, se_checks := fail_check ''intel_tdx'' (se_checks e),
       se_provider_claims := se_provider_claims e @
         [\<lparr>ecl_name = ''outdated_tcb_accepted'', ecl_value = ''Accepted by user for this provider until restart''\<rparr>]\<rparr>"

definition signed_evidence :: "att_lib \<Rightarrow> string \<Rightarrow> security_evidence \<Rightarrow> security_evidence" where
  "signed_evidence al model_key e =
     e\<lparr>se_checks := se_checks e @ [check ''response_signature'' ''Provider response signature'' ''ed25519-attested''],
       se_provider_claims := se_provider_claims e @
         [\<lparr>ecl_name = ''response_signing_address'', ecl_value = hex_of al model_key\<rparr>,
          \<lparr>ecl_name = ''response_signing_key_fingerprint'', ecl_value = hex_of al (sha256 al model_key)\<rparr>]\<rparr>"

section \<open>Verification of a model\<close>

record worker_session_envelope =
  ws_provider :: string
  ws_model_id :: string
  ws_attestation_protocol :: string
  ws_evidence :: json

record verified_near_attestation =
  va_model_key :: string
  va_response_signing_address :: string
  va_evidence :: security_evidence

text \<open>The inputs of one verification: cancellation before it starts and while the vendors are asked, the random
  nonce, the relay's answer to the challenge, the clock, and which vendor's failure is seen first.\<close>

record attestation_run =
  ar_cancelled :: bool
  ar_cancelled_later :: bool
  ar_nonce :: string
  ar_envelope :: "secure_error + worker_session_envelope"
  ar_now :: nat
  ar_nvidia_first :: bool

definition try_join :: "bool \<Rightarrow> 'e + 'a \<Rightarrow> 'e + unit \<Rightarrow> 'e + 'a" where
  "try_join second_first a b =
     (if second_first then rbind b (\<lambda>_. a) else rbind a (\<lambda>x. rbind b (\<lambda>_. Inr x)))"

definition worker_session_id :: "json \<Rightarrow> secure_error + string" where
  "worker_session_id evidence =
     ok_or (err_attestation ''NEAR worker session ID is invalid'')
       (case Option.bind (value_get ''worker_session_id'' evidence) value_str of
          Some i \<Rightarrow> if length i = 32 \<and> lower_hex i then Some i else None
        | None \<Rightarrow> None)"

definition verify_model ::
  "att_lib \<Rightarrow> url_lib \<Rightarrow> secure_client_config \<Rightarrow> model_info \<Rightarrow> trust_policy \<Rightarrow> attestation_run \<Rightarrow>
     secure_error + (verified_near_attestation \<times> provider_key_lease \<times> string)" where
  "verify_model al ul config model policy run =
     (if ar_cancelled run then Inl err_cancelled
      else rbind (validate_provider_url ul (client_endpoint_policy config) (mi_provider_base_url model)) (\<lambda>_.
      rbind (ar_envelope run) (\<lambda>wire.
      if ws_provider wire \<noteq> NEAR_PROVIDER_ID \<or> ws_model_id wire \<noteq> mi_id model
         \<or> ws_attestation_protocol wire \<noteq> NEAR_ATTESTATION_PROTOCOL
      then Inl (err_attestation ''NEAR worker session contract is invalid'')
      else rbind (worker_session_id (ws_evidence wire)) (\<lambda>session_id.
      rbind (ok_or (err_attestation ''NEAR worker session lease is invalid'')
               (al_lease al (case value_get ''lease'' (ws_evidence wire) of Some v \<Rightarrow> v | None \<Rightarrow> JNull))) (\<lambda>lease.
      rbind (normalize_report (ws_evidence wire)) (\<lambda>normalized.
      rbind (ok_or (err_attestation ''NEAR worker evidence schema is invalid'') (report_of_json al normalized)) (\<lambda>report.
      rbind (validate_report_identity al report (ar_nonce run) (mi_upstream_model model) ''ed25519'') (\<lambda>_.
      rbind (report_model_key al report) (\<lambda>model_key.
      rbind (ok_or (err_attestation ''attestation omitted TLS binding'') (report_tls_fingerprint report)) (\<lambda>tls.
      rbind (decode_hex_32 al tls ''attestation TLS fingerprint is invalid'') (\<lambda>tls_fingerprint.
      rbind (report_workload_manifest al report) (\<lambda>manifest.
      rbind (ok_or (err_attestation ''attestation omitted Intel evidence'') (rp_intel_quote report)) (\<lambda>encoded_quote.
      rbind (decode_quote al encoded_quote (attestation_quote_bytes (client_limits config))) (\<lambda>quote.
      rbind (ok_or (err_attestation ''attestation omitted NVIDIA evidence'') (rp_nvidia_payload report)) (\<lambda>nvidia_payload.
      if ar_cancelled_later run then Inl err_cancelled
      else rbind (try_join (ar_nvidia_first run)
               (verify_intel al quote model_key tls_fingerprint (ar_nonce run) manifest)
               (verify_nvidia al nvidia_payload (ar_nonce run) config (tp_nvidia_anchor_sha256 policy))) (\<lambda>intel.
      rbind (accept_intel_status (ie_status intel) policy config) (\<lambda>outdated_accepted.
      if \<not> tp_require_nvidia_verified policy
      then Inl (err_configuration ''near-v3 requires NVIDIA verification'')
      else
        let built = build_evidence al (ar_now run) (mi_id model) policy model_key tls_fingerprint intel manifest;
            evidence = (if outdated_accepted then degrade_evidence built else built) in
        Inr (\<lparr>va_model_key = model_key, va_response_signing_address = hex_of al model_key,
              va_evidence = signed_evidence al model_key evidence\<rparr>, lease, session_id))))))))))))))))))"

section \<open>What an accepted attestation means\<close>

text \<open>A verified quote that binds a key, a TLS key, a challenge and a workload manifest; and a verdict of NVIDIA
  for a challenge, signed under an anchor of the trust policy.\<close>

definition quote_binds :: "att_lib \<Rightarrow> string \<Rightarrow> string \<Rightarrow> string \<Rightarrow> string \<Rightarrow> string \<Rightarrow> bool" where
  "quote_binds al status key tls_key nonce manifest \<longleftrightarrow>
     (\<exists>quote verified td. al_fetch_and_verify al quote = Some verified \<and> vq_td10 verified = Some td
        \<and> vq_status verified = status \<and> length (td_report_data td) = 64 \<and> key \<noteq> []
        \<and> td_report_data td = sha256 al (key @ tls_key) @ nonce
        \<and> td_mr_config_id td = expected_config_id (sha256 al manifest))"

definition nvidia_vouches :: "att_lib \<Rightarrow> string list \<Rightarrow> string \<Rightarrow> bool" where
  "nvidia_vouches al anchors nonce \<longleftrightarrow>
     (\<exists>head body anchor_der anchor leaf key signature bytes payload.
        hex_of al (sha256 al anchor_der) \<in> set anchors \<and> al_x509 al anchor_der = Some anchor
      \<and> ct_valid_now anchor \<and> ct_valid_now leaf \<and> al_certificate_signed_by al leaf anchor
      \<and> al_p384_key al (ct_public_key leaf) = Some key \<and> al_p384_verify al key (head @ ''.'' @ body) signature
      \<and> al_base64url_decode al body = Some bytes \<and> al_parse_json al bytes = Some payload
      \<and> verdict_passed payload \<and> nonce_matches ''eat_nonce'' nonce payload)"

lemma verify_intel_sound:
  assumes "verify_intel al quote key tls nonce manifest = Inr intel"
  shows "quote_binds al (ie_status intel) key tls nonce manifest"
proof -
  obtain verified td where q: "al_fetch_and_verify al quote = Some verified" "vq_td10 verified = Some td"
    and r: "verify_report_data al (td_report_data td) key tls nonce = Inr ()"
    and c: "td_mr_config_id td = expected_config_id (sha256 al manifest)" and s: "ie_status intel = vq_status verified"
    using assms unfolding verify_intel_def success_iffs Let_def by auto
  from r have "length (td_report_data td) = 64" "key \<noteq> []"
      "take 32 (td_report_data td) = sha256 al (key @ tls)" "drop 32 (td_report_data td) = nonce"
    unfolding verify_report_data_def success_iffs by blast+
  moreover from this have "td_report_data td = sha256 al (key @ tls) @ nonce" by (metis append_take_drop_id)
  ultimately show ?thesis
    unfolding quote_binds_def using q c s by (intro exI [of _ quote] exI [of _ verified] exI [of _ td]) simp
qed

lemma verify_nvidia_jwt_sound:
  assumes "verify_nvidia_jwt al jwt jwks nonce anchors = Inr ()"
  shows "nvidia_vouches al anchors nonce"
proof -
  obtain h p s where parts: "str_split (CHR ''.'') jwt = [h, p, s]"
    using assms unfolding verify_nvidia_jwt_def by (auto split: list.splits)
  obtain anchor_der anchor leaf key sg bytes payload where
      "hex_of al (sha256 al anchor_der) \<in> set anchors" "al_x509 al anchor_der = Some anchor"
      "ct_valid_now anchor" "ct_valid_now leaf" "al_certificate_signed_by al leaf anchor"
      "al_p384_key al (ct_public_key leaf) = Some key" "al_p384_verify al key (h @ ''.'' @ p) sg"
      "al_base64url_decode al p = Some bytes" "al_parse_json al bytes = Some payload"
      "verdict_passed payload" "nonce_matches ''eat_nonce'' nonce payload"
    using assms unfolding verify_nvidia_jwt_def parts list.case decode_jws_json_def success_iffs
      split_paired_Ex prod.case de_Morgan_disj not_not by blast
  then show ?thesis unfolding nvidia_vouches_def by blast
qed

lemma verify_nvidia_sound:
  "verify_nvidia al payload nonce config anchors = Inr () \<Longrightarrow>
     nvidia_vouches al anchors (hex_of al nonce) \<and> nonce_matches ''nonce'' (hex_of al nonce) payload"
  unfolding verify_nvidia_def success_iffs by (blast dest: verify_nvidia_jwt_sound)

lemma try_join_Inr_iff: "try_join f a b = Inr x \<longleftrightarrow> a = Inr x \<and> b = Inr ()"
  by (auto simp: try_join_def)

lemma accept_intel_status_iff:
  "accept_intel_status status policy config = Inr outdated \<longleftrightarrow>
     \<not> outdated \<and> status = ''UpToDate'' \<and> status \<in> set (tp_accepted_intel_statuses policy)
   \<or> outdated \<and> status = ''OutOfDate'' \<and> accept_outdated_near_tcb config"
  by (auto simp: accept_intel_status_def accepts_outdated_tcb_def NEAR_PROVIDER_ID_def)

text \<open>Everything a successful verification has checked.\<close>

lemma verify_model_checked:
  assumes "verify_model al ul config model policy run = Inr (v, lease, sid)"
  obtains wire normalized report key tls manifest quote intel outdated where
    "ar_envelope run = Inr wire" "ws_provider wire = NEAR_PROVIDER_ID" "ws_model_id wire = mi_id model"
    "al_lease al (case value_get ''lease'' (ws_evidence wire) of Some l \<Rightarrow> l | None \<Rightarrow> JNull) = Some lease"
    "worker_session_id (ws_evidence wire) = Inr sid"
    "normalize_report (ws_evidence wire) = Inr normalized" "report_of_json al normalized = Some report"
    "validate_report_identity al report (ar_nonce run) (mi_upstream_model model) ''ed25519'' = Inr ()"
    "report_model_key al report = Inr key"
    "verify_intel al quote key tls (ar_nonce run) manifest = Inr intel"
    "nvidia_vouches al (tp_nvidia_anchor_sha256 policy) (hex_of al (ar_nonce run))"
    "accept_intel_status (ie_status intel) policy config = Inr outdated"
    "v = (let built = build_evidence al (ar_now run) (mi_id model) policy key tls intel manifest in
          \<lparr>va_model_key = key, va_response_signing_address = hex_of al key,
           va_evidence = signed_evidence al key (if outdated then degrade_evidence built else built)\<rparr>)"
proof -
  obtain wire normalized report key tls manifest encoded quote payload intel outdated where
    "ar_envelope run = Inr wire" "ws_provider wire = NEAR_PROVIDER_ID" "ws_model_id wire = mi_id model"
    "al_lease al (case value_get ''lease'' (ws_evidence wire) of Some l \<Rightarrow> l | None \<Rightarrow> JNull) = Some lease"
    "worker_session_id (ws_evidence wire) = Inr sid"
    "normalize_report (ws_evidence wire) = Inr normalized" "report_of_json al normalized = Some report"
    "validate_report_identity al report (ar_nonce run) (mi_upstream_model model) ''ed25519'' = Inr ()"
    "report_model_key al report = Inr key"
    "verify_intel al quote key tls (ar_nonce run) manifest = Inr intel"
    "verify_nvidia al payload (ar_nonce run) config (tp_nvidia_anchor_sha256 policy) = Inr ()"
    "accept_intel_status (ie_status intel) policy config = Inr outdated"
    "v = (let built = build_evidence al (ar_now run) (mi_id model) policy key tls intel manifest in
          \<lparr>va_model_key = key, va_response_signing_address = hex_of al key,
           va_evidence = signed_evidence al key (if outdated then degrade_evidence built else built)\<rparr>)"
    using assms unfolding verify_model_def success_iffs try_join_Inr_iff Let_def sum.inject prod.inject de_Morgan_disj not_not
    by blast
  then show ?thesis using that verify_nvidia_sound by blast
qed

lemma identity_nonce:
  "validate_report_identity al report nonce upstream algo = Inr () \<Longrightarrow>
     rp_model_name report = Some upstream
   \<and> (\<exists>echoed. echoed_nonce report = Some echoed \<and> decode_hex_32 al echoed ''attestation nonce is invalid'' = Inr nonce)"
  unfolding validate_report_identity_def success_iffs by auto

lemma identity_nonce_unique:
  "validate_report_identity al report nonce upstream algo = Inr () \<Longrightarrow>
   validate_report_identity al report nonce' upstream' algo = Inr () \<Longrightarrow> nonce = nonce'"
  by (drule identity_nonce)+ auto

definition failed_checks :: "security_evidence \<Rightarrow> string list" where
  "failed_checks e = map ec_id (filter (\<lambda>c. \<not> ec_passed c) (se_checks e))"

lemma evidence_fields:
  "se_state (signed_evidence al key e) = se_state e" "se_model_id (signed_evidence al key e) = se_model_id e"
  "se_workload_manifest (signed_evidence al key e) = se_workload_manifest e"
  "se_model_key_fingerprint (signed_evidence al key e) = se_model_key_fingerprint e"
  "failed_checks (signed_evidence al key e) = failed_checks e"
  "se_model_id (degrade_evidence e) = se_model_id e" "se_state (degrade_evidence e) = Sec_Degraded"
  "se_workload_manifest (degrade_evidence e) = se_workload_manifest e"
  "se_model_key_fingerprint (degrade_evidence e) = se_model_key_fingerprint e"
  by (simp_all add: signed_evidence_def degrade_evidence_def failed_checks_def check_def)

lemma built_evidence_fields:
  "se_state (build_evidence al now m policy key tls intel manifest) = Sec_Verified"
  "se_model_id (build_evidence al now m policy key tls intel manifest) = m"
  "se_workload_manifest (build_evidence al now m policy key tls intel manifest) = Some manifest"
  "se_model_key_fingerprint (build_evidence al now m policy key tls intel manifest) = hex_of al (sha256 al key)"
  "failed_checks (build_evidence al now m policy key tls intel manifest) = []"
  "failed_checks (degrade_evidence (build_evidence al now m policy key tls intel manifest)) = [''intel_tdx'']"
  by (simp_all add: build_evidence_def failed_checks_def check_def degrade_evidence_def)

text \<open>C30. Safety: a model key is accepted only when an authenticated Intel quote binds it, the worker's TLS key,
  the fresh nonce and the workload manifest shown to the user, NVIDIA vouches for the same nonce under an anchor of
  the trust policy, and the report names the selected model. The platform is up to date and every check passed, or
  the user has consented to an outdated platform and exactly the Intel check is shown as failed. An answer accepted
  for one nonce is accepted for no other.\<close>

theorem near_attestation_sound:
  assumes "verify_model al ul config model policy run = Inr (v, lease, sid)"
  shows "\<exists>status tls manifest.
      quote_binds al status (va_model_key v) tls (ar_nonce run) manifest
    \<and> nvidia_vouches al (tp_nvidia_anchor_sha256 policy) (hex_of al (ar_nonce run))
    \<and> va_response_signing_address v = hex_of al (va_model_key v)
    \<and> se_model_id (va_evidence v) = mi_id model \<and> se_workload_manifest (va_evidence v) = Some manifest
    \<and> se_model_key_fingerprint (va_evidence v) = hex_of al (sha256 al (va_model_key v))
    \<and> (status = ''UpToDate'' \<and> ''UpToDate'' \<in> set (tp_accepted_intel_statuses policy)
         \<and> se_state (va_evidence v) = Sec_Verified \<and> failed_checks (va_evidence v) = []
     \<or> status = ''OutOfDate'' \<and> accept_outdated_near_tcb config
         \<and> se_state (va_evidence v) = Sec_Degraded \<and> failed_checks (va_evidence v) = [''intel_tdx''])
    \<and> (\<forall>ul' config' model' policy' run' r. verify_model al ul' config' model' policy' run' = Inr r
         \<and> ar_envelope run' = ar_envelope run
         \<longrightarrow> ar_nonce run' = ar_nonce run \<and> mi_id model' = mi_id model \<and> mi_upstream_model model' = mi_upstream_model model)"
proof -
  obtain wire normalized report key tls manifest quote intel outdated where w:
    "ar_envelope run = Inr wire" "ws_model_id wire = mi_id model"
    "normalize_report (ws_evidence wire) = Inr normalized" "report_of_json al normalized = Some report"
    and idn: "validate_report_identity al report (ar_nonce run) (mi_upstream_model model) ''ed25519'' = Inr ()"
    and q: "verify_intel al quote key tls (ar_nonce run) manifest = Inr intel"
    and n: "nvidia_vouches al (tp_nvidia_anchor_sha256 policy) (hex_of al (ar_nonce run))"
    and s: "accept_intel_status (ie_status intel) policy config = Inr outdated"
    and v: "v = (let built = build_evidence al (ar_now run) (mi_id model) policy key tls intel manifest in
          \<lparr>va_model_key = key, va_response_signing_address = hex_of al key,
           va_evidence = signed_evidence al key (if outdated then degrade_evidence built else built)\<rparr>)"
    using assms by (rule verify_model_checked)
  have replay: "ar_nonce run' = ar_nonce run \<and> mi_id model' = mi_id model \<and> mi_upstream_model model' = mi_upstream_model model"
    if ok: "verify_model al ul' config' model' policy' run' = Inr r" and e: "ar_envelope run' = ar_envelope run"
    for ul' config' model' policy' run' r
  proof -
    obtain v' lease' sid' where "r = (v', lease', sid')" by (cases r)
    then obtain wire' normalized' report' where "ar_envelope run' = Inr wire'" "ws_model_id wire' = mi_id model'"
        "normalize_report (ws_evidence wire') = Inr normalized'" "report_of_json al normalized' = Some report'"
        "validate_report_identity al report' (ar_nonce run') (mi_upstream_model model') ''ed25519'' = Inr ()"
      using ok verify_model_checked [of al ul' config' model' policy' run' v' lease' sid'] by metis
    with w e have i: "validate_report_identity al report (ar_nonce run') (mi_upstream_model model') ''ed25519'' = Inr ()"
      and m: "mi_id model' = mi_id model" by auto
    then show ?thesis using identity_nonce_unique [OF i idn] identity_nonce [OF i] identity_nonce [OF idn] m by simp
  qed
  have bind: "quote_binds al (ie_status intel) (va_model_key v) tls (ar_nonce run) manifest"
    using verify_intel_sound [OF q] by (simp add: v Let_def)
  show ?thesis
    using bind n s replay
    by (intro exI [of _ "ie_status intel"] exI [of _ tls] exI [of _ manifest], cases outdated)
      (auto simp: v Let_def evidence_fields built_evidence_fields accept_intel_status_iff)
qed

section \<open>A concrete verification\<close>

abbreviation demo_zero_hex :: string where "demo_zero_hex \<equiv> replicate 64 (CHR ''0'')"

abbreviation demo_zeros :: string where "demo_zeros \<equiv> replicate 32 nul"

abbreviation demo_worker_id :: string where "demo_worker_id \<equiv> replicate 32 (CHR ''0'')"

definition demo_key_lease :: provider_key_lease where
  "demo_key_lease = \<lparr>kl_model_id = ''m'', kl_model = ''up'', kl_base_url = ''u'', kl_provider = ''near'',
     kl_attestation_protocol = NEAR_ATTESTATION_PROTOCOL, kl_encryption_version = 2, kl_e2ee_protocol = ''near-v3'',
     kl_model_public_key = demo_zero_hex, kl_verified = True, kl_attestation_generation = 1,
     kl_model_key_fingerprint = demo_zero_hex, kl_keyset_digest = None, kl_response_signing_address = Some demo_zero_hex,
     kl_response_signing_key_fingerprint = Some demo_zero_hex, kl_hard_expires_at = 1000\<rparr>"

definition demo_report_json :: json where
  "demo_report_json = JObject [(''worker_session_id'', JString demo_worker_id), (''lease'', JNull),
     (''signing_algo'', JString ''ed25519''), (''signing_public_key'', JString demo_zero_hex), (''nonce'', JString demo_zero_hex),
     (''tls_fingerprint'', JString demo_zero_hex), (''model_name'', JString ''up''), (''intel_quote'', JString demo_zero_hex),
     (''nvidia_payload'', JObject [(''nonce'', JString demo_zero_hex)]), (''app_compose'', JString ''app'')]"

definition demo_att :: att_lib where
  "demo_att = \<lparr>al_near = \<lparr>nl_prims = demo_prims, nl_stream_chunk = \<lambda>_. None, nl_completion = \<lambda>_. None, nl_proof = \<lambda>_. None,
       nl_json_valid = \<lambda>_. True, nl_base64_decode = Some, nl_sha256 = \<lambda>_. demo_zeros, nl_key_valid = \<lambda>_. True,
       nl_signature_valid = \<lambda>_. True, nl_verify_strict = \<lambda>_ _ _. True\<rparr>,
     al_parse_json = \<lambda>s. if s = ''p'' then Some (JObject [(''x-nvidia-overall-att-result'', JBool True), (''eat_nonce'', JString demo_zero_hex)])
       else Some (JArray [JArray [JNull, JString ''h.p.s'']]),
     al_json_bytes = \<lambda>_. Some [], al_lease = \<lambda>_. Some demo_key_lease,
     al_fetch_and_verify = \<lambda>_. Some \<lparr>vq_td10 = Some \<lparr>td_report_data = replicate 64 nul,
         td_mr_config_id = expected_config_id demo_zeros, td_mr_td = []\<rparr>, vq_status = ''UpToDate'', vq_advisory_ids = []\<rparr>,
     al_nvidia_client = Inr (), al_nras = \<lambda>_. Some \<lparr>hr_status = 200, hr_content_length = None, hr_chunks = []\<rparr>,
     al_nvidia_jwks = Some \<lparr>hr_status = 200, hr_content_length = None, hr_chunks = []\<rparr>,
     al_jws_header = \<lambda>_. Some (''ES384'', ''k''), al_jwks = \<lambda>_. Some [(Some ''k'', Some [''leaf'', ''anchor''])],
     al_base64url_decode = Some, al_x509 = \<lambda>_. Some \<lparr>ct_valid_now = True, ct_public_key = []\<rparr>,
     al_certificate_signed_by = \<lambda>_ _. True, al_p384_key = Some, al_p384_signature = Some, al_p384_verify = \<lambda>_ _ _. True\<rparr>"

definition demo_challenge :: attestation_run where
  "demo_challenge = \<lparr>ar_cancelled = False, ar_cancelled_later = False, ar_nonce = demo_zeros,
     ar_envelope = Inr \<lparr>ws_provider = ''near'', ws_model_id = ''m'', ws_attestation_protocol = NEAR_ATTESTATION_PROTOCOL,
       ws_evidence = demo_report_json\<rparr>, ar_now = 100, ar_nvidia_first = False\<rparr>"

definition demo_near_model :: model_info where
  "demo_near_model = \<lparr>mi_id = ''m'', mi_label = [], mi_short_label = [], mi_provider_id = ''near'', mi_provider_label = [],
     mi_upstream_model = ''up'', mi_provider_base_url = ''u'', mi_e2ee_protocol = ''near-v3'', mi_e2ee_encryption_version = 2,
     mi_attestation_protocol = NEAR_ATTESTATION_PROTOCOL, mi_context_window_tokens = 1, mi_max_output_tokens = 1,
     mi_input_price = None, mi_output_price = None, mi_supported_reasoning_efforts = [], mi_supported_thinking_modes = [],
     mi_reasoning_replay = False, mi_supports_tools = False, mi_supports_parallel_tools = False, mi_supports_streaming = True,
     mi_supports_images = False, mi_file_mime_types = [], mi_reasoning_parameters = [], mi_thinking_parameters = []\<rparr>"

definition demo_near_policy :: trust_policy where
  "demo_near_policy = \<lparr>tp_sequence = 7, tp_version = ''v7'', tp_expires_at = 900, tp_accepted_intel_statuses = [''UpToDate''],
     tp_require_nvidia_verified = True, tp_require_model_binding = True, tp_require_live_tls_binding = True,
     tp_nvidia_anchor_sha256 = [demo_zero_hex]\<rparr>"

definition demo_client_config :: secure_client_config where
  "demo_client_config = \<lparr>accept_outdated_near_tcb = False, relay_base_url = demo_endpoint, request_timeout = 120,
     attestation_timeout = 60, catalog_max_stale = 1800, verified_session_ttl = 240, trust_policy_cache_path = None,
     trust_policy_refresh_interval = 300, client_limits = default_limits, client_endpoint_policy = default_endpoint_policy\<rparr>"

abbreviation demo_url_lib :: url_lib where
  "demo_url_lib \<equiv> \<lparr>parse_url = \<lambda>_. Inr demo_endpoint\<rparr>"

lemma demo_endpoint_valid: "validate_provider_url demo_url_lib default_endpoint_policy v = Inr demo_endpoint"
proof -
  have "parse_ip ''relay.example'' = None"
    by (rule parse_ip_name) (simp_all add: is_ascii_hexdigit_def is_ascii_digit_def in_range_def byte_def)
  then show ?thesis by (simp add: validated_url)
qed

lemma demo_hex_plain: "strip_0x demo_zero_hex = demo_zero_hex"
proof -
  have "str_trim demo_zero_hex = demo_zero_hex"
    by (rule str_trim_plain) (simp add: list_all_iff is_whitespace_def byte_def)
  moreover have "strip_prefix ''0x'' demo_zero_hex = None" by code_simp
  ultimately show ?thesis by (simp add: strip_0x_def)
qed

lemma demo_zero_decode: "hex_decode demo_prims demo_zero_hex = Some demo_zeros" "hex_encode demo_prims demo_zeros = demo_zero_hex"
  using demo_decode [of 32] demo_hash [of 32] by simp_all

lemma demo_key_ok: "public_key_from_hex demo_prims demo_zero_hex = Inr demo_zeros"
proof -
  have "edwards_to_montgomery demo_prims demo_zeros \<noteq> None" by (simp add: demo_prims_def)
  then show ?thesis
    by (auto simp: public_key_from_hex_def demo_hex_plain demo_zero_decode ed25519_public_to_x25519_def)
qed

lemma demo_32 [simp]: "decode_hex_32 demo_att demo_zero_hex d = Inr demo_zeros"
  by (simp add: decode_hex_32_def demo_hex_plain demo_att_def demo_zero_decode)

lemma demo_nvidia: "verify_nvidia demo_att (JObject [(''nonce'', JString demo_zero_hex)]) demo_zeros demo_client_config [demo_zero_hex] = Inr ()"
proof -
  have split: "str_split (CHR ''.'') ''h.p.s'' = [''h'', ''p'', ''s'']" by code_simp
  have "verify_nvidia_jwt demo_att ''h.p.s'' [] demo_zero_hex [demo_zero_hex] = Inr ()"
    by (simp add: verify_nvidia_jwt_def split decode_jws_json_def demo_att_def signing_chain_def decode_certificate_def
        demo_zero_decode verdict_passed_def nonce_matches_def eq_ignore_ascii_case_def)
  moreover have "reply_body (Some \<lparr>hr_status = 200, hr_content_length = None, hr_chunks = []\<rparr>) a b limit = Inr []" for a b limit
    by (simp add: reply_body_def bounded_body_def)
  ultimately show ?thesis
    by (simp add: verify_nvidia_def demo_att_def demo_client_config_def default_limits_def nonce_matches_def
        eq_ignore_ascii_case_def demo_zero_decode)
qed

lemma demo_attested:
  "\<exists>v. verify_model demo_att demo_url_lib demo_client_config demo_near_model demo_near_policy demo_challenge = Inr (v, demo_key_lease, demo_worker_id)
     \<and> va_model_key v = demo_zeros"
proof -
  let ?report = "\<lparr>rp_signing_algo = Some ''ed25519'', rp_signing_public_key = Some demo_zero_hex,
       rp_signing_address = None, rp_nonce = Some demo_zero_hex, rp_request_nonce = None,
       rp_tls_fingerprint = Some demo_zero_hex, rp_tls_cert_fingerprint = None,
       rp_model_name = Some ''up'', rp_intel_quote = Some demo_zero_hex, rp_nvidia_payload = Some (JObject [(''nonce'', JString demo_zero_hex)]),
       rp_app_compose = Some ''app'', rp_info = None, rp_tcb_info = None\<rparr>"
  have wid: "worker_session_id demo_report_json = Inr demo_worker_id"
  proof -
    have "lower_hex demo_worker_id" by code_simp
    then show ?thesis by (simp add: worker_session_id_def demo_report_json_def)
  qed
  have rep: "normalize_report demo_report_json = Inr demo_report_json" "report_of_json demo_att demo_report_json = Some ?report"
    by (simp_all add: demo_report_json_def report_of_json_def opt_str_field_def opt_value_field_def deserialize_json_object_def)
  have idn: "validate_report_identity demo_att ?report demo_zeros ''up'' ''ed25519'' = Inr ()"
    by (simp add: validate_report_identity_def echoed_nonce_def or_else_def report_tls_fingerprint_def)
  have key: "report_model_key demo_att ?report = Inr demo_zeros"
    by (simp add: report_model_key_def or_else_def att_key_def demo_att_def demo_key_ok)
  have manifest: "report_workload_manifest demo_att ?report = Inr ''app''"
    by (simp add: report_workload_manifest_def nonempty_str_def)
  have quote: "decode_quote demo_att demo_zero_hex (256 * 1024) = Inr demo_zeros"
    by (simp add: decode_quote_def demo_hex_plain demo_att_def demo_zero_decode or_else_def)
  have "replicate 64 nul = demo_zeros @ demo_zeros" by (simp flip: replicate_add)
  then have rd: "take 32 (replicate 64 nul) = demo_zeros" "drop 32 (replicate 64 nul) = demo_zeros" by simp_all
  have intel: "\<exists>intel. verify_intel demo_att demo_zeros demo_zeros demo_zeros demo_zeros ''app'' = Inr intel \<and> ie_status intel = ''UpToDate''"
    by (simp add: verify_intel_def demo_att_def verify_report_data_def rd)
  then obtain intel where intel: "verify_intel demo_att demo_zeros demo_zeros demo_zeros demo_zeros ''app'' = Inr intel" "ie_status intel = ''UpToDate''"
    by blast
  have "accept_intel_status ''UpToDate'' demo_near_policy demo_client_config = Inr False"
    by (simp add: accept_intel_status_iff demo_near_policy_def)
  moreover have "al_lease demo_att v = Some demo_key_lease" for v by (simp add: demo_att_def)
  ultimately show ?thesis
    using intel wid rep idn key manifest quote demo_nvidia demo_endpoint_valid
    by (simp add: verify_model_def demo_challenge_def demo_near_model_def NEAR_PROVIDER_ID_def report_tls_fingerprint_def or_else_def
        try_join_Inr_iff try_join_def demo_client_config_def default_limits_def demo_near_policy_def Let_def)
qed

theorem near_attestation_sound_witness:
  "\<exists>v tls manifest. verify_model demo_att demo_url_lib demo_client_config demo_near_model demo_near_policy demo_challenge
       = Inr (v, demo_key_lease, demo_worker_id)
     \<and> quote_binds demo_att ''UpToDate'' (va_model_key v) tls demo_zeros manifest
     \<and> nvidia_vouches demo_att [demo_zero_hex] demo_zero_hex"
proof -
  obtain v where v: "verify_model demo_att demo_url_lib demo_client_config demo_near_model demo_near_policy demo_challenge
      = Inr (v, demo_key_lease, demo_worker_id)"
    using demo_attested by blast
  have "hex_of demo_att demo_zeros = demo_zero_hex" by (simp add: demo_att_def demo_zero_decode)
  then show ?thesis
    using v near_attestation_sound [OF v] by (auto simp: demo_challenge_def demo_near_policy_def demo_client_config_def)
qed

end
