(* ===== verification/Near_Provider.thy ===== *)
theory Near_Provider
  imports Near_Attestation
begin

text \<open>
  The NEAR provider, \<open>providers/near/mod.rs\<close>: which models it supports, how a session is established from
  cached or freshly verified material, and when the material expires. Other tasks may use the cache between two
  of its accesses, so \<open>establish\<close> takes the cache as each access finds it; the per-model mutex only removes
  duplicate work.
\<close>

section \<open>The provider's contract\<close>

definition near_supports :: "model_info \<Rightarrow> secure_error + unit" where
  "near_supports model =
     (if mi_provider_id model \<noteq> NEAR_PROVIDER_ID \<or> mi_e2ee_protocol model \<noteq> NEAR_E2EE_PROTOCOL
         \<or> mi_e2ee_encryption_version model \<noteq> NEAR_ENCRYPTION_VERSION
         \<or> mi_attestation_protocol model \<noteq> NEAR_ATTESTATION_PROTOCOL
      then Inl (err_capability ''model does not match the compiled NEAR provider contract'')
      else if str_trim (mi_upstream_model model) = [] \<or> str_trim (mi_provider_base_url model) = []
      then Inl (err_capability ''model omits required provider routing metadata'')
      else Inr ())"

definition near_supports_contract :: "string \<Rightarrow> nat \<Rightarrow> string \<Rightarrow> bool" where
  "near_supports_contract e2ee_protocol e2ee_encryption_version attestation_protocol \<longleftrightarrow>
     e2ee_protocol = NEAR_E2EE_PROTOCOL \<and> e2ee_encryption_version = NEAR_ENCRYPTION_VERSION
   \<and> attestation_protocol = NEAR_ATTESTATION_PROTOCOL"

definition near_populate_capabilities :: "model_info \<Rightarrow> model_info" where
  "near_populate_capabilities model =
     model\<lparr>mi_supports_streaming := True, mi_file_mime_types := [], mi_reasoning_parameters := [],
           mi_thinking_parameters := []\<rparr>"

section \<open>Sessions\<close>

record near_material =
  nm_verified :: verified_near_attestation
  nm_binding :: attestation_binding
  nm_worker_session_id :: string

record near_session =
  ns_evidence :: security_evidence
  ns_model_key :: string
  ns_response_signing_address :: string
  ns_model :: model_info
  ns_binding :: attestation_binding
  ns_worker_session_id :: string

definition session_from_material :: "near_material \<Rightarrow> model_info \<Rightarrow> near_session" where
  "session_from_material m model =
     \<lparr>ns_evidence = va_evidence (nm_verified m), ns_model_key = va_model_key (nm_verified m),
      ns_response_signing_address = va_response_signing_address (nm_verified m), ns_model = model,
      ns_binding = nm_binding m, ns_worker_session_id = nm_worker_session_id m\<rparr>"

definition near_digest :: "att_lib \<Rightarrow> digest_lib" where
  "near_digest al = \<lparr>dl_hex_decode = hex_bytes al, dl_sha256_hex = \<lambda>b. hex_of al (sha256 al b)\<rparr>"

definition verify_response_signing_binding :: "att_lib \<Rightarrow> provider_key_lease \<Rightarrow> string \<Rightarrow> secure_error + unit" where
  "verify_response_signing_binding al wire locally_attested =
     rbind (ok_or (err_attestation ''backend lease omitted the NEAR response-signing address'')
              (kl_response_signing_address wire)) (\<lambda>wire_address.
     rbind (ok_or (err_attestation ''backend lease omitted the NEAR response-signing fingerprint'')
              (kl_response_signing_key_fingerprint wire)) (\<lambda>wire_fingerprint.
     if \<not> canonical_signing_address wire_address \<or> \<not> canonical_signing_address locally_attested
        \<or> wire_address \<noteq> locally_attested
     then Inl (err_attestation ''backend lease response signer does not match local provider evidence'')
     else rbind (ok_or (err_attestation ''backend lease response signer is invalid'') (hex_bytes al wire_address)) (\<lambda>address_bytes.
     if wire_fingerprint \<noteq> hex_of al (sha256 al address_bytes)
     then Inl (err_attestation ''backend lease response-signer fingerprint is invalid'')
     else Inr ())))"

text \<open>The part after the attestation: the lease is bound to the verified key and the evidence gets its expiry, the
  earliest of the lease's, the policy's and the evidence's own.\<close>

definition near_bind ::
  "att_lib \<Rightarrow> secure_client_config \<Rightarrow> nat \<Rightarrow> model_info \<Rightarrow> trust_policy \<Rightarrow>
     verified_near_attestation \<times> provider_key_lease \<times> string \<Rightarrow> secure_error + near_material \<times> nat" where
  "near_bind al config now model policy = (\<lambda>(verified, wire, worker_id).
     rbind (verify_response_signing_binding al wire (va_response_signing_address verified)) (\<lambda>_.
     rbind (binding_verify (near_digest al) now wire model (hex_of al (va_model_key verified))) (\<lambda>binding.
     let expires = min (min (ab_hard_expires_at binding) (tp_expires_at policy))
           (saturating_add (se_verified_at_unix_seconds (va_evidence verified)) (verified_session_ttl config));
         evidence = (va_evidence verified)\<lparr>se_attestation_generation := Some (ab_generation binding),
           se_hard_expires_at_unix_seconds := Some expires\<rparr>
     in Inr (\<lparr>nm_verified = verified\<lparr>va_evidence := evidence\<rparr>, nm_binding = binding,
               nm_worker_session_id = worker_id\<rparr>, expires))))"

text \<open>The cache as the first lookup, the lookup under the lock and the insertion find it, and the times of the
  lookups, of the binding and of the insertion; \<open>cancelled\<close> says that the task was cancelled while it waited.\<close>

record near_access =
  na_cache1 :: "near_material material_cache"
  na_now1 :: nat
  na_cancelled :: bool
  na_cache2 :: "near_material material_cache"
  na_now2 :: nat
  na_run :: attestation_run
  na_now3 :: nat
  na_cache4 :: "near_material material_cache"
  na_now4 :: nat

definition near_establish ::
  "att_lib \<Rightarrow> url_lib \<Rightarrow> secure_client_config \<Rightarrow> model_info \<Rightarrow> trust_policy \<Rightarrow> near_access \<Rightarrow>
     near_material cache_op option \<times> (secure_error + near_session)" where
  "near_establish al ul config model policy a =
     (case near_supports model of
        Inl e \<Rightarrow> (None, Inl e)
      | Inr _ \<Rightarrow>
        (case cache_get (na_now1 a) (na_cache1 a) model policy of
           Some m \<Rightarrow> (None, Inr (session_from_material m model))
         | None \<Rightarrow>
           if na_cancelled a then (None, Inl err_cancelled)
           else (case cache_get (na_now2 a) (na_cache2 a) model policy of
              Some m \<Rightarrow> (None, Inr (session_from_material m model))
            | None \<Rightarrow>
              (case rbind (verify_model al ul config model policy (na_run a))
                          (near_bind al config (na_now3 a) model policy) of
                 Inl e \<Rightarrow> (None, Inl e)
               | Inr (m, expires) \<Rightarrow>
                   (Some (Op_Insert (na_now4 a) model policy m expires (verified_session_ttl config)),
                    Inr (session_from_material m model))))))"

definition near_cache_after :: "near_material cache_op option \<Rightarrow> near_material material_cache \<Rightarrow> near_material material_cache" where
  "near_cache_after op c = (case op of None \<Rightarrow> c | Some op \<Rightarrow> cache_apply op c)"

text \<open>The caches that any interleaving of \<open>establish\<close> and \<open>invalidate\<close> calls can produce; the consent to
  an outdated platform may change the configuration between two calls.\<close>

inductive near_reachable :: "att_lib \<Rightarrow> url_lib \<Rightarrow> near_material material_cache \<Rightarrow> bool" for al ul where
  reach_new: "near_reachable al ul (\<lambda>_. None)"
| reach_establish: "\<lbrakk>near_reachable al ul (na_cache1 a); near_reachable al ul (na_cache2 a);
     near_reachable al ul (na_cache4 a); near_establish al ul config model policy a = (op, r)\<rbrakk>
     \<Longrightarrow> near_reachable al ul (near_cache_after op (na_cache4 a))"
| reach_invalidate: "near_reachable al ul c \<Longrightarrow> near_reachable al ul (cache_invalidate model_id c)"

section \<open>Sessions are backed by an attestation\<close>

text \<open>Material that one verification of this model under this policy has produced.\<close>

definition material_backed ::
  "att_lib \<Rightarrow> url_lib \<Rightarrow> model_info \<Rightarrow> trust_policy \<Rightarrow> near_material \<Rightarrow> nat \<Rightarrow> bool" where
  "material_backed al ul model policy m expires \<longleftrightarrow>
     (\<exists>config run result now. verify_model al ul config model policy run = Inr result
        \<and> near_bind al config now model policy result = Inr (m, expires))"

definition cache_backed :: "att_lib \<Rightarrow> url_lib \<Rightarrow> near_material material_cache \<Rightarrow> bool" where
  "cache_backed al ul c \<longleftrightarrow>
     (\<forall>k e. c k = Some e \<longrightarrow> mi_id (cm_model e) = k
        \<and> (\<exists>expires. material_backed al ul (cm_model e) (cm_policy e) (cm_material e) expires
             \<and> cm_expires_at e \<le> expires))"

lemma establish_cases:
  assumes "near_establish al ul config model policy a = (op, Inr s)"
  obtains (cached) m c n where "c = na_cache1 a \<and> n = na_now1 a \<or> c = na_cache2 a \<and> n = na_now2 a"
      "cache_get n c model policy = Some m" "s = session_from_material m model" "op = None"
    | (fresh) m expires where "material_backed al ul model policy m expires"
      "s = session_from_material m model" "op = Some (Op_Insert (na_now4 a) model policy m expires (verified_session_ttl config))"
proof (cases "rbind (verify_model al ul config model policy (na_run a)) (near_bind al config (na_now3 a) model policy)")
  case (Inl e)
  then show ?thesis using assms that unfolding near_establish_def by (auto split: sum.splits option.splits if_splits)
next
  case (Inr r)
  then have "material_backed al ul model policy (fst r) (snd r)"
    unfolding material_backed_def rbind_Inr_iff prod.collapse by blast
  then show ?thesis
    using assms Inr that unfolding near_establish_def by (auto split: sum.splits option.splits if_splits prod.splits)
qed

lemma cached_backed:
  assumes "cache_backed al ul c" "cache_get n c model policy = Some m"
  shows "\<exists>expires. material_backed al ul model policy m expires \<and> n < expires"
proof -
  obtain e where "c (mi_id model) = Some e" "n < cm_expires_at e" "cm_model e = model" "cm_policy e = policy" "cm_material e = m"
    using assms(2) by (auto simp: cache_get_def split: option.splits if_splits)
  moreover from this obtain expires where "material_backed al ul (cm_model e) (cm_policy e) (cm_material e) expires"
      "cm_expires_at e \<le> expires"
    using assms(1) by (auto simp: cache_backed_def)
  ultimately show ?thesis by auto
qed

lemma establish_error: "near_establish al ul config model policy a = (op, Inl e) \<Longrightarrow> op = None"
  unfolding near_establish_def by (auto split: sum.splits option.splits if_splits prod.splits)

lemma reachable_backed: "near_reachable al ul c \<Longrightarrow> cache_backed al ul c"
proof (induction rule: near_reachable.induct)
  case (reach_establish a config model policy op r)
  show ?case
  proof (cases r)
    case (Inl e)
    then show ?thesis using reach_establish establish_error by (fastforce simp: near_cache_after_def)
  next
    case (Inr s)
    with reach_establish.hyps(4) have "near_establish al ul config model policy a = (op, Inr s)" by simp
    then show ?thesis
    proof (cases rule: establish_cases)
      case (fresh m expires)
      then show ?thesis using reach_establish.IH(3)
        by (auto simp: near_cache_after_def cache_backed_def cache_insert_def)
    qed (use reach_establish.IH in \<open>simp add: near_cache_after_def\<close>)
  qed
qed (auto simp: cache_backed_def cache_invalidate_def)

lemma signing_binding_address:
  "verify_response_signing_binding al wire address = Inr () \<Longrightarrow> kl_response_signing_address wire = Some address"
  unfolding verify_response_signing_binding_def success_iffs by auto

lemma binding_verified:
  assumes "binding_verify dl now wire model key = Inr b"
  shows "kl_model_id wire = mi_id model \<and> kl_verified wire \<and> normalize_key (kl_model_public_key wire) = normalize_key key
    \<and> ab_hard_expires_at b = kl_hard_expires_at wire \<and> now < kl_hard_expires_at wire"
  using assms unfolding binding_verify_def success_iffs by auto

lemma near_bind_material:
  assumes "near_bind al config now model policy (v, wire, wid) = Inr (m, expires)"
  shows "kl_response_signing_address wire = Some (va_response_signing_address v)
    \<and> kl_model_id wire = mi_id model \<and> kl_verified wire
    \<and> normalize_key (kl_model_public_key wire) = normalize_key (hex_of al (va_model_key v))
    \<and> va_model_key (nm_verified m) = va_model_key v \<and> nm_worker_session_id m = wid
    \<and> va_response_signing_address (nm_verified m) = va_response_signing_address v
    \<and> se_hard_expires_at_unix_seconds (va_evidence (nm_verified m)) = Some expires
    \<and> expires = min (min (kl_hard_expires_at wire) (tp_expires_at policy))
        (saturating_add (se_verified_at_unix_seconds (va_evidence v)) (verified_session_ttl config))"
proof -
  obtain b where "verify_response_signing_binding al wire (va_response_signing_address v) = Inr ()"
      "binding_verify (near_digest al) now wire model (hex_of al (va_model_key v)) = Inr b"
    and "nm_worker_session_id m = wid" "va_model_key (nm_verified m) = va_model_key v"
      "va_response_signing_address (nm_verified m) = va_response_signing_address v"
      "se_hard_expires_at_unix_seconds (va_evidence (nm_verified m)) = Some expires"
      "expires = min (min (ab_hard_expires_at b) (tp_expires_at policy))
        (saturating_add (se_verified_at_unix_seconds (va_evidence v)) (verified_session_ttl config))"
    using assms unfolding near_bind_def prod.case success_iffs Let_def by auto
  then show ?thesis using signing_binding_address [of al wire] binding_verified [of "near_digest al" now wire model] by auto
qed

text \<open>C29. Safety: every session the provider hands out, from the cache or fresh and under any interleaving of
  other calls, is for a model it supports and carries the key of a successful verification of exactly this model
  under exactly this trust policy; the relay's lease names this model, the same key and the same signer. The expiry
  it shows is within the lease's, the policy's and the evidence's lifetime, and cached material is not used past it.\<close>

theorem near_session_bound:
  assumes "near_reachable al ul (na_cache1 a)" "near_reachable al ul (na_cache2 a)"
    and "near_establish al ul config model policy a = (op, Inr s)"
  shows "near_supports model = Inr () \<and> ns_model s = model
    \<and> (\<exists>config' run v lease wid expires. verify_model al ul config' model policy run = Inr (v, lease, wid)
         \<and> ns_model_key s = va_model_key v \<and> ns_worker_session_id s = wid
         \<and> kl_model_id lease = mi_id model \<and> kl_verified lease
         \<and> normalize_key (kl_model_public_key lease) = normalize_key (hex_of al (va_model_key v))
         \<and> kl_response_signing_address lease = Some (ns_response_signing_address s)
         \<and> ns_response_signing_address s = hex_of al (va_model_key v)
         \<and> se_hard_expires_at_unix_seconds (ns_evidence s) = Some expires
         \<and> expires \<le> kl_hard_expires_at lease \<and> expires \<le> tp_expires_at policy
         \<and> expires \<le> se_verified_at_unix_seconds (va_evidence v) + verified_session_ttl config'
         \<and> (op = None \<longrightarrow> na_now1 a < expires \<or> na_now2 a < expires))"
proof -
  have sup: "near_supports model = Inr ()"
    using assms(3) by (cases "near_supports model") (auto simp: near_establish_def)
  obtain m expires where m: "material_backed al ul model policy m expires" "s = session_from_material m model"
    and fresh: "op = None \<longrightarrow> na_now1 a < expires \<or> na_now2 a < expires"
    using assms(3)
  proof (cases rule: establish_cases)
    case (cached m c n)
    then have "cache_backed al ul c" using assms(1,2) reachable_backed by auto
    with cached cached_backed [of al ul c n model policy m] show ?thesis using that by auto
  next
    case (fresh m expires)
    then show ?thesis using that by simp
  qed
  then obtain config' run v lease wid now where r: "verify_model al ul config' model policy run = Inr (v, lease, wid)"
      "near_bind al config' now model policy (v, lease, wid) = Inr (m, expires)"
    unfolding material_backed_def by auto
  moreover from this have "va_response_signing_address v = hex_of al (va_model_key v)"
    by (elim verify_model_checked) (simp add: Let_def)
  ultimately show ?thesis
    using sup fresh near_bind_material [OF r(2)] m(2)
    by (intro conjI exI [of _ config'] exI [of _ run] exI [of _ v] exI [of _ lease] exI [of _ wid] exI [of _ expires])
      (simp_all add: session_from_material_def saturating_add_def)
qed

definition demo_access :: near_access where
  "demo_access = \<lparr>na_cache1 = \<lambda>_. None, na_now1 = 99, na_cancelled = False, na_cache2 = \<lambda>_. None, na_now2 = 99,
     na_run = demo_challenge, na_now3 = 100, na_cache4 = \<lambda>_. None, na_now4 = 101\<rparr>"

lemma demo_bound:
  "va_model_key v = demo_zeros \<Longrightarrow> va_response_signing_address v = demo_zero_hex \<Longrightarrow>
     \<exists>r. near_bind demo_att demo_client_config 100 demo_near_model demo_near_policy (v, demo_key_lease, wid) = Inr r"
proof -
  assume v: "va_model_key v = demo_zeros" "va_response_signing_address v = demo_zero_hex"
  have hex: "hex_bytes demo_att demo_zero_hex = Some demo_zeros" "hex_of demo_att demo_zeros = demo_zero_hex"
      "sha256 demo_att b = demo_zeros" for b
    by (simp_all add: demo_att_def demo_zero_decode)
  have "list_all is_ascii_hexdigit demo_zero_hex" "to_ascii_lowercase demo_zero_hex = demo_zero_hex" "lower_hex demo_zero_hex"
    by (simp_all add: list_all_iff lower_hex_def to_ascii_lowercase_def to_ascii_lowercase_byte_def is_ascii_hexdigit_def
        is_ascii_digit_def is_ascii_uppercase_def in_range_def byte_def)
  then have key: "normalize_key demo_zero_hex = Inr demo_zero_hex" and addr: "canonical_signing_address demo_zero_hex"
    by (simp_all add: normalize_key_def demo_hex_plain canonical_signing_address_def canonical_hash_def)
  have "verify_response_signing_binding demo_att demo_key_lease demo_zero_hex = Inr ()"
    by (simp add: verify_response_signing_binding_def demo_key_lease_def addr hex)
  moreover have "\<exists>b. binding_verify (near_digest demo_att) 100 demo_key_lease demo_near_model demo_zero_hex = Inr b"
    by (simp add: binding_verify_def key key_fingerprint_def near_digest_def hex demo_key_lease_def demo_near_model_def)
  ultimately show ?thesis using v by (auto simp: near_bind_def hex Let_def)
qed

theorem near_session_bound_witness:
  "\<exists>op s. near_establish demo_att demo_url_lib demo_client_config demo_near_model demo_near_policy demo_access = (op, Inr s)
     \<and> ns_model s = demo_near_model
     \<and> (\<exists>expires. se_hard_expires_at_unix_seconds (ns_evidence s) = Some expires \<and> expires \<le> 900)"
proof -
  obtain v where v: "verify_model demo_att demo_url_lib demo_client_config demo_near_model demo_near_policy demo_challenge
      = Inr (v, demo_key_lease, demo_worker_id)" "va_model_key v = demo_zeros"
    using demo_attested by blast
  have hex: "hex_of demo_att demo_zeros = demo_zero_hex" by (simp add: demo_att_def demo_zero_decode)
  have "va_response_signing_address v = demo_zero_hex"
    by (rule verify_model_checked [OF v(1)]) (use v(2) hex in \<open>auto simp: Let_def\<close>)
  then obtain r where r: "near_bind demo_att demo_client_config 100 demo_near_model demo_near_policy (v, demo_key_lease, demo_worker_id) = Inr r"
    using demo_bound v(2) by blast
  have "str_trim ''up'' \<noteq> []" "str_trim ''u'' \<noteq> []" by (simp_all add: visible_text visible_def byte_def)
  then have "near_supports demo_near_model = Inr ()"
    by (simp add: near_supports_def demo_near_model_def NEAR_PROVIDER_ID_def NEAR_E2EE_PROTOCOL_def)
  then obtain op s where e: "near_establish demo_att demo_url_lib demo_client_config demo_near_model demo_near_policy demo_access = (op, Inr s)"
    using v(1) r by (cases r) (simp add: near_establish_def demo_access_def cache_get_def)
  have "near_reachable demo_att demo_url_lib (na_cache1 demo_access)" "near_reachable demo_att demo_url_lib (na_cache2 demo_access)"
    by (simp_all add: demo_access_def reach_new)
  from near_session_bound [OF this e] have "ns_model s = demo_near_model"
      "\<exists>expires. se_hard_expires_at_unix_seconds (ns_evidence s) = Some expires \<and> expires \<le> tp_expires_at demo_near_policy"
    by blast+
  moreover have "tp_expires_at demo_near_policy = 900" by (simp add: demo_near_policy_def)
  ultimately show ?thesis using e by auto
qed

end
