(* ===== verification/Catalog.thy ===== *)
theory Catalog
  imports Near_Provider "HOL-Library.Sublist"
begin

text \<open>
  The model catalog, \<open>crates/axiom-secure-client/src/catalog.rs\<close>: entries are decoded one by one, malformed ones
  are left out, and each remaining one is offered to the provider engine it names; and the registry of these
  engines (\<open>provider.rs\<close>) with the contracts of NEAR and Tinfoil. The entry decoder, the clock and the rendering
  of a URL are arguments.
\<close>

section \<open>Provider engines\<close>

record provider_contract =
  pc_e2ee_protocol :: string
  pc_e2ee_encryption_version :: nat
  pc_attestation_protocol :: string

record secure_provider =
  pr_id :: string
  pr_supports :: "model_info \<Rightarrow> secure_error + unit"
  pr_supports_contract :: "string \<Rightarrow> nat \<Rightarrow> string \<Rightarrow> bool"
  pr_populate_capabilities :: "model_info \<Rightarrow> model_info"

definition near_provider :: secure_provider where
  "near_provider = \<lparr>pr_id = NEAR_PROVIDER_ID, pr_supports = near_supports,
     pr_supports_contract = near_supports_contract, pr_populate_capabilities = near_populate_capabilities\<rparr>"

definition validate_effort :: "json \<Rightarrow> secure_error + unit" where
  "validate_effort v =
     (case value_str v of
        Some s \<Rightarrow> if s \<in> {''none'', ''minimal'', ''low'', ''medium'', ''high'', ''xhigh'', ''max''} then Inr ()
          else Inl (err_capability ''invalid reasoning control value'')
      | None \<Rightarrow> Inl (err_capability ''invalid reasoning control value''))"

definition validate_nested_control :: "string \<times> json \<Rightarrow> secure_error + unit" where
  "validate_nested_control = (\<lambda>(name, v).
     if name \<in> {''thinking'', ''enable_thinking'', ''clear_thinking''} \<and> as_bool v \<noteq> None then Inr ()
     else if name = ''reasoning_effort'' then validate_effort v
     else Inl (err_capability ''unsupported reasoning control''))"

definition bounded_object :: "nat \<Rightarrow> json \<Rightarrow> secure_error + (string \<times> json) list" where
  "bounded_object n v =
     (case v of JObject m \<Rightarrow> if length m \<le> n then Inr m else Inl (err_capability ''invalid reasoning controls'')
      | _ \<Rightarrow> Inl (err_capability ''invalid reasoning controls''))"

definition validate_control :: "string \<times> json \<Rightarrow> secure_error + unit" where
  "validate_control = (\<lambda>(key, v).
     if key = ''chat_template_kwargs'' then rbind (bounded_object 4 v) (try_each validate_nested_control)
     else if key = ''reasoning_effort'' then validate_effort v
     else Inl (err_capability ''unsupported reasoning control''))"

definition validate_controls :: "json \<Rightarrow> secure_error + unit" where
  "validate_controls v = rbind (bounded_object 2 v) (try_each validate_control)"

definition tinfoil_supports_contract :: "string \<Rightarrow> nat \<Rightarrow> string \<Rightarrow> bool" where
  "tinfoil_supports_contract protocol version attestation \<longleftrightarrow>
     protocol = ''tinfoil-ehbp-v1'' \<and> version = 1 \<and> attestation = ''tinfoil-snp-sigstore-v1''"

definition named_controls :: "string list \<Rightarrow> string \<Rightarrow> string \<times> json \<Rightarrow> secure_error + unit" where
  "named_controls names detail = (\<lambda>(name, parameters).
     if name \<notin> set names then Inl (err_capability detail) else validate_controls parameters)"

definition tinfoil_supports :: "model_info \<Rightarrow> secure_error + unit" where
  "tinfoil_supports model =
     (if mi_provider_id model \<noteq> ''tinfoil''
        \<or> \<not> tinfoil_supports_contract (mi_e2ee_protocol model) (mi_e2ee_encryption_version model) (mi_attestation_protocol model)
        \<or> trim_slashes (mi_provider_base_url model) \<noteq> ''https://inference.tinfoil.sh/v1''
        \<or> mi_upstream_model model = []
        \<or> \<not> list_all (\<lambda>c. is_ascii_alphanumeric c \<or> c \<in> set ''-_.'') (mi_upstream_model model)
      then Inl (err_capability ''model does not match the compiled Tinfoil contract'')
      else rbind (try_each (named_controls [''low'', ''medium'', ''high'', ''xhigh''] ''unknown reasoning level'')
                    (mi_reasoning_parameters model)) (\<lambda>_.
      rbind (try_each (named_controls [''enabled'', ''disabled''] ''unknown thinking mode'')
               (mi_thinking_parameters model)) (\<lambda>_.
      if length FILE_MIME_TYPES < length (mi_file_mime_types model)
      then Inl (err_capability ''invalid file capabilities'') else Inr ())))"

definition tinfoil_populate_capabilities :: "model_info \<Rightarrow> model_info" where
  "tinfoil_populate_capabilities model =
     model\<lparr>mi_supports_streaming := True,
           mi_file_mime_types := filter (\<lambda>m. m \<in> set FILE_MIME_TYPES) (mi_file_mime_types model)\<rparr>"

definition tinfoil_provider :: secure_provider where
  "tinfoil_provider = \<lparr>pr_id = ''tinfoil'', pr_supports = tinfoil_supports,
     pr_supports_contract = tinfoil_supports_contract, pr_populate_capabilities = tinfoil_populate_capabilities\<rparr>"

section \<open>The registry\<close>

type_synonym provider_registry = "string \<Rightarrow> secure_provider option"

fun registry_extend :: "provider_registry \<Rightarrow> secure_provider list \<Rightarrow> secure_error + provider_registry" where
  "registry_extend reg [] = Inr reg"
| "registry_extend reg (p # ps) =
     (if str_trim (pr_id p) = [] \<or> reg (pr_id p) \<noteq> None
      then Inl (err_configuration ''provider IDs must be non-empty and unique'')
      else registry_extend (reg(pr_id p \<mapsto> p)) ps)"

definition registry_new :: "secure_provider list \<Rightarrow> secure_error + provider_registry" where
  "registry_new = registry_extend (\<lambda>_. None)"

definition registry_resolve :: "provider_registry \<Rightarrow> model_info \<Rightarrow> secure_error + secure_provider" where
  "registry_resolve reg model =
     rbind (ok_or (err_capability ''model provider is not supported'') (reg (mi_provider_id model))) (\<lambda>p.
     rbind (pr_supports p model) (\<lambda>_. Inr p))"

definition registry_contains :: "provider_registry \<Rightarrow> string \<Rightarrow> bool" where
  "registry_contains reg provider_id \<longleftrightarrow> reg provider_id \<noteq> None"

definition registry_validate_model :: "provider_registry \<Rightarrow> model_info \<Rightarrow> secure_error + model_info" where
  "registry_validate_model reg model =
     rbind (registry_resolve reg model) (\<lambda>p. Inr (pr_populate_capabilities p model))"

definition contract_supported :: "secure_provider \<Rightarrow> provider_contract \<Rightarrow> bool" where
  "contract_supported p c \<longleftrightarrow>
     pr_supports_contract p (pc_e2ee_protocol c) (pc_e2ee_encryption_version c) (pc_attestation_protocol c)"

definition select_contract :: "provider_registry \<Rightarrow> string \<Rightarrow> provider_contract list \<Rightarrow> provider_contract option" where
  "select_contract reg provider_id contracts =
     Option.bind (reg provider_id) (\<lambda>p. find (contract_supported p) contracts)"

section \<open>Catalog entries\<close>

definition MAX_MODELS :: nat where "MAX_MODELS = 512"

definition MAX_E2EE_CONTRACTS_PER_MODEL :: nat where "MAX_E2EE_CONTRACTS_PER_MODEL = 8"

definition MAX_REASONING_EFFORTS_PER_MODEL :: nat where "MAX_REASONING_EFFORTS_PER_MODEL = 16"

definition MAX_MODEL_TOKENS :: nat where "MAX_MODEL_TOKENS = 16 * 1024 * 1024"

definition MAX_MODEL_PRICE :: nat where "MAX_MODEL_PRICE = 1000000000000"

record catalog_contract =
  cc_e2ee_protocol :: string
  cc_e2ee_encryption_version :: nat
  cc_attestation_protocol :: string
  cc_preferred :: bool
  cc_retire_after :: "nat option"

record catalog_model =
  ca_relay_contract_version :: nat
  ca_id :: string
  ca_label :: string
  ca_short_label :: string
  ca_model :: string
  ca_base_url :: string
  ca_provider :: string
  ca_provider_label :: string
  ca_e2ee_protocol :: string
  ca_e2ee_encryption_version :: nat
  ca_attestation_protocol :: string
  ca_context_window_tokens :: nat
  ca_max_output_tokens :: nat
  ca_input_price :: "nat option"
  ca_output_price :: "nat option"
  ca_supported_reasoning_efforts :: "string list"
  ca_supported_thinking_modes :: "thinking_mode list"
  ca_reasoning_replay :: bool
  ca_supports_tools :: bool
  ca_supports_parallel_tools :: bool
  ca_supports_images :: bool
  ca_file_mime_types :: "string list"
  ca_reasoning_parameters :: "(string \<times> json) list"
  ca_thinking_parameters :: "(string \<times> json) list"
  ca_e2ee_contracts :: "catalog_contract list"

definition identifier_ok :: "string \<Rightarrow> nat \<Rightarrow> bool" where
  "identifier_ok value limit \<longleftrightarrow>
     value \<noteq> [] \<and> length value \<le> limit \<and> list_all (\<lambda>c. is_ascii_alphanumeric c \<or> c \<in> set ''_.:-'') value"

definition text_ok :: "string \<Rightarrow> nat \<Rightarrow> bool" where
  "text_ok value limit \<longleftrightarrow> str_trim value \<noteq> [] \<and> length value \<le> limit \<and> \<not> has_control value"

definition parse_reasoning_effort :: "string \<Rightarrow> reasoning_effort option" where
  "parse_reasoning_effort v =
     (if v = ''minimal'' then Some Minimal else if v = ''low'' then Some Low else if v = ''medium'' then Some Medium
      else if v = ''high'' then Some High else if v = ''xhigh'' then Some ExtraHigh else None)"

text \<open>The efforts kept, or \<open>None\<close> when one is invalid or repeated.\<close>

fun collect_efforts :: "reasoning_effort list \<Rightarrow> string list \<Rightarrow> reasoning_effort list option" where
  "collect_efforts acc [] = Some acc"
| "collect_efforts acc (e # es) =
     (if 32 < length e \<or> has_control e then None
      else (case parse_reasoning_effort e of
          None \<Rightarrow> collect_efforts acc es
        | Some r \<Rightarrow> if r \<in> set acc then None else collect_efforts (acc @ [r]) es))"

definition contract_key :: "catalog_contract \<Rightarrow> string \<times> nat \<times> string" where
  "contract_key c = (cc_e2ee_protocol c, cc_e2ee_encryption_version c, cc_attestation_protocol c)"

definition contract_of :: "catalog_contract \<Rightarrow> provider_contract" where
  "contract_of c = \<lparr>pc_e2ee_protocol = cc_e2ee_protocol c, pc_e2ee_encryption_version = cc_e2ee_encryption_version c,
     pc_attestation_protocol = cc_attestation_protocol c\<rparr>"

fun collect_contracts ::
  "nat \<Rightarrow> string \<times> nat \<times> string \<Rightarrow> (string \<times> nat \<times> string) set \<Rightarrow> bool \<Rightarrow> nat \<Rightarrow> provider_contract list \<Rightarrow>
     catalog_contract list \<Rightarrow> provider_contract list option" where
  "collect_contracts now main_key seen top_seen preferred cands [] = (if top_seen then Some cands else None)"
| "collect_contracts now main_key seen top_seen preferred cands (c # cs) =
     (if \<not> identifier_ok (cc_e2ee_protocol c) 64 \<or> \<not> identifier_ok (cc_attestation_protocol c) 64
         \<or> cc_e2ee_encryption_version c = 0 \<or> cc_retire_after c = Some 0 \<or> contract_key c \<in> seen
      then None
      else
        let is_top = contract_key c = main_key;
            preferred = (if cc_preferred c then preferred + 1 else preferred)
        in if cc_preferred c \<and> (\<not> is_top \<or> 1 < preferred) then None
           else
             let live = (case cc_retire_after c of None \<Rightarrow> True | Some t \<Rightarrow> now < t);
                 cands = (if \<not> live then cands else if is_top then contract_of c # cands else cands @ [contract_of c])
             in collect_contracts now main_key (insert (contract_key c) seen) (top_seen \<or> is_top) preferred cands cs)"

definition contract_candidates :: "nat option \<Rightarrow> catalog_model \<Rightarrow> provider_contract list option" where
  "contract_candidates now item =
     (let main_key = (ca_e2ee_protocol item, ca_e2ee_encryption_version item, ca_attestation_protocol item) in
      if ca_e2ee_contracts item = []
      then Some [\<lparr>pc_e2ee_protocol = ca_e2ee_protocol item, pc_e2ee_encryption_version = ca_e2ee_encryption_version item,
                  pc_attestation_protocol = ca_attestation_protocol item\<rparr>]
      else if MAX_E2EE_CONTRACTS_PER_MODEL < length (ca_e2ee_contracts item) then None
      else Option.bind now (\<lambda>now. collect_contracts now main_key {} False 0 [] (ca_e2ee_contracts item)))"

section \<open>The catalog\<close>

definition metadata_ok :: "catalog_model \<Rightarrow> bool" where
  "metadata_ok item \<longleftrightarrow>
     text_ok (ca_label item) 200 \<and> text_ok (ca_short_label item) 100 \<and> text_ok (ca_model item) 256
   \<and> text_ok (ca_provider_label item) 100 \<and> identifier_ok (ca_e2ee_protocol item) 64
   \<and> identifier_ok (ca_attestation_protocol item) 64"

definition limits_ok :: "catalog_model \<Rightarrow> bool" where
  "limits_ok item \<longleftrightarrow>
     ca_context_window_tokens item \<noteq> 0 \<and> ca_max_output_tokens item \<noteq> 0
   \<and> ca_context_window_tokens item \<le> MAX_MODEL_TOKENS \<and> ca_max_output_tokens item \<le> ca_context_window_tokens item"

definition prices_ok :: "nat option \<Rightarrow> nat option \<Rightarrow> bool" where
  "prices_ok input out \<longleftrightarrow>
     (case (input, out) of
        (None, None) \<Rightarrow> True
      | (Some i, Some x) \<Rightarrow> 0 < i \<and> 0 < x \<and> i \<le> MAX_MODEL_PRICE \<and> x \<le> MAX_MODEL_PRICE
      | _ \<Rightarrow> False)"

definition model_of_entry :: "catalog_model \<Rightarrow> provider_contract \<Rightarrow> reasoning_effort list \<Rightarrow> string \<Rightarrow> model_info" where
  "model_of_entry item selected efforts base_url = \<lparr>mi_id = ca_id item, mi_label = ca_label item, mi_short_label = ca_short_label item,
      mi_provider_id = ca_provider item, mi_provider_label = ca_provider_label item,
      mi_upstream_model = ca_model item, mi_provider_base_url = base_url,
      mi_e2ee_protocol = pc_e2ee_protocol selected, mi_e2ee_encryption_version = pc_e2ee_encryption_version selected,
      mi_attestation_protocol = pc_attestation_protocol selected,
      mi_context_window_tokens = ca_context_window_tokens item, mi_max_output_tokens = ca_max_output_tokens item,
      mi_input_price = ca_input_price item, mi_output_price = ca_output_price item,
      mi_supported_reasoning_efforts = efforts, mi_supported_thinking_modes = ca_supported_thinking_modes item,
      mi_reasoning_replay = ca_reasoning_replay item, mi_supports_tools = ca_supports_tools item,
      mi_supports_parallel_tools = ca_supports_parallel_tools item, mi_supports_streaming = False,
      mi_supports_images = ca_supports_images item, mi_file_mime_types = ca_file_mime_types item,
      mi_reasoning_parameters = ca_reasoning_parameters item, mi_thinking_parameters = ca_thinking_parameters item\<rparr>"

text \<open>One entry whose identifier is valid and new: an error for the whole catalog, \<open>None\<close> when it is left out,
  or its model.\<close>

definition catalog_item ::
  "url_lib \<Rightarrow> (url \<Rightarrow> string) \<Rightarrow> endpoint_policy \<Rightarrow> provider_registry \<Rightarrow> nat option \<Rightarrow> catalog_model \<Rightarrow>
     secure_error + model_info option" where
  "catalog_item ul url_string ep reg now item =
     (if \<not> identifier_ok (ca_provider item) 64 \<or> \<not> registry_contains reg (ca_provider item) \<or> \<not> metadata_ok item
      then Inr None
      else (case contract_candidates now item of
          None \<Rightarrow> Inr None
        | Some candidates \<Rightarrow>
      (case select_contract reg (ca_provider item) candidates of
          None \<Rightarrow> Inr None
        | Some selected \<Rightarrow>
      if \<not> limits_ok item \<or> \<not> prices_ok (ca_input_price item) (ca_output_price item) then Inr None
      else if ca_relay_contract_version item \<noteq> 2
      then Inl (err_capability ''The backend does not support this client's inference contract. Update the backend before sending messages.'')
      else if MAX_REASONING_EFFORTS_PER_MODEL < length (ca_supported_reasoning_efforts item) then Inr None
      else (case collect_efforts [] (ca_supported_reasoning_efforts item) of
          None \<Rightarrow> Inr None
        | Some efforts \<Rightarrow>
      rbind (validate_provider_url ul ep (ca_base_url item)) (\<lambda>provider_url.
      case registry_validate_model reg (model_of_entry item selected efforts (url_string provider_url)) of
        Inl _ \<Rightarrow> Inr None | Inr m \<Rightarrow> Inr (Some m))))))"

fun validate_entries ::
  "(catalog_model \<Rightarrow> secure_error + model_info option) \<Rightarrow> string set \<Rightarrow> model_info list \<Rightarrow> catalog_model option list \<Rightarrow>
     secure_error + model_info list" where
  "validate_entries item ids acc [] = Inr acc"
| "validate_entries item ids acc (None # wire) = validate_entries item ids acc wire"
| "validate_entries item ids acc (Some c # wire) =
     (if \<not> identifier_ok (ca_id c) 80 then validate_entries item ids acc wire
      else if ca_id c \<in> ids then Inl (err_catalog ''model catalog contains a duplicate model ID'')
      else rbind (item c) (\<lambda>r.
        validate_entries item (insert (ca_id c) ids) (case r of None \<Rightarrow> acc | Some m \<Rightarrow> acc @ [m]) wire))"

definition validate_models ::
  "(json \<Rightarrow> catalog_model option) \<Rightarrow> url_lib \<Rightarrow> (url \<Rightarrow> string) \<Rightarrow> endpoint_policy \<Rightarrow> provider_registry \<Rightarrow> nat option \<Rightarrow>
     json list \<Rightarrow> secure_error + model_info list" where
  "validate_models decode ul url_string ep reg now wire =
     (if wire = [] \<or> MAX_MODELS < length wire then Inl (err_catalog ''model catalog has an invalid number of entries'')
      else rbind (validate_entries (catalog_item ul url_string ep reg now) {} [] (map decode wire)) (\<lambda>output.
      if output = [] then Inl (err_capability ''model catalog contains no providers supported by this client'')
      else Inr output))"

section \<open>The contract of an engine\<close>

text \<open>What populating capabilities must not touch.\<close>

definition model_identity ::
  "model_info \<Rightarrow> (string \<times> string \<times> string \<times> string \<times> string) \<times> (string \<times> nat \<times> string) \<times> (nat \<times> nat) \<times> nat option \<times> nat option" where
  "model_identity m = ((mi_id m, mi_label m, mi_provider_id m, mi_upstream_model m, mi_provider_base_url m),
     (mi_e2ee_protocol m, mi_e2ee_encryption_version m, mi_attestation_protocol m),
     (mi_context_window_tokens m, mi_max_output_tokens m), mi_input_price m, mi_output_price m)"

definition engine_lawful :: "secure_provider \<Rightarrow> bool" where
  "engine_lawful p \<longleftrightarrow>
     (\<forall>m. model_identity (pr_populate_capabilities p m) = model_identity m)
   \<and> (\<forall>m. pr_supports p m = Inr () \<longrightarrow> mi_provider_id m = pr_id p
          \<and> pr_supports_contract p (mi_e2ee_protocol m) (mi_e2ee_encryption_version m) (mi_attestation_protocol m))"

locale provider_engine =
  fixes engine :: secure_provider
  assumes populate_identity: "model_identity (pr_populate_capabilities engine m) = model_identity m"
    and supported_contract: "pr_supports engine m = Inr () \<Longrightarrow>
       mi_provider_id m = pr_id engine
     \<and> pr_supports_contract engine (mi_e2ee_protocol m) (mi_e2ee_encryption_version m) (mi_attestation_protocol m)"
begin

lemma lawful: "engine_lawful engine"
  using populate_identity supported_contract by (simp add: engine_lawful_def)

end

interpretation near: provider_engine near_provider
  by unfold_locales
    (auto simp: near_provider_def near_populate_capabilities_def model_identity_def near_supports_def
      near_supports_contract_def split: if_splits)

interpretation tinfoil: provider_engine tinfoil_provider
  by unfold_locales
    (auto simp: tinfoil_provider_def tinfoil_populate_capabilities_def model_identity_def tinfoil_supports_def
      split: if_splits)

section \<open>Models of an accepted catalog\<close>

definition catalog_model_ok ::
  "url_lib \<Rightarrow> (url \<Rightarrow> string) \<Rightarrow> endpoint_policy \<Rightarrow> provider_registry \<Rightarrow> model_info \<Rightarrow> bool" where
  "catalog_model_ok ul url_string ep reg m \<longleftrightarrow>
     identifier_ok (mi_id m) 80 \<and> text_ok (mi_label m) 200 \<and> text_ok (mi_upstream_model m) 256
   \<and> 0 < mi_max_output_tokens m \<and> mi_max_output_tokens m \<le> mi_context_window_tokens m
   \<and> mi_context_window_tokens m \<le> MAX_MODEL_TOKENS \<and> prices_ok (mi_input_price m) (mi_output_price m)
   \<and> (\<exists>v u. validate_provider_url ul ep v = Inr u \<and> mi_provider_base_url m = url_string u)
   \<and> (\<exists>p. reg (mi_provider_id m) = Some p \<and> pr_id p = mi_provider_id m
        \<and> pr_supports_contract p (mi_e2ee_protocol m) (mi_e2ee_encryption_version m) (mi_attestation_protocol m))"

lemma registry_extend_members:
  "registry_extend reg ps = Inr reg' \<Longrightarrow> reg' k = Some p \<Longrightarrow> reg k = Some p \<or> p \<in> set ps \<and> pr_id p = k"
  by (induction reg ps rule: registry_extend.induct) (auto split: if_splits)

lemma registry_new_members: "registry_new ps = Inr reg \<Longrightarrow> reg k = Some p \<Longrightarrow> p \<in> set ps \<and> pr_id p = k"
  unfolding registry_new_def by (drule registry_extend_members) auto

text \<open>An entry that is kept has passed every guard.\<close>

lemma kept_iffs:
  "(case x of None \<Rightarrow> Inr None | Some y \<Rightarrow> f y) = Inr (Some m) \<longleftrightarrow> (\<exists>y. x = Some y \<and> f y = Inr (Some m))"
  "(if b then Inr None else r) = Inr (Some m) \<longleftrightarrow> \<not> b \<and> r = Inr (Some m)"
  "(case v of Inl _ \<Rightarrow> Inr None | Inr m \<Rightarrow> Inr (Some m)) = (Inr (Some m) :: 'e + 'm option) \<longleftrightarrow> v = Inr m"
  by (auto split: option.splits sum.splits)

lemma catalog_item_ok:
  assumes "registry_new engines = Inr reg" "list_all engine_lawful engines"
    and ok: "catalog_item ul url_string ep reg now item = Inr (Some m)" and i: "identifier_ok (ca_id item) 80"
  shows "mi_id m = ca_id item \<and> catalog_model_ok ul url_string ep reg m"
proof -
  obtain efforts selected u where e: "metadata_ok item" "limits_ok item"
      "prices_ok (ca_input_price item) (ca_output_price item)" "validate_provider_url ul ep (ca_base_url item) = Inr u"
    and v: "registry_validate_model reg (model_of_entry item selected efforts (url_string u)) = Inr m"
    using ok unfolding catalog_item_def kept_iffs success_iffs de_Morgan_disj not_not by blast
  define m0 where "m0 = model_of_entry item selected efforts (url_string u)"
  have m0: "mi_id m0 = ca_id item" "mi_label m0 = ca_label item" "mi_provider_id m0 = ca_provider item"
      "mi_upstream_model m0 = ca_model item" "mi_provider_base_url m0 = url_string u"
      "mi_context_window_tokens m0 = ca_context_window_tokens item" "mi_max_output_tokens m0 = ca_max_output_tokens item"
      "mi_input_price m0 = ca_input_price item" "mi_output_price m0 = ca_output_price item"
    by (simp_all add: m0_def model_of_entry_def)
  obtain p where p: "reg (mi_provider_id m0) = Some p" "pr_supports p m0 = Inr ()" "m = pr_populate_capabilities p m0"
    using v unfolding registry_validate_model_def registry_resolve_def success_iffs m0_def by auto
  have "p \<in> set engines" "pr_id p = mi_provider_id m0" using registry_new_members [OF assms(1) p(1)] by auto
  then have law: "model_identity m = model_identity m0"
      "pr_supports_contract p (mi_e2ee_protocol m0) (mi_e2ee_encryption_version m0) (mi_attestation_protocol m0)"
    using assms(2) p(2,3) by (auto simp: list_all_iff engine_lawful_def)
  then show ?thesis
    using e m0 i p(1) \<open>pr_id p = _\<close>
    unfolding catalog_model_ok_def model_identity_def metadata_ok_def limits_ok_def by auto
qed

lemma validate_entries_ok:
  assumes item: "\<And>c m. item c = Inr (Some m) \<Longrightarrow> identifier_ok (ca_id c) 80 \<Longrightarrow> mi_id m = ca_id c \<and> P m"
  shows "validate_entries item ids acc wire = Inr r \<Longrightarrow>
    \<exists>new. r = acc @ new \<and> (\<forall>m \<in> set new. P m \<and> mi_id m \<notin> ids) \<and> distinct (map mi_id new)
        \<and> subseq (map mi_id new) (map ca_id (List.map_filter (\<lambda>c. c) wire))"
proof (induction wire arbitrary: ids acc)
  case (Cons entry wire)
  show ?case
  proof (cases "\<exists>c. entry = Some c \<and> identifier_ok (ca_id c) 80")
    case False
    with Cons.prems have "validate_entries item ids acc wire = Inr r" by (cases entry) auto
    from Cons.IH [OF this] show ?thesis
      by (cases entry) (auto simp: map_filter_simps intro: list_emb_Cons)
  next
    case True
    then obtain c where c: "entry = Some c" "identifier_ok (ca_id c) 80" by blast
    obtain v where new: "ca_id c \<notin> ids" and v: "item c = Inr v" and rest:
      "validate_entries item (insert (ca_id c) ids) (case v of None \<Rightarrow> acc | Some m \<Rightarrow> acc @ [m]) wire = Inr r"
      using Cons.prems c by (auto split: if_splits)
    obtain ms where ms: "r = (case v of None \<Rightarrow> acc | Some m \<Rightarrow> acc @ [m]) @ ms"
        "\<forall>m \<in> set ms. P m \<and> mi_id m \<notin> insert (ca_id c) ids" "distinct (map mi_id ms)"
        "subseq (map mi_id ms) (map ca_id (List.map_filter (\<lambda>c. c) wire))"
      using Cons.IH [OF rest] by blast
    show ?thesis
    proof (cases v)
      case None
      with ms c show ?thesis by (intro exI [of _ ms]) (auto simp: map_filter_simps)
    next
      case (Some m)
      then have "mi_id m = ca_id c \<and> P m" using item v c(2) by blast
      with Some ms c new show ?thesis by (intro exI [of _ "m # ms"]) (auto simp: map_filter_simps)
    qed
  qed
qed simp


definition demo_catalog_entry :: catalog_model where
  "demo_catalog_entry = \<lparr>ca_relay_contract_version = 2, ca_id = ''m'', ca_label = ''M'', ca_short_label = ''M'', ca_model = ''up'',
     ca_base_url = ''u'', ca_provider = ''near'', ca_provider_label = ''N'', ca_e2ee_protocol = ''near-v3'',
     ca_e2ee_encryption_version = 2, ca_attestation_protocol = NEAR_ATTESTATION_PROTOCOL,
     ca_context_window_tokens = 8, ca_max_output_tokens = 4, ca_input_price = None, ca_output_price = None,
     ca_supported_reasoning_efforts = [''low''], ca_supported_thinking_modes = [], ca_reasoning_replay = False,
     ca_supports_tools = False, ca_supports_parallel_tools = False, ca_supports_images = False, ca_file_mime_types = [],
     ca_reasoning_parameters = [], ca_thinking_parameters = [], ca_e2ee_contracts = []\<rparr>"

lemma demo_registry: "\<exists>reg. registry_new [near_provider, tinfoil_provider] = Inr reg \<and> reg ''near'' = Some near_provider"
proof -
  have "str_trim ''near'' \<noteq> []" "str_trim ''tinfoil'' \<noteq> []" by (simp_all add: visible_text visible_def byte_def)
  then show ?thesis by (simp add: registry_new_def near_provider_def tinfoil_provider_def NEAR_PROVIDER_ID_def)
qed


end
