(* ===== verification/Trust_Client.thy ===== *)
theory Trust_Client
  imports Endpoint
begin

text \<open>
  The client's trust policy and model catalog over time, \<open>crates/axiom-secure-client/src/client.rs\<close>: the policy
  it starts with, the rollback journal on disk, the refresh (\<open>SecureClient::trust_policy\<close>) and the catalog cache
  (\<open>accept_catalog\<close>). The journal's JSON codec, the file system's answers, the clocks and the relay's reply are
  arguments.
\<close>

section \<open>The rollback journal\<close>

record persisted_policy =
  pp_highest_sequence :: nat
  pp_signed_policy :: string

record journal_codec =
  jc_decode :: "string \<Rightarrow> persisted_policy option"
  jc_encode :: "persisted_policy \<Rightarrow> string option"

text \<open>What \<open>symlink_metadata\<close> finds at a path: nothing, an error, a link or directory, or a file of a length whose
  contents may be unreadable.\<close>

datatype file_entry = Absent | Inaccessible | Not_file | File nat "string option"

definition read_persisted :: "journal_codec \<Rightarrow> nat \<Rightarrow> file_entry \<Rightarrow> secure_error + persisted_policy option" where
  "read_persisted jc limit entry =
     (case entry of
        Absent \<Rightarrow> Inr None
      | Inaccessible \<Rightarrow> Inl (err_configuration ''trust policy rollback journal is unavailable'')
      | Not_file \<Rightarrow> Inl (err_configuration ''trust policy rollback journal is invalid'')
      | File len contents \<Rightarrow>
          if limit < len then Inl (err_configuration ''trust policy rollback journal is invalid'')
          else rbind (ok_or (err_configuration ''trust policy rollback journal is unavailable'') contents) (\<lambda>bytes.
            rbind (ok_or (err_configuration ''trust policy rollback journal is invalid'') (jc_decode jc bytes)) (\<lambda>p.
              Inr (Some p))))"

definition reject_symlink_or_nonfile :: "file_entry \<Rightarrow> secure_error + unit" where
  "reject_symlink_or_nonfile entry =
     (case entry of
        Not_file \<Rightarrow> Inl (err_configuration ''trust policy cache path is invalid'')
      | File _ _ \<Rightarrow> Inr ()
      | Absent \<Rightarrow> Inr ()
      | Inaccessible \<Rightarrow> Inl (err_configuration ''trust policy cache path is unavailable''))"

text \<open>The file system while a policy is persisted: whether the path has a parent, the parent can be created and is
  a directory, the lock file and the lock, and whether the write reaches the rename and the final sync.\<close>

datatype write_outcome = Written | Failed_before_rename | Failed_after_rename

record persist_io =
  io_has_parent :: bool
  io_created :: bool
  io_parent_found :: bool
  io_parent_is_dir :: bool
  io_lock_entry :: file_entry
  io_lock_opened :: bool
  io_locked :: bool
  io_write :: write_outcome

definition persist_policy ::
  "journal_codec \<Rightarrow> persist_io \<Rightarrow> nat \<Rightarrow> string \<Rightarrow> trust_policy \<Rightarrow> file_entry \<Rightarrow> file_entry \<times> (secure_error + unit)" where
  "persist_policy jc io limit text policy journal =
     (if \<not> io_has_parent io then (journal, Inl (err_configuration ''trust policy cache path is invalid''))
      else if \<not> io_created io \<or> \<not> io_parent_found io
      then (journal, Inl (err_configuration ''trust policy cache directory is unavailable''))
      else if \<not> io_parent_is_dir io then (journal, Inl (err_configuration ''trust policy cache directory is invalid''))
      else (case reject_symlink_or_nonfile (io_lock_entry io) of
          Inl e \<Rightarrow> (journal, Inl e)
        | Inr _ \<Rightarrow>
      if \<not> io_lock_opened io \<or> \<not> io_locked io
      then (journal, Inl (err_configuration ''trust policy rollback lock is unavailable''))
      else (case read_persisted jc limit journal of
          Inl e \<Rightarrow> (journal, Inl e)
        | Inr existing \<Rightarrow>
      if (case existing of None \<Rightarrow> False | Some p \<Rightarrow> tp_sequence policy < pp_highest_sequence p)
      then (journal, Inl (err_configuration ''trust policy rollback was rejected''))
      else (case jc_encode jc \<lparr>pp_highest_sequence = tp_sequence policy, pp_signed_policy = text\<rparr> of
          None \<Rightarrow> (journal, Inl (err_configuration ''trust policy cache is invalid''))
        | Some encoded \<Rightarrow>
      if limit < length encoded
      then (journal, Inl (err_configuration ''trust policy cache exceeds its configured bound''))
      else (case reject_symlink_or_nonfile journal of
          Inl e \<Rightarrow> (journal, Inl e)
        | Inr _ \<Rightarrow>
      (case io_write io of
          Written \<Rightarrow> (File (length encoded) (Some encoded), Inr ())
        | Failed_before_rename \<Rightarrow>
            (journal, Inl (err_configuration ''trust policy rollback journal could not be committed''))
        | Failed_after_rename \<Rightarrow>
            (File (length encoded) (Some encoded),
             Inl (err_configuration ''trust policy rollback journal could not be committed''))))))))"

section \<open>The policy a client starts with\<close>

definition production_policy :: "policy_lib \<Rightarrow> string \<Rightarrow> nat \<Rightarrow> secure_error + trust_policy" where
  "production_policy pl bundled now = from_signed_json pl bundled 0 now"

definition load_initial_policy ::
  "policy_lib \<Rightarrow> journal_codec \<Rightarrow> string \<Rightarrow> secure_client_config \<Rightarrow> nat \<Rightarrow> file_entry \<Rightarrow> secure_error + trust_policy" where
  "load_initial_policy pl jc bundled_text config now journal =
     rbind (production_policy pl bundled_text now) (\<lambda>bundled.
     if trust_policy_cache_path config = None then Inr bundled
     else rbind (read_persisted jc (trust_policy_bytes (client_limits config)) journal) (\<lambda>persisted.
       case persisted of
         None \<Rightarrow> Inr bundled
       | Some p \<Rightarrow>
           if pp_highest_sequence p < tp_sequence bundled then Inr bundled
           else rbind (from_signed_json_for_rollback pl (pp_signed_policy p)
                         (max (pp_highest_sequence p) (tp_sequence bundled)) now) (\<lambda>cached.
             if tp_sequence cached \<noteq> pp_highest_sequence p
             then Inl (err_configuration ''trust policy rollback journal is inconsistent'')
             else if tp_sequence cached = tp_sequence bundled \<and> cached \<noteq> bundled
             then Inl (err_configuration ''trust policy sequence equivocation was rejected'')
             else Inr cached)))"

section \<open>Refreshing the policy\<close>

record cached_trust_policy =
  ct_policy :: trust_policy
  ct_refreshed_at :: "nat option"

text \<open>The start of a client, and the test whether the cached policy is fresh; \<open>t\<close> is the monotonic clock.\<close>

definition cached_new :: "trust_policy \<Rightarrow> cached_trust_policy" where
  "cached_new p = \<lparr>ct_policy = p, ct_refreshed_at = None\<rparr>"

definition policy_fresh :: "secure_client_config \<Rightarrow> nat \<Rightarrow> nat \<Rightarrow> cached_trust_policy \<Rightarrow> bool" where
  "policy_fresh config now t c \<longleftrightarrow>
     is_valid_at (ct_policy c) now
   \<and> (case ct_refreshed_at c of None \<Rightarrow> False | Some r \<Rightarrow> t - r < trust_policy_refresh_interval config)"

text \<open>The candidate of a reply, judged against the policy that was current when the reply was examined.\<close>

definition refresh_candidate ::
  "policy_lib \<Rightarrow> nat \<Rightarrow> trust_policy \<Rightarrow> secure_error + string \<Rightarrow> secure_error + (string \<times> trust_policy)" where
  "refresh_candidate pl now current wire =
     rbind wire (\<lambda>bytes.
     if \<not> from_utf8_ok bytes then Inl (err_configuration ''trust policy encoding is invalid'')
     else rbind (from_signed_json pl bytes (tp_sequence current) now) (\<lambda>candidate.
       if tp_sequence candidate = tp_sequence current \<and> candidate \<noteq> current
       then Inl (err_configuration ''trust policy sequence equivocation was rejected'')
       else Inr (bytes, candidate)))"

definition refresh_persist ::
  "journal_codec \<Rightarrow> persist_io \<Rightarrow> secure_client_config \<Rightarrow> trust_policy \<Rightarrow> string \<times> trust_policy \<Rightarrow> file_entry \<Rightarrow>
     file_entry \<times> (secure_error + trust_policy)" where
  "refresh_persist jc io config current = (\<lambda>(text, candidate) journal.
     if tp_sequence current < tp_sequence candidate \<and> trust_policy_cache_path config \<noteq> None
     then (case persist_policy jc io (trust_policy_bytes (client_limits config)) text candidate journal of
         (j, Inl e) \<Rightarrow> (j, Inl e)
       | (j, Inr _) \<Rightarrow> (j, Inr candidate))
     else (journal, Inr candidate))"

text \<open>One refresh: what it reads first, what it judges the reply against, and the journal and the cached policy when
  it writes; the monotonic clock and the cancellation.\<close>

record refresh_inputs =
  rf_now :: nat
  rf_wire :: "secure_error + string"
  rf_io :: persist_io
  rf_cancelled :: bool
  rf_t1 :: nat
  rf_t2 :: nat

definition refresh_commit ::
  "refresh_inputs \<Rightarrow> secure_error + trust_policy \<Rightarrow> cached_trust_policy \<Rightarrow> cached_trust_policy \<times> (secure_error + trust_policy)" where
  "refresh_commit i refresh cached =
     (case refresh of
        Inr p \<Rightarrow> (\<lparr>ct_policy = p, ct_refreshed_at = Some (rf_t2 i)\<rparr>, Inr p)
      | Inl e \<Rightarrow>
          if rf_cancelled i then (cached, Inl err_cancelled)
          else if is_valid_at (ct_policy cached) (rf_now i)
          then (cached\<lparr>ct_refreshed_at := Some (rf_t2 i)\<rparr>, Inr (ct_policy cached))
          else (cached, Inl e))"

definition trust_policy_refresh ::
  "policy_lib \<Rightarrow> journal_codec \<Rightarrow> secure_client_config \<Rightarrow> refresh_inputs \<Rightarrow> trust_policy \<Rightarrow>
     file_entry \<times> cached_trust_policy \<Rightarrow> (file_entry \<times> cached_trust_policy) \<times> (secure_error + trust_policy)" where
  "trust_policy_refresh pl jc config i current = (\<lambda>(journal, cached).
     case refresh_candidate pl (rf_now i) current (rf_wire i) of
       Inl e \<Rightarrow> (case refresh_commit i (Inl e) cached of (c, r) \<Rightarrow> ((journal, c), r))
     | Inr cand \<Rightarrow>
         (case refresh_persist jc (rf_io i) config current cand journal of
            (j, p) \<Rightarrow> (case refresh_commit i p cached of (c, r) \<Rightarrow> ((j, c), r))))"

text \<open>\<open>trust_policy\<close> when no other refresh runs at the same time.\<close>

definition trust_policy_step ::
  "policy_lib \<Rightarrow> journal_codec \<Rightarrow> secure_client_config \<Rightarrow> refresh_inputs \<Rightarrow>
     file_entry \<times> cached_trust_policy \<Rightarrow> (file_entry \<times> cached_trust_policy) \<times> (secure_error + trust_policy)" where
  "trust_policy_step pl jc config i = (\<lambda>(journal, cached).
     if policy_fresh config (rf_now i) (rf_t1 i) cached then ((journal, cached), Inr (ct_policy cached))
     else trust_policy_refresh pl jc config i (ct_policy cached) (journal, cached))"

section \<open>The catalog cache\<close>

record cached_catalog =
  cat_fetched_at :: nat
  cat_models :: "model_info list"

definition accept_catalog ::
  "secure_client_config \<Rightarrow> nat \<Rightarrow> secure_error + model_info list \<Rightarrow> cached_catalog option \<Rightarrow>
     cached_catalog option \<times> (secure_error + model_info list)" where
  "accept_catalog config t r cache =
     (case r of
        Inr models \<Rightarrow> (Some \<lparr>cat_fetched_at = t, cat_models = models\<rparr>, Inr models)
      | Inl e \<Rightarrow>
          if se_kind e \<noteq> Fail_Transient then (None, Inl e)
          else (case cache of
              Some c \<Rightarrow> if t - cat_fetched_at c \<le> catalog_max_stale config then (cache, Inr (cat_models c)) else (cache, Inl e)
            | None \<Rightarrow> (cache, Inl e)))"

text \<open>The installed offerings are added to a catalog, and stand in for one that could not be fetched.\<close>

definition add_offerings :: "model_info list \<Rightarrow> model_info list \<Rightarrow> model_info list" where
  "add_offerings pool models =
     foldl (\<lambda>ms m. if mi_id m \<in> mi_id ` set ms then ms else ms @ [m]) models pool"

definition models_step ::
  "secure_client_config \<Rightarrow> nat \<Rightarrow> secure_error + model_info list \<Rightarrow> model_info list \<Rightarrow> cached_catalog option \<Rightarrow>
     cached_catalog option \<times> (secure_error + model_info list)" where
  "models_step config t fetched pool cache =
     accept_catalog config t
       (case fetched of
          Inr models \<Rightarrow> Inr (add_offerings pool models)
        | Inl e \<Rightarrow> if pool \<noteq> [] \<and> se_kind e \<noteq> Fail_Cancelled then Inr pool else Inl e) cache"

section \<open>Runs of a client\<close>

text \<open>Clients of one journal, one after the other: a start that may fail, and refreshes of the running one.\<close>

datatype client_op = Start nat | Refresh refresh_inputs

fun client_step ::
  "policy_lib \<Rightarrow> journal_codec \<Rightarrow> string \<Rightarrow> secure_client_config \<Rightarrow> client_op \<Rightarrow>
     file_entry \<times> cached_trust_policy option \<Rightarrow> file_entry \<times> cached_trust_policy option" where
  "client_step pl jc bundled config (Start now) (journal, _) =
     (journal, case load_initial_policy pl jc bundled config now journal of Inl _ \<Rightarrow> None | Inr p \<Rightarrow> Some (cached_new p))"
| "client_step pl jc bundled config (Refresh i) (journal, None) = (journal, None)"
| "client_step pl jc bundled config (Refresh i) (journal, Some c) =
     (case trust_policy_step pl jc config i (journal, c) of ((j, c'), _) \<Rightarrow> (j, Some c'))"

definition client_run ::
  "policy_lib \<Rightarrow> journal_codec \<Rightarrow> string \<Rightarrow> secure_client_config \<Rightarrow> client_op list \<Rightarrow>
     file_entry \<times> cached_trust_policy option \<Rightarrow> file_entry \<times> cached_trust_policy option" where
  "client_run pl jc bundled config = fold (client_step pl jc bundled config)"

definition codec_laws :: "journal_codec \<Rightarrow> bool" where
  "codec_laws jc \<longleftrightarrow> (\<forall>p e. jc_encode jc p = Some e \<longrightarrow> jc_decode jc e = Some p)"

text \<open>The journal, or the bundled policy, keeps a later start from falling below a sequence number.\<close>

definition holds_floor :: "policy_lib \<Rightarrow> journal_codec \<Rightarrow> string \<Rightarrow> secure_client_config \<Rightarrow> file_entry \<Rightarrow> nat \<Rightarrow> bool" where
  "holds_floor pl jc bundled config journal s \<longleftrightarrow>
     (\<forall>now b. production_policy pl bundled now = Inr b \<longrightarrow> s \<le> tp_sequence b)
   \<or> (\<exists>p. read_persisted jc (trust_policy_bytes (client_limits config)) journal = Inr (Some p) \<and> s \<le> pp_highest_sequence p)"

lemma from_signed_json_policy:
  "from_signed_json pl text m now = Inr p \<Longrightarrow> from_signed_json pl text m' now' = Inr p' \<Longrightarrow> p = p'"
  by (auto simp: from_signed_json_def accepted_iff)

lemma from_signed_json_bounds:
  "from_signed_json pl text m now = Inr p \<Longrightarrow> m \<le> tp_sequence p \<and> is_valid_at p now"
  by (auto simp: from_signed_json_def accepted_iff document_rejected_def policy_of_def is_valid_at_def)

lemma persist_policy_cases:
  assumes "persist_policy jc io limit text policy journal = (j, r)"
  shows "j = journal \<and> (\<exists>e. r = Inl e)
    \<or> (\<exists>existing encoded. read_persisted jc limit journal = Inr existing \<and> j = File (length encoded) (Some encoded)
         \<and> jc_encode jc \<lparr>pp_highest_sequence = tp_sequence policy, pp_signed_policy = text\<rparr> = Some encoded
         \<and> length encoded \<le> limit \<and> (\<forall>p. existing = Some p \<longrightarrow> pp_highest_sequence p \<le> tp_sequence policy))"
  using assms unfolding persist_policy_def
  by (auto split: if_splits sum.splits option.splits write_outcome.splits) (metis+)

lemma persisted_floor:
  assumes "codec_laws jc" "persist_policy jc io (trust_policy_bytes (client_limits config)) text policy journal = (j, r)"
  shows "holds_floor pl jc bundled config journal s \<Longrightarrow> holds_floor pl jc bundled config j s"
    and "r = Inr () \<Longrightarrow> s \<le> tp_sequence policy \<Longrightarrow> holds_floor pl jc bundled config j s"
  using persist_policy_cases [OF assms(2)] assms(1)
  by (fastforce simp: holds_floor_def read_persisted_def codec_laws_def)+

lemma candidate_newer:
  "refresh_candidate pl now current wire = Inr (text, candidate) \<Longrightarrow>
     is_valid_at candidate now \<and> (tp_sequence current < tp_sequence candidate \<or> candidate = current)"
  unfolding refresh_candidate_def success_iffs
  by (auto dest!: from_signed_json_bounds)

lemma refresh_step:
  assumes laws: "codec_laws jc" and path: "trust_policy_cache_path config \<noteq> None"
    and floor: "holds_floor pl jc bundled config journal (tp_sequence (ct_policy c))"
    and step: "trust_policy_step pl jc config i (journal, c) = ((j, c'), r)"
  shows "tp_sequence (ct_policy c) \<le> tp_sequence (ct_policy c') \<and> holds_floor pl jc bundled config j (tp_sequence (ct_policy c'))
    \<and> (\<forall>s. holds_floor pl jc bundled config journal s \<longrightarrow> holds_floor pl jc bundled config j s)
    \<and> (\<forall>p. r = Inr p \<longrightarrow> p = ct_policy c' \<and> is_valid_at p (rf_now i))"
proof (cases "policy_fresh config (rf_now i) (rf_t1 i) c")
  case True
  with step floor show ?thesis by (auto simp: trust_policy_step_def policy_fresh_def)
next
  case False
  then have s: "trust_policy_refresh pl jc config i (ct_policy c) (journal, c) = ((j, c'), r)"
    using step by (simp add: trust_policy_step_def)
  have commit: "refresh_commit i (Inl e) c = (d, q) \<Longrightarrow> ct_policy d = ct_policy c
      \<and> (\<forall>p. q = Inr p \<longrightarrow> p = ct_policy d \<and> is_valid_at p (rf_now i))" for e d q
    by (auto simp: refresh_commit_def split: if_splits)
  show ?thesis
  proof (cases "refresh_candidate pl (rf_now i) (ct_policy c) (rf_wire i)")
    case (Inl e)
    then have "refresh_commit i (Inl e) c = (c', r)" "j = journal"
      using s by (auto simp: trust_policy_refresh_def split: prod.splits)
    with commit [of e c' r] floor show ?thesis by auto
  next
    case (Inr tc)
    obtain body candidate where tc: "tc = (body, candidate)" by (cases tc)
    have newer: "is_valid_at candidate (rf_now i)" "tp_sequence (ct_policy c) < tp_sequence candidate \<or> candidate = ct_policy c"
      using candidate_newer Inr unfolding tc by blast+
    obtain q where q: "refresh_persist jc (rf_io i) config (ct_policy c) tc journal = (j, q)" "refresh_commit i q c = (c', r)"
      using s Inr by (auto simp: trust_policy_refresh_def split: prod.splits)
    show ?thesis
    proof (cases "tp_sequence (ct_policy c) < tp_sequence candidate")
      case True
      then obtain w where w: "persist_policy jc (rf_io i) (trust_policy_bytes (client_limits config)) body candidate journal = (j, w)"
          "q = (case w of Inl e \<Rightarrow> Inl e | Inr _ \<Rightarrow> Inr candidate)"
        using q(1) path unfolding tc by (auto simp: refresh_persist_def split: prod.splits sum.splits)
      note keeps = persisted_floor [OF laws w(1), where pl = pl and bundled = bundled]
      show ?thesis
      proof (cases w)
        case (Inl e)
        with w q commit [of e c' r] floor keeps(1) show ?thesis by auto
      next
        case (Inr u)
        with w q have "c' = \<lparr>ct_policy = candidate, ct_refreshed_at = Some (rf_t2 i)\<rparr>" "r = Inr candidate"
          by (auto simp: refresh_commit_def)
        with Inr True newer keeps show ?thesis by auto
      qed
    next
      case False
      then have "candidate = ct_policy c" "j = journal" "q = Inr candidate"
        using newer q(1) unfolding tc by (auto simp: refresh_persist_def)
      with q(2) newer floor show ?thesis by (auto simp: refresh_commit_def)
    qed
  qed
qed

lemma start_step:
  assumes path: "trust_policy_cache_path config \<noteq> None"
    and ok: "load_initial_policy pl jc bundled config now journal = Inr p"
  shows "holds_floor pl jc bundled config journal s \<Longrightarrow> s \<le> tp_sequence p"
    and "holds_floor pl jc bundled config journal (tp_sequence p)"
proof -
  obtain b persisted where b: "production_policy pl bundled now = Inr b"
      and r: "read_persisted jc (trust_policy_bytes (client_limits config)) journal = Inr persisted"
      and c: "(case persisted of None \<Rightarrow> Inr b | Some q \<Rightarrow>
           if pp_highest_sequence q < tp_sequence b then Inr b
           else rbind (from_signed_json_for_rollback pl (pp_signed_policy q) (max (pp_highest_sequence q) (tp_sequence b)) now)
            (\<lambda>cached. if tp_sequence cached \<noteq> pp_highest_sequence q
             then Inl (err_configuration ''trust policy rollback journal is inconsistent'')
             else if tp_sequence cached = tp_sequence b \<and> cached \<noteq> b
             then Inl (err_configuration ''trust policy sequence equivocation was rejected'')
             else Inr cached)) = Inr p"
    using ok path unfolding load_initial_policy_def success_iffs by auto
  have unique: "b' = b" if "production_policy pl bundled now' = Inr b'" for now' b'
    using that b from_signed_json_policy unfolding production_policy_def by blast
  consider "p = b" "\<forall>q. persisted = Some q \<longrightarrow> pp_highest_sequence q < tp_sequence b"
    | q where "persisted = Some q" "tp_sequence p = pp_highest_sequence q" "tp_sequence b \<le> pp_highest_sequence q"
  proof (cases persisted)
    case None
    with c show ?thesis using that(1) by simp
  next
    case (Some q)
    show ?thesis
    proof (cases "pp_highest_sequence q < tp_sequence b")
      case True
      with c Some show ?thesis using that(1) by simp
    next
      case False
      then have "tp_sequence p = pp_highest_sequence q"
        using c unfolding Some option.case if_not_P [OF False] success_iffs by auto
      with False Some show ?thesis using that(2) by simp
    qed
  qed
  then have "(holds_floor pl jc bundled config journal s \<longrightarrow> s \<le> tp_sequence p) \<and> holds_floor pl jc bundled config journal (tp_sequence p)"
  proof cases
    case 1
    have "holds_floor pl jc bundled config journal s \<Longrightarrow> s \<le> tp_sequence b"
      using 1(2) r b unfolding holds_floor_def by force
    moreover have "holds_floor pl jc bundled config journal (tp_sequence b)"
      using unique unfolding holds_floor_def by blast
    ultimately show ?thesis using 1(1) by blast
  next
    case 2
    have "holds_floor pl jc bundled config journal s \<Longrightarrow> s \<le> pp_highest_sequence q"
      using 2 r b unfolding holds_floor_def by force
    moreover have "holds_floor pl jc bundled config journal (pp_highest_sequence q)"
      using 2 r unfolding holds_floor_def by blast
    ultimately show ?thesis using 2(2) by simp
  qed
  then show "holds_floor pl jc bundled config journal s \<Longrightarrow> s \<le> tp_sequence p"
    "holds_floor pl jc bundled config journal (tp_sequence p)" by blast+
qed

text \<open>The invariant of a run that has reached sequence number \<open>s\<close>: no client at hand is below it, and no later start
  will be.\<close>

definition client_safe ::
  "policy_lib \<Rightarrow> journal_codec \<Rightarrow> string \<Rightarrow> secure_client_config \<Rightarrow> nat \<Rightarrow> file_entry \<times> cached_trust_policy option \<Rightarrow> bool" where
  "client_safe pl jc bundled config s = (\<lambda>(journal, client).
     holds_floor pl jc bundled config journal s
   \<and> (case client of None \<Rightarrow> True
      | Some c \<Rightarrow> s \<le> tp_sequence (ct_policy c) \<and> holds_floor pl jc bundled config journal (tp_sequence (ct_policy c))))"

lemma client_safe_step:
  assumes "codec_laws jc" "trust_policy_cache_path config \<noteq> None" "client_safe pl jc bundled config s st"
  shows "client_safe pl jc bundled config s (client_step pl jc bundled config ev st)"
proof (cases "(pl, jc, bundled, config, ev, st)" rule: client_step.cases)
  case (1 _ _ _ _ now journal c)
  show ?thesis
  proof (cases "load_initial_policy pl jc bundled config now journal")
    case (Inl e)
    with 1 assms(3) show ?thesis by (auto simp: client_safe_def)
  next
    case (Inr p)
    with 1 assms(3) start_step [OF assms(2) Inr] show ?thesis by (auto simp: client_safe_def cached_new_def)
  qed
next
  case (2 _ _ _ _ i journal)
  with assms(3) show ?thesis by simp
next
  case (3 _ _ _ _ i journal c)
  obtain j c' r where st: "trust_policy_step pl jc config i (journal, c) = ((j, c'), r)"
    by (metis prod.collapse)
  have floors: "holds_floor pl jc bundled config journal s" "s \<le> tp_sequence (ct_policy c)"
      "holds_floor pl jc bundled config journal (tp_sequence (ct_policy c))"
    using 3 assms(3) by (auto simp: client_safe_def)
  have "tp_sequence (ct_policy c) \<le> tp_sequence (ct_policy c') \<and> holds_floor pl jc bundled config j (tp_sequence (ct_policy c'))
      \<and> holds_floor pl jc bundled config j s"
    using refresh_step [OF assms(1,2) floors(3) st] floors(1) by blast
  with 3 st floors(2) show ?thesis by (simp add: client_safe_def)
qed

lemma client_safe_run:
  assumes "codec_laws jc" "trust_policy_cache_path config \<noteq> None"
  shows "client_safe pl jc bundled config s st \<Longrightarrow> client_safe pl jc bundled config s (client_run pl jc bundled config evs st)"
  unfolding client_run_def by (induction evs arbitrary: st) (simp_all add: client_safe_step [OF assms])

lemma client_reached_safe:
  assumes laws: "codec_laws jc" and path: "trust_policy_cache_path config \<noteq> None"
    and run: "client_run pl jc bundled config evs (journal, None) = (j, Some c)"
  shows "client_safe pl jc bundled config (tp_sequence (ct_policy c)) (j, Some c)"
proof -
  have "client_safe pl jc bundled config 0 (journal, None)" by (simp add: client_safe_def holds_floor_def)
  from client_safe_run [OF laws path this, of evs] run show ?thesis by (simp add: client_safe_def)
qed


definition demo_refresh_lib :: policy_lib where
  "demo_refresh_lib = demo_policy_lib\<lparr>pl_envelope := \<lambda>body. Some \<lparr>pe_policy =
      if body = ''n'' then demo_document\<lparr>sp_sequence := 9\<rparr> else demo_document, pe_signature = ''00''\<rparr>\<rparr>"

abbreviation demo_codec :: journal_codec where
  "demo_codec \<equiv> \<lparr>jc_decode = \<lambda>e. let n = length (takeWhile ((=) (CHR ''x'')) e) in
       Some \<lparr>pp_highest_sequence = n, pp_signed_policy = drop (Suc n) e\<rparr>,
     jc_encode = \<lambda>p. Some (replicate (pp_highest_sequence p) (CHR ''x'') @ CHR '':'' # pp_signed_policy p)\<rparr>"

abbreviation demo_io :: persist_io where
  "demo_io \<equiv> \<lparr>io_has_parent = True, io_created = True, io_parent_found = True, io_parent_is_dir = True,
     io_lock_entry = Absent, io_lock_opened = True, io_locked = True, io_write = Written\<rparr>"

abbreviation demo_client_config :: secure_client_config where
  "demo_client_config \<equiv> \<lparr>accept_outdated_near_tcb = False, relay_base_url = demo_endpoint, request_timeout = 120,
     attestation_timeout = 60, catalog_max_stale = 1800, verified_session_ttl = 240,
     trust_policy_cache_path = Some ''/j'', trust_policy_refresh_interval = 300,
     client_limits = default_limits, client_endpoint_policy = default_endpoint_policy\<rparr>"

abbreviation demo_refresh :: "secure_error + string \<Rightarrow> refresh_inputs" where
  "demo_refresh wire \<equiv> \<lparr>rf_now = 20, rf_wire = wire, rf_io = demo_io, rf_cancelled = False, rf_t1 = 0, rf_t2 = 1\<rparr>"

lemma demo_codec_laws: "codec_laws demo_codec"
  by (auto simp: codec_laws_def Let_def takeWhile_append)

lemma demo_accepted:
  assumes "m \<le> (if body = ''n'' then 9 else 7)"
  shows "from_signed_json_inner demo_refresh_lib body m 20 e
    = Inr (policy_of (if body = ''n'' then demo_document\<lparr>sp_sequence := 9\<rparr> else demo_document))"
proof -
  have "\<not> anchor_invalid (replicate 64 (CHR ''a''))"
    unfolding anchor_invalid_def list_all_iff set_replicate_conv_if length_replicate
    by (simp add: is_ascii_hexdigit_def is_ascii_uppercase_def in_range_def byte_def)
  moreover have "str_trim ''v7'' \<noteq> []" by (simp add: visible_text visible_def byte_def)
  ultimately show ?thesis using assms by (auto simp: accepted_iff document_rejected_def demo_refresh_lib_def)
qed

lemmas demo_trust_eval = client_run_def cached_new_def load_initial_policy_def production_policy_def from_signed_json_def
  from_signed_json_for_rollback_def demo_accepted policy_of_def read_persisted_def default_limits_def
  trust_policy_step_def policy_fresh_def is_valid_at_def trust_policy_refresh_def refresh_candidate_def refresh_persist_def
  persist_policy_def reject_symlink_or_nonfile_def refresh_commit_def from_utf8_ok_def

lemma demo_start:
  "client_run demo_refresh_lib demo_codec [] demo_client_config [Start 20] (Absent, None)
    = (Absent, Some \<lparr>ct_policy = policy_of demo_document, ct_refreshed_at = None\<rparr>)"
  by (simp add: demo_trust_eval)

definition demo_journal :: file_entry where
  "demo_journal = File 11 (Some (replicate 9 (CHR ''x'') @ '':n''))"

lemma demo_upgrade:
  "client_run demo_refresh_lib demo_codec [] demo_client_config [Refresh (demo_refresh (Inr ''n''))]
     (Absent, Some \<lparr>ct_policy = policy_of demo_document, ct_refreshed_at = None\<rparr>)
    = (demo_journal, Some \<lparr>ct_policy = policy_of (demo_document\<lparr>sp_sequence := 9\<rparr>), ct_refreshed_at = Some 1\<rparr>)"
  by (simp add: demo_trust_eval demo_journal_def utf8_chars.simps byte_def)

lemma demo_restart:
  "client_run demo_refresh_lib demo_codec [] demo_client_config [Start 20] (demo_journal, c)
    = (demo_journal, Some \<lparr>ct_policy = policy_of (demo_document\<lparr>sp_sequence := 9\<rparr>), ct_refreshed_at = None\<rparr>)"
  by (simp add: demo_trust_eval demo_journal_def Let_def takeWhile_append)

lemma demo_offline:
  "trust_policy_step demo_refresh_lib demo_codec demo_client_config (demo_refresh (Inl (err_configuration ''offline'')))
     (demo_journal, \<lparr>ct_policy = policy_of (demo_document\<lparr>sp_sequence := 9\<rparr>), ct_refreshed_at = None\<rparr>)
    = ((demo_journal, \<lparr>ct_policy = policy_of (demo_document\<lparr>sp_sequence := 9\<rparr>), ct_refreshed_at = Some 1\<rparr>),
       Inr (policy_of (demo_document\<lparr>sp_sequence := 9\<rparr>)))"
  by (simp add: demo_trust_eval)


section \<open>Overlapping refreshes, outages and expired bundles\<close>

text \<open>A refresh that read the policy before another one upgraded it puts the old policy back: nothing compares the
  candidate with the policy it replaces.\<close>

lemma stale_refresh_rolls_back:
  "trust_policy_refresh demo_refresh_lib demo_codec demo_client_config (demo_refresh (Inr []))
     (policy_of demo_document)
     (demo_journal, \<lparr>ct_policy = policy_of (demo_document\<lparr>sp_sequence := 9\<rparr>), ct_refreshed_at = Some 1\<rparr>)
   = ((demo_journal, \<lparr>ct_policy = policy_of demo_document, ct_refreshed_at = Some 1\<rparr>), Inr (policy_of demo_document))"
  by (simp add: demo_trust_eval)

text \<open>With an installed offering a transient outage is not answered from the last catalog: the offerings alone
  replace it.\<close>

lemma outage_replaces_catalog:
  "pool \<noteq> [] \<Longrightarrow> se_kind e = Fail_Transient \<Longrightarrow>
     models_step config t (Inl e) pool (Some c) = (Some \<lparr>cat_fetched_at = t, cat_models = pool\<rparr>, Inr pool)"
  by (simp add: models_step_def accept_catalog_def)

lemma outage_served_stale:
  "se_kind e = Fail_Transient \<Longrightarrow> t - cat_fetched_at c \<le> catalog_max_stale config \<Longrightarrow>
     models_step config t (Inl e) [] (Some c) = (Some c, Inr (cat_models c))"
  by (simp add: models_step_def accept_catalog_def)

text \<open>Rejected metadata is never served later: after a final error the cache is empty.\<close>

lemma final_error_clears_catalog:
  "accept_catalog config t (Inl e) cache = (cache', r) \<Longrightarrow> se_kind e \<noteq> Fail_Transient \<Longrightarrow> cache' = None \<and> r = Inl e"
  by (simp add: accept_catalog_def)

lemma expired_bundle_blocks_start:
  "production_policy pl bundled now = Inl e \<Longrightarrow> load_initial_policy pl jc bundled config now journal = Inl e"
  by (simp add: load_initial_policy_def)

lemma add_offerings_distinct:
  "distinct (map mi_id models) \<Longrightarrow> distinct (map mi_id (add_offerings pool models)) \<and> set models \<subseteq> set (add_offerings pool models)"
proof (induction pool arbitrary: models)
  case (Cons m pool)
  show ?case
  proof (cases "mi_id m \<in> mi_id ` set models")
    case True
    with Cons show ?thesis by (simp add: add_offerings_def)
  next
    case False
    with Cons.prems have "distinct (map mi_id (models @ [m]))" by simp
    from Cons.IH [OF this] False show ?thesis by (simp add: add_offerings_def)
  qed
qed (simp add: add_offerings_def)

end
