(* ===== verification/Steering.thy ===== *)
theory Steering
  imports App_Types
begin

text \<open>
  Input added to a running turn, \<open>apps/axiomcli/src/steering.rs\<close>: the inbox of a turn, its submissions with retries
  and waiters, and its closing. A waiter is the identity of its one-shot sender; a dropped sender is one that is
  neither held nor signalled.
\<close>

section \<open>Inboxes\<close>

text \<open>What a turn relies on: a message put is taken once, after those put before it.\<close>

locale fifo_inbox =
  fixes put :: "'m \<Rightarrow> 's \<Rightarrow> 's" and drain :: "'s \<Rightarrow> 's \<times> 'm list" and held :: "'s \<Rightarrow> 'm list"
  assumes held_put: "held (put m s) = held s @ [m]"
    and drain_all: "drain s = (s', ms) \<Longrightarrow> ms = held s \<and> held s' = []"
begin

text \<open>Rounds of input followed by a drain: everything put comes out, in order.\<close>

fun rounds :: "'m list list \<Rightarrow> 's \<Rightarrow> 's \<times> 'm list" where
  "rounds [] s = (s, [])"
| "rounds (ms # mss) s = (case drain (fold put ms s) of (s1, out) \<Rightarrow> case rounds mss s1 of (s2, outs) \<Rightarrow> (s2, out @ outs))"

lemma held_fold: "held (fold put ms s) = held s @ ms"
  by (induction ms arbitrary: s) (simp_all add: held_put)

lemma rounds_in_order: "mss \<noteq> [] \<Longrightarrow> rounds mss s = (s', out) \<Longrightarrow> out = held s @ concat mss \<and> held s' = []"
proof (induction mss arbitrary: s s' out)
  case (Cons ms mss)
  obtain s1 o1 where d: "drain (fold put ms s) = (s1, o1)" by (cases "drain (fold put ms s)")
  note drained = drain_all [OF d, unfolded held_fold]
  show ?case
  proof (cases mss)
    case Nil
    with Cons.prems d drained show ?thesis by auto
  next
    case (Cons m mss')
    obtain s2 o2 where r: "rounds mss s1 = (s2, o2)" by (cases "rounds mss s1")
    with Cons Cons.IH [OF _ r] have "o2 = held s1 @ concat mss \<and> held s2 = []" by blast
    with Cons.prems d r drained show ?thesis by simp
  qed
qed simp

end

section \<open>State\<close>

definition MAX_STEERING_BYTES :: nat where "MAX_STEERING_BYTES = 64 * 1024"
definition MAX_PENDING :: nat where "MAX_PENDING = 32"
definition MAX_TURN_INPUT_BYTES :: nat where "MAX_TURN_INPUT_BYTES = 256 * 1024"

record steering_message =
  sg_id :: string
  sg_text :: string

record submission =
  sb_text :: string
  sb_applied :: bool
  sb_waiters :: "nat list"

record steering =
  st_turn :: turn_id
  st_closed :: bool
  st_bytes :: nat
  st_pending :: "steering_message list"
  st_submissions :: "string \<rightharpoonup> submission"
  st_signalled :: "nat list"

definition steering_new :: "turn_id \<Rightarrow> steering" where
  "steering_new t = \<lparr>st_turn = t, st_closed = False, st_bytes = 0, st_pending = [], st_submissions = Map.empty,
     st_signalled = []\<rparr>"

section \<open>Operations\<close>

abbreviation refused :: "string \<Rightarrow> axiom_error" where
  "refused m \<equiv> InvalidTransition [Lit m]"

text \<open>\<open>submit\<close>: the sender \<open>tx\<close> is the one created by the call; its receiver is the result.\<close>

definition push_pending :: "steering_message \<Rightarrow> steering \<Rightarrow> steering" where
  "push_pending m s = s\<lparr>st_bytes := st_bytes s + length (sg_text m), st_pending := st_pending s @ [m]\<rparr>"

definition submit :: "turn_id \<Rightarrow> string \<Rightarrow> string \<Rightarrow> nat \<Rightarrow> steering \<Rightarrow> steering \<times> (axiom_error + nat)" where
  "submit expected i body tx s =
     (if expected \<noteq> st_turn s \<or> i = [] \<or> 128 < length i \<or> str_trim body = [] \<or> MAX_STEERING_BYTES < length body
      then (s, Inl (refused ''invalid steering input or stale turn ID''))
      else (case st_submissions s i of
          Some previous \<Rightarrow>
            if sb_text previous \<noteq> body then (s, Inl (refused ''steering ID was reused with different input''))
            else if sb_applied previous then (s\<lparr>st_signalled := st_signalled s @ [tx]\<rparr>, Inr tx)
            else if length (sb_waiters previous) < MAX_PENDING
            then (s\<lparr>st_submissions := (st_submissions s)(i \<mapsto> previous\<lparr>sb_waiters := sb_waiters previous @ [tx]\<rparr>)\<rparr>, Inr tx)
            else (s, Inl (refused ''too many steering retries''))
        | None \<Rightarrow>
            if st_closed s then (s, Inl (refused ''turn is no longer accepting steering''))
            else if MAX_PENDING \<le> length (st_pending s)
              \<or> MAX_TURN_INPUT_BYTES < saturating_add (st_bytes s) (length body)
            then (s, Inl (refused ''steering inbox is full''))
            else ((push_pending \<lparr>sg_id = i, sg_text = body\<rparr> s)
                    \<lparr>st_submissions := (st_submissions s)(i \<mapsto> \<lparr>sb_text = body, sb_applied = False, sb_waiters = [tx]\<rparr>)\<rparr>,
                  Inr tx)))"

definition has_pending :: "steering \<Rightarrow> bool" where
  "has_pending s \<longleftrightarrow> st_pending s \<noteq> []"

definition take_pending :: "steering \<Rightarrow> steering \<times> steering_message list" where
  "take_pending s = (s\<lparr>st_pending := []\<rparr>, st_pending s)"

definition acknowledge :: "string \<Rightarrow> steering \<Rightarrow> steering" where
  "acknowledge i s =
     (case st_submissions s i of
        None \<Rightarrow> s
      | Some sub \<Rightarrow>
          s\<lparr>st_submissions := (st_submissions s)(i \<mapsto> sub\<lparr>sb_applied := True, sb_waiters := []\<rparr>),
            st_signalled := st_signalled s @ sb_waiters sub\<rparr>)"

definition finish_if_empty :: "steering \<Rightarrow> steering \<times> bool" where
  "finish_if_empty s = (if st_pending s \<noteq> [] then (s, False) else (s\<lparr>st_closed := True\<rparr>, True))"

definition steering_close :: "steering \<Rightarrow> steering" where
  "steering_close s = s\<lparr>st_closed := True, st_pending := [],
     st_submissions := st_submissions s |` (- (sg_id ` set (st_pending s)))\<rparr>"

interpretation inbox: fifo_inbox push_pending take_pending st_pending
  by unfold_locales (auto simp: push_pending_def take_pending_def)

section \<open>Runs\<close>

text \<open>A run of an inbox, with the messages accepted and the messages taken so far; a submission is accepted when its
  identifier is new.\<close>

datatype steering_op = Submit turn_id string string nat | Take | Acknowledge string | Finish | Close

record steering_run =
  sr_state :: steering
  sr_accepted :: "steering_message list"
  sr_taken :: "steering_message list"
  sr_acknowledged :: "string list"

fun steering_step :: "steering_op \<Rightarrow> steering_run \<Rightarrow> steering_run" where
  "steering_step (Submit t i body tx) r =
     (case submit t i body tx (sr_state r) of
        (s, Inl _) \<Rightarrow> r\<lparr>sr_state := s\<rparr>
      | (s, Inr _) \<Rightarrow>
          r\<lparr>sr_state := s, sr_accepted := sr_accepted r
              @ (if st_submissions (sr_state r) i = None then [\<lparr>sg_id = i, sg_text = body\<rparr>] else [])\<rparr>)"
| "steering_step Take r =
     (case take_pending (sr_state r) of (s, ms) \<Rightarrow> r\<lparr>sr_state := s, sr_taken := sr_taken r @ ms\<rparr>)"
| "steering_step (Acknowledge i) r = r\<lparr>sr_state := acknowledge i (sr_state r), sr_acknowledged := sr_acknowledged r @ [i]\<rparr>"
| "steering_step Finish r = r\<lparr>sr_state := fst (finish_if_empty (sr_state r))\<rparr>"
| "steering_step Close r = r\<lparr>sr_state := steering_close (sr_state r)\<rparr>"

definition run_steering :: "turn_id \<Rightarrow> steering_op list \<Rightarrow> steering_run" where
  "run_steering t ops = fold steering_step ops
     \<lparr>sr_state = steering_new t, sr_accepted = [], sr_taken = [], sr_acknowledged = []\<rparr>"

text \<open>The invariant: an inbox that is not closed holds exactly the accepted messages that were not taken; each of
  them has its submission; the limits hold.\<close>

definition steering_ok :: "steering_run \<Rightarrow> bool" where
  "steering_ok r \<longleftrightarrow>
     (\<exists>dropped. sr_accepted r = sr_taken r @ st_pending (sr_state r) @ dropped
        \<and> (dropped \<noteq> [] \<longrightarrow> st_closed (sr_state r)))
   \<and> (st_closed (sr_state r) \<longrightarrow> st_pending (sr_state r) = [])
   \<and> distinct (map sg_id (sr_accepted r))
   \<and> (\<forall>k. st_submissions (sr_state r) k \<noteq> None \<longrightarrow> k \<in> sg_id ` set (sr_accepted r))
   \<and> (\<forall>m \<in> set (sr_taken r @ st_pending (sr_state r)).
        \<exists>sub. st_submissions (sr_state r) (sg_id m) = Some sub \<and> sb_text sub = sg_text m)
   \<and> st_bytes (sr_state r) = sum_list (map (length \<circ> sg_text) (sr_accepted r))
   \<and> st_bytes (sr_state r) \<le> MAX_TURN_INPUT_BYTES
   \<and> length (st_pending (sr_state r)) \<le> MAX_PENDING
   \<and> (\<forall>k sub. st_submissions (sr_state r) k = Some sub \<longrightarrow> length (sb_waiters sub) \<le> MAX_PENDING)"

lemma steering_okI:
  assumes "sr_accepted r = sr_taken r @ st_pending (sr_state r) @ dropped" "dropped \<noteq> [] \<Longrightarrow> st_closed (sr_state r)"
    "st_closed (sr_state r) \<Longrightarrow> st_pending (sr_state r) = []" "distinct (map sg_id (sr_accepted r))"
    "\<And>k. st_submissions (sr_state r) k \<noteq> None \<Longrightarrow> k \<in> sg_id ` set (sr_accepted r)"
    "\<And>m. m \<in> set (sr_taken r) \<or> m \<in> set (st_pending (sr_state r)) \<Longrightarrow>
        \<exists>sub. st_submissions (sr_state r) (sg_id m) = Some sub \<and> sb_text sub = sg_text m"
    "st_bytes (sr_state r) = sum_list (map (length \<circ> sg_text) (sr_accepted r))"
    "st_bytes (sr_state r) \<le> MAX_TURN_INPUT_BYTES" "length (st_pending (sr_state r)) \<le> MAX_PENDING"
    "\<And>k sub. st_submissions (sr_state r) k = Some sub \<Longrightarrow> length (sb_waiters sub) \<le> MAX_PENDING"
  shows "steering_ok r"
  unfolding steering_ok_def using assms by (intro conjI exI [of _ dropped]) auto

lemma steering_okE:
  assumes "steering_ok r"
  obtains dropped where "sr_accepted r = sr_taken r @ st_pending (sr_state r) @ dropped"
    "dropped \<noteq> [] \<Longrightarrow> st_closed (sr_state r)"
    "st_closed (sr_state r) \<Longrightarrow> st_pending (sr_state r) = []" "distinct (map sg_id (sr_accepted r))"
    "\<And>k. st_submissions (sr_state r) k \<noteq> None \<Longrightarrow> k \<in> sg_id ` set (sr_accepted r)"
    "\<And>m. m \<in> set (sr_taken r) \<or> m \<in> set (st_pending (sr_state r)) \<Longrightarrow>
        \<exists>sub. st_submissions (sr_state r) (sg_id m) = Some sub \<and> sb_text sub = sg_text m"
    "st_bytes (sr_state r) = sum_list (map (length \<circ> sg_text) (sr_accepted r))"
    "st_bytes (sr_state r) \<le> MAX_TURN_INPUT_BYTES" "length (st_pending (sr_state r)) \<le> MAX_PENDING"
    "\<And>k sub. st_submissions (sr_state r) k = Some sub \<Longrightarrow> length (sb_waiters sub) \<le> MAX_PENDING"
  using assms unfolding steering_ok_def by auto

lemma submit_cases:
  assumes "submit t i body tx s = (s', r)"
  shows "(\<exists>e. r = Inl e) \<and> s' = s
    \<or> r = Inr tx \<and> (\<exists>sub. st_submissions s i = Some sub \<and> sb_text sub = body \<and>
          (sb_applied sub \<and> s' = s\<lparr>st_signalled := st_signalled s @ [tx]\<rparr>
         \<or> length (sb_waiters sub) < MAX_PENDING
            \<and> s' = s\<lparr>st_submissions := (st_submissions s)(i \<mapsto> sub\<lparr>sb_waiters := sb_waiters sub @ [tx]\<rparr>)\<rparr>))
    \<or> r = Inr tx \<and> st_submissions s i = None \<and> \<not> st_closed s \<and> length (st_pending s) < MAX_PENDING
        \<and> st_bytes s + length body \<le> MAX_TURN_INPUT_BYTES
        \<and> s' = s\<lparr>st_bytes := st_bytes s + length body, st_pending := st_pending s @ [\<lparr>sg_id = i, sg_text = body\<rparr>],
                 st_submissions := (st_submissions s)(i \<mapsto> \<lparr>sb_text = body, sb_applied = False, sb_waiters = [tx]\<rparr>)\<rparr>"
proof -
  have "a + b \<le> MAX_TURN_INPUT_BYTES" if "\<not> MAX_TURN_INPUT_BYTES < saturating_add a b" for a b
    using that by (simp add: saturating_add_def MAX_TURN_INPUT_BYTES_def usize_max_def)
  then show ?thesis using assms
    by (auto simp: submit_def push_pending_def split: if_splits option.splits)
qed

lemma steering_ok_submit:
  assumes "steering_ok r" shows "steering_ok (steering_step (Submit t i body tx) r)"
proof -
  obtain s' q where s: "submit t i body tx (sr_state r) = (s', q)" by fastforce
  obtain dropped where inv: "sr_accepted r = sr_taken r @ st_pending (sr_state r) @ dropped"
    "dropped \<noteq> [] \<Longrightarrow> st_closed (sr_state r)"
    "st_closed (sr_state r) \<Longrightarrow> st_pending (sr_state r) = []" "distinct (map sg_id (sr_accepted r))"
    "\<And>k. st_submissions (sr_state r) k \<noteq> None \<Longrightarrow> k \<in> sg_id ` set (sr_accepted r)"
    "\<And>m. m \<in> set (sr_taken r) \<or> m \<in> set (st_pending (sr_state r)) \<Longrightarrow>
        \<exists>sub. st_submissions (sr_state r) (sg_id m) = Some sub \<and> sb_text sub = sg_text m"
    "st_bytes (sr_state r) = sum_list (map (length \<circ> sg_text) (sr_accepted r))"
    "st_bytes (sr_state r) \<le> MAX_TURN_INPUT_BYTES" "length (st_pending (sr_state r)) \<le> MAX_PENDING"
    "\<And>k sub. st_submissions (sr_state r) k = Some sub \<Longrightarrow> length (sb_waiters sub) \<le> MAX_PENDING"
    using assms by (rule steering_okE) blast
  from submit_cases [OF s] show ?thesis
  proof (elim disjE conjE exE)
    fix e assume "q = Inl e" "s' = sr_state r"
    with s assms show ?thesis by simp
  next
    fix sub assume "q = Inr tx" "st_submissions (sr_state r) i = Some sub" "sb_text sub = body"
      "s' = (sr_state r)\<lparr>st_signalled := st_signalled (sr_state r) @ [tx]\<rparr>"
    with s assms show ?thesis by (simp add: steering_ok_def)
  next
    fix sub assume "q = Inr tx" and sub: "st_submissions (sr_state r) i = Some sub" "sb_text sub = body"
      "length (sb_waiters sub) < MAX_PENDING"
      and s': "s' = (sr_state r)\<lparr>st_submissions := (st_submissions (sr_state r))(i \<mapsto> sub\<lparr>sb_waiters := sb_waiters sub @ [tx]\<rparr>)\<rparr>"
    then have step: "steering_step (Submit t i body tx) r = r\<lparr>sr_state := s'\<rparr>" using s by simp
    have same: "\<exists>sb. st_submissions s' (sg_id m) = Some sb \<and> sb_text sb = sg_text m"
      if "m \<in> set (sr_taken r) \<or> m \<in> set (st_pending (sr_state r))" for m
      using inv(6) [OF that] sub(1) unfolding s' by auto
    show ?thesis unfolding step
      by (rule steering_okI [of _ dropped]) (use inv sub same s' in \<open>auto split: if_splits\<close>)
  next
    assume "q = Inr tx" and new: "st_submissions (sr_state r) i = None" "\<not> st_closed (sr_state r)"
      "length (st_pending (sr_state r)) < MAX_PENDING" "st_bytes (sr_state r) + length body \<le> MAX_TURN_INPUT_BYTES"
      and s': "s' = (sr_state r)\<lparr>st_bytes := st_bytes (sr_state r) + length body,
                 st_pending := st_pending (sr_state r) @ [\<lparr>sg_id = i, sg_text = body\<rparr>],
                 st_submissions := (st_submissions (sr_state r))(i \<mapsto> \<lparr>sb_text = body, sb_applied = False, sb_waiters = [tx]\<rparr>)\<rparr>"
    then have step: "steering_step (Submit t i body tx) r
        = r\<lparr>sr_state := s', sr_accepted := sr_accepted r @ [\<lparr>sg_id = i, sg_text = body\<rparr>]\<rparr>" using s by simp
    have none: "dropped = []" using inv(2) new(2) by blast
    have fresh: "sg_id m \<noteq> i" if "m \<in> set (sr_accepted r)" for m
      using inv(6) [of m] that new(1) inv(1) none by auto
    have "\<exists>sb. st_submissions s' (sg_id m) = Some sb \<and> sb_text sb = sg_text m"
      if "m \<in> set (sr_taken r) \<or> m \<in> set (st_pending s')" for m
      using inv(6) [of m] that fresh [of m] inv(1) unfolding s' by auto
    moreover have "distinct (map sg_id (sr_accepted r @ [\<lparr>sg_id = i, sg_text = body\<rparr>]))"
      using inv(4) fresh by auto
    ultimately show ?thesis unfolding step
      by (intro steering_okI [of _ "[]"]) (use inv new none s' in \<open>auto simp: MAX_PENDING_def split: if_splits\<close>)
  qed
qed

lemma steering_ok_step: "steering_ok r \<Longrightarrow> steering_ok (steering_step ev r)"
proof (cases ev)
  case (Submit t i body tx)
  then show "steering_ok r \<Longrightarrow> ?thesis" by (simp only: steering_ok_submit)
next
  case Take
  assume "steering_ok r"
  then show ?thesis
    by (rule steering_okE) (rule steering_okI, auto simp: Take take_pending_def)
next
  case (Acknowledge i)
  assume "steering_ok r"
  then show ?thesis
    by (rule steering_okE)
      (rule steering_okI, auto simp: Acknowledge acknowledge_def split: option.splits if_splits, fastforce+)
next
  case Finish
  assume "steering_ok r"
  then show ?thesis
    by (rule steering_okE) (rule steering_okI, auto simp: Finish finish_if_empty_def split: if_splits)
next
  case Close
  assume "steering_ok r"
  then show ?thesis
    by (rule steering_okE) (rule steering_okI [of _ "drop (length (sr_taken r)) (sr_accepted r)"],
        auto simp: Close steering_close_def restrict_map_def split: if_splits)
qed

lemma steering_run_ok: "steering_ok (run_steering t ops)"
proof -
  have "steering_ok r \<Longrightarrow> steering_ok (fold steering_step ops r)" for r
    by (induction ops arbitrary: r) (simp_all add: steering_ok_step)
  moreover have "steering_ok \<lparr>sr_state = steering_new t, sr_accepted = [], sr_taken = [], sr_acknowledged = []\<rparr>"
    by (simp add: steering_ok_def steering_new_def)
  ultimately show ?thesis by (simp add: run_steering_def)
qed

text \<open>Until the inbox is dropped, nothing accepted is lost.\<close>

lemma steering_kept_step:
  assumes "sr_accepted r = sr_taken r @ st_pending (sr_state r)" "ev \<noteq> Close"
  shows "sr_accepted (steering_step ev r) = sr_taken (steering_step ev r) @ st_pending (sr_state (steering_step ev r))"
proof (cases ev)
  case (Submit t i body tx)
  obtain s' q where s: "submit t i body tx (sr_state r) = (s', q)" by fastforce
  from submit_cases [OF this] Submit s assms show ?thesis by (elim disjE conjE exE) auto
next
  case (Acknowledge i)
  with assms show ?thesis by (simp add: acknowledge_def split: option.split)
qed (use assms in \<open>simp_all add: take_pending_def finish_if_empty_def\<close>)

lemma steering_kept: "Close \<notin> set ops \<Longrightarrow>
    sr_accepted (run_steering t ops) = sr_taken (run_steering t ops) @ st_pending (sr_state (run_steering t ops))"
proof -
  have "Close \<notin> set ops \<Longrightarrow> sr_accepted r = sr_taken r @ st_pending (sr_state r) \<Longrightarrow>
      sr_accepted (fold steering_step ops r) = sr_taken (fold steering_step ops r) @ st_pending (sr_state (fold steering_step ops r))" for r
  proof (induction ops arbitrary: r)
    case (Cons ev ops)
    from Cons.prems have "ev \<noteq> Close" by auto
    from Cons.IH [OF _ steering_kept_step [OF Cons.prems(2) this]] Cons.prems(1) show ?case by simp
  qed simp
  then show "Close \<notin> set ops \<Longrightarrow> ?thesis" by (simp add: run_steering_def steering_new_def)
qed

text \<open>C36. Over any run of a turn's inbox the messages taken are the accepted ones, each once and in the order of
  their acceptance; only closing the inbox drops accepted messages, so a turn that ends because its inbox was found
  empty has taken them all. The inbox never holds more than 32 messages, nor accepts more than 256 KiB.\<close>

theorem steering_exactly_once:
  assumes "r = run_steering t ops"
  shows "(\<exists>rest. sr_accepted r = sr_taken r @ rest) \<and> distinct (map sg_id (sr_taken r))
    \<and> (Close \<notin> set ops \<longrightarrow> sr_accepted r = sr_taken r @ st_pending (sr_state r))
    \<and> (Close \<notin> set ops \<and> st_closed (sr_state r) \<longrightarrow> sr_accepted r = sr_taken r)
    \<and> length (st_pending (sr_state r)) \<le> 32 \<and> sum_list (map (length \<circ> sg_text) (sr_taken r)) \<le> 262144"
proof -
  obtain dropped where inv: "sr_accepted r = sr_taken r @ st_pending (sr_state r) @ dropped"
    "st_closed (sr_state r) \<Longrightarrow> st_pending (sr_state r) = []" "distinct (map sg_id (sr_accepted r))"
    "st_bytes (sr_state r) = sum_list (map (length \<circ> sg_text) (sr_accepted r))"
    "st_bytes (sr_state r) \<le> MAX_TURN_INPUT_BYTES" "length (st_pending (sr_state r)) \<le> MAX_PENDING"
    using steering_run_ok [of t ops] unfolding assms [symmetric] by (rule steering_okE) blast
  moreover have "Close \<notin> set ops \<Longrightarrow> sr_accepted r = sr_taken r @ st_pending (sr_state r)"
    using steering_kept [of ops t] assms by simp
  ultimately show ?thesis by (auto simp: MAX_TURN_INPUT_BYTES_def MAX_PENDING_def)
qed

definition demo_steering :: steering_run where
  "demo_steering = run_steering 7
     [Submit 7 ''a'' ''x'' 1, Submit 7 ''b'' ''y'' 2, Take, Acknowledge ''a'', Finish, Submit 7 ''c'' ''z'' 3]"

theorem steering_exactly_once_witness:
  "sr_taken demo_steering = sr_accepted demo_steering \<and> map sg_id (sr_taken demo_steering) = [''a'', ''b'']
   \<and> st_signalled (sr_state demo_steering) = [1]"
proof -
  have "str_trim ''x'' \<noteq> []" "str_trim ''y'' \<noteq> []" "str_trim ''z'' \<noteq> []"
    by (simp_all add: visible_text visible_def byte_def)
  then have run: "st_closed (sr_state demo_steering) \<and> st_signalled (sr_state demo_steering) = [1]
      \<and> map sg_id (sr_taken demo_steering) = [''a'', ''b'']"
    by (simp add: demo_steering_def run_steering_def steering_new_def submit_def push_pending_def take_pending_def
      acknowledge_def finish_if_empty_def MAX_STEERING_BYTES_def MAX_PENDING_def MAX_TURN_INPUT_BYTES_def
      saturating_add_def usize_max_def)
  have "st_closed (sr_state demo_steering) \<Longrightarrow> sr_accepted demo_steering = sr_taken demo_steering"
    using steering_exactly_once [OF demo_steering_def, THEN conjunct2, THEN conjunct2, THEN conjunct2, THEN conjunct1]
    by simp
  with run show ?thesis by simp
qed

text \<open>A late input either continues the turn or is rejected: no submission of a new identifier succeeds after the
  inbox is closed, while a retry of an accepted one still does.\<close>

lemma closed_rejects_new:
  "st_closed s \<Longrightarrow> st_submissions s i = None \<Longrightarrow> \<exists>e. submit t i body tx s = (s, Inl e)"
  by (simp add: submit_def)

lemma retry_idempotent:
  "submit t i body tx s = (s', Inr tx) \<Longrightarrow> st_submissions s i = Some sub \<Longrightarrow>
     st_pending s' = st_pending s \<and> st_bytes s' = st_bytes s"
  using submit_cases by fastforce

lemma acknowledged_signals:
  "st_submissions s i = Some sub \<Longrightarrow> tx \<in> set (sb_waiters sub) \<Longrightarrow> tx \<in> set (st_signalled (acknowledge i s))"
  by (simp add: acknowledge_def)

lemma inbox_rounds_in_order:
  "mss \<noteq> [] \<Longrightarrow> inbox.rounds mss s = (s', out) \<Longrightarrow> out = st_pending s @ concat mss \<and> st_pending s' = []"
  by (rule inbox.rounds_in_order)

end
