(* ===== verification/Char_Boundary.thy ===== *)
theory Char_Boundary
  imports Axiom_Prelude
begin

text \<open>
  Character boundaries of UTF-8 text (\<open>str::is_char_boundary\<close>) and the two loops of \<open>apps/axiomcli/src/agent.rs\<close> that
  walk back to one: \<open>truncate_utf8\<close> and the partition of a transcript in \<open>compaction_transcripts\<close>. The second may run
  forever on other inputs, so it is a partial function, and that it returns is proved.
\<close>

definition is_char_boundary :: "string \<Rightarrow> nat \<Rightarrow> bool" where
  "is_char_boundary s i \<longleftrightarrow> i = 0 \<or> i = length s \<or> i < length s \<and> \<not> is_continuation (s ! i)"

fun truncate_boundary :: "string \<Rightarrow> nat \<Rightarrow> nat" where
  "truncate_boundary s 0 = 0"
| "truncate_boundary s (Suc i) = (if is_char_boundary s (Suc i) then Suc i else truncate_boundary s i)"

definition truncate_utf8 :: "string \<Rightarrow> nat \<Rightarrow> string \<times> bool" where
  "truncate_utf8 content max_bytes =
     (if length content \<le> max_bytes then (content, False)
      else (take (truncate_boundary content (min max_bytes (length content))) content, True))"

text \<open>The walk of the partition has no test for zero; it stops there because zero is a boundary.\<close>

partial_function (option) walk_back :: "string \<Rightarrow> nat \<Rightarrow> nat option" where
  "walk_back s i = (if is_char_boundary s i then Some i else walk_back s (i - 1))"

partial_function (option) split_transcript :: "nat \<Rightarrow> string \<Rightarrow> string list option" where
  "split_transcript max_bytes remaining =
     (if remaining = [] then Some []
      else Option.bind (walk_back remaining (min max_bytes (length remaining))) (\<lambda>e.
        Option.bind (split_transcript max_bytes (drop e remaining)) (\<lambda>parts. Some (take e remaining # parts))))"

section \<open>Boundaries of a text are the ends of its characters\<close>

lemma scalar_bytes:
  assumes "utf8_chars c = Some [c]"
  shows "0 < length c \<and> length c \<le> 4 \<and> \<not> is_continuation (c ! 0) \<and> (\<forall>i. 0 < i \<and> i < length c \<longrightarrow> is_continuation (c ! i))"
proof -
  from assms obtain a r where c: "c = a # r" by (cases c) auto
  have widen: "in_range lo hi x \<Longrightarrow> 128 \<le> lo \<Longrightarrow> hi \<le> 191 \<Longrightarrow> is_continuation x" for lo hi x
    by (auto simp: in_range_def)
  consider "byte a < 128" "r = []" | b where "r = [b]" "utf8_2 a b" | b d where "r = [b, d]" "utf8_3 a b d"
    | b d e where "r = [b, d, e]" "utf8_4 a b d e"
    using assms unfolding c utf8_chars.simps(2) [of a]
    by (auto split: if_splits list.splits)
  then show ?thesis
  proof cases
    case 1
    then show ?thesis by (simp add: c in_range_def)
  next
    case (2 b)
    then show ?thesis by (auto simp: c utf8_2_def in_range_def less_Suc_eq)
  next
    case (3 b d)
    then have "is_continuation b" "is_continuation d" "\<not> is_continuation a" by (auto simp: utf8_3_def in_range_def)
    with 3 show ?thesis by (auto simp: c less_Suc_eq)
  next
    case (4 b d e)
    then have "is_continuation b" "is_continuation d" "is_continuation e" "\<not> is_continuation a"
      by (auto simp: utf8_4_def in_range_def)
    with 4 show ?thesis by (auto simp: c less_Suc_eq)
  qed
qed

lemma utf8_ok_cases:
  assumes "from_utf8_ok s" "s \<noteq> []"
  obtains c r where "s = c @ r" "utf8_chars c = Some [c]" "from_utf8_ok r"
proof -
  from assms(1) obtain cs where cs: "utf8_chars s = Some cs" by (auto simp: from_utf8_ok_def)
  then obtain c cs' where "cs = c # cs'" using assms(2) utf8_chars_split by (cases cs) fastforce+
  with cs utf8_chars_split [OF cs] utf8_chars_scalars [OF cs] show ?thesis
    by (intro that [of c "concat cs'"]) (auto simp: from_utf8_ok_def utf8_chars_concat)
qed

lemma utf8_ok_induct [consumes 1, case_names Nil Scalar]:
  assumes "from_utf8_ok s" "P []" "\<And>c s. utf8_chars c = Some [c] \<Longrightarrow> from_utf8_ok s \<Longrightarrow> P s \<Longrightarrow> P (c @ s)"
  shows "P s"
  using assms(1)
proof (induction "length s" arbitrary: s rule: less_induct)
  case less
  show ?case
  proof (cases "s = []")
    case False
    obtain c r where s: "s = c @ r" "utf8_chars c = Some [c]" "from_utf8_ok r" using utf8_ok_cases [OF less.prems False] .
    with scalar_bytes [of c] less.hyps [of r] assms(3) show ?thesis by auto
  qed (use assms(2) in simp)
qed

lemma boundary_zero [simp]: "is_char_boundary s 0" "is_char_boundary s (length s)"
  by (simp_all add: is_char_boundary_def)

lemma boundary_append:
  assumes "utf8_chars c = Some [c]" "from_utf8_ok s"
  shows "is_char_boundary (c @ s) i \<longleftrightarrow> i = 0 \<or> length c \<le> i \<and> is_char_boundary s (i - length c)"
proof (cases "length c \<le> i")
  case True
  have "s \<noteq> [] \<Longrightarrow> \<not> is_continuation (s ! 0)"
  proof -
    assume "s \<noteq> []"
    then obtain d r where "s = d @ r" "utf8_chars d = Some [d]" using utf8_ok_cases assms(2) by blast
    then show ?thesis using scalar_bytes [of d] by (simp add: nth_append)
  qed
  moreover have "0 < length c" using scalar_bytes [OF assms(1)] by blast
  moreover obtain k where "i = length c + k" using True le_Suc_ex by blast
  ultimately show ?thesis by (cases k; cases "s = []") (simp_all add: is_char_boundary_def nth_append)
next
  case False
  then have "0 < i \<Longrightarrow> is_continuation (c ! i)" using scalar_bytes [OF assms(1)] by simp
  with False show ?thesis by (cases "i = 0") (simp_all add: is_char_boundary_def nth_append)
qed

lemma boundary_split:
  "from_utf8_ok s \<Longrightarrow> is_char_boundary s i \<Longrightarrow> i \<le> length s \<Longrightarrow> from_utf8_ok (take i s) \<and> from_utf8_ok (drop i s)"
proof (induction s arbitrary: i rule: utf8_ok_induct)
  case Nil
  then show ?case by (simp add: from_utf8_ok_def)
next
  case (Scalar c s)
  have more: "from_utf8_ok r \<Longrightarrow> from_utf8_ok (c @ r)" for r
    using Scalar.hyps(1) by (auto simp: from_utf8_ok_def utf8_scalar_append)
  show ?case
  proof (cases "i = 0")
    case True
    have "from_utf8_ok []" by (simp add: from_utf8_ok_def)
    with True more [OF Scalar.hyps(2)] show ?thesis by simp
  next
    case False
    then have i: "length c \<le> i" "is_char_boundary s (i - length c)"
      using Scalar.prems(1) boundary_append [OF Scalar.hyps(1,2), of i] by simp_all
    have "i - length c \<le> length s" using Scalar.prems(2) by simp
    note parts = Scalar.IH [OF i(2) this]
    with more [OF conjunct1 [OF parts]] i(1) show ?thesis by simp
  qed
qed

lemma first_boundary:
  assumes "from_utf8_ok s" "s \<noteq> []" shows "\<exists>i. 0 < i \<and> i \<le> 4 \<and> i \<le> length s \<and> is_char_boundary s i"
proof -
  obtain c r where s: "s = c @ r" "utf8_chars c = Some [c]" "from_utf8_ok r" using utf8_ok_cases [OF assms] .
  then have "is_char_boundary s (length c)" using boundary_append by simp
  with s scalar_bytes [of c] show ?thesis by (intro exI [of _ "length c"]) simp
qed

section \<open>The walks\<close>

lemma walk_back_greatest:
  "\<exists>j \<le> i. walk_back s i = Some j \<and> is_char_boundary s j \<and> (\<forall>k. is_char_boundary s k \<and> k \<le> i \<longrightarrow> k \<le> j)"
proof (induction i)
  case 0
  show ?case by (simp add: walk_back.simps)
next
  case (Suc i)
  show ?case
  proof (cases "is_char_boundary s (Suc i)")
    case True
    then show ?thesis by (auto simp: walk_back.simps)
  next
    case False
    from Suc obtain j where "j \<le> i" "walk_back s i = Some j" "is_char_boundary s j"
      "\<forall>k. is_char_boundary s k \<and> k \<le> i \<longrightarrow> k \<le> j" by blast
    with False show ?thesis by (intro exI [of _ j]) (auto simp: walk_back.simps [of s "Suc i"] le_Suc_eq)
  qed
qed

lemma truncate_boundary_walk: "walk_back s i = Some (truncate_boundary s i)"
  by (induction i) (simp_all add: walk_back.simps)

lemma truncate_utf8_prefix:
  assumes "from_utf8_ok content" "truncate_utf8 content max_bytes = (out, cut_short)"
  shows "from_utf8_ok out \<and> length out \<le> max_bytes \<and> (\<exists>rest. content = out @ rest) \<and> (cut_short \<longleftrightarrow> max_bytes < length content)"
proof (cases "length content \<le> max_bytes")
  case True
  with assms show ?thesis by (auto simp: truncate_utf8_def)
next
  case False
  let ?j = "truncate_boundary content (min max_bytes (length content))"
  have j: "?j \<le> max_bytes \<and> is_char_boundary content ?j"
    using walk_back_greatest [of "min max_bytes (length content)" content] False by (auto simp: truncate_boundary_walk)
  then have "?j \<le> length content" using False by linarith
  with j boundary_split [OF assms(1), of ?j] False assms(2) show ?thesis
    by (auto simp: truncate_utf8_def intro: append_take_drop_id [symmetric])
qed

lemma split_transcript_parts:
  "from_utf8_ok s \<Longrightarrow> 4 \<le> max_bytes \<Longrightarrow>
     \<exists>parts. split_transcript max_bytes s = Some parts \<and> concat parts = s
       \<and> (\<forall>p \<in> set parts. p \<noteq> [] \<and> length p \<le> max_bytes \<and> from_utf8_ok p)"
proof (induction "length s" arbitrary: s rule: less_induct)
  case less
  show ?case
  proof (cases "s = []")
    case True
    then show ?thesis by (simp add: split_transcript.simps)
  next
    case False
    let ?i = "min max_bytes (length s)"
    obtain j where j: "j \<le> ?i" "walk_back s ?i = Some j" "is_char_boundary s j"
      "\<And>k. is_char_boundary s k \<Longrightarrow> k \<le> ?i \<Longrightarrow> k \<le> j"
      using walk_back_greatest [of ?i s] by blast
    obtain f where f: "0 < f" "f \<le> 4" "f \<le> length s" "is_char_boundary s f"
      using first_boundary [OF less.prems(1) False] by blast
    then have "0 < j" using j(4) [of f] less.prems(2) by linarith
    have ok: "from_utf8_ok (take j s)" "from_utf8_ok (drop j s)"
      using boundary_split [OF less.prems(1) j(3)] j(1) by auto
    obtain parts where "split_transcript max_bytes (drop j s) = Some parts" "concat parts = drop j s"
      "\<forall>p \<in> set parts. p \<noteq> [] \<and> length p \<le> max_bytes \<and> from_utf8_ok p"
      using less.hyps [of "drop j s"] ok(2) less.prems(2) \<open>0 < j\<close> False by auto
    with j ok \<open>0 < j\<close> False show ?thesis
      by (intro exI [of _ "take j s # parts"]) (simp add: split_transcript.simps [of _ s])
  qed
qed

end
