(* ===== verification/Planning.thy ===== *)
theory Planning
  imports App_Types "HOL-Library.Char_ord" "HOL-Library.List_Lexorder"
begin

text \<open>
  Plans and the tools that talk to the user: \<open>apps/axiomcli/src/planning.rs\<close>, the plan, question and progress tools of
  \<open>tools.rs\<close>, and \<open>validate_answers\<close> of \<open>agent.rs\<close>. The file system is the \<open>fs_view\<close> of \<open>Rust_Path\<close> together with what
  reading a plan file gives; fresh identifiers are arguments.
\<close>

section \<open>Plan artifacts\<close>

datatype plan_state = Draft | Proposed | RevisionRequested | Approved | Abandoned

record plan_comment =
  pc_id :: string
  pc_start_line :: nat
  pc_end_line :: nat
  pc_text :: string

record plan_artifact =
  pa_id :: string
  pa_revision :: nat
  pa_state :: plan_state
  pa_markdown :: string
  pa_comments :: "plan_comment list"

definition plan_new :: "string \<Rightarrow> string \<Rightarrow> plan_artifact" where
  "plan_new i markdown =
     \<lparr>pa_id = i, pa_revision = 1, pa_state = Draft, pa_markdown = markdown, pa_comments = []\<rparr>"

primrec plan_state_debug :: "plan_state \<Rightarrow> string" where
  "plan_state_debug Draft = ''Draft''"
| "plan_state_debug Proposed = ''Proposed''"
| "plan_state_debug RevisionRequested = ''RevisionRequested''"
| "plan_state_debug Approved = ''Approved''"
| "plan_state_debug Abandoned = ''Abandoned''"

definition transition_allowed :: "plan_state \<Rightarrow> plan_state \<Rightarrow> bool" where
  "transition_allowed s target \<longleftrightarrow>
     (s, target) \<in> {(Draft, Proposed), (Proposed, Approved), (Draft, Abandoned), (Proposed, Abandoned),
       (RevisionRequested, Abandoned)}"

definition plan_transition :: "plan_state \<Rightarrow> plan_artifact \<Rightarrow> (plan_artifact, axiom_error, unit) outcome" where
  "plan_transition target p =
     (if \<not> transition_allowed (pa_state p) target
      then (p, Inl (InvalidTransition [Lit ''plan cannot transition from '', Text (plan_state_debug (pa_state p)),
        Lit '' to '', Text (plan_state_debug target)]))
      else (p\<lparr>pa_state := target\<rparr>, Inr ()))"

definition plan_propose :: "plan_artifact \<Rightarrow> (plan_artifact, axiom_error, unit) outcome" where
  "plan_propose p = plan_transition Proposed p"

definition plan_approve :: "plan_artifact \<Rightarrow> (plan_artifact, axiom_error, unit) outcome" where
  "plan_approve p = plan_transition Approved p"

definition plan_abandon :: "plan_artifact \<Rightarrow> (plan_artifact, axiom_error, unit) outcome" where
  "plan_abandon p = plan_transition Abandoned p"

text \<open>\<open>str::lines().count()\<close>.\<close>

definition line_count :: "string \<Rightarrow> nat" where
  "line_count s = count_list s (CHR 0x0A) + (if s = [] \<or> last s = CHR 0x0A then 0 else 1)"

definition plan_comment_add ::
  "string \<Rightarrow> nat \<Rightarrow> nat \<Rightarrow> string \<Rightarrow> plan_artifact \<Rightarrow> (plan_artifact, axiom_error, unit) outcome" where
  "plan_comment_add i start_line end_line body p =
     (if str_trim body = [] \<or> start_line = 0 \<or> end_line < start_line \<or> max (line_count (pa_markdown p)) 1 < end_line
      then (p, Inl (InvalidTransition [Lit ''plan comment range is invalid'']))
      else (p\<lparr>pa_comments := pa_comments p @
              [\<lparr>pc_id = i, pc_start_line = start_line, pc_end_line = end_line, pc_text = body\<rparr>]\<rparr>, Inr ()))"

definition plan_request_revision ::
  "string \<Rightarrow> nat \<Rightarrow> nat \<Rightarrow> string \<Rightarrow> plan_artifact \<Rightarrow> (plan_artifact, axiom_error, unit) outcome" where
  "plan_request_revision i start_line end_line body p =
     (if pa_state p \<noteq> Proposed
      then (p, Inl (InvalidTransition [Lit ''only a proposed plan can receive a revision request'']))
      else obind (plan_comment_add i start_line end_line body p) (\<lambda>q _. (q\<lparr>pa_state := RevisionRequested\<rparr>, Inr ())))"

definition validate_markdown :: "string \<Rightarrow> axiom_error + unit" where
  "validate_markdown markdown =
     (if str_trim markdown = [] then Inl (InvalidTransition [Lit ''plan markdown cannot be empty''])
      else if 1024 * 1024 < length markdown
      then Inl (InvalidTransition [Lit ''plan markdown exceeds the 1 MiB development limit''])
      else Inr ())"

definition plan_revise :: "nat \<Rightarrow> string \<Rightarrow> plan_artifact \<Rightarrow> (plan_artifact, axiom_error, unit) outcome" where
  "plan_revise expected markdown p =
     (if pa_revision p \<noteq> expected
      then (p, Inl (InvalidTransition [Lit ''stale plan revision: expected '', Num expected, Lit '', current '',
        Num (pa_revision p)]))
      else if pa_state p \<in> {Approved, Abandoned}
      then (p, Inl (InvalidTransition [Lit ''terminal plan cannot be revised'']))
      else (case validate_markdown markdown of
          Inl e \<Rightarrow> (p, Inl e)
        | Inr _ \<Rightarrow>
            (p\<lparr>pa_markdown := markdown, pa_revision := saturating_add (pa_revision p) 1, pa_state := Draft\<rparr>, Inr ())))"

section \<open>Plan files\<close>

text \<open>What reading a plan file gives: an I/O error, bytes that are not a plan, or a plan.\<close>

datatype plan_file = Unreadable | Not_a_plan | Plan_file plan_artifact

definition PLANS :: path where "PLANS = path_of ''.axiomcli/plans''"

definition plan_file_name :: "string \<Rightarrow> string" where
  "plan_file_name i = i @ ''.json''"

definition plan_policy_path :: "path \<Rightarrow> string option \<Rightarrow> path" where
  "plan_policy_path workspace i =
     path_join (path_join workspace PLANS) (path_of (plan_file_name (case i of None \<Rightarrow> ''new-plan'' | Some s \<Rightarrow> s)))"

definition canonical :: "fs_view \<Rightarrow> path \<Rightarrow> axiom_error + path" where
  "canonical fs p = ok_or Io (fs_canonicalize fs p)"

text \<open>\<open>save\<close> up to the write: the file it renames into place; \<open>created\<close> and \<open>written\<close> tell whether the directory and
  the file could be made.\<close>

definition plan_save :: "fs_view \<Rightarrow> bool \<Rightarrow> bool \<Rightarrow> path \<Rightarrow> plan_artifact \<Rightarrow> axiom_error + path" where
  "plan_save fs created written workspace p =
     rbind (validate_markdown (pa_markdown p)) (\<lambda>_.
     rbind (canonical fs workspace) (\<lambda>base.
     if \<not> created then Inl Io
     else rbind (canonical fs (path_join base PLANS)) (\<lambda>directory.
       if \<not> path_starts_with directory base then Inl (OutsideWorkspace directory)
       else if \<not> written then Inl Io
       else Inr (path_join directory (path_of (plan_file_name (pa_id p)))))))"

definition plan_load :: "fs_view \<Rightarrow> (path \<Rightarrow> plan_file) \<Rightarrow> path \<Rightarrow> string \<Rightarrow> axiom_error + plan_artifact" where
  "plan_load fs read workspace i =
     (if \<not> list_all (\<lambda>c. is_ascii_alphanumeric c \<or> c = CHR ''-'') i then Inl (OutsideWorkspace (path_of i))
      else rbind (canonical fs workspace) (\<lambda>base.
        rbind (canonical fs (path_join (path_join base PLANS) (path_of (plan_file_name i)))) (\<lambda>p.
          if \<not> path_starts_with p base then Inl (OutsideWorkspace p)
          else (case read p of
              Unreadable \<Rightarrow> Inl Io
            | Not_a_plan \<Rightarrow> Inl Json
            | Plan_file plan \<Rightarrow>
                if pa_id plan \<noteq> i
                then Inl (Storage [Lit ''plan file identity does not match its requested ID''])
                else rbind (validate_markdown (pa_markdown plan)) (\<lambda>_. Inr plan)))))"

text \<open>The entries of the plan directory; \<open>None\<close> is an entry that could not be read.\<close>

definition is_json_file :: "path \<Rightarrow> bool" where
  "is_json_file p = (case file_name p of Some n \<Rightarrow> ends_with n ''.json'' \<and> n \<noteq> ''.json'' | None \<Rightarrow> False)"

fun list_entries :: "(path \<Rightarrow> plan_file) \<Rightarrow> path option list \<Rightarrow> axiom_error + plan_artifact list" where
  "list_entries read [] = Inr []"
| "list_entries read (None # es) = Inl Io"
| "list_entries read (Some p # es) =
     (if is_json_file p
      then (case read p of
          Unreadable \<Rightarrow> Inl Io
        | Not_a_plan \<Rightarrow> Inl Json
        | Plan_file plan \<Rightarrow> map_sum id (Cons plan) (list_entries read es))
      else list_entries read es)"

definition plan_list ::
  "fs_view \<Rightarrow> (path \<Rightarrow> path option list option) \<Rightarrow> (path \<Rightarrow> plan_file) \<Rightarrow> path \<Rightarrow> axiom_error + plan_artifact list" where
  "plan_list fs read_dir read workspace =
     rbind (canonical fs workspace) (\<lambda>base.
       if \<not> fs_exists fs (path_join base PLANS) then Inr []
       else rbind (canonical fs (path_join base PLANS)) (\<lambda>directory.
         if \<not> path_starts_with directory base then Inl (OutsideWorkspace directory)
         else rbind (ok_or Io (read_dir directory)) (\<lambda>entries.
           map_sum id (sort_key pa_id) (list_entries read entries))))"

section \<open>Questions and answers\<close>

definition question_ok :: "question_spec \<Rightarrow> bool" where
  "question_ok q \<longleftrightarrow> str_trim (qs_id q) \<noteq> [] \<and> str_trim (qs_prompt q) \<noteq> [] \<and> length (qs_options q) \<le> 5
     \<and> (\<forall>o1 \<in> set (qs_options q). str_trim o1 \<noteq> []) \<and> \<not> (qs_multiple q \<and> qs_options q = [])"

definition validate_question_args :: "question_spec list \<Rightarrow> axiom_error + question_spec list" where
  "validate_question_args questions =
     (if questions = [] \<or> 3 < length questions
      then Inl (Tool_error [Lit ''ask_user_questions requires 1-3 questions''])
      else if \<not> list_all question_ok questions \<or> \<not> distinct (map qs_id questions)
      then Inl (Tool_error [Lit (''questions require unique non-empty IDs/prompts, at most five non-empty options, ''
        @ ''and multiple selection requires explicit options'')])
      else Inr questions)"

type_synonym answers = "(string \<times> string list) list"

fun validate_answers_loop :: "question_spec list \<Rightarrow> answers \<Rightarrow> axiom_error + answers" where
  "validate_answers_loop [] answers = Inr answers"
| "validate_answers_loop (q # qs) answers =
     (let missing = Tool_error [Lit ''missing answer for `'', Text (qs_id q), Lit ''`''] in
      case map_of answers (qs_id q) of
        None \<Rightarrow> if qs_required q then Inl missing else validate_answers_loop qs answers
      | Some [] \<Rightarrow> if qs_required q then Inl missing else validate_answers_loop qs answers
      | Some values \<Rightarrow>
          if \<not> qs_multiple q \<and> length values \<noteq> 1
          then Inl (Tool_error [Lit ''invalid answer count for `'', Text (qs_id q), Lit ''`''])
          else if qs_options q \<noteq> [] \<and> (\<exists>v \<in> set values. v \<notin> set (qs_options q))
          then Inl (Tool_error [Lit ''answer for `'', Text (qs_id q), Lit ''` is not one of its options''])
          else validate_answers_loop qs answers)"

definition validate_answers :: "question_request \<Rightarrow> answers \<Rightarrow> axiom_error + answers" where
  "validate_answers request answers = validate_answers_loop (qr_questions request) answers"

section \<open>Tool results\<close>

record tool_result =
  tr_content :: string
  tr_images :: "image_content list"
  tr_success :: bool
  tr_truncated :: bool
  tr_changed_paths :: "path list"
  tr_diff :: "string option"
  tr_file_diffs :: "file_diff list"
  tr_background :: "(string \<times> string) option"
  tr_events :: "app_event list"
  tr_questions :: "question_request option"

definition tool_success :: "string \<Rightarrow> tool_result" where
  "tool_success content =
     \<lparr>tr_content = content, tr_images = [], tr_success = True, tr_truncated = False, tr_changed_paths = [],
      tr_diff = None, tr_file_diffs = [], tr_background = None, tr_events = [], tr_questions = None\<rparr>"

definition ask_user_questions :: "string \<Rightarrow> question_spec list \<Rightarrow> axiom_error + tool_result" where
  "ask_user_questions request_id questions =
     map_sum id (\<lambda>qs. (tool_success ''waiting for structured answers'')
       \<lparr>tr_questions := Some \<lparr>qr_request_id = request_id, qr_questions = qs\<rparr>\<rparr>) (validate_question_args questions)"

section \<open>The plan tools\<close>

text \<open>The plan files on disk, how the file system answers a save, and the JSON texts the tools return.\<close>

type_synonym plan_store = "path \<Rightarrow> plan_file"

record plan_io =
  pi_fs :: fs_view
  pi_created :: bool
  pi_written :: bool
  pi_workspace :: path
  pi_json :: "plan_artifact \<Rightarrow> string option"
  pi_created_json :: "plan_artifact \<Rightarrow> path \<Rightarrow> string option"

definition save_to :: "plan_io \<Rightarrow> plan_artifact \<Rightarrow> plan_store \<Rightarrow> (plan_store, axiom_error, path) outcome" where
  "save_to io p store =
     (case plan_save (pi_fs io) (pi_created io) (pi_written io) (pi_workspace io) p of
        Inl e \<Rightarrow> (store, Inl e)
      | Inr file \<Rightarrow> (store(file := Plan_file p), Inr file))"

definition load_from :: "plan_io \<Rightarrow> plan_store \<Rightarrow> string \<Rightarrow> axiom_error + plan_artifact" where
  "load_from io store i = plan_load (pi_fs io) store (pi_workspace io) i"

text \<open>A change of a loaded plan that is then saved.\<close>

definition update_plan ::
  "plan_io \<Rightarrow> string \<Rightarrow> (plan_artifact \<Rightarrow> (plan_artifact, axiom_error, unit) outcome) \<Rightarrow> plan_store \<Rightarrow>
     (plan_store, axiom_error, plan_artifact) outcome" where
  "update_plan io i change store =
     (case load_from io store i of
        Inl e \<Rightarrow> (store, Inl e)
      | Inr plan \<Rightarrow>
          (case change plan of
             (_, Inl e) \<Rightarrow> (store, Inl e)
           | (plan', Inr _) \<Rightarrow> obind (save_to io plan' store) (\<lambda>store' _. (store', Inr plan'))))"

definition create_plan :: "plan_io \<Rightarrow> string \<Rightarrow> string \<Rightarrow> plan_store \<Rightarrow> (plan_store, axiom_error, tool_result) outcome" where
  "create_plan io i markdown store =
     (let plan = plan_new i markdown in
      obind (save_to io plan store) (\<lambda>store' file.
        (store', map_sum id tool_success (ok_or Json (pi_created_json io plan file)))))"

definition revise_plan ::
  "plan_io \<Rightarrow> string \<Rightarrow> nat \<Rightarrow> string \<Rightarrow> plan_store \<Rightarrow> (plan_store, axiom_error, tool_result) outcome" where
  "revise_plan io i expected markdown store =
     obind (update_plan io i (plan_revise expected markdown) store) (\<lambda>store' plan.
       (store', map_sum id tool_success (ok_or Json (pi_json io plan))))"

definition question :: "string \<Rightarrow> string \<Rightarrow> string list \<Rightarrow> bool \<Rightarrow> question_spec" where
  "question i prompt options required =
     \<lparr>qs_id = i, qs_prompt = prompt, qs_options = options, qs_multiple = False, qs_required = required\<rparr>"

definition review_request :: "(nat \<Rightarrow> string) \<Rightarrow> plan_artifact \<Rightarrow> question_request" where
  "review_request digits plan =
     \<lparr>qr_request_id = ''plan-review:'' @ pa_id plan @ '':r'' @ digits (pa_revision plan),
      qr_questions =
        [question ''decision'' ''Review this plan'' [''approve'', ''request_revision'', ''abandon''] True,
         question ''line_range'' ''Revision line/range (N, N-M, or all)'' [] False,
         question ''comment'' ''Revision comment'' [] False]\<rparr>"

definition propose_plan ::
  "plan_io \<Rightarrow> (nat \<Rightarrow> string) \<Rightarrow> string \<Rightarrow> plan_store \<Rightarrow> (plan_store, axiom_error, tool_result) outcome" where
  "propose_plan io digits i store =
     obind (update_plan io i plan_propose store) (\<lambda>store' plan.
       (store', rbind (ok_or Json (pi_json io plan)) (\<lambda>content.
          Inr ((tool_success content)\<lparr>tr_events := [PlanProposed (pa_id plan) (pa_revision plan) (pa_markdown plan)],
            tr_questions := Some (review_request digits plan)\<rparr>))))"

definition one_answer :: "answers \<Rightarrow> string \<Rightarrow> axiom_error + string" where
  "one_answer answers i =
     (case map_of answers i of
        Some (v # _) \<Rightarrow> Inr v
      | _ \<Rightarrow> Inl (Tool_error [Lit ''missing plan review answer `'', Text i, Lit ''`'']))"

text \<open>\<open>str::parse::<usize>\<close> admits one leading plus sign.\<close>

definition parse_usize :: "string \<Rightarrow> nat option" where
  "parse_usize s =
     (case s of c # r \<Rightarrow> if c = CHR ''+'' then parse_u64_digits r else parse_u64_digits s | [] \<Rightarrow> None)"

definition parse_plan_line_range :: "string \<Rightarrow> nat \<Rightarrow> axiom_error + (nat \<times> nat)" where
  "parse_plan_line_range v count =
     (let line_count = max count 1; bad = Tool_error [Lit ''plan line range must be N, N-M, or all''] in
      if to_ascii_lowercase (str_trim v) = ''all'' \<or> str_trim v = ''-'' then Inr (1, line_count)
      else (let (s, e) = (case split_once ''-'' v of Some p \<Rightarrow> p | None \<Rightarrow> (v, v)) in
        rbind (ok_or bad (parse_usize (str_trim s))) (\<lambda>start.
        rbind (ok_or bad (parse_usize (str_trim e))) (\<lambda>stop.
          if start = 0 \<or> stop < start \<or> line_count < stop
          then Inl (Tool_error [Lit ''plan line range must be within 1-'', Num line_count])
          else Inr (start, stop)))))"

definition review_decision ::
  "answers \<Rightarrow> string \<Rightarrow> plan_artifact \<Rightarrow> (plan_artifact, axiom_error, unit) outcome" where
  "review_decision answers comment_id plan =
     (case one_answer answers ''decision'' of
        Inl e \<Rightarrow> (plan, Inl e)
      | Inr d \<Rightarrow>
          if d = ''approve'' then plan_approve plan
          else if d = ''abandon'' then plan_abandon plan
          else if d = ''request_revision''
          then (case rbind (one_answer answers ''line_range'') (\<lambda>r.
                   rbind (parse_plan_line_range r (line_count (pa_markdown plan))) (\<lambda>range.
                   rbind (one_answer answers ''comment'') (\<lambda>body.
                     if body = ''-'' then Inl (Tool_error [Lit ''a revision request requires a line comment''])
                     else Inr (range, body)))) of
                 Inl e \<Rightarrow> (plan, Inl e)
               | Inr ((start, stop), body) \<Rightarrow> plan_request_revision comment_id start stop body plan)
          else (plan, Inl (Tool_error [Lit ''unknown plan review decision''])))"

definition decision_text :: "plan_state \<Rightarrow> axiom_error + string" where
  "decision_text s =
     (case s of
        Approved \<Rightarrow> Inr ''approved''
      | RevisionRequested \<Rightarrow> Inr ''revision_requested''
      | Abandoned \<Rightarrow> Inr ''abandoned''
      | _ \<Rightarrow> Inl (Tool_error [Lit ''plan review did not reach a reviewed state'']))"

definition complete_interaction ::
  "plan_io \<Rightarrow> string \<Rightarrow> string \<Rightarrow> axiom_error + string \<Rightarrow> answers \<Rightarrow> plan_store \<Rightarrow>
     (plan_store, axiom_error, tool_result option) outcome" where
  "complete_interaction io comment_id name plan_id answers store =
     (if name \<noteq> ''plan_propose'' then (store, Inr None)
      else (case plan_id of
          Inl e \<Rightarrow> (store, Inl e)
        | Inr i \<Rightarrow>
            obind (update_plan io i (review_decision answers comment_id) store) (\<lambda>store' plan.
              (store', rbind (decision_text (pa_state plan)) (\<lambda>d.
                 rbind (ok_or Json (pi_json io plan)) (\<lambda>content.
                   Inr (Some ((tool_success content)\<lparr>tr_events := [PlanReviewed (pa_id plan) (pa_revision plan) d]\<rparr>))))))))"

section \<open>Progress reports\<close>

record progress_args =
  pg_message :: string
  pg_completed :: "nat option"
  pg_total :: "nat option"
  pg_tasks :: "task_item list"

definition task_ok :: "task_item \<Rightarrow> bool" where
  "task_ok k \<longleftrightarrow> str_trim (ti_id k) \<noteq> [] \<and> length (ti_id k) \<le> 128 \<and> str_trim (ti_title k) \<noteq> [] \<and> length (ti_title k) \<le> 512"

definition validate_progress :: "progress_args \<Rightarrow> axiom_error + progress_args" where
  "validate_progress a =
     (if str_trim (pg_message a) = [] \<or> 1024 < length (pg_message a)
      then Inl (Tool_error [Lit ''progress message must contain 1-1024 bytes''])
      else if (case (pg_completed a, pg_total a) of (Some d, Some t) \<Rightarrow> t < d | _ \<Rightarrow> False)
      then Inl (Tool_error [Lit ''progress completed count cannot exceed total''])
      else if (pg_completed a \<noteq> None) \<noteq> (pg_total a \<noteq> None)
      then Inl (Tool_error [Lit ''progress completed and total must be supplied together''])
      else if 100 < length (pg_tasks a) then Inl (Tool_error [Lit ''progress has more than 100 tasks''])
      else if \<not> list_all task_ok (pg_tasks a) \<or> \<not> distinct (map ti_id (pg_tasks a))
      then Inl (Tool_error [Lit ''tasks require unique bounded non-empty IDs and titles''])
      else Inr a)"

definition update_progress :: "progress_args \<Rightarrow> axiom_error + tool_result" where
  "update_progress a =
     map_sum id (\<lambda>a. (tool_success ''progress recorded'')
       \<lparr>tr_events := (if pg_tasks a = [] then [] else [TaskListUpdated (pg_tasks a)])
          @ [ProgressUpdated (pg_message a) (pg_completed a) (pg_total a)]\<rparr>) (validate_progress a)"

section \<open>Runs of the plan tools\<close>

datatype plan_op =
    Create_op string string
  | Revise_op string nat string
  | Propose_op string
  | Review_op string string answers

primrec plan_step :: "plan_io \<Rightarrow> (nat \<Rightarrow> string) \<Rightarrow> plan_op \<Rightarrow> plan_store \<Rightarrow> plan_store" where
  "plan_step io digits (Create_op i markdown) store = fst (create_plan io i markdown store)"
| "plan_step io digits (Revise_op i expected markdown) store = fst (revise_plan io i expected markdown store)"
| "plan_step io digits (Propose_op i) store = fst (propose_plan io digits i store)"
| "plan_step io digits (Review_op i comment_id answers) store =
     fst (complete_interaction io comment_id ''plan_propose'' (Inr i) answers store)"

definition run_plans :: "plan_io \<Rightarrow> (nat \<Rightarrow> string) \<Rightarrow> plan_op list \<Rightarrow> plan_store \<Rightarrow> plan_store" where
  "run_plans io digits ops store = fold (plan_step io digits) ops store"

text \<open>No plan file is a symbolic link: a plan is read where it is written.\<close>

definition plain_plan_files :: "plan_io \<Rightarrow> bool" where
  "plain_plan_files io \<longleftrightarrow>
     (\<forall>base directory i file. canonical (pi_fs io) (pi_workspace io) = Inr base \<longrightarrow>
        canonical (pi_fs io) (path_join base PLANS) = Inr directory \<longrightarrow>
        canonical (pi_fs io) (path_join (path_join base PLANS) (path_of (plan_file_name i))) = Inr file \<longrightarrow>
        file = path_join directory (path_of (plan_file_name i)))"

section \<open>Properties\<close>

lemma plan_transition_ok:
  "plan_transition s p = (q, Inr u) \<Longrightarrow> transition_allowed (pa_state p) s \<and> q = p\<lparr>pa_state := s\<rparr>"
  by (auto simp: plan_transition_def split: if_splits)

lemma plan_revise_ok:
  "plan_revise n markdown p = (q, Inr u) \<Longrightarrow>
     pa_state p \<notin> {Approved, Abandoned} \<and> pa_revision p = n \<and> pa_state q = Draft \<and> pa_markdown q = markdown
     \<and> pa_revision q = saturating_add n 1 \<and> pa_id q = pa_id p"
  by (auto simp: plan_revise_def split: if_splits sum.splits)

lemma plan_comment_ok:
  "plan_comment_add i a b body p = (q, Inr u) \<Longrightarrow>
     q = p\<lparr>pa_comments := pa_comments p @ [\<lparr>pc_id = i, pc_start_line = a, pc_end_line = b, pc_text = body\<rparr>]\<rparr>
     \<and> 1 \<le> a \<and> a \<le> b \<and> b \<le> max (line_count (pa_markdown p)) 1 \<and> str_trim body \<noteq> []"
  by (auto simp: plan_comment_add_def split: if_splits)

lemma plan_request_revision_ok:
  "plan_request_revision i a b body p = (q, Inr u) \<Longrightarrow>
     pa_state p = Proposed \<and> pa_state q = RevisionRequested \<and> pa_id q = pa_id p"
  unfolding plan_request_revision_def
  by (auto simp: obind_def dest!: plan_comment_ok split: if_splits prod.splits sum.splits)

lemma review_decision_ok:
  assumes "review_decision answers c p = (q, Inr u)"
  shows "pa_state p \<notin> {Approved, Abandoned} \<and> pa_id q = pa_id p"
    and "pa_state q = Approved \<Longrightarrow>
      pa_state p = Proposed \<and> q = p\<lparr>pa_state := Approved\<rparr> \<and> one_answer answers ''decision'' = Inr ''approve''"
  using assms unfolding review_decision_def plan_approve_def plan_abandon_def
  by (auto dest!: plan_transition_ok plan_request_revision_ok simp: transition_allowed_def
      split: sum.splits if_splits prod.splits)

text \<open>What a plan read from disk is: the plan of that identifier, under the workspace.\<close>

lemma plan_file_case_Inr:
  "(case f of Unreadable \<Rightarrow> Inl a | Not_a_plan \<Rightarrow> Inl b | Plan_file x \<Rightarrow> g x) = Inr v \<longleftrightarrow>
     (\<exists>x. f = Plan_file x \<and> g x = Inr v)"
  by (cases f) simp_all

lemma plan_load_ok:
  assumes "plan_load fs read ws i = Inr p"
  obtains base place where "canonical fs ws = Inr base"
    and "canonical fs (path_join (path_join base PLANS) (path_of (plan_file_name i))) = Inr place"
    and "path_starts_with place base" "read place = Plan_file p" "pa_id p = i"
    and "validate_markdown (pa_markdown p) = Inr ()"
  using assms unfolding plan_load_def success_iffs plan_file_case_Inr by blast

lemma plan_save_ok:
  "plan_save fs c w ws p = Inr file \<Longrightarrow>
     \<exists>base directory. canonical fs ws = Inr base \<and> canonical fs (path_join base PLANS) = Inr directory
       \<and> path_starts_with directory base \<and> file = path_join directory (path_of (plan_file_name (pa_id p)))
       \<and> validate_markdown (pa_markdown p) = Inr ()"
  by (auto simp: plan_save_def success_iffs split: if_splits)

lemma obind_state: "(\<And>s a. fst (k s a) = s) \<Longrightarrow> fst (obind r k) = fst r"
  by (cases r) (simp add: obind_def split: sum.split)

lemma save_to_cases:
  "fst (save_to io p store) = store
   \<or> (\<exists>place. plan_save (pi_fs io) (pi_created io) (pi_written io) (pi_workspace io) p = Inr place
       \<and> fst (save_to io p store) = store(place := Plan_file p))"
  by (simp add: save_to_def split: sum.split)

lemma update_plan_cases:
  assumes "plain_plan_files io" and keeps: "\<And>p q. change p = (q, Inr ()) \<Longrightarrow> pa_id q = pa_id p"
  shows "fst (update_plan io i change store) = store
    \<or> (\<exists>place p q. store place = Plan_file p \<and> change p = (q, Inr ())
        \<and> fst (update_plan io i change store) = store(place := Plan_file q))"
proof (cases "load_from io store i")
  case (Inr p)
  from plan_load_ok [OF Inr [unfolded load_from_def]] obtain base place where
    loaded: "canonical (pi_fs io) (pi_workspace io) = Inr base"
      "canonical (pi_fs io) (path_join (path_join base PLANS) (path_of (plan_file_name i))) = Inr place"
      "store place = Plan_file p" "pa_id p = i" by metis
  show ?thesis
  proof (cases "change p")
    case (Pair q s)
    show ?thesis
    proof (cases s)
      case (Inr u)
      with Pair have changed: "change p = (q, Inr ())" by simp
      with keeps have same: "pa_id q = pa_id p" by blast
      from Inr Pair \<open>load_from io store i = Inr p\<close>
      have update: "fst (update_plan io i change store) = fst (save_to io q store)"
        by (simp add: update_plan_def obind_state)
      from save_to_cases [of io q store] show ?thesis
      proof (elim disjE exE conjE)
        fix target
        assume saved: "plan_save (pi_fs io) (pi_created io) (pi_written io) (pi_workspace io) q = Inr target"
          and "fst (save_to io q store) = store(target := Plan_file q)"
        moreover have "store target = Plan_file p"
          using plan_save_ok [OF saved] loaded assms(1) same unfolding plain_plan_files_def
          by (metis sum.inject(2))
        ultimately show ?thesis using changed update by metis
      qed (use update in simp)
    qed (use Inr Pair in \<open>simp add: update_plan_def\<close>)
  qed
qed (simp add: update_plan_def)

lemma plan_change_keeps:
  "plan_revise n markdown p = (q, Inr ()) \<Longrightarrow> pa_id q = pa_id p"
  "plan_propose p = (q, Inr ()) \<Longrightarrow> pa_id q = pa_id p"
  "review_decision answers c p = (q, Inr ()) \<Longrightarrow> pa_id q = pa_id p"
  by (auto dest!: plan_revise_ok plan_transition_ok review_decision_ok(1) simp: plan_propose_def)

text \<open>Where the file of a new plan goes.\<close>

definition new_plan_place :: "plan_io \<Rightarrow> string \<Rightarrow> string \<Rightarrow> axiom_error + path" where
  "new_plan_place io i markdown =
     plan_save (pi_fs io) (pi_created io) (pi_written io) (pi_workspace io) (plan_new i markdown)"

lemma create_plan_store:
  "fst (create_plan io i markdown store) = store
   \<or> (\<exists>place. new_plan_place io i markdown = Inr place
        \<and> fst (create_plan io i markdown store) = store(place := Plan_file (plan_new i markdown)))"
  using save_to_cases [of io "plan_new i markdown" store]
  by (simp add: create_plan_def Let_def obind_state new_plan_place_def)

lemma plan_step_store:
  "plan_step io digits (Revise_op i n markdown) store = fst (update_plan io i (plan_revise n markdown) store)"
  "plan_step io digits (Propose_op i) store = fst (update_plan io i plan_propose store)"
  "plan_step io digits (Review_op i c answers) store = fst (update_plan io i (review_decision answers c) store)"
  by (simp_all add: revise_plan_def propose_plan_def complete_interaction_def obind_state)

text \<open>One tool call: the store is as it was, or one place of it now holds a new plan, or the change of the plan that
  was there.\<close>

definition plan_change :: "plan_op \<Rightarrow> plan_artifact \<Rightarrow> plan_artifact \<Rightarrow> bool" where
  "plan_change op p q \<longleftrightarrow>
     (case op of
        Create_op _ _ \<Rightarrow> False
      | Revise_op i n markdown \<Rightarrow> plan_revise n markdown p = (q, Inr ())
      | Propose_op i \<Rightarrow> plan_propose p = (q, Inr ())
      | Review_op i c answers \<Rightarrow> review_decision answers c p = (q, Inr ()))"

lemma plan_step_cases:
  assumes "plain_plan_files io"
  shows "plan_step io digits op store = store
    \<or> (\<exists>i markdown place. op = Create_op i markdown \<and> new_plan_place io i markdown = Inr place \<and>
         plan_step io digits op store = store(place := Plan_file (plan_new i markdown)))
    \<or> (\<exists>place p q. store place = Plan_file p \<and> plan_change op p q \<and>
         plan_step io digits op store = store(place := Plan_file q))"
proof (cases op)
  case (Create_op i markdown)
  then show ?thesis using create_plan_store [of io i markdown store] by auto
next
  case (Revise_op i n markdown)
  with update_plan_cases [where change = "plan_revise n markdown" and i = i and store = store, OF assms plan_change_keeps(1) [of n markdown]] show ?thesis
    by (simp only: plan_step_store plan_change_def plan_op.case) blast
next
  case (Propose_op i)
  with update_plan_cases [where change = "plan_propose" and i = i and store = store, OF assms plan_change_keeps(2)] show ?thesis
    by (simp only: plan_step_store plan_change_def plan_op.case) blast
next
  case (Review_op i c answers)
  with update_plan_cases [where change = "review_decision answers c" and i = i and store = store, OF assms plan_change_keeps(3) [of answers c]] show ?thesis
    by (simp only: plan_step_store plan_change_def plan_op.case) blast
qed

lemma plan_change_not_final: "plan_change op p q \<Longrightarrow> pa_state p \<notin> {Approved, Abandoned}"
  by (auto simp: plan_change_def plan_propose_def transition_allowed_def
      dest!: plan_revise_ok plan_transition_ok review_decision_ok(1) split: plan_op.splits)

lemma plan_change_approves:
  "plan_change op p q \<Longrightarrow> pa_state q = Approved \<Longrightarrow>
     pa_state p = Proposed \<and> q = p\<lparr>pa_state := Approved\<rparr>
     \<and> (\<exists>i c answers. op = Review_op i c answers \<and> one_answer answers ''decision'' = Inr ''approve'')"
  by (auto simp: plan_change_def plan_propose_def dest: plan_revise_ok plan_transition_ok review_decision_ok(2)
      split: plan_op.splits)


definition demo_plan_io :: plan_io where
  "demo_plan_io = \<lparr>pi_fs = \<lparr>fs_exists = \<lambda>_. True, fs_canonicalize = Some, fs_is_dir = \<lambda>_. True\<rparr>, pi_created = True,
     pi_written = True, pi_workspace = [RootDir, Normal ''w''], pi_json = \<lambda>_. Some ''{}'',
     pi_created_json = \<lambda>_ _. Some ''{}''\<rparr>"

definition demo_plan_ops :: "plan_op list" where
  "demo_plan_ops = [Create_op ''p'' ''x'', Propose_op ''p'', Review_op ''p'' ''c'' [(''decision'', [''approve''])]]"

definition demo_place :: path where
  "demo_place = [RootDir, Normal ''w'', Normal ''.axiomcli'', Normal ''plans'', Normal ''p.json'']"

definition demo_plan :: plan_artifact where
  "demo_plan = (plan_new ''p'' ''x'')\<lparr>pa_state := Approved\<rparr>"

lemma demo_plan_plain: "plain_plan_files demo_plan_io"
  by (simp add: plain_plan_files_def demo_plan_io_def canonical_def ok_or_def path_join_def)

lemma demo_markdown: "validate_markdown ''x'' = Inr ()"
  by (simp add: validate_markdown_def visible_text visible_def byte_def)

lemma demo_plan_paths:
  "PLANS = [Normal ''.axiomcli'', Normal ''plans'']" "path_of (plan_file_name ''p'') = [Normal ''p.json'']"
  by (simp_all add: plan_file_name_def PLANS_def path_of_def component_of_def body_components_def starts_with_def)

lemmas demo_plan_eval = demo_plan_paths demo_markdown demo_plan_io_def demo_place_def canonical_def ok_or_def
  path_join_def path_starts_with_def starts_with_def is_absolute_def

lemma demo_save:
  "pa_id p = ''p'' \<Longrightarrow> pa_markdown p = ''x'' \<Longrightarrow>
     save_to demo_plan_io p store = (store(demo_place := Plan_file p), Inr demo_place)"
  by (simp add: save_to_def plan_save_def demo_plan_eval)

lemma demo_load:
  "pa_id p = ''p'' \<Longrightarrow> pa_markdown p = ''x'' \<Longrightarrow>
     load_from demo_plan_io (store(demo_place := Plan_file p)) ''p'' = Inr p"
  by (simp add: load_from_def plan_load_def is_ascii_alphanumeric_def is_ascii_lowercase_def in_range_def byte_def
      demo_plan_eval)


text \<open>A plan that was approved or abandoned stays as it is, as long as no new plan is created in its place.\<close>

lemma final_plan_kept:
  assumes "plain_plan_files io" and "store place = Plan_file p" and "pa_state p \<in> {Approved, Abandoned}"
    and "\<And>i markdown. Create_op i markdown \<in> set ops \<Longrightarrow> new_plan_place io i markdown \<noteq> Inr place"
  shows "run_plans io digits ops store place = Plan_file p"
  using assms(4)
proof (induction ops rule: rev_induct)
  case (snoc op ops)
  let ?s = "run_plans io digits ops store"
  have "?s place = Plan_file p" using snoc by simp
  moreover have "run_plans io digits (ops @ [op]) store = plan_step io digits op ?s" by (simp add: run_plans_def)
  ultimately show ?case
    using plan_step_cases [OF assms(1), of digits op ?s] plan_change_not_final assms(3) snoc.prems by fastforce
qed (simp add: run_plans_def assms(2))

section \<open>Answers\<close>

definition answered :: "answers \<Rightarrow> question_spec \<Rightarrow> bool" where
  "answered answers q \<longleftrightarrow>
     (case map_of answers (qs_id q) of
        None \<Rightarrow> \<not> qs_required q
      | Some values \<Rightarrow> (values = [] \<longrightarrow> \<not> qs_required q) \<and> (values \<noteq> [] \<longrightarrow>
          (qs_multiple q \<or> length values = 1) \<and> (qs_options q = [] \<or> set values \<subseteq> set (qs_options q))))"

lemma validate_answers_iff:
  "validate_answers request answers = Inr out \<longleftrightarrow> out = answers \<and> list_all (answered answers) (qr_questions request)"
proof -
  have "validate_answers_loop qs answers = Inr out \<longleftrightarrow> out = answers \<and> list_all (answered answers) qs" for qs
    by (induction qs answers rule: validate_answers_loop.induct)
      (auto simp: answered_def Let_def split: option.splits list.splits if_splits)
  then show ?thesis by (simp add: validate_answers_def)
qed

text \<open>Validated answers to a plan review carry one of the three decisions.\<close>

lemma validated_review_decides:
  assumes "validate_answers (review_request digits plan) answers = Inr out"
  obtains d where "one_answer out ''decision'' = Inr d" "d \<in> {''approve'', ''request_revision'', ''abandon''}"
proof -
  from assms have "out = answers" and "answered answers (question ''decision'' ''Review this plan''
      [''approve'', ''request_revision'', ''abandon''] True)"
    by (simp_all add: validate_answers_iff review_request_def)
  moreover from this obtain d where "map_of out ''decision'' = Some [d]"
    "d \<in> {''approve'', ''request_revision'', ''abandon''}"
    by (auto simp: answered_def question_def length_Suc_conv split: option.splits)
  ultimately show thesis using that [of d] by (simp add: one_answer_def)
qed

end
