(* ===== verification/Workspace.thy ===== *)
theory Workspace
  imports App_Types Char_Boundary "HOL-Library.Sublist"
begin

text \<open>
  The workspace of the file tools, \<open>apps/axiomcli/src/workspace.rs\<close>: how a tool's path is resolved inside the root, what
  is opened, and the text that a read returns. The disk is a map from paths to nodes beside the \<open>fs_view\<close> of
  \<open>Rust_Path\<close>, which answers what the operating system says about links; the SHA-256 digest is an argument.
\<close>

section \<open>Paths inside the root\<close>

definition io_result :: "'a option \<Rightarrow> axiom_error + 'a" where
  "io_result r = ok_or Io r"

definition workspace_new :: "fs_view \<Rightarrow> path \<Rightarrow> axiom_error + path" where
  "workspace_new fs p =
     rbind (io_result (fs_canonicalize fs p)) (\<lambda>base.
       if \<not> fs_is_dir fs base then Inl (Config [Lit ''workspace is not a directory: '', Pth base]) else Inr base)"

function ancestors :: "path \<Rightarrow> path list" where
  "ancestors p = p # (case path_parent p of None \<Rightarrow> [] | Some q \<Rightarrow> ancestors q)"
  by pat_completeness auto
termination by (relation "measure length") (auto dest: path_parent_shorter)

declare ancestors.simps [simp del]

definition workspace_discover :: "fs_view \<Rightarrow> path \<Rightarrow> axiom_error + path" where
  "workspace_discover fs start =
     rbind (io_result (fs_canonicalize fs start)) (\<lambda>start.
     rbind (if fs_is_dir fs start then Inr start
            else ok_or (Config [Lit ''workspace path has no parent'']) (path_parent start)) (\<lambda>directory.
       workspace_new fs (case find (\<lambda>a. fs_exists fs (path_join a (path_of ''.git''))) (ancestors directory) of
         Some a \<Rightarrow> a | None \<Rightarrow> directory)))"

definition candidate :: "path \<Rightarrow> path \<Rightarrow> axiom_error + path" where
  "candidate base input =
     (if ParentDir \<in> set input then Inl (OutsideWorkspace input)
      else Inr (if is_absolute input then input else path_join base input))"

definition ensure_inside :: "path \<Rightarrow> path \<Rightarrow> axiom_error + path" where
  "ensure_inside base p = (if path_starts_with p base then Inr p else Inl (OutsideWorkspace p))"

definition relative :: "path \<Rightarrow> path \<Rightarrow> path" where
  "relative base p = (case strip_prefix base p of Some r \<Rightarrow> r | None \<Rightarrow> p)"

definition resolve_existing :: "fs_view \<Rightarrow> path \<Rightarrow> path \<Rightarrow> axiom_error + path" where
  "resolve_existing fs base input =
     rbind (candidate base input) (\<lambda>c. rbind (io_result (fs_canonicalize fs c)) (ensure_inside base))"

definition resolve_for_write :: "fs_view \<Rightarrow> path \<Rightarrow> path \<Rightarrow> axiom_error + path" where
  "resolve_for_write fs base input =
     rbind (candidate base input) (\<lambda>c.
       if fs_exists fs c then resolve_existing fs base c
       else rbind (ok_or (OutsideWorkspace c) (path_parent c)) (\<lambda>parent.
         rbind (io_result (fs_canonicalize fs parent)) (\<lambda>real.
         rbind (ensure_inside base real) (\<lambda>inside.
         rbind (ok_or (OutsideWorkspace c) (file_name c)) (\<lambda>name.
           Inr (path_join inside [Normal name]))))))"

section \<open>What is on the disk\<close>

text \<open>A regular file with its bytes and mode, a directory, or a link that may dangle.\<close>

datatype node = Regular string nat | Directory | Symlink bool

type_synonym disk = "path \<rightharpoonup> node"

text \<open>\<open>symlink_metadata(p).is_ok()\<close> and \<open>Path::exists\<close>.\<close>

definition present :: "disk \<Rightarrow> path \<Rightarrow> bool" where
  "present d p \<longleftrightarrow> d p \<noteq> None"

definition exists_at :: "disk \<Rightarrow> path \<Rightarrow> bool" where
  "exists_at d p = (case d p of None \<Rightarrow> False | Some (Symlink valid) \<Rightarrow> valid | Some _ \<Rightarrow> True)"

text \<open>Opening a file without following a final link, and checking where the opened file really is.\<close>

definition open_verified :: "fs_view \<Rightarrow> disk \<Rightarrow> path \<Rightarrow> path \<Rightarrow> axiom_error + node" where
  "open_verified fs d p base =
     (case d p of
        None \<Rightarrow> Inl Io
      | Some (Symlink _) \<Rightarrow> Inl Io
      | Some n \<Rightarrow> rbind (io_result (fs_canonicalize fs p)) (\<lambda>actual.
          if path_starts_with actual base then Inr n else Inl (OutsideWorkspace actual)))"

section \<open>Text\<close>

text \<open>\<open>str::lines\<close>: lines end at a newline; a carriage return before it is dropped, and no line follows the last
  newline.\<close>

definition without_cr :: "string \<Rightarrow> string" where
  "without_cr l = (case strip_suffix [CHR 0x0D] l of Some r \<Rightarrow> r | None \<Rightarrow> l)"

fun lines_from :: "string \<Rightarrow> string \<Rightarrow> string list" where
  "lines_from line [] = (if line = [] then [] else [line])"
| "lines_from line (c # s) = (if c = CHR 0x0A then without_cr line # lines_from [] s else lines_from (line @ [c]) s)"

definition str_lines :: "string \<Rightarrow> string list" where
  "str_lines s = lines_from [] s"

text \<open>\<open>truncate_utf8\<close>, with the flag it sets.\<close>

definition truncate_text :: "string \<Rightarrow> nat \<Rightarrow> bool \<Rightarrow> string \<times> bool" where
  "truncate_text input max_bytes truncated =
     (if length input \<le> max_bytes then (input, truncated) else (take (truncate_boundary input max_bytes) input, True))"

text \<open>\<open>str::replace\<close> of a nonempty pattern.\<close>

lemma strip_prefix_length: "strip_prefix p s = Some r \<Longrightarrow> length s = length p + length r"
  by (induction p s rule: strip_prefix.induct) (auto split: if_splits)

lemma strip_prefix_shorter [termination_simp]: "p \<noteq> [] \<Longrightarrow> strip_prefix p (c # s) = Some r \<Longrightarrow> length r < Suc (length s)"
  by (drule strip_prefix_length) (cases p, simp_all)

fun str_replace :: "string \<Rightarrow> string \<Rightarrow> string \<Rightarrow> string" where
  "str_replace p new [] = []"
| "str_replace p new (c # s) =
     (if p = [] then c # s
      else (case strip_prefix p (c # s) of
          Some r \<Rightarrow> new @ str_replace p new r
        | None \<Rightarrow> c # str_replace p new s))"

definition CRLF :: string where "CRLF = [CHR 0x0D, CHR 0x0A]"

fun crlf_count :: "string \<Rightarrow> nat" where
  "crlf_count (a # b # s) = (if a = CHR 0x0D \<and> b = CHR 0x0A then 1 else 0) + crlf_count (b # s)"
| "crlf_count _ = 0"

definition preserve_newlines :: "string \<Rightarrow> string \<Rightarrow> string" where
  "preserve_newlines old new =
     (if 0 < crlf_count old \<and> crlf_count old = count_list old (CHR 0x0A)
      then str_replace [CHR 0x0A] CRLF (str_replace CRLF [CHR 0x0A] new) else new)"

section \<open>Reading\<close>

record file_read =
  fr_path :: path
  fr_content :: string
  fr_start_line :: nat
  fr_end_line :: nat
  fr_sha256 :: string
  fr_truncated :: bool
  fr_size_bytes :: nat

definition MAX_INSPECT_BYTES :: nat where "MAX_INSPECT_BYTES = 8 * 1024 * 1024"

definition without_bom :: "string \<Rightarrow> string" where
  "without_bom bytes = (case strip_prefix [CHR 0xEF, CHR 0xBB, CHR 0xBF] bytes of Some r \<Rightarrow> r | None \<Rightarrow> bytes)"

definition selected_lines :: "string \<Rightarrow> nat \<Rightarrow> nat \<Rightarrow> string list" where
  "selected_lines full start_line max_lines =
     take (saturating_add max_lines 1) (drop (start_line - 1) (str_lines full))"

definition read_text :: "(string \<Rightarrow> string) \<Rightarrow> path \<Rightarrow> string \<Rightarrow> string \<Rightarrow> nat \<Rightarrow> nat \<Rightarrow> nat \<Rightarrow> file_read" where
  "read_text sha name bytes full start_line max_lines max_bytes =
     (let ls = selected_lines full start_line max_lines;
          (content, truncated) = truncate_text (str_join [CHR 0x0A] (take max_lines ls)) max_bytes (max_lines < length ls)
      in \<lparr>fr_path = name, fr_content = content, fr_start_line = start_line,
          fr_end_line = saturating_add start_line (length (str_lines content) - 1), fr_sha256 = sha bytes,
          fr_truncated = truncated, fr_size_bytes = length bytes\<rparr>)"

definition workspace_read ::
  "(string \<Rightarrow> string) \<Rightarrow> fs_view \<Rightarrow> disk \<Rightarrow> path \<Rightarrow> path \<Rightarrow> nat \<Rightarrow> nat \<Rightarrow> nat \<Rightarrow> axiom_error + file_read" where
  "workspace_read sha fs d base input start_line max_lines max_bytes =
     rbind (resolve_existing fs base input) (\<lambda>p.
     rbind (open_verified fs d p base) (\<lambda>n.
       case n of
         Regular bytes mode \<Rightarrow>
           (if MAX_INSPECT_BYTES < length bytes
            then Inl (Tool_error [Lit ''large file omitted: '', Pth (relative base p), Lit '' is '', Num (length bytes),
              Lit '' bytes (limit '', Num MAX_INSPECT_BYTES,
              Lit ''); inspect metadata or select a smaller source file''])
            else if contains_nul (take 8192 bytes)
            then Inl (Tool_error [Lit ''binary file cannot be read as text: '', Pth (relative base p)])
            else if \<not> from_utf8_ok (without_bom bytes)
            then Inl (Tool_error [Lit ''text file is not valid UTF-8: '', Pth (relative base p)])
            else Inr (read_text sha (relative base p) bytes (without_bom bytes) (max start_line 1) max_lines max_bytes))
       | _ \<Rightarrow> Inl (Tool_error [Lit ''special file cannot be read: '', Pth (relative base p)])))"

section \<open>What a file looks like\<close>

definition is_ascii_control :: "char \<Rightarrow> bool" where
  "is_ascii_control c \<longleftrightarrow> byte c < 32 \<or> byte c = 127"

definition looks_binary :: "string \<Rightarrow> bool" where
  "looks_binary bytes \<longleftrightarrow> contains_nul bytes
   \<or> (bytes \<noteq> [] \<and> length bytes
        < min (length (filter (\<lambda>c. is_ascii_control c \<and> c \<notin> {CHR 0x0A, CHR 0x0D, CHR 0x09}) bytes) * 20) usize_max)"

text \<open>The header is compared in lower case; \<open>String::from_utf8_lossy\<close> and \<open>str::to_lowercase\<close> are the argument
  \<open>lower\<close>.\<close>

definition str_contains :: "string \<Rightarrow> string \<Rightarrow> bool" where
  "str_contains s p \<longleftrightarrow> split_once p s \<noteq> None"

definition generated_component :: "component \<Rightarrow> bool" where
  "generated_component c \<longleftrightarrow>
     component_text c \<in> {''target'', ''node_modules'', ''dist'', ''build'', ''vendor'', ''generated''}"

definition likely_generated :: "(string \<Rightarrow> string) \<Rightarrow> path \<Rightarrow> string \<Rightarrow> bool" where
  "likely_generated lower p header \<longleftrightarrow> (\<exists>c \<in> set p. generated_component c)
   \<or> (\<exists>l \<in> set (take 5 (str_lines (lower header))).
        str_contains l ''generated file'' \<or> str_contains l ''code generated'' \<or> str_contains l ''do not edit'')"

section \<open>Terminal output\<close>

text \<open>The text of a process without its escape sequences, over the characters of the output.\<close>

abbreviation ESC :: string where "ESC \<equiv> [CHR 0x1B]"

fun skip_csi :: "string list \<Rightarrow> string list" where
  "skip_csi [] = []"
| "skip_csi (c # s) = (if 64 \<le> code_point c \<and> code_point c \<le> 126 then s else skip_csi s)"

fun skip_osc :: "string list \<Rightarrow> string list" where
  "skip_osc [] = []"
| "skip_osc (c # s) =
     (if c = [CHR 0x07] then s
      else if c = ESC \<and> s \<noteq> [] \<and> hd s = [CHR 0x5C] then tl s
      else skip_osc s)"

lemma skip_shorter [termination_simp]: "length (skip_csi s) \<le> length s" "length (skip_osc s) \<le> length s"
proof -
  show "length (skip_csi s) \<le> length s" by (induction s rule: skip_csi.induct) auto
  show "length (skip_osc s) \<le> length s" by (induction s rule: skip_osc.induct) (auto simp: le_diff_conv)
qed

lemma skip_Suc [termination_simp]: "length (skip_csi s) < Suc (Suc (length s))" "length (skip_osc s) < Suc (Suc (length s))"
  using skip_shorter [of s] by simp_all

fun sanitize_chars :: "string list \<Rightarrow> string list" where
  "sanitize_chars [] = []"
| "sanitize_chars (c # s) =
     (if c = ESC
      then (case s of
          [] \<Rightarrow> []
        | d # r \<Rightarrow>
            if d = ''['' then sanitize_chars (skip_csi r)
            else if d = '']'' then sanitize_chars (skip_osc r)
            else sanitize_chars r)
      else if c = [CHR 0x0A] \<or> c = [CHR 0x09] \<or> \<not> is_control c then c # sanitize_chars s
      else sanitize_chars s)"

definition sanitize_terminal :: "string \<Rightarrow> string" where
  "sanitize_terminal input = concat (sanitize_chars (str_chars input))"

section \<open>Properties\<close>

lemma io_result_Inr [simp]: "io_result r = Inr x \<longleftrightarrow> r = Some x"
  by (cases r) (simp_all add: io_result_def ok_or_def)

lemma ensure_inside_Inr [simp]: "ensure_inside base p = Inr q \<longleftrightarrow> q = p \<and> path_starts_with p base"
  by (auto simp: ensure_inside_def)

lemma resolve_existing_ok:
  "resolve_existing fs base input = Inr p \<Longrightarrow>
     path_starts_with p base \<and> (\<exists>c. candidate base input = Inr c \<and> fs_canonicalize fs c = Some p)"
  by (auto simp: resolve_existing_def success_iffs)

text \<open>What may be written is inside the root, and is either what a path resolves to or a new name in a directory that
  resolves inside the root.\<close>

lemma resolve_for_write_ok:
  assumes "resolve_for_write fs base input = Inr p"
  shows "path_starts_with p base"
    and "(\<exists>c. fs_canonicalize fs c = Some p)
       \<or> (\<exists>c real inside name. \<not> fs_exists fs c \<and> path_parent c = Some real \<and> file_name c = Some name
            \<and> fs_canonicalize fs real = Some inside \<and> path_starts_with inside base \<and> p = path_join inside [Normal name])"
proof -
  from assms obtain c where c: "candidate base input = Inr c" by (auto simp: resolve_for_write_def success_iffs)
  have "path_starts_with p base \<and> ((\<exists>c. fs_canonicalize fs c = Some p)
       \<or> (\<exists>c real inside name. \<not> fs_exists fs c \<and> path_parent c = Some real \<and> file_name c = Some name
            \<and> fs_canonicalize fs real = Some inside \<and> path_starts_with inside base \<and> p = path_join inside [Normal name]))"
  proof (cases "fs_exists fs c")
    case True
    with assms c have r: "resolve_existing fs base c = Inr p" by (simp add: resolve_for_write_def)
    then show ?thesis using resolve_existing_ok [OF r] by blast
  next
    case False
    with assms c obtain real inside name where new: "path_parent c = Some real" "fs_canonicalize fs real = Some inside"
      "path_starts_with inside base" "file_name c = Some name" "p = path_join inside [Normal name]"
      by (auto simp: resolve_for_write_def success_iffs)
    then have "path_starts_with p base"
      by (cases "inside = []") (auto simp: path_join_def is_absolute_def path_starts_with_iff)
    with False new show ?thesis by blast
  qed
  then show "path_starts_with p base"
    and "(\<exists>c. fs_canonicalize fs c = Some p)
       \<or> (\<exists>c real inside name. \<not> fs_exists fs c \<and> path_parent c = Some real \<and> file_name c = Some name
            \<and> fs_canonicalize fs real = Some inside \<and> path_starts_with inside base \<and> p = path_join inside [Normal name])"
    by blast+
qed

lemma open_verified_ok:
  assumes "open_verified fs d p base = Inr n"
  shows "d p = Some n \<and> (\<forall>v. n \<noteq> Symlink v) \<and> (\<exists>actual. fs_canonicalize fs p = Some actual \<and> path_starts_with actual base)"
proof (cases "d p")
  case (Some m)
  with assms show ?thesis by (cases m) (auto simp: open_verified_def rbind_Inr_iff guard_Inr_iff split: if_split_asm)
qed (use assms in \<open>simp add: open_verified_def\<close>)

lemma truncate_text_bound:
  assumes "from_utf8_ok s" and "truncate_text s n b = (out, b')"
  shows "from_utf8_ok out \<and> length out \<le> n \<and> (\<exists>r. s = out @ r) \<and> (b' \<longleftrightarrow> b \<or> n < length s)"
proof -
  have "truncate_text s n b = (fst (truncate_utf8 s n), b \<or> n < length s)"
    by (simp add: truncate_text_def truncate_utf8_def)
  with assms truncate_utf8_prefix [OF assms(1) surjective_pairing, of n] show ?thesis by simp
qed

lemma take_prefix_lines: "set (selected_lines full a n) \<subseteq> set (str_lines full)"
  unfolding selected_lines_def by (meson order_trans set_drop_subset set_take_subset)

text \<open>A read returns text of a regular file inside the workspace, within the limits it was given, and says so when it
  is not the whole of the selected lines.\<close>

lemma workspace_read_ok:
  assumes "workspace_read sha fs d base input start_line max_lines max_bytes = Inr r"
  obtains p bytes mode where "resolve_existing fs base input = Inr p" "path_starts_with p base"
    "d p = Some (Regular bytes mode)" "length bytes \<le> MAX_INSPECT_BYTES" "from_utf8_ok (without_bom bytes)"
    "r = read_text sha (relative base p) bytes (without_bom bytes) (max start_line 1) max_lines max_bytes"
proof -
  from assms obtain p n where p: "resolve_existing fs base input = Inr p" and n: "open_verified fs d p base = Inr n"
    and r: "(case n of Regular bytes mode \<Rightarrow>
           (if MAX_INSPECT_BYTES < length bytes
            then Inl (Tool_error [Lit ''large file omitted: '', Pth (relative base p), Lit '' is '', Num (length bytes),
              Lit '' bytes (limit '', Num MAX_INSPECT_BYTES,
              Lit ''); inspect metadata or select a smaller source file''])
            else if contains_nul (take 8192 bytes)
            then Inl (Tool_error [Lit ''binary file cannot be read as text: '', Pth (relative base p)])
            else if \<not> from_utf8_ok (without_bom bytes)
            then Inl (Tool_error [Lit ''text file is not valid UTF-8: '', Pth (relative base p)])
            else Inr (read_text sha (relative base p) bytes (without_bom bytes) (max start_line 1) max_lines max_bytes))
       | _ \<Rightarrow> Inl (Tool_error [Lit ''special file cannot be read: '', Pth (relative base p)])) = Inr r"
    unfolding workspace_read_def rbind_Inr_iff by blast
  from r obtain bytes mode where "n = Regular bytes mode" by (cases n) simp_all
  with r n p open_verified_ok [OF n] resolve_existing_ok [OF p] show thesis
    by (intro that [of p bytes mode]) (auto split: if_splits)
qed

section \<open>Output of processes\<close>

definition shown_char :: "string \<Rightarrow> bool" where
  "shown_char c \<longleftrightarrow> c = [CHR 0x0A] \<or> c = [CHR 0x09] \<or> \<not> is_control c"

lemma skip_subseq: "subseq (skip_csi s) s" "subseq (skip_osc s) s"
proof -
  show "subseq (skip_csi s) s" by (induction s rule: skip_csi.induct) auto
  show "subseq (skip_osc s) s"
  proof (induction s rule: skip_osc.induct)
    case (2 c s)
    then show ?case by (cases s) auto
  qed simp
qed

lemma sanitize_subseq: "subseq (sanitize_chars s) s"
proof (induction "length s" arbitrary: s rule: less_induct)
  case less
  have later: "subseq (sanitize_chars t) (c # r)" if "s = c # r" "subseq t r" for t c r
  proof -
    have "length t < length s" using that list_emb_length [of "(=)" t r] by simp
    from less [OF this] that(2) show ?thesis by (metis list_emb_Cons subseq_order.trans)
  qed
  show ?case
  proof (cases s)
    case (Cons c r)
    show ?thesis
    proof (cases "c = ESC")
      case True
      show ?thesis
      proof (cases r)
        case (Cons d q)
        have "subseq (skip_csi q) r" "subseq (skip_osc q) r" "subseq q r"
          unfolding Cons using skip_subseq [of q] by (auto intro: list_emb_Cons)
        from this [THEN later [OF \<open>s = c # r\<close>]] show ?thesis by (auto simp: \<open>s = c # r\<close> True Cons)
      qed (simp add: \<open>s = c # r\<close> True)
    next
      case False
      with less [of r] later [OF Cons, of r] show ?thesis by (simp add: Cons)
    qed
  qed simp
qed

lemma sanitize_shown: "list_all shown_char (sanitize_chars s)"
  by (induction s rule: sanitize_chars.induct) (auto simp: shown_char_def split: list.split)

lemma escape_not_shown: "\<not> shown_char ESC"
  by (simp add: shown_char_def is_control_def byte_def)

lemma sanitize_fixed: "list_all shown_char s \<Longrightarrow> sanitize_chars s = s"
  using escape_not_shown by (induction s) (auto simp: shown_char_def)

lemma sanitize_terminal_chars:
  assumes "from_utf8_ok s"
  shows "utf8_chars (sanitize_terminal s) = Some (sanitize_chars (str_chars s))"
proof -
  from assms obtain cs where cs: "utf8_chars s = Some cs" by (auto simp: from_utf8_ok_def)
  have "set (sanitize_chars cs) \<subseteq> set cs" using sanitize_subseq [of cs] by (auto dest: list_emb_set)
  with utf8_chars_scalars [OF cs] have "list_all (\<lambda>c. utf8_chars c = Some [c]) (sanitize_chars cs)"
    by (auto simp: list_all_iff)
  with cs show ?thesis by (simp add: sanitize_terminal_def str_chars_def utf8_chars_concat)
qed

text \<open>C40. Output of a process is shown without control sequences: the sanitised text is valid UTF-8, has no control
  character but newlines and tabs, is made of characters of the output in their order, and sanitising it again
  changes nothing.\<close>

theorem terminal_output_sanitised:
  assumes "from_utf8_ok s"
  shows "from_utf8_ok (sanitize_terminal s) \<and> list_all shown_char (str_chars (sanitize_terminal s))
    \<and> subseq (str_chars (sanitize_terminal s)) (str_chars s)
    \<and> sanitize_terminal (sanitize_terminal s) = sanitize_terminal s"
proof -
  have chars: "str_chars (sanitize_terminal s) = sanitize_chars (str_chars s)"
    by (simp add: str_chars_def [of "sanitize_terminal s"] sanitize_terminal_chars [OF assms])
  show ?thesis
    using sanitize_terminal_chars [OF assms] sanitize_shown sanitize_subseq
    by (simp add: chars from_utf8_ok_def sanitize_terminal_def [of "sanitize_terminal s"] sanitize_fixed)
      (simp add: sanitize_terminal_def)
qed

definition demo_output :: string where
  "demo_output = [CHR 0x1B] @ ''[31mred'' @ [CHR 0x1B] @ '']0;t'' @ [CHR 0x07, CHR 0x08] @ ''!''"

theorem terminal_output_sanitised_witness:
  "list_all shown_char (str_chars (sanitize_terminal demo_output)) \<and> sanitize_terminal demo_output = ''red!''"
proof -
  have ascii: "list_all (\<lambda>c. byte c < 128) demo_output" by (simp add: demo_output_def byte_def)
  then have "from_utf8_ok demo_output" by (simp add: from_utf8_ok_def demo_output_def byte_def)
  from terminal_output_sanitised [OF this] show ?thesis using str_chars_ascii [OF ascii]
    by (simp add: sanitize_terminal_def demo_output_def is_control_def byte_def)
qed

section \<open>Line endings\<close>

lemma replace_newline: "str_replace [CHR 0x0A] CRLF s = concat (map (\<lambda>c. if c = CHR 0x0A then CRLF else [c]) s)"
  by (induction s) simp_all

lemma crlf_append_other: "crlf_count (s @ [c]) = crlf_count s + (if c = CHR 0x0A \<and> s \<noteq> [] \<and> last s = CHR 0x0D then 1 else 0)"
  by (induction s rule: crlf_count.induct) auto

lemma crlf_replaced:
  "crlf_count (str_replace [CHR 0x0A] CRLF s) = count_list s (CHR 0x0A)
   \<and> count_list (str_replace [CHR 0x0A] CRLF s) (CHR 0x0A) = count_list s (CHR 0x0A)"
proof (induction s rule: rev_induct)
  case (snoc c s)
  let ?r = "str_replace [CHR 0x0A] CRLF"
  have step: "?r (s @ [c]) = ?r s @ (if c = CHR 0x0A then CRLF else [c])" by (simp add: replace_newline)
  show ?case unfolding step using snoc crlf_append_other [of "?r s @ [CHR 0x0D]" "CHR 0x0A"]
    by (auto simp: crlf_append_other CRLF_def)
qed simp

text \<open>An update of a file that uses carriage returns throughout keeps them throughout.\<close>

lemma preserve_newlines_crlf:
  assumes "0 < crlf_count old" "crlf_count old = count_list old (CHR 0x0A)"
  shows "crlf_count (preserve_newlines old new) = count_list (preserve_newlines old new) (CHR 0x0A)"
  using assms by (simp add: preserve_newlines_def crlf_replaced)

end
