(* ===== verification/Patch.thy ===== *)
theory Patch
  imports Workspace
begin

text \<open>
  Structured patches, \<open>apply_structured_patch\<close> of \<open>apps/axiomcli/src/workspace.rs\<close>: every edit is prepared in a staged
  file beside its target, then the targets are replaced one by one with the old files kept as backups, and a failure
  rolls back. Every system call may fail: \<open>io_fails n\<close> says whether the call made when \<open>n\<close> calls were made fails.
  Queries of existence are answered truthfully. The digest, the line diff and fresh identifiers are arguments.
\<close>

section \<open>Edits\<close>

datatype edit_intent =
    Create path string "nat option"
  | Update path string string bool
  | Delete path string

datatype prepared_operation = Op_Create | Op_Update | Op_Delete

record prepared_edit =
  pt_operation :: prepared_operation
  pt_path :: path
  pt_relative :: path
  pt_expected_sha256 :: "string option"
  pt_old_sha256 :: "string option"
  pt_new_sha256 :: "string option"
  pt_staged :: "path option"
  pt_backup :: "path option"
  pt_installed :: bool
  pt_diff :: string

record edit_outcome =
  eo_operation :: string
  eo_path :: path
  eo_old_sha256 :: "string option"
  eo_new_sha256 :: "string option"

record patch_outcome =
  po_edits :: "edit_outcome list"
  po_changed_paths :: "path list"
  po_diff :: string
  po_diff_truncated :: bool
  po_warnings :: "path list"

section \<open>System calls\<close>

datatype change_tag = Tag_Delete | Tag_Insert | Tag_Equal

record patch_io =
  io_fs :: fs_view
  io_sha :: "string \<Rightarrow> string"
  io_changes :: "string \<Rightarrow> string \<Rightarrow> (change_tag \<times> string) list"
  io_uuid :: "nat \<Rightarrow> string"
  io_fails :: "nat \<Rightarrow> bool"
  io_new_mode :: nat

text \<open>The disk and the number of calls made so far, which also numbers the identifiers.\<close>

record disk_state =
  ds_disk :: disk
  ds_clock :: nat

definition tick :: "disk_state \<Rightarrow> disk_state" where
  "tick s = s\<lparr>ds_clock := Suc (ds_clock s)\<rparr>"

definition sys_rename :: "patch_io \<Rightarrow> path \<Rightarrow> path \<Rightarrow> disk_state \<Rightarrow> disk_state \<times> bool" where
  "sys_rename io a b s =
     (case ds_disk s a of
        None \<Rightarrow> (tick s, False)
      | Some n \<Rightarrow>
          if io_fails io (ds_clock s) \<or> ds_disk s b = Some Directory then (tick s, False)
          else ((tick s)\<lparr>ds_disk := (ds_disk s)(a := None, b := Some n)\<rparr>, True))"

definition sys_remove :: "patch_io \<Rightarrow> path \<Rightarrow> disk_state \<Rightarrow> disk_state \<times> bool" where
  "sys_remove io a s =
     (if io_fails io (ds_clock s) \<or> ds_disk s a \<in> {None, Some Directory} then (tick s, False)
      else ((tick s)\<lparr>ds_disk := (ds_disk s)(a := None)\<rparr>, True))"

definition sys_create_new :: "patch_io \<Rightarrow> path \<Rightarrow> disk_state \<Rightarrow> disk_state \<times> bool" where
  "sys_create_new io a s =
     (if io_fails io (ds_clock s) \<or> ds_disk s a \<noteq> None then (tick s, False)
      else ((tick s)\<lparr>ds_disk := (ds_disk s)(a := Some (Regular [] (io_new_mode io)))\<rparr>, True))"

text \<open>Writing the open file, or setting its mode.\<close>

definition sys_put :: "patch_io \<Rightarrow> path \<Rightarrow> node \<Rightarrow> disk_state \<Rightarrow> disk_state \<times> bool" where
  "sys_put io a n s =
     (if io_fails io (ds_clock s) then (tick s, False) else ((tick s)\<lparr>ds_disk := (ds_disk s)(a := Some n)\<rparr>, True))"

definition file_mode :: "patch_io \<Rightarrow> nat option \<Rightarrow> nat option \<Rightarrow> nat" where
  "file_mode io permissions mode =
     (case mode of Some m \<Rightarrow> m | None \<Rightarrow> (case permissions of Some m \<Rightarrow> m | None \<Rightarrow> io_new_mode io))"

section \<open>Staging\<close>

definition sibling_artifact :: "path \<Rightarrow> string \<Rightarrow> string \<Rightarrow> path" where
  "sibling_artifact p purpose uuid =
     (let name = (case file_name p of Some n \<Rightarrow> n | None \<Rightarrow> ''edit'')
      in (if file_name p = None then p else butlast p)
           @ [Normal (''.'' @ name @ ''.axiomcli-'' @ purpose @ ''-'' @ uuid)])"

definition write_stage :: "patch_io \<Rightarrow> path \<Rightarrow> string \<Rightarrow> nat \<Rightarrow> disk_state \<Rightarrow> disk_state \<times> bool" where
  "write_stage io staged content mode s =
     (case sys_create_new io staged s of
        (s1, False) \<Rightarrow> (s1, False)
      | (s1, True) \<Rightarrow>
          (case sys_put io staged (Regular content (io_new_mode io)) s1 of
             (s2, False) \<Rightarrow> (s2, False)
           | (s2, True) \<Rightarrow> sys_put io staged (Regular content mode) s2))"

definition stage_content ::
  "patch_io \<Rightarrow> path \<Rightarrow> string \<Rightarrow> nat option \<Rightarrow> nat option \<Rightarrow> disk_state \<Rightarrow> (disk_state, axiom_error, path) outcome" where
  "stage_content io p content permissions mode s =
     (let staged = sibling_artifact p ''stage'' (io_uuid io (ds_clock s))
      in case write_stage io staged content (file_mode io permissions mode) (tick s) of
           (s1, True) \<Rightarrow> (s1, Inr staged)
         | (s1, False) \<Rightarrow> (fst (sys_remove io staged s1), Inl Io))"

definition read_edit_target ::
  "patch_io \<Rightarrow> path \<Rightarrow> nat \<Rightarrow> path \<Rightarrow> disk_state \<Rightarrow> (disk_state, axiom_error, string \<times> nat) outcome" where
  "read_edit_target io base max_bytes p s =
     (if io_fails io (ds_clock s) then (tick s, Inl Io)
      else (tick s, rbind (open_verified (io_fs io) (ds_disk s) p base) (\<lambda>n.
        case n of
          Regular bytes mode \<Rightarrow>
            (if max_bytes < length bytes
             then Inl (Tool_error [Lit ''edit target exceeds the '', Num max_bytes,
               Lit ''-byte transaction budget: '', Pth p])
             else Inr (bytes, mode))
        | _ \<Rightarrow> Inl (Tool_error [Lit ''edit target is not a regular file: '', Pth p]))))"

definition ensure_patch_content_budget :: "nat \<Rightarrow> nat \<Rightarrow> axiom_error + unit" where
  "ensure_patch_content_budget bytes max_bytes =
     (if max_bytes < bytes
      then Inl (Tool_error [Lit ''patch content exceeds the '', Num max_bytes, Lit ''-byte transaction budget''])
      else Inr ())"

definition unified_diff :: "patch_io \<Rightarrow> string \<Rightarrow> string \<Rightarrow> string" where
  "unified_diff io old new = concat (map (\<lambda>(tag, v).
     (case tag of Tag_Delete \<Rightarrow> CHR ''-'' | Tag_Insert \<Rightarrow> CHR ''+'' | Tag_Equal \<Rightarrow> CHR '' '') # v) (io_changes io old new))"

definition file_diff_text :: "patch_io \<Rightarrow> path \<Rightarrow> string option \<Rightarrow> string option \<Rightarrow> string" where
  "file_diff_text io p old new =
     ''--- '' @ (if old = None then ''/dev/null'' else ''a/'' @ path_display p) @ [CHR 0x0A]
       @ ''+++ '' @ (if new = None then ''/dev/null'' else ''b/'' @ path_display p) @ [CHR 0x0A]
       @ unified_diff io (case old of Some t \<Rightarrow> t | None \<Rightarrow> []) (case new of Some t \<Rightarrow> t | None \<Rightarrow> [])"

section \<open>Preparing\<close>

definition MAX_CONTENT_BYTES :: nat where "MAX_CONTENT_BYTES = 8 * 1024 * 1024"

definition MAX_EDITS :: nat where "MAX_EDITS = 100"

text \<open>The state is the disk with the bytes of content so far.\<close>

definition prepare_create ::
  "patch_io \<Rightarrow> path \<Rightarrow> path \<Rightarrow> string \<Rightarrow> nat option \<Rightarrow> disk_state \<times> nat \<Rightarrow> (disk_state \<times> nat, axiom_error, prepared_edit) outcome" where
  "prepare_create io base input content mode st =
     (case st of (s, so_far) \<Rightarrow>
        if (case mode of Some m \<Rightarrow> 511 < m | None \<Rightarrow> False)
        then (st, Inl (Tool_error [Lit ''create mode must be between 0000 and 0777'']))
        else (let so_far = saturating_add so_far (length content) in
          case rbind (ensure_patch_content_budget so_far MAX_CONTENT_BYTES) (\<lambda>_. resolve_for_write (io_fs io) base input) of
            Inl e \<Rightarrow> ((s, so_far), Inl e)
          | Inr p \<Rightarrow>
              if present (ds_disk s) p
              then ((s, so_far), Inl (Tool_error [Lit ''create target already exists: '', Pth (relative base p)]))
              else (case stage_content io p content None mode s of
                  (s1, Inl e) \<Rightarrow> ((s1, so_far), Inl e)
                | (s1, Inr staged) \<Rightarrow>
                    ((s1, so_far), Inr \<lparr>pt_operation = Op_Create, pt_path = p, pt_relative = relative base p,
                       pt_expected_sha256 = None, pt_old_sha256 = None, pt_new_sha256 = Some (io_sha io content),
                       pt_staged = Some staged, pt_backup = None, pt_installed = False,
                       pt_diff = file_diff_text io (relative base p) None (Some content)\<rparr>))))"

text \<open>What an update and a delete share: the file they name, unchanged since it was read.\<close>

definition checked_target ::
  "patch_io \<Rightarrow> path \<Rightarrow> path \<Rightarrow> string \<Rightarrow> string \<Rightarrow> string \<Rightarrow> disk_state \<Rightarrow> (disk_state, axiom_error, path \<times> string \<times> nat) outcome" where
  "checked_target io base input expected stale not_utf8 s =
     (case resolve_existing (io_fs io) base input of
        Inl e \<Rightarrow> (s, Inl e)
      | Inr p \<Rightarrow>
          obind (read_edit_target io base MAX_CONTENT_BYTES p s) (\<lambda>s1 (old, permissions).
            if expected \<noteq> io_sha io old
            then (s1, Inl (Tool_error [Lit stale, Text expected, Lit '', found '', Text (io_sha io old)]))
            else if \<not> from_utf8_ok old then (s1, Inl (Tool_error [Lit not_utf8]))
            else (s1, Inr (p, old, permissions))))"

definition prepare_update ::
  "patch_io \<Rightarrow> path \<Rightarrow> path \<Rightarrow> string \<Rightarrow> string \<Rightarrow> bool \<Rightarrow> disk_state \<times> nat \<Rightarrow>
     (disk_state \<times> nat, axiom_error, prepared_edit) outcome" where
  "prepare_update io base input expected content preserve st =
     (case st of (s, so_far) \<Rightarrow>
        (case checked_target io base input expected ''stale edit: expected ''
            ''structured updates require a UTF-8 target'' s of
          (s1, Inl e) \<Rightarrow> ((s1, so_far), Inl e)
        | (s1, Inr (p, old, permissions)) \<Rightarrow>
            (let new = (if preserve then preserve_newlines old content else content);
                 so_far = saturating_add so_far (length new)
             in case ensure_patch_content_budget so_far MAX_CONTENT_BYTES of
                  Inl e \<Rightarrow> ((s1, so_far), Inl e)
                | Inr _ \<Rightarrow>
                    (case stage_content io p new (Some permissions) None s1 of
                       (s2, Inl e) \<Rightarrow> ((s2, so_far), Inl e)
                     | (s2, Inr staged) \<Rightarrow>
                         ((s2, so_far), Inr \<lparr>pt_operation = Op_Update, pt_path = p, pt_relative = relative base p,
                            pt_expected_sha256 = Some expected, pt_old_sha256 = Some (io_sha io old),
                            pt_new_sha256 = Some (io_sha io new), pt_staged = Some staged, pt_backup = None,
                            pt_installed = False, pt_diff = file_diff_text io (relative base p) (Some old) (Some new)\<rparr>)))))"

definition prepare_delete ::
  "patch_io \<Rightarrow> path \<Rightarrow> path \<Rightarrow> string \<Rightarrow> disk_state \<times> nat \<Rightarrow> (disk_state \<times> nat, axiom_error, prepared_edit) outcome" where
  "prepare_delete io base input expected st =
     (case st of (s, so_far) \<Rightarrow>
        (case checked_target io base input expected ''stale delete: expected ''
            ''structured deletes require a UTF-8 target'' s of
          (s1, Inl e) \<Rightarrow> ((s1, so_far), Inl e)
        | (s1, Inr (p, old, permissions)) \<Rightarrow>
            ((s1, so_far), Inr \<lparr>pt_operation = Op_Delete, pt_path = p, pt_relative = relative base p,
               pt_expected_sha256 = Some expected, pt_old_sha256 = Some (io_sha io old), pt_new_sha256 = None,
               pt_staged = None, pt_backup = None, pt_installed = False,
               pt_diff = file_diff_text io (relative base p) (Some old) None\<rparr>)))"

primrec prepare_edit ::
  "patch_io \<Rightarrow> path \<Rightarrow> edit_intent \<Rightarrow> disk_state \<times> nat \<Rightarrow> (disk_state \<times> nat, axiom_error, prepared_edit) outcome" where
  "prepare_edit io base (Create p content mode) st = prepare_create io base p content mode st"
| "prepare_edit io base (Update p expected content preserve) st = prepare_update io base p expected content preserve st"
| "prepare_edit io base (Delete p expected) st = prepare_delete io base p expected st"

definition remove_staged :: "patch_io \<Rightarrow> prepared_edit \<Rightarrow> disk_state \<Rightarrow> disk_state" where
  "remove_staged io e s = (case pt_staged e of None \<Rightarrow> s | Some staged \<Rightarrow> fst (sys_remove io staged s))"

definition cleanup_staged :: "patch_io \<Rightarrow> prepared_edit list \<Rightarrow> disk_state \<Rightarrow> disk_state" where
  "cleanup_staged io prepared s = fold (remove_staged io) prepared s"

fun prepare_all ::
  "patch_io \<Rightarrow> path \<Rightarrow> edit_intent list \<Rightarrow> prepared_edit list \<Rightarrow> disk_state \<times> nat \<Rightarrow>
     (disk_state, axiom_error, prepared_edit list) outcome" where
  "prepare_all io base [] prepared st = (fst st, Inr prepared)"
| "prepare_all io base (edit # edits) prepared st =
     (case prepare_edit io base edit st of
        ((s1, _), Inl e) \<Rightarrow> (cleanup_staged io prepared s1, Inl e)
      | ((s1, so_far), Inr item) \<Rightarrow>
          if pt_path item \<in> pt_path ` set prepared
          then (remove_staged io item (cleanup_staged io prepared s1),
            Inl (Tool_error [Lit ''patch contains duplicate target '', Pth (pt_relative item)]))
          else prepare_all io base edits (prepared @ [item]) (s1, so_far))"

section \<open>Committing and rolling back\<close>

text \<open>\<open>expect\<close> on the staged file of a create or update never fires; that it is there is part of the invariant below.\<close>

definition commit_create :: "patch_io \<Rightarrow> prepared_edit \<Rightarrow> disk_state \<Rightarrow> disk_state \<times> prepared_edit \<times> (axiom_error + unit)" where
  "commit_create io e s =
     (if present (ds_disk s) (pt_path e)
      then (s, e, Inl (Tool_error [Lit ''create conflict: '', Pth (pt_relative e), Lit '' now exists'']))
      else (case sys_rename io (the (pt_staged e)) (pt_path e) s of
          (s1, False) \<Rightarrow> (s1, e, Inl Io)
        | (s1, True) \<Rightarrow> (s1, e\<lparr>pt_staged := None, pt_installed := True\<rparr>, Inr ())))"

definition commit_replace ::
  "patch_io \<Rightarrow> path \<Rightarrow> prepared_edit \<Rightarrow> disk_state \<Rightarrow> disk_state \<times> prepared_edit \<times> (axiom_error + unit)" where
  "commit_replace io base e s =
     (case read_edit_target io base MAX_CONTENT_BYTES (pt_path e) s of
        (s1, Inl x) \<Rightarrow> (s1, e, Inl x)
      | (s1, Inr (current, _)) \<Rightarrow>
          if pt_expected_sha256 e \<noteq> Some (io_sha io current)
          then (s1, e, Inl (Tool_error [Lit ''stale edit during commit for '', Pth (pt_relative e), Lit '': expected '',
            Text (case pt_expected_sha256 e of Some x \<Rightarrow> x | None \<Rightarrow> ''(missing)''), Lit '', found '',
            Text (io_sha io current)]))
          else (let backup = sibling_artifact (pt_path e) ''backup'' (io_uuid io (ds_clock s1)) in
            case sys_rename io (pt_path e) backup (tick s1) of
              (s2, False) \<Rightarrow> (s2, e, Inl Io)
            | (s2, True) \<Rightarrow>
                (let e1 = e\<lparr>pt_backup := Some backup\<rparr> in
                 if pt_operation e \<noteq> Op_Update then (s2, e1, Inr ())
                 else (case sys_rename io (the (pt_staged e)) (pt_path e) s2 of
                     (s3, False) \<Rightarrow> (s3, e1, Inl Io)
                   | (s3, True) \<Rightarrow> (s3, e1\<lparr>pt_staged := None, pt_installed := True\<rparr>, Inr ())))))"

definition commit_one ::
  "patch_io \<Rightarrow> path \<Rightarrow> prepared_edit \<Rightarrow> disk_state \<Rightarrow> disk_state \<times> prepared_edit \<times> (axiom_error + unit)" where
  "commit_one io base e s = (if pt_operation e = Op_Create then commit_create io e s else commit_replace io base e s)"

fun commit_all ::
  "patch_io \<Rightarrow> path \<Rightarrow> prepared_edit list \<Rightarrow> disk_state \<Rightarrow> disk_state \<times> prepared_edit list \<times> (axiom_error + unit)" where
  "commit_all io base [] s = (s, [], Inr ())"
| "commit_all io base (e # es) s =
     (case commit_one io base e s of
        (s1, e1, Inl x) \<Rightarrow> (s1, e1 # es, Inl x)
      | (s1, e1, Inr _) \<Rightarrow> (case commit_all io base es s1 of (s2, es2, r) \<Rightarrow> (s2, e1 # es2, r)))"

text \<open>A file that could not be removed, or a backup that could not be put back.\<close>

datatype rollback_error = Not_removed path | Not_restored path path

definition restore_backup :: "patch_io \<Rightarrow> prepared_edit \<Rightarrow> disk_state \<Rightarrow> disk_state \<times> rollback_error list" where
  "restore_backup io e s =
     (case pt_backup e of
        None \<Rightarrow> (s, [])
      | Some backup \<Rightarrow>
          if exists_at (ds_disk s) backup
          then (case sys_rename io backup (pt_path e) s of
              (s1, True) \<Rightarrow> (s1, [])
            | (s1, False) \<Rightarrow> (s1, [Not_restored (pt_path e) backup]))
          else (s, []))"

definition rollback_one :: "patch_io \<Rightarrow> prepared_edit \<Rightarrow> disk_state \<Rightarrow> disk_state \<times> rollback_error list" where
  "rollback_one io e s =
     (case (if pt_installed e \<and> exists_at (ds_disk s) (pt_path e) then sys_remove io (pt_path e) s else (s, True)) of
        (s1, False) \<Rightarrow> (s1, [Not_removed (pt_path e)])
      | (s1, True) \<Rightarrow> (case restore_backup io e s1 of (s2, errors) \<Rightarrow> (remove_staged io e s2, errors)))"

fun rollback_reversed :: "patch_io \<Rightarrow> prepared_edit list \<Rightarrow> disk_state \<Rightarrow> disk_state \<times> rollback_error list" where
  "rollback_reversed io [] s = (s, [])"
| "rollback_reversed io (e # es) s =
     (case rollback_one io e s of (s1, errors) \<Rightarrow> case rollback_reversed io es s1 of (s2, others) \<Rightarrow> (s2, errors @ others))"

definition rollback_prepared :: "patch_io \<Rightarrow> prepared_edit list \<Rightarrow> disk_state \<Rightarrow> disk_state \<times> rollback_error list" where
  "rollback_prepared io prepared s = rollback_reversed io (rev prepared) s"

section \<open>The transaction\<close>

text \<open>The text of an error; what the operating system says about an I/O error is not modelled.\<close>

fun error_message :: "axiom_error \<Rightarrow> message" where
  "error_message (Config m) = Lit ''invalid configuration: '' # m"
| "error_message (InvalidTransition m) = Lit ''invalid state transition: '' # m"
| "error_message (SessionNotFound m) = Lit ''session not found: '' # m"
| "error_message (PermissionDenied m) = Lit ''permission denied: '' # m"
| "error_message ApprovalDeclined = [Lit ''you declined this action; stopped without running it'']"
| "error_message (ApprovalRequired m) = Lit ''operation requires approval: '' # m"
| "error_message (OutsideWorkspace p) = [Lit ''path is outside the workspace: '', Pth p]"
| "error_message (Provider m) = Lit ''provider error: '' # m"
| "error_message (SecureProvider k c m) = [Text m]"
| "error_message (Tool_error m) = Lit ''tool error: '' # m"
| "error_message Git = [Lit ''git error: '']"
| "error_message (Storage m) = Lit ''storage error: '' # m"
| "error_message (Protocol m) = Lit ''protocol error: '' # m"
| "error_message Cancelled = [Lit ''operation cancelled'']"
| "error_message Io = []"
| "error_message Json = []"

primrec rollback_message :: "rollback_error \<Rightarrow> message" where
  "rollback_message (Not_removed p) = [Lit ''remove '', Pth p, Lit '': '']"
| "rollback_message (Not_restored p b) = [Lit ''restore '', Pth p, Lit '' from '', Pth b, Lit '': '']"

fun join_messages :: "message list \<Rightarrow> message" where
  "join_messages [] = []"
| "join_messages [m] = m"
| "join_messages (m # ms) = m @ Lit ''; '' # join_messages ms"

definition recovery_error :: "axiom_error \<Rightarrow> rollback_error list \<Rightarrow> axiom_error" where
  "recovery_error e errors =
     Tool_error (error_message e @ Lit ''; rollback needs manual recovery: '' # join_messages (map rollback_message errors))"

fun remove_backups :: "patch_io \<Rightarrow> prepared_edit list \<Rightarrow> disk_state \<Rightarrow> disk_state \<times> path list" where
  "remove_backups io [] s = (s, [])"
| "remove_backups io (e # es) s =
     (case pt_backup e of
        None \<Rightarrow> remove_backups io es s
      | Some backup \<Rightarrow>
          (case sys_remove io backup s of
             (s1, ok) \<Rightarrow> (case remove_backups io es s1 of (s2, warnings) \<Rightarrow> (s2, if ok then warnings else backup # warnings))))"

primrec operation_name :: "prepared_operation \<Rightarrow> string" where
  "operation_name Op_Create = ''create''"
| "operation_name Op_Update = ''update''"
| "operation_name Op_Delete = ''delete''"

definition patch_outcome_of :: "prepared_edit list \<Rightarrow> path list \<Rightarrow> nat \<Rightarrow> patch_outcome" where
  "patch_outcome_of prepared warnings max_diff_bytes =
     (let (diff, truncated) = truncate_text (str_join [CHR 0x0A] (map pt_diff prepared)) max_diff_bytes False
      in \<lparr>po_edits = map (\<lambda>e. \<lparr>eo_operation = operation_name (pt_operation e), eo_path = pt_relative e,
            eo_old_sha256 = pt_old_sha256 e, eo_new_sha256 = pt_new_sha256 e\<rparr>) prepared,
          po_changed_paths = map pt_relative prepared, po_diff = diff, po_diff_truncated = truncated,
          po_warnings = warnings\<rparr>)"

definition apply_structured_patch ::
  "patch_io \<Rightarrow> path \<Rightarrow> edit_intent list \<Rightarrow> nat \<Rightarrow> disk_state \<Rightarrow> (disk_state, axiom_error, patch_outcome) outcome" where
  "apply_structured_patch io base edits max_diff_bytes s =
     (if edits = [] \<or> MAX_EDITS < length edits
      then (s, Inl (Tool_error [Lit ''a patch must contain between 1 and '', Num MAX_EDITS, Lit '' edits'']))
      else (case prepare_all io base edits [] (s, 0) of
          (s1, Inl e) \<Rightarrow> (s1, Inl e)
        | (s1, Inr prepared) \<Rightarrow>
            (case commit_all io base prepared s1 of
               (s2, es, Inr _) \<Rightarrow>
                 (case remove_backups io es s2 of (s3, warnings) \<Rightarrow> (s3, Inr (patch_outcome_of es warnings max_diff_bytes)))
             | (s2, es, Inl e) \<Rightarrow>
                 (case rollback_prepared io es s2 of
                    (s3, errors) \<Rightarrow> (s3, Inl (if errors = [] then e else recovery_error e errors))))))"

end
