(* ===== verification/Patch_Commit.thy ===== *)
theory Patch_Commit
  imports Patch
begin

text \<open>
  A structured patch is a transaction: it installs every edit, or leaves every file as it was, or says that the rollback
  needs manual recovery and keeps every old file somewhere. Every schedule of failing system calls is covered.
\<close>

section \<open>Artifacts\<close>

text \<open>Names made from the identifier of call \<open>n\<close>. Identifiers are distinct and of one length, so none ends another.\<close>

definition artifact_at :: "patch_io \<Rightarrow> nat \<Rightarrow> path \<Rightarrow> bool" where
  "artifact_at io n a \<longleftrightarrow> (\<exists>p purpose. a = sibling_artifact p purpose (io_uuid io n))"

definition artifact :: "patch_io \<Rightarrow> path \<Rightarrow> bool" where
  "artifact io a \<longleftrightarrow> (\<exists>n. artifact_at io n a)"

definition uuid_laws :: "patch_io \<Rightarrow> bool" where
  "uuid_laws io \<longleftrightarrow> (\<forall>m n x. io_uuid io m = x @ io_uuid io n \<longrightarrow> m = n)"

lemma sibling_last: "\<exists>y. last (sibling_artifact p purpose u) = Normal (y @ u)"
  by (rule exI [of _ "''.'' @ (case file_name p of Some n \<Rightarrow> n | None \<Rightarrow> ''edit'') @ ''.axiomcli-'' @ purpose @ ''-''"])
    (simp add: sibling_artifact_def Let_def)

lemma artifact_at_unique:
  assumes "uuid_laws io" "artifact_at io m a" "artifact_at io n a" shows "m = n"
proof -
  from assms(2) obtain x where x: "last a = Normal (x @ io_uuid io m)"
    unfolding artifact_at_def using sibling_last by blast
  from assms(3) obtain y where "last a = Normal (y @ io_uuid io n)"
    unfolding artifact_at_def using sibling_last by blast
  with x have "x @ io_uuid io m = y @ io_uuid io n" by simp
  then have "(\<exists>z. io_uuid io m = z @ io_uuid io n) \<or> (\<exists>z. io_uuid io n = z @ io_uuid io m)"
    by (metis append_eq_append_conv2)
  with assms(1) show ?thesis unfolding uuid_laws_def by metis
qed

lemma artifactI: "artifact_at io n a \<Longrightarrow> artifact io a"
  by (auto simp: artifact_def)

lemma sibling_at: "artifact_at io n (sibling_artifact p purpose (io_uuid io n))"
  by (auto simp: artifact_at_def)

text \<open>A step of the transaction: the clock goes on, and of the disk only \<open>touched\<close> and names of
  its own calls change.\<close>

definition steps_to :: "patch_io \<Rightarrow> path set \<Rightarrow> disk_state \<Rightarrow> disk_state \<Rightarrow> bool" where
  "steps_to io touched s s' \<longleftrightarrow> ds_clock s \<le> ds_clock s'
   \<and> (\<forall>q. q \<notin> touched \<longrightarrow> (\<forall>n. ds_clock s \<le> n \<and> n < ds_clock s' \<longrightarrow> \<not> artifact_at io n q) \<longrightarrow> ds_disk s' q = ds_disk s q)"

lemma steps_refl: "steps_to io T s s"
  by (simp add: steps_to_def)

lemma steps_trans: "steps_to io T s1 s2 \<Longrightarrow> steps_to io T s2 s3 \<Longrightarrow> steps_to io T s1 s3"
  unfolding steps_to_def by (metis le_trans less_le_trans order_less_le_trans)

lemma steps_mono: "steps_to io T s s' \<Longrightarrow> T \<subseteq> T' \<Longrightarrow> steps_to io T' s s'"
  unfolding steps_to_def by blast

lemma steps_clock: "steps_to io T s s' \<Longrightarrow> ds_clock s \<le> ds_clock s'"
  by (simp add: steps_to_def)

text \<open>The names of a step's own calls need not be among what it touches.\<close>

lemma steps_own:
  "steps_to io (insert a T) s t \<Longrightarrow> artifact_at io n a \<Longrightarrow> ds_clock s \<le> n \<Longrightarrow> n < ds_clock t \<Longrightarrow> steps_to io T s t"
  unfolding steps_to_def by (metis insertE)

lemma steps_kept: "steps_to io T s s' \<Longrightarrow> q \<notin> T \<Longrightarrow> \<not> artifact io q \<Longrightarrow> ds_disk s' q = ds_disk s q"
  by (auto simp: steps_to_def artifact_def)

lemma steps_kept_artifact:
  "uuid_laws io \<Longrightarrow> steps_to io T s s' \<Longrightarrow> q \<notin> T \<Longrightarrow> artifact_at io n q \<Longrightarrow> n < ds_clock s \<Longrightarrow> ds_disk s' q = ds_disk s q"
  unfolding steps_to_def by (metis artifact_at_unique not_le)

lemma tick_fields [simp]: "ds_disk (tick s) = ds_disk s" "ds_clock (tick s) = Suc (ds_clock s)"
  by (simp_all add: tick_def)

lemma steps_tick: "steps_to io T s (tick s)"
  by (simp add: steps_to_def)

lemma steps_write:
  "q \<in> T \<Longrightarrow> steps_to io T s ((tick s)\<lparr>ds_disk := (ds_disk s)(q := n)\<rparr>)"
  "q \<in> T \<Longrightarrow> r \<in> T \<Longrightarrow> steps_to io T s ((tick s)\<lparr>ds_disk := (ds_disk s)(q := n, r := m)\<rparr>)"
  by (auto simp: steps_to_def)

section \<open>System calls\<close>

lemma rename_steps:
  assumes "sys_rename io a b s = (s', ok)"
  shows "steps_to io {a, b} s s'" and "\<not> ok \<Longrightarrow> ds_disk s' = ds_disk s"
    and "ok \<Longrightarrow> \<exists>n. ds_disk s a = Some n \<and> ds_disk s' = (ds_disk s)(a := None, b := Some n)"
  using assms by (auto simp: sys_rename_def intro: steps_tick steps_write split: option.splits if_splits)

lemma remove_steps:
  assumes "sys_remove io a s = (s', ok)"
  shows "steps_to io {a} s s'" and "\<not> ok \<Longrightarrow> ds_disk s' = ds_disk s" and "ok \<Longrightarrow> ds_disk s' = (ds_disk s)(a := None)"
  using assms by (auto simp: sys_remove_def intro: steps_tick steps_write split: if_splits)

lemma write_stage_steps:
  assumes "write_stage io a c m s = (s', ok)"
  shows "steps_to io {a} s s'" and "ok \<Longrightarrow> ds_disk s' a = Some (Regular c m)"
proof -
  obtain s1 b1 where 1: "sys_create_new io a s = (s1, b1)" by (cases "sys_create_new io a s")
  then have s1: "steps_to io {a} s s1"
    by (auto simp: sys_create_new_def intro: steps_tick steps_write split: if_splits)
  have put: "steps_to io {a} t (fst (sys_put io a n t)) \<and> (snd (sys_put io a n t) \<longrightarrow> ds_disk (fst (sys_put io a n t)) a = Some n)"
    for t n by (simp add: sys_put_def steps_tick steps_write)
  obtain s2 b2 where 2: "sys_put io a (Regular c (io_new_mode io)) s1 = (s2, b2)" by (cases "sys_put io a (Regular c (io_new_mode io)) s1")
  with put have "steps_to io {a} s1 s2" by (metis fst_conv)
  then have s2: "steps_to io {a} s s2" by (rule steps_trans [OF s1])
  have last: "steps_to io {a} s2 (fst (sys_put io a (Regular c m) s2))"
    "snd (sys_put io a (Regular c m) s2) \<Longrightarrow> ds_disk (fst (sys_put io a (Regular c m) s2)) a = Some (Regular c m)"
    using put by simp_all
  have "steps_to io {a} s s' \<and> (ok \<longrightarrow> ds_disk s' a = Some (Regular c m))"
  proof (cases "b1 \<and> b2")
    case True
    with assms 1 2 have "sys_put io a (Regular c m) s2 = (s', ok)" by (simp add: write_stage_def)
    with last steps_trans [OF s2 last(1)] show ?thesis by simp
  next
    case False
    with assms 1 2 s1 s2 show ?thesis by (auto simp: write_stage_def split: bool.splits)
  qed
  then show "steps_to io {a} s s'" and "ok \<Longrightarrow> ds_disk s' a = Some (Regular c m)" by simp_all
qed

lemma stage_content_steps:
  assumes "stage_content io p c permissions mode s = (s', r)"
  shows "steps_to io {} s s'"
    and "r = Inr a \<Longrightarrow> artifact_at io (ds_clock s) a \<and> ds_clock s < ds_clock s'
      \<and> ds_disk s' a = Some (Regular c (file_mode io permissions mode))"
proof -
  let ?a = "sibling_artifact p ''stage'' (io_uuid io (ds_clock s))"
  obtain s1 ok where w: "write_stage io ?a c (file_mode io permissions mode) (tick s) = (s1, ok)"
    by (cases "write_stage io ?a c (file_mode io permissions mode) (tick s)")
  have a: "artifact_at io (ds_clock s) ?a" by (rule sibling_at)
  note w1 = write_stage_steps [OF w]
  have first: "steps_to io {?a} s s1" by (rule steps_trans [OF steps_tick w1(1)])
  have early: "Suc (ds_clock s) \<le> ds_clock s1" using steps_clock [OF w1(1)] by simp
  have drop_a: "steps_to io {} s t" if "steps_to io {?a} s t" "ds_clock s < ds_clock t" for t
    using steps_own [OF that(1) a] that(2) by simp
  have removed: "steps_to io {?a} s (fst (sys_remove io ?a s1))"
    by (rule steps_trans [OF first remove_steps(1) [OF surjective_pairing]])
  have "ds_clock s < ds_clock (fst (sys_remove io ?a s1))" using early by (simp add: sys_remove_def)
  with removed first drop_a early assms w w1(2) a
  show "steps_to io {} s s'" and "r = Inr a \<Longrightarrow> artifact_at io (ds_clock s) a \<and> ds_clock s < ds_clock s'
      \<and> ds_disk s' a = Some (Regular c (file_mode io permissions mode))"
    by (cases ok; auto simp: stage_content_def Let_def)+
qed

section \<open>Items\<close>

definition regular :: "node option \<Rightarrow> bool" where
  "regular n \<longleftrightarrow> (\<exists>c m. n = Some (Regular c m))"

definition arts :: "prepared_edit \<Rightarrow> path set" where
  "arts e = set_option (pt_staged e) \<union> set_option (pt_backup e)"

definition old_names :: "patch_io \<Rightarrow> disk_state \<Rightarrow> path set \<Rightarrow> bool" where
  "old_names io s A \<longleftrightarrow> (\<forall>a \<in> A. \<exists>n < ds_clock s. artifact_at io n a)"

text \<open>A prepared item with its target and what will be there.\<close>

definition prep_item :: "patch_io \<Rightarrow> disk \<Rightarrow> disk_state \<Rightarrow> prepared_edit \<Rightarrow> path \<times> node option \<Rightarrow> bool" where
  "prep_item io d s e pn \<longleftrightarrow> pt_path e = fst pn \<and> \<not> artifact io (pt_path e) \<and> pt_backup e = None \<and> \<not> pt_installed e
   \<and> old_names io s (arts e)
   \<and> (pt_operation e = Op_Delete \<longleftrightarrow> snd pn = None)
   \<and> (snd pn \<noteq> None \<longrightarrow> regular (snd pn) \<and> (\<exists>a. pt_staged e = Some a \<and> ds_disk s a = snd pn))
   \<and> (if pt_operation e = Op_Create then d (pt_path e) = None else regular (d (pt_path e)))"

text \<open>What a rollback can undo, whatever was done to the item.\<close>

definition undo_item :: "patch_io \<Rightarrow> disk \<Rightarrow> disk_state \<Rightarrow> prepared_edit \<Rightarrow> bool" where
  "undo_item io d s e \<longleftrightarrow> \<not> artifact io (pt_path e) \<and> old_names io s (arts e)
   \<and> (\<forall>b. pt_backup e = Some b \<longrightarrow> ds_disk s b = d (pt_path e) \<and> regular (d (pt_path e)))
   \<and> (pt_installed e \<longrightarrow> regular (ds_disk s (pt_path e)) \<and> (pt_backup e = None \<longrightarrow> d (pt_path e) = None))
   \<and> (\<not> pt_installed e \<longrightarrow> ds_disk s (pt_path e) = (if pt_backup e = None then d (pt_path e) else None))
   \<and> set_option (pt_staged e) \<inter> set_option (pt_backup e) = {}"

lemma old_names_steps: "old_names io s A \<Longrightarrow> steps_to io T s s' \<Longrightarrow> old_names io s' A"
  unfolding old_names_def using steps_clock less_le_trans by blast

lemma old_names_artifact: "old_names io s A \<Longrightarrow> a \<in> A \<Longrightarrow> artifact io a"
  by (auto simp: old_names_def artifact_def)

lemma old_names_kept:
  "uuid_laws io \<Longrightarrow> old_names io s A \<Longrightarrow> steps_to io T s s' \<Longrightarrow> a \<in> A \<Longrightarrow> a \<notin> T \<Longrightarrow> ds_disk s' a = ds_disk s a"
  unfolding old_names_def using steps_kept_artifact by blast

lemma prep_undo: "prep_item io d s e pn \<Longrightarrow> ds_disk s (pt_path e) = d (pt_path e) \<Longrightarrow> undo_item io d s e"
  by (auto simp: prep_item_def undo_item_def)

lemma prep_frame:
  assumes "uuid_laws io" "prep_item io d s e pn" "steps_to io T s s'" "arts e \<inter> T = {}"
  shows "prep_item io d s' e pn"
proof -
  have "ds_disk s' a = ds_disk s a" if "pt_staged e = Some a" for a
    using old_names_kept [OF assms(1) _ assms(3), of "arts e" a] assms(2,4) that by (auto simp: prep_item_def arts_def)
  with assms(2) old_names_steps [OF _ assms(3)] show ?thesis by (auto simp: prep_item_def)
qed

lemma undo_frame:
  assumes "uuid_laws io" "undo_item io d s e" "steps_to io T s s'" "arts e \<inter> T = {}" "pt_path e \<notin> T"
  shows "undo_item io d s' e"
proof -
  have "ds_disk s' b = ds_disk s b" if "pt_backup e = Some b" for b
    using old_names_kept [OF assms(1) _ assms(3), of "arts e" b] assms(2,4) that by (auto simp: undo_item_def arts_def)
  moreover have "ds_disk s' (pt_path e) = ds_disk s (pt_path e)"
    using steps_kept [OF assms(3,5)] assms(2) by (simp add: undo_item_def)
  ultimately show ?thesis using assms(2) old_names_steps [OF _ assms(3)] by (auto simp: undo_item_def)
qed

section \<open>Committing one item\<close>

definition new_names :: "patch_io \<Rightarrow> disk_state \<Rightarrow> disk_state \<Rightarrow> path set" where
  "new_names io s s' = {a. \<exists>n. ds_clock s \<le> n \<and> n < ds_clock s' \<and> artifact_at io n a}"

text \<open>What committing one item gives.\<close>

definition item_committed :: "patch_io \<Rightarrow> disk \<Rightarrow> disk_state \<Rightarrow> disk_state \<Rightarrow> prepared_edit \<Rightarrow> prepared_edit \<Rightarrow> bool" where
  "item_committed io d s s' e e' \<longleftrightarrow> steps_to io (insert (pt_path e) (arts e)) s s' \<and> pt_path e' = pt_path e
   \<and> arts e' \<subseteq> arts e \<union> new_names io s s' \<and> undo_item io d s' e'"

lemma commit_create_ok:
  assumes io: "uuid_laws io" and item: "prep_item io d s e pn" "ds_disk s (pt_path e) = d (pt_path e)"
    and op: "pt_operation e = Op_Create" and run: "commit_create io e s = (s', e', r)"
  shows "item_committed io d s s' e e'" and "r = Inr u \<Longrightarrow> ds_disk s' (pt_path e) = snd pn"
proof -
  from item op obtain a where a: "pt_staged e = Some a" "ds_disk s a = snd pn" "regular (snd pn)"
    and free: "ds_disk s (pt_path e) = None" and plain: "\<not> artifact io (pt_path e)" and b: "pt_backup e = None"
    and names: "old_names io s (arts e)" by (auto simp: prep_item_def)
  have arts: "arts e = {a}" using a b by (simp add: arts_def)
  have "a \<noteq> pt_path e" using old_names_artifact [OF names] arts plain by auto
  obtain s1 ok where mv: "sys_rename io a (pt_path e) s = (s1, ok)" by (cases "sys_rename io a (pt_path e) s")
  note mv1 = rename_steps [OF mv]
  have steps: "steps_to io (insert (pt_path e) (arts e)) s s1" using mv1(1) by (simp add: arts insert_commute)
  have "item_committed io d s s' e e' \<and> (r = Inr u \<longrightarrow> ds_disk s' (pt_path e) = snd pn)"
  proof (cases ok)
    case True
    with run mv a free have res: "s' = s1" "e' = e\<lparr>pt_staged := None, pt_installed := True\<rparr>"
      by (auto simp: commit_create_def present_def)
    from mv1(3) [OF True] a(2) have "ds_disk s1 (pt_path e) = snd pn" by auto
    with res steps a(3) plain b item(2) free show ?thesis
      by (simp add: item_committed_def undo_item_def arts_def old_names_def)
  next
    case False
    with run mv a free have res: "s' = s1" "e' = e" "r = Inl Io" by (auto simp: commit_create_def present_def)
    have "undo_item io d s1 e"
      using prep_undo [OF item] mv1(2) [OF False] old_names_steps [OF names steps] by (simp add: undo_item_def)
    with res steps show ?thesis by (simp add: item_committed_def)
  qed
  then show "item_committed io d s s' e e'" and "r = Inr u \<Longrightarrow> ds_disk s' (pt_path e) = snd pn" by simp_all
qed

lemma node_case_Inr:
  "(case n of Regular b m \<Rightarrow> f b m | Directory \<Rightarrow> Inl x | Symlink v \<Rightarrow> Inl y) = Inr z \<longleftrightarrow> (\<exists>b m. n = Regular b m \<and> f b m = Inr z)"
  by (cases n) simp_all

lemma read_target_steps:
  "read_edit_target io base m p s = (s', r) \<Longrightarrow> s' = tick s \<and> (\<forall>x. r = Inr x \<longrightarrow> ds_disk s p = Some (Regular (fst x) (snd x)))"
  by (auto simp: read_edit_target_def rbind_Inr_iff node_case_Inr split: if_splits dest!: open_verified_ok)

text \<open>The old file has become the backup.\<close>

lemma backed_up:
  assumes io: "uuid_laws io" and item: "prep_item io d s e pn" "ds_disk s (pt_path e) = d (pt_path e)"
    and op: "pt_operation e \<noteq> Op_Create"
    and mv: "sys_rename io (pt_path e) (sibling_artifact (pt_path e) ''backup'' (io_uuid io (Suc (ds_clock s)))) (tick (tick s)) = (s2, ok)"
    (is "sys_rename _ _ ?b _ = _")
  shows "steps_to io (insert (pt_path e) (arts e)) s s2"
    and "\<not> ok \<Longrightarrow> undo_item io d s2 e"
    and "ok \<Longrightarrow> item_committed io d s s2 e (e\<lparr>pt_backup := Some ?b\<rparr>) \<and> ds_disk s2 (pt_path e) = None
      \<and> (\<forall>a. pt_staged e = Some a \<longrightarrow> ds_disk s2 a = ds_disk s a \<and> a \<noteq> ?b)"
proof -
  have plain: "\<not> artifact io (pt_path e)" and reg: "regular (d (pt_path e))" and names: "old_names io s (arts e)"
    and fresh: "pt_backup e = None" "\<not> pt_installed e" using item(1) op by (auto simp: prep_item_def)
  have b: "artifact_at io (Suc (ds_clock s)) ?b" by (rule sibling_at)
  note mv1 = rename_steps [OF mv]
  have early: "Suc (ds_clock s) < ds_clock s2" using steps_clock [OF mv1(1)] by simp
  have "steps_to io {?b, pt_path e} s s2"
    using steps_trans [OF steps_tick steps_trans [OF steps_tick mv1(1)]] by (simp add: insert_commute)
  from steps_own [OF this b _ early] have own: "steps_to io {pt_path e} s s2" by simp
  then show steps: "steps_to io (insert (pt_path e) (arts e)) s s2" by (rule steps_mono) blast
  show "undo_item io d s2 e" if "\<not> ok"
    using prep_undo [OF item] mv1(2) [OF that] old_names_steps [OF names steps] by (simp add: undo_item_def)
  have away: "a \<noteq> ?b \<and> a \<noteq> pt_path e" if "a \<in> arts e" for a
  proof -
    from names that obtain n where n: "n < ds_clock s" "artifact_at io n a" unfolding old_names_def by blast
    with artifact_at_unique [OF io b] have "a \<noteq> ?b" by fastforce
    with artifactI [OF n(2)] plain show ?thesis by blast
  qed
  show "item_committed io d s s2 e (e\<lparr>pt_backup := Some ?b\<rparr>) \<and> ds_disk s2 (pt_path e) = None
      \<and> (\<forall>a. pt_staged e = Some a \<longrightarrow> ds_disk s2 a = ds_disk s a \<and> a \<noteq> ?b)" if ok
  proof -
    from mv1(3) [OF that] item(2) have moved: "ds_disk s2 = (ds_disk s)(pt_path e := None, ?b := d (pt_path e))" by auto
    have "?b \<noteq> pt_path e" using artifactI [OF b] plain by auto
    with moved have at: "ds_disk s2 (pt_path e) = None" "ds_disk s2 ?b = d (pt_path e)" by auto
    have kept: "ds_disk s2 a = ds_disk s a \<and> a \<noteq> ?b" if "pt_staged e = Some a" for a
      using moved away [of a] that by (simp add: arts_def)
    have grown: "arts (e\<lparr>pt_backup := Some ?b\<rparr>) = insert ?b (arts e)" using fresh by (auto simp: arts_def)
    have "?b \<in> new_names io s s2" using b early by (auto simp: new_names_def intro!: exI [of _ "Suc (ds_clock s)"])
    moreover have "old_names io s2 (insert ?b (arts e))"
      using old_names_steps [OF names steps] b early by (auto simp: old_names_def)
    ultimately show ?thesis
      using steps at kept plain reg fresh by (auto simp: item_committed_def undo_item_def grown)
  qed
qed

lemma commit_replace_ok:
  assumes io: "uuid_laws io" and item: "prep_item io d s e pn" "ds_disk s (pt_path e) = d (pt_path e)"
    and op: "pt_operation e \<noteq> Op_Create" and run: "commit_replace io base e s = (s', e', r)"
  shows "item_committed io d s s' e e'" and "r = Inr u \<Longrightarrow> ds_disk s' (pt_path e) = snd pn"
proof -
  let ?b = "sibling_artifact (pt_path e) ''backup'' (io_uuid io (Suc (ds_clock s)))"
  obtain s1 c where "read_edit_target io base MAX_CONTENT_BYTES (pt_path e) s = (s1, c)"
    by (cases "read_edit_target io base MAX_CONTENT_BYTES (pt_path e) s")
  with read_target_steps have rd: "read_edit_target io base MAX_CONTENT_BYTES (pt_path e) s = (tick s, c)" by fastforce
  have names: "old_names io s (arts e)" using item(1) by (simp add: prep_item_def)
  have stay: "item_committed io d s (tick s) e e"
    using prep_undo [OF item] old_names_steps [OF names steps_tick]
    by (auto simp: item_committed_def undo_item_def intro: steps_tick)
  obtain s2 ok where mv: "sys_rename io (pt_path e) ?b (tick (tick s)) = (s2, ok)"
    by (cases "sys_rename io (pt_path e) ?b (tick (tick s))")
  note bk = backed_up [OF io item op mv]
  have "item_committed io d s s' e e' \<and> (r = Inr u \<longrightarrow> ds_disk s' (pt_path e) = snd pn)"
  proof (cases "\<exists>cur m. c = Inr (cur, m) \<and> pt_expected_sha256 e = Some (io_sha io cur)")
    case False
    with run rd have "s' = tick s \<and> e' = e \<and> (\<exists>x. r = Inl x)"
      by (auto simp: commit_replace_def split: sum.splits if_splits)
    with stay show ?thesis by auto
  next
    case True
    with run rd mv have run1: "(if \<not> ok then (s2, e, Inl Io)
        else if pt_operation e \<noteq> Op_Update then (s2, e\<lparr>pt_backup := Some ?b\<rparr>, Inr ())
        else (case sys_rename io (the (pt_staged e)) (pt_path e) s2 of
            (s3, False) \<Rightarrow> (s3, e\<lparr>pt_backup := Some ?b\<rparr>, Inl Io)
          | (s3, True) \<Rightarrow> (s3, e\<lparr>pt_backup := Some ?b, pt_staged := None, pt_installed := True\<rparr>, Inr ()))) = (s', e', r)"
      by (auto simp: commit_replace_def Let_def split: bool.splits)
    show ?thesis
    proof (cases "ok \<and> pt_operation e = Op_Update")
      case False
      have "snd pn = None" if "pt_operation e \<noteq> Op_Update"
        using item(1) op that by (cases "pt_operation e") (simp_all add: prep_item_def)
      with False run1 bk show ?thesis by (auto simp: item_committed_def split: if_splits)
    next
      case True
      note b = bk(3) [OF conjunct1 [OF True]]
      from item(1) True obtain a where a: "pt_staged e = Some a" "ds_disk s a = snd pn" "regular (snd pn)"
        by (auto simp: prep_item_def)
      from b a have at: "ds_disk s2 a = snd pn" "a \<noteq> ?b" by auto
      from b have done1: "steps_to io (insert (pt_path e) (arts e)) s s2" "undo_item io d s2 (e\<lparr>pt_backup := Some ?b\<rparr>)"
        "?b \<in> new_names io s s2 \<union> arts e" by (auto simp: item_committed_def arts_def)
      from done1(2) have plain: "\<not> artifact io (pt_path e)" and n2: "old_names io s2 (insert ?b {a})"
        using a by (auto simp: undo_item_def arts_def)
      obtain s3 ok3 where mv3: "sys_rename io a (pt_path e) s2 = (s3, ok3)" by (cases "sys_rename io a (pt_path e) s2")
      note mv4 = rename_steps [OF mv3]
      have "{a, pt_path e} \<subseteq> insert (pt_path e) (arts e)" using a by (auto simp: arts_def)
      then have steps: "steps_to io (insert (pt_path e) (arts e)) s s3" by (rule steps_trans [OF done1(1) steps_mono [OF mv4(1)]])
      have "new_names io s s2 \<subseteq> new_names io s s3" using steps_clock [OF mv4(1)] by (auto simp: new_names_def)
      with done1(3) have newb: "?b \<in> arts e \<union> new_names io s s3" by auto
      have n3: "old_names io s3 (insert ?b {a})" by (rule old_names_steps [OF n2 mv4(1)])
      show ?thesis
      proof (cases ok3)
        case True
        with run1 \<open>ok \<and> pt_operation e = Op_Update\<close> a mv3
        have res: "s' = s3" "e' = e\<lparr>pt_backup := Some ?b, pt_staged := None, pt_installed := True\<rparr>" by simp_all
        have ne: "a \<noteq> pt_path e" "?b \<noteq> pt_path e" using old_names_artifact [OF n2] plain by auto
        from mv4(3) [OF True] at(1) have disk: "ds_disk s3 = (ds_disk s2)(a := None, pt_path e := snd pn)" by auto
        have "ds_disk s2 ?b = d (pt_path e)" "regular (d (pt_path e))" using done1(2) by (auto simp: undo_item_def)
        with disk ne at(2) res steps newb n3 a(3) plain show ?thesis
          by (auto simp: item_committed_def undo_item_def arts_def old_names_def)
      next
        case False
        with run1 \<open>ok \<and> pt_operation e = Op_Update\<close> a mv3
        have res: "s' = s3" "e' = e\<lparr>pt_backup := Some ?b\<rparr>" "r = Inl Io" by simp_all
        have "undo_item io d s3 (e\<lparr>pt_backup := Some ?b\<rparr>)"
          using done1(2) mv4(2) [OF False] old_names_steps [OF _ mv4(1)] by (auto simp: undo_item_def)
        with res steps newb a show ?thesis by (auto simp: item_committed_def arts_def)
      qed
    qed
  qed
  then show "item_committed io d s s' e e'" and "r = Inr u \<Longrightarrow> ds_disk s' (pt_path e) = snd pn" by simp_all
qed

lemma commit_one_ok:
  assumes "uuid_laws io" "prep_item io d s e pn" "ds_disk s (pt_path e) = d (pt_path e)" "commit_one io base e s = (s', e', r)"
  shows "item_committed io d s s' e e'" and "r = Inr u \<Longrightarrow> ds_disk s' (pt_path e) = snd pn"
  using commit_create_ok [OF assms(1-3)] commit_replace_ok [OF assms(1-3)] assms(4)
  by (auto simp: commit_one_def split: if_splits)

section \<open>Committing every item\<close>

definition separate :: "prepared_edit \<Rightarrow> prepared_edit \<Rightarrow> bool" where
  "separate e f \<longleftrightarrow> pt_path e \<noteq> pt_path f \<and> arts e \<inter> arts f = {}"

definition touched :: "prepared_edit list \<Rightarrow> path set" where
  "touched es = pt_path ` set es \<union> \<Union> (arts ` set es)"

lemma separate_sym: "separate e f \<Longrightarrow> separate f e"
  by (auto simp: separate_def)

lemma new_names_old:
  assumes "uuid_laws io" "old_names io s A" shows "A \<inter> new_names io s s' = {}"
proof -
  have False if a: "a \<in> A" "a \<in> new_names io s s'" for a
  proof -
    from assms(2) a(1) obtain m where m: "m < ds_clock s" "artifact_at io m a" unfolding old_names_def by blast
    from a(2) obtain n where n: "ds_clock s \<le> n" "artifact_at io n a" unfolding new_names_def by blast
    from artifact_at_unique [OF assms(1) m(2) n(2)] m(1) n(1) show False by simp
  qed
  then show ?thesis by blast
qed

lemma new_names_grow:
  assumes "ds_clock s0 \<le> ds_clock s" "ds_clock s' \<le> ds_clock s1" shows "new_names io s s' \<subseteq> new_names io s0 s1"
  unfolding new_names_def using order_trans [OF assms(1)] order_less_le_trans [OF _ assms(2)] by blast

lemma prep_names: "prep_item io d s e pn \<Longrightarrow> old_names io s (arts e) \<and> \<not> artifact io (pt_path e)"
  unfolding prep_item_def by blast

lemma undo_names: "undo_item io d s e \<Longrightarrow> old_names io s (arts e) \<and> \<not> artifact io (pt_path e)"
  by (simp add: undo_item_def)

lemma names_apart: "old_names io s A \<Longrightarrow> \<not> artifact io p \<Longrightarrow> p \<notin> A"
  using old_names_artifact by blast

text \<open>Committing one item leaves a separate item prepared, and separate from what the first has become.\<close>

lemma committed_apart:
  assumes io: "uuid_laws io" and done1: "item_committed io d s s1 e e1" "old_names io s (arts e)" "\<not> artifact io (pt_path e)"
    and item: "prep_item io d s f pn" "ds_disk s (pt_path f) = d (pt_path f)" and sep: "separate e f"
  shows "prep_item io d s1 f pn" "ds_disk s1 (pt_path f) = d (pt_path f)" "separate e1 f"
proof -
  from done1(1) have steps: "steps_to io (insert (pt_path e) (arts e)) s s1" and e1: "pt_path e1 = pt_path e"
    "arts e1 \<subseteq> arts e \<union> new_names io s s1" by (auto simp: item_committed_def)
  note nf = prep_names [OF item(1)]
  have "arts f \<inter> insert (pt_path e) (arts e) = {}"
    using sep names_apart [OF conjunct1 [OF nf] done1(3)] by (auto simp: separate_def)
  with prep_frame [OF io item(1) steps] show "prep_item io d s1 f pn" by blast
  have "pt_path f \<notin> insert (pt_path e) (arts e)"
    using sep names_apart [OF done1(2) conjunct2 [OF nf]] by (auto simp: separate_def)
  with steps_kept [OF steps] nf item(2) show "ds_disk s1 (pt_path f) = d (pt_path f)" by simp
  from new_names_old [OF io conjunct1 [OF nf], of s1] sep e1 show "separate e1 f" by (auto simp: separate_def)
qed

lemma commit_all_ok:
  assumes io: "uuid_laws io"
  shows "list_all2 (prep_item io d s) es ts \<Longrightarrow> \<forall>e \<in> set es. ds_disk s (pt_path e) = d (pt_path e) \<Longrightarrow> sorted_wrt separate es \<Longrightarrow>
    commit_all io base es s = (s', es', r) \<Longrightarrow>
    steps_to io (touched es) s s' \<and> map pt_path es' = map pt_path es \<and> \<Union> (arts ` set es') \<subseteq> \<Union> (arts ` set es) \<union> new_names io s s'
    \<and> sorted_wrt separate es' \<and> (\<forall>e \<in> set es'. undo_item io d s' e) \<and> (r = Inr () \<longrightarrow> (\<forall>pn \<in> set ts. ds_disk s' (fst pn) = snd pn))"
proof (induction es arbitrary: s ts s' es' r)
  case Nil
  then show ?case by (auto intro: steps_refl)
next
  case (Cons e es)
  from Cons.prems(1) obtain pn ts' where ts: "ts = pn # ts'" and item: "prep_item io d s e pn"
    and items: "list_all2 (prep_item io d s) es ts'" by (auto simp: list_all2_Cons1)
  obtain s1 e1 r1 where one: "commit_one io base e s = (s1, e1, r1)" by (metis prod_cases3)
  from Cons.prems(2) have at: "ds_disk s (pt_path e) = d (pt_path e)" by simp
  note ok = commit_one_ok [OF io item at one]
  note ne = prep_names [OF item]
  from ok(1) have steps1: "steps_to io (insert (pt_path e) (arts e)) s s1" and e1: "pt_path e1 = pt_path e"
    "arts e1 \<subseteq> arts e \<union> new_names io s s1" "undo_item io d s1 e1" by (auto simp: item_committed_def)
  have "insert (pt_path e) (arts e) \<subseteq> touched (e # es)" by (auto simp: touched_def)
  note steps1' = steps_mono [OF steps1 this]
  have apart: "prep_item io d s1 f pf \<and> ds_disk s1 (pt_path f) = d (pt_path f) \<and> separate e1 f"
    if "f \<in> set es" "prep_item io d s f pf" for f pf
    using committed_apart [OF io ok(1) _ _ that(2)] ne Cons.prems(2,3) that(1) by simp
  have items1: "list_all2 (prep_item io d s1) es ts'"
    using items apart by (auto simp: list_all2_conv_all_nth)
  have some_pn: "\<exists>pf. prep_item io d s f pf" if "f \<in> set es" for f
    using items that by (metis in_set_conv_nth list_all2_nthD)
  with apart have at1: "\<forall>f \<in> set es. ds_disk s1 (pt_path f) = d (pt_path f)" and sep1: "\<forall>f \<in> set es. separate e1 f"
    by blast+
  show ?case
  proof (cases r1)
    case (Inl x)
    with Cons.prems(4) one have res: "s' = s1" "es' = e1 # es" "r = Inl x" by auto
    have "undo_item io d s1 f" if "f \<in> set es" for f
      using apart [OF that] some_pn [OF that] prep_undo by blast
    with res e1 steps1' sep1 Cons.prems(3) show ?thesis by auto
  next
    case (Inr u)
    obtain s2 es2 r2 where all: "commit_all io base es s1 = (s2, es2, r2)" by (metis prod_cases3)
    with Cons.prems(4) one Inr have res: "s' = s2" "es' = e1 # es2" "r = r2" by auto
    have "steps_to io (touched es) s1 s2 \<and> map pt_path es2 = map pt_path es
      \<and> \<Union> (arts ` set es2) \<subseteq> \<Union> (arts ` set es) \<union> new_names io s1 s2 \<and> sorted_wrt separate es2
      \<and> (\<forall>e \<in> set es2. undo_item io d s2 e) \<and> (r2 = Inr () \<longrightarrow> (\<forall>pn \<in> set ts'. ds_disk s2 (fst pn) = snd pn))"
      using Cons.IH [OF items1 at1 _ all] Cons.prems(3) by simp
    then have ih: "steps_to io (touched es) s1 s2" "map pt_path es2 = map pt_path es"
      "\<Union> (arts ` set es2) \<subseteq> \<Union> (arts ` set es) \<union> new_names io s1 s2" "sorted_wrt separate es2"
      "\<forall>e \<in> set es2. undo_item io d s2 e" "r2 = Inr () \<longrightarrow> (\<forall>pn \<in> set ts'. ds_disk s2 (fst pn) = snd pn)" by blast+
    note n1 = undo_names [OF e1(3)]
    have paths_plain: "\<not> artifact io (pt_path f)" if "f \<in> set es" for f using some_pn [OF that] prep_names by blast
    have away: "arts e1 \<inter> touched es = {}" "pt_path e1 \<notin> touched es"
    proof -
      show "arts e1 \<inter> touched es = {}"
        using sep1 paths_plain old_names_artifact [OF conjunct1 [OF n1]] by (auto simp: touched_def separate_def)
      have "pt_path e1 \<notin> arts f" if "f \<in> set es" for f
        using some_pn [OF that] prep_names names_apart n1 by blast
      with sep1 show "pt_path e1 \<notin> touched es" by (auto simp: touched_def separate_def)
    qed
    have e2: "undo_item io d s2 e1" by (rule undo_frame [OF io e1(3) ih(1) away])
    have sep2: "separate e1 f" if "f \<in> set es2" for f
    proof -
      have "pt_path f \<in> pt_path ` set es" using ih(2) that by (metis image_eqI image_set)
      then have "pt_path e1 \<noteq> pt_path f" using sep1 by (auto simp: separate_def)
      moreover have "arts f \<subseteq> \<Union> (arts ` set es) \<union> new_names io s1 s2" using ih(3) that by blast
      moreover have "arts e1 \<inter> new_names io s1 s2 = {}" by (rule new_names_old [OF io conjunct1 [OF n1]])
      ultimately show ?thesis using sep1 by (fastforce simp: separate_def)
    qed
    have "touched es \<subseteq> touched (e # es)" by (auto simp: touched_def)
    note steps2 = steps_trans [OF steps1' steps_mono [OF ih(1) this]]
    have "fst pn = pt_path e" using item unfolding prep_item_def by metis
    then have last: "ds_disk s2 (fst pn) = snd pn"
      using ok(2) [OF Inr] steps_kept [OF ih(1)] away(2) e1(1) ne by simp
    have n1: "new_names io s s1 \<subseteq> new_names io s s2" by (rule new_names_grow [OF order_refl steps_clock [OF ih(1)]])
    have n2: "new_names io s1 s2 \<subseteq> new_names io s s2" by (rule new_names_grow [OF steps_clock [OF steps1] order_refl])
    have "arts e1 \<subseteq> arts e \<union> new_names io s s2" using e1(2) n1 by (meson Un_mono order_refl order_trans)
    moreover have "\<Union> (arts ` set es2) \<subseteq> \<Union> (arts ` set es) \<union> new_names io s s2"
      using ih(3) n2 by (meson Un_mono order_refl order_trans)
    ultimately have grown: "\<Union> (arts ` set (e1 # es2)) \<subseteq> \<Union> (arts ` set (e # es)) \<union> new_names io s s2"
      by (simp add: subset_iff) blast
    show ?thesis
    proof (intro conjI)
      show "steps_to io (touched (e # es)) s s'" using steps2 res by simp
      show "map pt_path es' = map pt_path (e # es)" using ih(2) e1(1) res by simp
      show "\<Union> (arts ` set es') \<subseteq> \<Union> (arts ` set (e # es)) \<union> new_names io s s'" using grown res by simp
      show "sorted_wrt separate es'" using sep2 ih(4) res by simp
      show "\<forall>e \<in> set es'. undo_item io d s' e" using e2 ih(5) res by simp
      show "r = Inr () \<longrightarrow> (\<forall>pn \<in> set ts. ds_disk s' (fst pn) = snd pn)" using last ih(6) res ts by simp
    qed
  qed
qed

end
