(* ===== verification/Patch_Correct.thy ===== *)
theory Patch_Correct
  imports Patch_Commit
begin

text \<open>
  A structured patch is a transaction: it installs every edit, or leaves every file as it was, or says that the rollback
  needs manual recovery and keeps every old file somewhere. Every schedule of failing system calls is covered.
\<close>

section \<open>Rolling one item back\<close>

text \<open>A remaining staged file is removed without touching anything else.\<close>

lemma remove_staged_steps:
  shows "steps_to io (set_option (pt_staged e)) s (remove_staged io e s)"
    and "q \<notin> set_option (pt_staged e) \<Longrightarrow> ds_disk (remove_staged io e s) q = ds_disk s q"
proof -
  have "steps_to io {a} s (fst (sys_remove io a s)) \<and> (q \<noteq> a \<longrightarrow> ds_disk (fst (sys_remove io a s)) q = ds_disk s q)"
    if "pt_staged e = Some a" for a q
    using remove_steps [OF surjective_pairing, of io a s] that
    by (cases "snd (sys_remove io a s)") auto
  then show "steps_to io (set_option (pt_staged e)) s (remove_staged io e s)"
    and "q \<notin> set_option (pt_staged e) \<Longrightarrow> ds_disk (remove_staged io e s) q = ds_disk s q"
    by (auto simp: remove_staged_def steps_refl split: option.splits)
qed

text \<open>The old node is still somewhere among the item's places.\<close>

definition saved :: "disk \<Rightarrow> disk_state \<Rightarrow> prepared_edit \<Rightarrow> bool" where
  "saved d s e \<longleftrightarrow> d (pt_path e) = None \<or> (\<exists>b \<in> insert (pt_path e) (arts e). ds_disk s b = d (pt_path e))"

primrec failed_path :: "rollback_error \<Rightarrow> path" where
  "failed_path (Not_removed p) = p"
| "failed_path (Not_restored p b) = p"

text \<open>Each target is as it was, or an error names it.\<close>

definition restored_or_named :: "disk \<Rightarrow> disk_state \<Rightarrow> rollback_error list \<Rightarrow> prepared_edit \<Rightarrow> bool" where
  "restored_or_named d s errors e \<longleftrightarrow> ds_disk s (pt_path e) = d (pt_path e) \<or> (\<exists>x \<in> set errors. failed_path x = pt_path e)"

definition rolled_back :: "patch_io \<Rightarrow> disk \<Rightarrow> disk_state \<Rightarrow> disk_state \<Rightarrow> prepared_edit \<Rightarrow> rollback_error list \<Rightarrow> bool" where
  "rolled_back io d s s' e errors \<longleftrightarrow> steps_to io (insert (pt_path e) (arts e)) s s' \<and> saved d s' e
   \<and> restored_or_named d s' errors e"

lemma regular_exists: "regular (ds_disk s p) \<Longrightarrow> exists_at (ds_disk s) p"
  by (auto simp: regular_def exists_at_def)

lemma restore_backup_ok:
  assumes io: "uuid_laws io" and names: "old_names io s (arts e)" and plain: "\<not> artifact io (pt_path e)"
    and bk: "\<forall>b. pt_backup e = Some b \<longrightarrow> ds_disk s b = d (pt_path e) \<and> regular (d (pt_path e))"
    and at: "ds_disk s (pt_path e) = (if pt_backup e = None then d (pt_path e) else None)"
    and apart: "set_option (pt_staged e) \<inter> set_option (pt_backup e) = {}"
    and run: "restore_backup io e s = (s', errors)"
  shows "rolled_back io d s (remove_staged io e s') e errors"
proof -
  have steps1: "steps_to io (insert (pt_path e) (arts e)) s s' \<and> restored_or_named d s' errors e
    \<and> (errors = [] \<longrightarrow> ds_disk s' (pt_path e) = d (pt_path e)) \<and> (errors \<noteq> [] \<longrightarrow> (\<exists>b. pt_backup e = Some b \<and> ds_disk s' b = d (pt_path e)))"
  proof (cases "pt_backup e")
    case None
    with run at show ?thesis by (simp add: restore_backup_def steps_refl restored_or_named_def)
  next
    case (Some b)
    with bk have b: "ds_disk s b = d (pt_path e)" "regular (ds_disk s b)" by simp_all
    obtain s1 ok where mv: "sys_rename io b (pt_path e) s = (s1, ok)" by (cases "sys_rename io b (pt_path e) s")
    note mv1 = rename_steps [OF mv]
    have "{b, pt_path e} \<subseteq> insert (pt_path e) (arts e)" using Some by (auto simp: arts_def)
    note wide = steps_mono [OF mv1(1) this]
    from run Some mv regular_exists [OF b(2)] have "s' = s1" "errors = (if ok then [] else [Not_restored (pt_path e) b])"
      by (simp_all add: restore_backup_def split: bool.splits)
    with mv1(2,3) b Some wide show ?thesis by (cases ok) (auto simp: restored_or_named_def)
  qed
  then have steps: "steps_to io (insert (pt_path e) (arts e)) s s'" by blast
  have names': "old_names io s' (set_option (pt_staged e))"
    using old_names_steps [OF names steps] by (simp add: old_names_def arts_def)
  note rs = remove_staged_steps
  have keep: "ds_disk (remove_staged io e s') (pt_path e) = ds_disk s' (pt_path e)"
    using rs(2) old_names_artifact [OF names'] plain by blast
  have keep_b: "ds_disk (remove_staged io e s') b = ds_disk s' b" if "pt_backup e = Some b" for b
    using rs(2) apart that by auto
  have "steps_to io (insert (pt_path e) (arts e)) s (remove_staged io e s')"
    by (rule steps_trans [OF steps steps_mono [OF rs(1)]]) (auto simp: arts_def)
  moreover have "saved d (remove_staged io e s') e"
    using steps1 keep keep_b by (cases "errors = []") (auto simp: saved_def arts_def)
  ultimately show ?thesis using steps1 keep by (simp add: rolled_back_def restored_or_named_def)
qed

lemma rollback_one_ok:
  assumes io: "uuid_laws io" and item: "undo_item io d s e" and run: "rollback_one io e s = (s', errors)"
  shows "rolled_back io d s s' e errors"
proof -
  from item have plain: "\<not> artifact io (pt_path e)" and names: "old_names io s (arts e)"
    and bk: "\<forall>b. pt_backup e = Some b \<longrightarrow> ds_disk s b = d (pt_path e) \<and> regular (d (pt_path e))"
    and apart: "set_option (pt_staged e) \<inter> set_option (pt_backup e) = {}" unfolding undo_item_def by blast+
  show ?thesis
  proof (cases "pt_installed e")
    case False
    with run have "rollback_one io e s = (remove_staged io e (fst (restore_backup io e s)), snd (restore_backup io e s))"
      by (simp add: rollback_one_def case_prod_beta)
    with run have res: "s' = remove_staged io e (fst (restore_backup io e s))" "errors = snd (restore_backup io e s)" by simp_all
    have "ds_disk s (pt_path e) = (if pt_backup e = None then d (pt_path e) else None)"
      using item False by (simp add: undo_item_def)
    from restore_backup_ok [where d = d, OF io names plain bk this apart surjective_pairing] res show ?thesis by simp
  next
    case True
    obtain s1 ok where rm: "sys_remove io (pt_path e) s = (s1, ok)" by (cases "sys_remove io (pt_path e) s")
    note rm1 = remove_steps [OF rm]
    from item True have reg: "regular (ds_disk s (pt_path e))" and new: "pt_backup e = None \<Longrightarrow> d (pt_path e) = None"
      by (simp_all add: undo_item_def)
    have wide: "steps_to io (insert (pt_path e) (arts e)) s s1" by (rule steps_mono [OF rm1(1)]) blast
    show ?thesis
    proof (cases ok)
      case False
      with run rm True regular_exists [OF reg] have "s' = s1" "errors = [Not_removed (pt_path e)]"
        by (simp_all add: rollback_one_def)
      with wide rm1(2) [OF False] bk new show ?thesis
        by (cases "pt_backup e") (auto simp: rolled_back_def restored_or_named_def saved_def arts_def)
    next
      case ok: True
      with run rm True regular_exists [OF reg]
      have res: "s' = remove_staged io e (fst (restore_backup io e s1))" "errors = snd (restore_backup io e s1)"
        by (simp_all add: rollback_one_def case_prod_beta)
      have ne: "b \<noteq> pt_path e" if "b \<in> arts e" for b using names_apart [OF names plain] that by blast
      have bk1: "\<forall>b. pt_backup e = Some b \<longrightarrow> ds_disk s1 b = d (pt_path e) \<and> regular (d (pt_path e))"
        using bk ne rm1(3) [OF ok] by (auto simp: arts_def)
      have at1: "ds_disk s1 (pt_path e) = (if pt_backup e = None then d (pt_path e) else None)"
        using rm1(3) [OF ok] new by simp
      have "rolled_back io d s1 s' e errors"
        using restore_backup_ok [where d = d, OF io old_names_steps [OF names wide] plain bk1 at1 apart surjective_pairing] res by simp
      with steps_trans [OF wide] show ?thesis by (auto simp: rolled_back_def)
    qed
  qed
qed

section \<open>Rolling every item back\<close>

lemma separate_touched:
  assumes "separate e f" "old_names io s (arts e)" "old_names io s (arts f)" "\<not> artifact io (pt_path e)" "\<not> artifact io (pt_path f)"
  shows "insert (pt_path e) (arts e) \<inter> insert (pt_path f) (arts f) = {}"
  using assms(1) names_apart [OF assms(2,5)] names_apart [OF assms(3,4)] unfolding separate_def by blast

lemma saved_frame:
  assumes io: "uuid_laws io" and old: "saved d s e" "old_names io s (arts e)" "\<not> artifact io (pt_path e)"
    and steps: "steps_to io T s s'" "insert (pt_path e) (arts e) \<inter> T = {}"
  shows "saved d s' e" "ds_disk s' (pt_path e) = ds_disk s (pt_path e)"
proof -
  have arts_kept: "ds_disk s' a = ds_disk s a" if "a \<in> arts e" for a
    using old_names_kept [OF io old(2) steps(1) that] steps(2) that by blast
  show path_kept: "ds_disk s' (pt_path e) = ds_disk s (pt_path e)" using steps_kept [OF steps(1) _ old(3)] steps(2) by blast
  with old(1) arts_kept show "saved d s' e" by (auto simp: saved_def)
qed

lemma rollback_reversed_ok:
  assumes io: "uuid_laws io"
  shows "\<forall>e \<in> set es. undo_item io d s e \<Longrightarrow> sorted_wrt separate es \<Longrightarrow> rollback_reversed io es s = (s', errors) \<Longrightarrow>
    steps_to io (touched es) s s' \<and> (\<forall>e \<in> set es. saved d s' e) \<and> (\<forall>e \<in> set es. restored_or_named d s' errors e)"
proof (induction es arbitrary: s s' errors)
  case Nil
  then show ?case by (simp add: steps_refl)
next
  case (Cons e es)
  obtain s1 er where one: "rollback_one io e s = (s1, er)" by (cases "rollback_one io e s")
  obtain s2 ers where rest: "rollback_reversed io es s1 = (s2, ers)" by (cases "rollback_reversed io es s1")
  from Cons.prems(3) one rest have res: "s' = s2" "errors = er @ ers" by simp_all
  have item: "undo_item io d s e" using Cons.prems(1) by simp
  note ne = undo_names [OF item]
  from rollback_one_ok [OF io item one] have steps1: "steps_to io (insert (pt_path e) (arts e)) s s1"
    and sv: "saved d s1 e" and named: "restored_or_named d s1 er e" by (auto simp: rolled_back_def)
  have away: "insert (pt_path f) (arts f) \<inter> insert (pt_path e) (arts e) = {}" if "f \<in> set es" for f
    using separate_touched [of f e io s] undo_names [of io d s f] Cons.prems(1,2) ne that by (simp add: separate_sym)
  have items1: "\<forall>f \<in> set es. undo_item io d s1 f"
    using undo_frame [OF io _ steps1] away Cons.prems(1) by (metis Int_insert_left insert_not_empty list.set_intros(2))
  have "sorted_wrt separate es" using Cons.prems(2) by simp
  note ih = Cons.IH [OF items1 this rest]
  have "insert (pt_path e) (arts e) \<inter> touched es = {}" using away by (auto simp: touched_def)
  note fr = saved_frame [OF io sv old_names_steps [OF conjunct1 [OF ne] steps1] conjunct2 [OF ne] conjunct1 [OF ih] this]
  have "steps_to io (touched (e # es)) s s2"
    by (rule steps_trans [OF steps_mono [OF steps1] steps_mono [OF conjunct1 [OF ih]]]) (auto simp: touched_def)
  moreover have "\<forall>f \<in> set (e # es). saved d s2 f" using ih fr(1) by simp
  moreover have "\<forall>f \<in> set (e # es). restored_or_named d s2 (er @ ers) f"
    using ih fr(2) named by (auto simp: restored_or_named_def)
  ultimately show ?case using res by blast
qed

lemma rollback_prepared_ok:
  assumes "uuid_laws io" "\<forall>e \<in> set es. undo_item io d s e" "sorted_wrt separate es" "rollback_prepared io es s = (s', errors)"
  shows "steps_to io (touched es) s s'" "\<forall>e \<in> set es. saved d s' e"
    "\<forall>e \<in> set es. restored_or_named d s' errors e"
proof -
  have "sorted_wrt separate (rev es)"
    using assms(3) by (simp add: sorted_wrt_rev) (metis (mono_tags, lifting) separate_sym sorted_wrt_mono_rel)
  from rollback_reversed_ok [OF assms(1) _ this, of d s s' errors] assms(2,4)
  show "steps_to io (touched es) s s'" "\<forall>e \<in> set es. saved d s' e"
    "\<forall>e \<in> set es. restored_or_named d s' errors e"
    by (auto simp: rollback_prepared_def touched_def)
qed

section \<open>Preparing every edit\<close>

text \<open>The path an edit is about and what will be there, read from the disk before the transaction.\<close>

fun edit_target :: "patch_io \<Rightarrow> path \<Rightarrow> disk \<Rightarrow> edit_intent \<Rightarrow> (path \<times> node option) option" where
  "edit_target io base d (Create input content mode) =
     (case resolve_for_write (io_fs io) base input of
        Inl _ \<Rightarrow> None
      | Inr p \<Rightarrow> Some (p, Some (Regular content (file_mode io None mode))))"
| "edit_target io base d (Update input expected content preserve) =
     (case resolve_existing (io_fs io) base input of
        Inl _ \<Rightarrow> None
      | Inr p \<Rightarrow> (case d p of
          Some (Regular old mode) \<Rightarrow> Some (p, Some (Regular (if preserve then preserve_newlines old content else content) mode))
        | _ \<Rightarrow> None))"
| "edit_target io base d (Delete input expected) =
     (case resolve_existing (io_fs io) base input of Inl _ \<Rightarrow> None | Inr p \<Rightarrow> Some (p, None))"

text \<open>No edit is about a name that this transaction makes.\<close>

definition plain_edit :: "patch_io \<Rightarrow> path \<Rightarrow> edit_intent \<Rightarrow> bool" where
  "plain_edit io base edit \<longleftrightarrow>
     (\<forall>p. (case edit of Create input _ _ \<Rightarrow> resolve_for_write (io_fs io) base input
           | Update input _ _ _ \<Rightarrow> resolve_existing (io_fs io) base input
           | Delete input _ \<Rightarrow> resolve_existing (io_fs io) base input) = Inr p \<longrightarrow> \<not> artifact io p)"

text \<open>What preparing one edit gives: only staged files of its own are new.\<close>

definition item_prepared ::
  "patch_io \<Rightarrow> path \<Rightarrow> disk \<Rightarrow> edit_intent \<Rightarrow> disk_state \<Rightarrow> disk_state \<Rightarrow> prepared_edit \<Rightarrow> bool" where
  "item_prepared io base d edit s s' e \<longleftrightarrow> arts e \<subseteq> new_names io s s'
   \<and> (\<exists>pn. edit_target io base d edit = Some pn \<and> prep_item io d s' e pn)"

lemma checked_target_ok:
  assumes "checked_target io base input expected stale bad s = (s', r)"
  shows "steps_to io {} s s'"
    and "r = Inr (p, old, mode) \<Longrightarrow> resolve_existing (io_fs io) base input = Inr p \<and> ds_disk s p = Some (Regular old mode)"
proof -
  obtain x where x: "resolve_existing (io_fs io) base input = x" by blast
  have "steps_to io {} s s' \<and> (r = Inr (p, old, mode) \<longrightarrow> x = Inr p \<and> ds_disk s p = Some (Regular old mode))"
  proof (cases x)
    case (Inl e)
    with assms x show ?thesis by (auto simp: checked_target_def steps_refl)
  next
    case (Inr q)
    obtain s1 c where c: "read_edit_target io base MAX_CONTENT_BYTES q s = (s1, c)"
      by (cases "read_edit_target io base MAX_CONTENT_BYTES q s")
    from read_target_steps [OF c] have s1: "s1 = tick s" and at: "\<And>y. c = Inr y \<Longrightarrow> ds_disk s q = Some (Regular (fst y) (snd y))"
      by simp_all
    from assms x Inr c have "s' = s1" and "r = Inr (p, old, mode) \<Longrightarrow> p = q \<and> c = Inr (old, mode)"
      by (cases c; auto simp: checked_target_def obind_def split: if_splits)+
    with s1 at Inr show ?thesis by (auto intro: steps_tick)
  qed
  with x show "steps_to io {} s s'"
    and "r = Inr (p, old, mode) \<Longrightarrow> resolve_existing (io_fs io) base input = Inr p \<and> ds_disk s p = Some (Regular old mode)"
    by simp_all
qed

lemma staged_prepared:
  assumes "artifact_at io n a" "ds_clock s \<le> n" "n < ds_clock s'" "pt_staged e = Some a" "pt_backup e = None"
  shows "arts e \<subseteq> new_names io s s'" "old_names io s' (arts e)"
  using assms by (auto simp: arts_def new_names_def old_names_def)

lemma prepare_create_ok:
  assumes io: "uuid_laws io" and plain: "plain_edit io base (Create input content mode)"
    and same: "\<And>q. \<not> artifact io q \<Longrightarrow> ds_disk s q = d q"
    and run: "prepare_create io base input content mode (s, k) = ((s', k'), r)"
  shows "steps_to io {} s s'" and "r = Inr e \<Longrightarrow> item_prepared io base d (Create input content mode) s s' e"
proof -
  obtain x where x: "resolve_for_write (io_fs io) base input = x" by blast
  have "steps_to io {} s s' \<and> (r = Inr e \<longrightarrow> item_prepared io base d (Create input content mode) s s' e)"
  proof (cases "\<exists>p. x = Inr p \<and> ds_disk s p = None \<and> \<not> (case mode of Some m \<Rightarrow> 511 < m | None \<Rightarrow> False)
      \<and> \<not> MAX_CONTENT_BYTES < saturating_add k (length content)")
    case False
    with run x have "s' = s \<and> (\<exists>y. r = Inl y)"
      by (auto simp: prepare_create_def Let_def ensure_patch_content_budget_def present_def split: if_splits sum.splits)
    then show ?thesis by (auto intro: steps_refl)
  next
    case True
    then obtain p where p: "x = Inr p" "ds_disk s p = None" "\<not> (case mode of Some m \<Rightarrow> 511 < m | None \<Rightarrow> False)"
      "\<not> MAX_CONTENT_BYTES < saturating_add k (length content)" by blast
    obtain s1 c where c: "stage_content io p content None mode s = (s1, c)" by (cases "stage_content io p content None mode s")
    note st = stage_content_steps [OF c]
    have free: "\<not> artifact io p" using plain x p(1) by (simp add: plain_edit_def)
    with same p(2) have "d p = None" by simp
    with run x p c have res: "s' = s1" "\<And>a. c = Inr a \<Longrightarrow> r = Inr e \<Longrightarrow>
        pt_path e = p \<and> pt_staged e = Some a \<and> pt_backup e = None \<and> \<not> pt_installed e \<and> pt_operation e = Op_Create"
      "\<And>y. c = Inl y \<Longrightarrow> \<exists>z. r = Inl z"
      by (cases c; auto simp: prepare_create_def ensure_patch_content_budget_def present_def Let_def)+
    show ?thesis
    proof (cases c)
      case (Inl y)
      with res st show ?thesis by auto
    next
      case (Inr a)
      have "item_prepared io base d (Create input content mode) s s' e" if "r = Inr e"
      proof -
        note e = res(2) [OF Inr that]
        note a = st(2) [OF Inr]
        from a e have "arts e \<subseteq> new_names io s s1" "old_names io s1 (arts e)"
          using staged_prepared [of io "ds_clock s" a s s1 e] by simp_all
        with a e free \<open>d p = None\<close> x p(1) res(1) show ?thesis
          by (simp add: item_prepared_def prep_item_def regular_def)
      qed
      with st res show ?thesis by auto
    qed
  qed
  then show "steps_to io {} s s'" and "r = Inr e \<Longrightarrow> item_prepared io base d (Create input content mode) s s' e" by simp_all
qed

lemma prepare_update_ok:
  assumes io: "uuid_laws io" and plain: "plain_edit io base (Update input expected content preserve)"
    and same: "\<And>q. \<not> artifact io q \<Longrightarrow> ds_disk s q = d q"
    and run: "prepare_update io base input expected content preserve (s, k) = ((s', k'), r)"
  shows "steps_to io {} s s'" and "r = Inr e \<Longrightarrow> item_prepared io base d (Update input expected content preserve) s s' e"
proof -
  obtain s1 c where c: "checked_target io base input expected ''stale edit: expected ''
      ''structured updates require a UTF-8 target'' s = (s1, c)" by fastforce
  note ct = checked_target_ok [OF c]
  have "steps_to io {} s s' \<and> (r = Inr e \<longrightarrow> item_prepared io base d (Update input expected content preserve) s s' e)"
  proof (cases "\<exists>p old mode. c = Inr (p, old, mode)
      \<and> \<not> MAX_CONTENT_BYTES < saturating_add k (length (if preserve then preserve_newlines old content else content))")
    case False
    with run c have "s' = s1 \<and> (\<exists>y. r = Inl y)"
      by (cases c) (auto simp: prepare_update_def Let_def ensure_patch_content_budget_def split: if_splits)
    with ct(1) show ?thesis by auto
  next
    case True
    then obtain p old mode where p: "c = Inr (p, old, mode)"
      "\<not> MAX_CONTENT_BYTES < saturating_add k (length (if preserve then preserve_newlines old content else content))" by blast
    define new where "new = (if preserve then preserve_newlines old content else content)"
    obtain s2 a where a: "stage_content io p new (Some mode) None s1 = (s2, a)" by (cases "stage_content io p new (Some mode) None s1")
    note st = stage_content_steps [OF a]
    note at = ct(2) [OF p(1)]
    have free: "\<not> artifact io p" using plain at by (simp add: plain_edit_def)
    with same at have dp: "d p = Some (Regular old mode)" by simp
    note steps = steps_trans [OF ct(1) st(1)]
    from run c p(1) p(2) [folded new_def] a have res: "s' = s2" "\<And>x. a = Inr x \<Longrightarrow> r = Inr e \<Longrightarrow>
        pt_path e = p \<and> pt_staged e = Some x \<and> pt_backup e = None \<and> \<not> pt_installed e \<and> pt_operation e = Op_Update"
      "\<And>y. a = Inl y \<Longrightarrow> \<exists>z. r = Inl z"
      by (cases a; auto simp: prepare_update_def ensure_patch_content_budget_def Let_def simp flip: new_def)+
    show ?thesis
    proof (cases a)
      case (Inl y)
      with res steps show ?thesis by auto
    next
      case (Inr x)
      have "item_prepared io base d (Update input expected content preserve) s s' e" if "r = Inr e"
      proof -
        note e = res(2) [OF Inr that]
        note x = st(2) [OF Inr]
        from x e steps_clock [OF ct(1)] have "arts e \<subseteq> new_names io s s2" "old_names io s2 (arts e)"
          using staged_prepared [of io "ds_clock s1" x s s2 e] by simp_all
        with x e free dp at res(1) show ?thesis
          by (simp add: item_prepared_def prep_item_def regular_def file_mode_def flip: new_def)
      qed
      with steps res show ?thesis by auto
    qed
  qed
  then show "steps_to io {} s s'" and "r = Inr e \<Longrightarrow> item_prepared io base d (Update input expected content preserve) s s' e"
    by simp_all
qed

lemma prepare_delete_ok:
  assumes io: "uuid_laws io" and plain: "plain_edit io base (Delete input expected)"
    and same: "\<And>q. \<not> artifact io q \<Longrightarrow> ds_disk s q = d q"
    and run: "prepare_delete io base input expected (s, k) = ((s', k'), r)"
  shows "steps_to io {} s s'" and "r = Inr e \<Longrightarrow> item_prepared io base d (Delete input expected) s s' e"
proof -
  obtain s1 c where c: "checked_target io base input expected ''stale delete: expected ''
      ''structured deletes require a UTF-8 target'' s = (s1, c)" by fastforce
  note ct = checked_target_ok [OF c]
  from run c have res: "s' = s1" "\<And>p old mode. c = Inr (p, old, mode) \<Longrightarrow> r = Inr e \<Longrightarrow>
      pt_path e = p \<and> pt_staged e = None \<and> pt_backup e = None \<and> \<not> pt_installed e \<and> pt_operation e = Op_Delete"
    "\<And>y. c = Inl y \<Longrightarrow> \<exists>z. r = Inl z"
    by (cases c; auto simp: prepare_delete_def)+
  from ct(1) res(1) show "steps_to io {} s s'" by simp
  assume r: "r = Inr e"
  with res(3) obtain p old mode where p: "c = Inr (p, old, mode)" by (cases c) auto
  note at = ct(2) [OF p]
  have free: "\<not> artifact io p" using plain at by (simp add: plain_edit_def)
  with same at have "d p = Some (Regular old mode)" by simp
  with res(2) [OF p r] at free show "item_prepared io base d (Delete input expected) s s' e"
    by (simp add: item_prepared_def prep_item_def regular_def arts_def old_names_def)
qed

lemma prepare_edit_ok:
  assumes "uuid_laws io" "plain_edit io base edit" "\<forall>q. \<not> artifact io q \<longrightarrow> ds_disk s q = d q"
    "prepare_edit io base edit (s, k) = ((s', k'), r)"
  shows "steps_to io {} s s'" and "r = Inr e \<Longrightarrow> item_prepared io base d edit s s' e"
  using assms prepare_create_ok prepare_update_ok prepare_delete_ok by (cases edit; auto)+

lemma cleanup_staged_steps: "steps_to io (\<Union> (arts ` set es)) s (cleanup_staged io es s)"
proof (induction es arbitrary: s)
  case Nil
  then show ?case by (simp add: cleanup_staged_def steps_refl)
next
  case (Cons e es)
  have "steps_to io (\<Union> (arts ` set (e # es))) s (remove_staged io e s)"
    by (rule steps_mono [OF remove_staged_steps(1)]) (auto simp: arts_def)
  moreover have "steps_to io (\<Union> (arts ` set (e # es))) (remove_staged io e s) (cleanup_staged io es (remove_staged io e s))"
    by (rule steps_mono [OF Cons]) auto
  ultimately show ?case using steps_trans by (simp add: cleanup_staged_def)
qed

lemma prepare_all_ok:
  assumes io: "uuid_laws io"
  shows "\<forall>edit \<in> set edits. plain_edit io base edit \<Longrightarrow> \<forall>q. \<not> artifact io q \<longrightarrow> ds_disk s q = d q \<Longrightarrow>
    list_all2 (prep_item io d s) ps ts \<Longrightarrow> sorted_wrt separate ps \<Longrightarrow> prepare_all io base edits ps (s, k) = (s', r) \<Longrightarrow>
    (\<forall>q. \<not> artifact io q \<longrightarrow> ds_disk s' q = d q)
    \<and> (\<forall>es. r = Inr es \<longrightarrow> (\<exists>us. list_all2 (\<lambda>edit t. edit_target io base d edit = Some t) edits us
          \<and> list_all2 (prep_item io d s') es (ts @ us) \<and> sorted_wrt separate es))"
proof (induction edits arbitrary: s ps ts k)
  case Nil
  then show ?case by auto
next
  case (Cons edit edits)
  obtain s1 k1 r1 where one: "prepare_edit io base edit (s, k) = ((s1, k1), r1)" by (metis prod.exhaust)
  have same: "\<And>q. \<not> artifact io q \<Longrightarrow> ds_disk s q = d q" using Cons.prems(2) by simp
  have "plain_edit io base edit" using Cons.prems(1) by simp
  note ok = prepare_edit_ok [OF io this Cons.prems(2) one]
  have same1: "ds_disk s1 q = d q" if "\<not> artifact io q" for q using steps_kept [OF ok(1) _ that] same [OF that] by simp
  have old: "\<forall>f \<in> set ps. old_names io s (arts f)"
    using Cons.prems(3) prep_names by (metis in_set_conv_nth list_all2_conv_all_nth)
  have arts_art: "artifact io a" if "a \<in> \<Union> (arts ` set ps)" for a using old old_names_artifact that by blast
  have clean: "ds_disk (cleanup_staged io ps s1) q = d q" if "\<not> artifact io q" for q
    using steps_kept [OF cleanup_staged_steps _ that] arts_art that same1 by metis
  show ?case
  proof (cases r1)
    case (Inl x)
    with Cons.prems(5) one clean show ?thesis by auto
  next
    case (Inr item)
    note it = ok(2) [OF Inr]
    from it obtain pn where pn: "edit_target io base d edit = Some pn" "prep_item io d s1 item pn"
      and arts: "arts item \<subseteq> new_names io s s1" by (auto simp: item_prepared_def)
    show ?thesis
    proof (cases "pt_path item \<in> pt_path ` set ps")
      case True
      have "set_option (pt_staged item) \<subseteq> arts item" by (auto simp: arts_def)
      then have "ds_disk (remove_staged io item (cleanup_staged io ps s1)) q = d q" if "\<not> artifact io q" for q
        using remove_staged_steps(2) old_names_artifact conjunct1 [OF prep_names [OF pn(2)]] clean that by (metis subsetD)
      with True Cons.prems(5) one Inr show ?thesis by auto
    next
      case False
      have "list_all2 (prep_item io d s1) ps ts"
        by (rule list_all2_mono [OF Cons.prems(3)]) (use prep_frame [OF io _ ok(1)] in simp)
      then have ps1: "list_all2 (prep_item io d s1) (ps @ [item]) (ts @ [pn])" using pn(2) by (simp add: list_all2_appendI)
      have "separate f item" if "f \<in> set ps" for f
      proof -
        have "pt_path f \<noteq> pt_path item" using False that by (metis image_eqI)
        moreover have "arts f \<inter> arts item = {}" using new_names_old [OF io, of s "arts f" s1] old that arts by blast
        ultimately show ?thesis by (simp add: separate_def)
      qed
      with Cons.prems(4) have sep: "sorted_wrt separate (ps @ [item])" by (simp add: sorted_wrt_append)
      from False Cons.prems(5) one Inr have run: "prepare_all io base edits (ps @ [item]) (s1, k1) = (s', r)" by simp
      have plains: "\<forall>edit \<in> set edits. plain_edit io base edit" using Cons.prems(1) by simp
      have "\<forall>q. \<not> artifact io q \<longrightarrow> ds_disk s1 q = d q" using same1 by blast
      note ih = Cons.IH [OF plains this ps1 sep run]
      have "\<exists>us. list_all2 (\<lambda>edit t. edit_target io base d edit = Some t) (edit # edits) us
          \<and> list_all2 (prep_item io d s') es (ts @ us) \<and> sorted_wrt separate es" if "r = Inr es" for es
      proof -
        from ih that obtain us where "list_all2 (\<lambda>edit t. edit_target io base d edit = Some t) edits us"
          "list_all2 (prep_item io d s') es ((ts @ [pn]) @ us)" "sorted_wrt separate es" by blast
        with pn(1) show ?thesis by (intro exI [of _ "pn # us"]) simp
      qed
      with ih show ?thesis by blast
    qed
  qed
qed

lemma remove_backups_steps:
  "remove_backups io es s = (s', w) \<Longrightarrow> steps_to io (\<Union> (arts ` set es)) s s'"
proof (induction es arbitrary: s s' w)
  case Nil
  then show ?case by (simp add: steps_refl)
next
  case (Cons e es)
  show ?case
  proof (cases "pt_backup e")
    case None
    with Cons.prems have "steps_to io (\<Union> (arts ` set es)) s s'" by (simp add: Cons.IH)
    then show ?thesis by (rule steps_mono) auto
  next
    case (Some b)
    obtain s1 ok where rm: "sys_remove io b s = (s1, ok)" by (cases "sys_remove io b s")
    obtain s2 v where rest: "remove_backups io es s1 = (s2, v)" by (cases "remove_backups io es s1")
    from Cons.prems Some rm rest have "s' = s2" by simp
    have "{b} \<subseteq> \<Union> (arts ` set (e # es))" using Some by (auto simp: arts_def)
    note one = steps_mono [OF remove_steps(1) [OF rm] this]
    have "\<Union> (arts ` set es) \<subseteq> \<Union> (arts ` set (e # es))" by auto
    with steps_trans [OF one steps_mono [OF Cons.IH [OF rest]]] \<open>s' = s2\<close> show ?thesis by simp
  qed
qed

section \<open>The transaction\<close>

definition untouched :: "patch_io \<Rightarrow> disk_state \<Rightarrow> disk_state \<Rightarrow> bool" where
  "untouched io s s' \<longleftrightarrow> (\<forall>q. \<not> artifact io q \<longrightarrow> ds_disk s' q = ds_disk s q)"

definition patched :: "patch_io \<Rightarrow> (path \<times> node option) list \<Rightarrow> disk_state \<Rightarrow> disk_state \<Rightarrow> bool" where
  "patched io ts s s' \<longleftrightarrow>
     (\<forall>q. \<not> artifact io q \<longrightarrow> ds_disk s' q = (case map_of ts q of Some n \<Rightarrow> n | None \<Rightarrow> ds_disk s q))"

text \<open>Every file is as it was or named by an error, and every old file is in its place or under the name of a backup.\<close>

definition recoverable :: "patch_io \<Rightarrow> rollback_error list \<Rightarrow> disk_state \<Rightarrow> disk_state \<Rightarrow> bool" where
  "recoverable io errors s s' \<longleftrightarrow>
     (\<forall>q. \<not> artifact io q \<longrightarrow> (ds_disk s' q = ds_disk s q \<or> q \<in> failed_path ` set errors)
        \<and> (ds_disk s q = None \<or> (\<exists>b. (b = q \<or> artifact io b) \<and> ds_disk s' b = ds_disk s q)))"

lemma rolled_back_recoverable:
  assumes steps: "steps_to io (touched ps) s1 s2" "steps_to io (touched es) s2 s3"
    and same: "\<forall>q. \<not> artifact io q \<longrightarrow> ds_disk s1 q = ds_disk s q"
    and paths: "map pt_path es = map pt_path ps"
    and names: "\<forall>e \<in> set ps. \<forall>a \<in> arts e. artifact io a" "\<forall>e \<in> set es. \<forall>a \<in> arts e. artifact io a"
    and ends: "\<forall>e \<in> set es. saved (ds_disk s) s3 e" "\<forall>e \<in> set es. restored_or_named (ds_disk s) s3 errors e"
  shows "recoverable io errors s s3"
proof -
  have "(ds_disk s3 q = ds_disk s q \<or> q \<in> failed_path ` set errors)
      \<and> (ds_disk s q = None \<or> (\<exists>b. (b = q \<or> artifact io b) \<and> ds_disk s3 b = ds_disk s q))" if q: "\<not> artifact io q" for q
  proof (cases "q \<in> pt_path ` set es")
    case True
    then obtain e where e: "e \<in> set es" "q = pt_path e" by blast
    with ends names(2) show ?thesis unfolding saved_def restored_or_named_def by (metis image_eqI insert_iff)
  next
    case False
    then have "q \<notin> pt_path ` set ps" using paths by (metis list.set_map)
    with False names q have "q \<notin> touched ps" "q \<notin> touched es" by (auto simp: touched_def)
    with steps_kept [OF steps(1) _ q] steps_kept [OF steps(2) _ q] same q have "ds_disk s3 q = ds_disk s q" by simp
    then show ?thesis by blast
  qed
  then show ?thesis by (simp add: recoverable_def)
qed

lemma committed_patched:
  assumes steps: "steps_to io (touched ps) s1 s2" "steps_to io (\<Union> (arts ` set es)) s2 s3"
    and same: "\<forall>q. \<not> artifact io q \<longrightarrow> ds_disk s1 q = ds_disk s q"
    and paths: "map pt_path ps = map fst ts" "distinct (map fst ts)"
    and names: "\<forall>e \<in> set ps. \<forall>a \<in> arts e. artifact io a" "\<forall>e \<in> set es. \<forall>a \<in> arts e. artifact io a"
    and done1: "\<forall>pn \<in> set ts. ds_disk s2 (fst pn) = snd pn"
  shows "patched io ts s s3"
proof -
  have "ds_disk s3 q = (case map_of ts q of Some n \<Rightarrow> n | None \<Rightarrow> ds_disk s q)" if q: "\<not> artifact io q" for q
  proof -
    have final: "ds_disk s3 q = ds_disk s2 q" using steps_kept [OF steps(2) _ q] names(2) q by blast
    show ?thesis
    proof (cases "map_of ts q")
      case None
      then have "q \<notin> fst ` set ts" by (simp add: map_of_eq_None_iff)
      then have "q \<notin> pt_path ` set ps" using paths(1) by (metis list.set_map)
      with names(1) q have "q \<notin> touched ps" by (auto simp: touched_def)
      with steps_kept [OF steps(1) _ q] same q final None show ?thesis by simp
    next
      case (Some n)
      with done1 map_of_SomeD [OF Some] final show ?thesis by force
    qed
  qed
  then show ?thesis by (simp add: patched_def)
qed

lemma separate_paths: "sorted_wrt separate es \<Longrightarrow> distinct (map pt_path es)"
  by (induction es) (auto simp: separate_def)


text \<open>An update whose new file cannot be moved into place: the old file is put back.\<close>

definition demo_patch_io :: patch_io where
  "demo_patch_io = \<lparr>io_fs = \<lparr>fs_exists = \<lambda>_. True, fs_canonicalize = Some, fs_is_dir = \<lambda>_. False\<rparr>, io_sha = \<lambda>t. t,
     io_changes = \<lambda>_ _. [], io_uuid = \<lambda>n. CHR ''a'' # replicate n CHR ''b'', io_fails = \<lambda>n. n = 7, io_new_mode = 420\<rparr>"

definition demo_patch_edits :: "edit_intent list" where
  "demo_patch_edits = [Update [Normal ''f''] ''x'' ''y'' False]"

definition demo_patch_base :: path where
  "demo_patch_base = [RootDir, Normal ''w'']"

definition demo_patch_state :: disk_state where
  "demo_patch_state = \<lparr>ds_disk = [[RootDir, Normal ''w'', Normal ''f''] \<mapsto> Regular ''x'' 420], ds_clock = 0\<rparr>"

lemma demo_patch_uuids: "uuid_laws demo_patch_io"
proof -
  have "m = n" if h: "CHR ''a'' # replicate m CHR ''b'' = x @ CHR ''a'' # replicate n CHR ''b''" for m n :: nat and x
  proof (cases x)
    case Nil
    with h show ?thesis by (metis append_Nil length_replicate list.inject)
  next
    case (Cons c y)
    with h have "replicate m CHR ''b'' = y @ CHR ''a'' # replicate n CHR ''b''" by simp
    then have "CHR ''a'' \<in> set (replicate m CHR ''b'')" by (metis in_set_conv_decomp)
    then show ?thesis by simp
  qed
  then show ?thesis by (simp add: uuid_laws_def demo_patch_io_def)
qed

lemma demo_patch_target: "resolve_existing (io_fs demo_patch_io) demo_patch_base [Normal ''f''] = Inr [RootDir, Normal ''w'', Normal ''f'']"
  by code_simp

lemma demo_patch_plain: "\<forall>edit \<in> set demo_patch_edits. plain_edit demo_patch_io demo_patch_base edit"
proof -
  have "\<not> artifact io [RootDir, Normal ''w'', Normal ''f'']" for io
  proof
    assume "artifact io [RootDir, Normal ''w'', Normal ''f'']"
    then obtain p purpose u where a: "[RootDir, Normal ''w'', Normal ''f''] = sibling_artifact p purpose u"
      by (auto simp: artifact_def artifact_at_def)
    have "\<exists>y. last (sibling_artifact p purpose u) = Normal (CHR ''.'' # y)" by (simp add: sibling_artifact_def Let_def)
    then show False unfolding a [symmetric] by simp
  qed
  then show ?thesis by (simp add: demo_patch_edits_def plain_edit_def demo_patch_target)
qed

lemma demo_patch_opened:
  "d [RootDir, Normal ''w'', Normal ''f''] = Some n \<Longrightarrow> n = Regular ''x'' 420 \<Longrightarrow>
   open_verified (io_fs demo_patch_io) d [RootDir, Normal ''w'', Normal ''f''] demo_patch_base = Inr n"
  by (simp add: open_verified_def io_result_def ok_or_def demo_patch_io_def demo_patch_base_def path_starts_with_def
    starts_with_def)

lemma demo_patch_utf8: "from_utf8_ok ''x''"
  by (simp add: from_utf8_ok_def byte_def)

lemma demo_patch_stage: "sibling_artifact [RootDir, Normal ''w'', Normal ''f''] purpose u
    = [RootDir, Normal ''w'', Normal (''.f.axiomcli-'' @ purpose @ ''-'' @ u)]"
  by (simp add: sibling_artifact_def file_name_def)

lemma demo_patch_io_fields [simp]:
  "io_sha demo_patch_io t = t" "io_fails demo_patch_io n = (n = 7)" "io_new_mode demo_patch_io = 420"
  "io_uuid demo_patch_io n = CHR ''a'' # replicate n CHR ''b''"
  by (simp_all add: demo_patch_io_def)

lemma demo_patch_run:
  "snd (apply_structured_patch demo_patch_io demo_patch_base demo_patch_edits 100 demo_patch_state) = Inl Io"
  by (simp add: apply_structured_patch_def demo_patch_edits_def demo_patch_state_def prepare_update_def checked_target_def
    demo_patch_target obind_def read_edit_target_def demo_patch_opened rbind_def MAX_CONTENT_BYTES_def MAX_EDITS_def
    demo_patch_utf8 saturating_add_def ensure_patch_content_budget_def stage_content_def demo_patch_stage write_stage_def
    sys_create_new_def sys_put_def file_mode_def commit_one_def commit_replace_def sys_rename_def
    rollback_prepared_def rollback_one_def restore_backup_def exists_at_def remove_staged_def sys_remove_def tick_def Let_def)


end
