(* ===== verification/Tools.thy ===== *)
theory Tools
  imports Patch Planning Policy_Correct "HOL-Library.AList"
begin

text \<open>
  The tools an agent may call, \<open>apps/axiomcli/src/tools.rs\<close>: the registry, which tools are offered to the model, what
  effects the built-in tools declare for their arguments, and the changes kept for a session. Deserialising arguments
  is serde's work: \<open>tb_parse\<close> gives the argument record of a tool or serde's error; \<open>tb_words\<close> is
  \<open>shell_words::split\<close>. Descriptions and schemas are texts shown to the model.
\<close>

section \<open>Contexts and tools\<close>

text \<open>The images and the progress channel of a context are only used while a tool runs.\<close>

record tool_context =
  tx_session_id :: session_id
  tx_model_id :: string
  tx_cwd :: path
  tx_profile :: permission_profile

record tool =
  tl_name :: string
  tl_description :: string
  tl_parameters :: json
  tl_access :: tool_access
  tl_effects :: "tool_context \<Rightarrow> json \<Rightarrow> axiom_error + effect list"

text \<open>\<open>HashMap<String, Arc<dyn Tool>>\<close>: the tools by name, in an order that nothing depends on.\<close>

type_synonym registry = "(string \<times> tool) list"

definition register :: "tool \<Rightarrow> registry \<Rightarrow> (registry, axiom_error, unit) outcome" where
  "register t reg =
     (let reg' = AList.update (tl_name t) t reg
      in if map_of reg (tl_name t) \<noteq> None
         then (reg', Inl (Tool_error [Lit ''duplicate tool registration: '', Text (tl_name t)]))
         else (reg', Inr ()))"

fun with_session_tools :: "tool list \<Rightarrow> registry \<Rightarrow> axiom_error + registry" where
  "with_session_tools [] reg = Inr reg"
| "with_session_tools (t # ts) reg =
     (case register t reg of (_, Inl e) \<Rightarrow> Inl e | (reg', Inr _) \<Rightarrow> with_session_tools ts reg')"

definition find_tool :: "registry \<Rightarrow> string \<Rightarrow> axiom_error + tool" where
  "find_tool reg name = ok_or (Tool_error [Lit ''unknown tool `'', Text name, Lit ''`'']) (map_of reg name)"

definition access_of :: "registry \<Rightarrow> string \<Rightarrow> axiom_error + tool_access" where
  "access_of reg name = map_sum id tl_access (find_tool reg name)"

definition registry_effects :: "registry \<Rightarrow> string \<Rightarrow> tool_context \<Rightarrow> json \<Rightarrow> axiom_error + effect list" where
  "registry_effects reg name cx arguments = rbind (find_tool reg name) (\<lambda>t. tl_effects t cx arguments)"

section \<open>What is offered to the model\<close>

definition definition_of :: "tool \<Rightarrow> tool_definition" where
  "definition_of t =
     \<lparr>td_kind = ''function'', td_function = \<lparr>fd_name = tl_name t, fd_description = tl_description t,
        fd_parameters = tl_parameters t, fd_strict = None\<rparr>\<rparr>"

definition by_name :: "tool_definition list \<Rightarrow> tool_definition list" where
  "by_name ds = sort_key (\<lambda>d. fd_name (td_function d)) ds"

definition definitions_for_with_web :: "permission_profile \<Rightarrow> bool \<Rightarrow> registry \<Rightarrow> tool_definition list" where
  "definitions_for_with_web profile web reg =
     by_name (map definition_of (filter (\<lambda>t. web \<or> tl_access t \<noteq> Web)
       (filter (\<lambda>t. is_exposed_to (tl_access t) profile) (map snd reg))))"

definition desktop_mcp_name :: "string \<Rightarrow> bool" where
  "desktop_mcp_name name \<longleftrightarrow> starts_with name ''mcp__''"

definition definitions_for_with_mcp :: "permission_profile \<Rightarrow> bool \<Rightarrow> bool \<Rightarrow> registry \<Rightarrow> tool_definition list" where
  "definitions_for_with_mcp profile web desktop_mcp reg =
     by_name (definitions_for_with_web profile web reg
       @ map definition_of (filter (\<lambda>t. desktop_mcp \<and> desktop_mcp_name (tl_name t)
           \<and> \<not> is_exposed_to (tl_access t) profile) (map snd reg)))"

section \<open>The effects of a command\<close>

record command_args =
  ca_program :: string
  ca_args :: "string list"
  ca_cwd :: path
  ca_env :: "(string \<times> string) list"

definition READ_ONLY_GIT :: "string list" where
  "READ_ONLY_GIT = [''status'', ''diff'', ''log'', ''show'', ''blame'', ''grep'', ''rev-parse'', ''ls-files'',
     ''ls-tree'', ''cat-file'', ''describe'']"

definition is_read_only_git_command :: "string \<Rightarrow> bool" where
  "is_read_only_git_command c \<longleftrightarrow> c \<in> set READ_ONLY_GIT"

fun git_subcommand :: "string list \<Rightarrow> string option" where
  "git_subcommand [] = None"
| "git_subcommand (a # as) =
     (if a \<in> {''-C'', ''--git-dir'', ''--work-tree'', ''--namespace''}
      then (case as of [] \<Rightarrow> None | _ # rest \<Rightarrow> git_subcommand rest)
      else if starts_with a ''-'' then git_subcommand as
      else Some a)"

definition git_mutation :: "string list \<Rightarrow> string option" where
  "git_mutation args =
     (case git_subcommand args of
        None \<Rightarrow> Some ''git unknown''
      | Some c \<Rightarrow> if is_read_only_git_command c then None else Some (''git '' @ c))"

fun script_mutation :: "string list \<Rightarrow> string option" where
  "script_mutation [] = None"
| "script_mutation (word # words) =
     (if normalized_executable_name word = ''git'' \<and> git_mutation words \<noteq> None then git_mutation words
      else script_mutation words)"

text \<open>\<open>str::split_whitespace\<close>.\<close>

fun words_from :: "string list \<Rightarrow> string list \<Rightarrow> string list" where
  "words_from acc [] = (if acc = [] then [] else [concat acc])"
| "words_from acc (c # cs) =
     (if is_whitespace c then (if acc = [] then [] else [concat acc]) @ words_from [] cs else words_from (acc @ [c]) cs)"

definition split_whitespace :: "string \<Rightarrow> string list" where
  "split_whitespace s = words_from [] (str_chars s)"

definition repository_mutation ::
  "(string \<Rightarrow> string list option) \<Rightarrow> string \<Rightarrow> string list \<Rightarrow> bool \<Rightarrow> string option" where
  "repository_mutation shell_words program args shell =
     (if shell
      then (if args = [] then None
            else script_mutation (case shell_words (last args) of Some ws \<Rightarrow> ws | None \<Rightarrow> split_whitespace (last args)))
      else if normalized_executable_name program \<noteq> ''git'' then None
      else git_mutation args)"

definition command_effects ::
  "fs_view \<Rightarrow> (string \<Rightarrow> string list option) \<Rightarrow> tool_context \<Rightarrow> command_args \<Rightarrow> bool \<Rightarrow> axiom_error + effect list" where
  "command_effects fs shell_words cx a shell =
     rbind (workspace_new fs (tx_cwd cx)) (\<lambda>base.
       let cwd = (if ca_cwd a = [] then base else if is_absolute (ca_cwd a) then ca_cwd a else path_join base (ca_cwd a))
       in Inr (Process (ca_program a) (ca_args a) shell cwd (ca_env a)
            # (case repository_mutation shell_words (ca_program a) (ca_args a) shell of
                 None \<Rightarrow> [] | Some operation \<Rightarrow> [RepositoryMutation operation cwd])))"

section \<open>The built-in tools\<close>

datatype tool_args =
    Path_args path
  | Glob_args bool
  | No_effect_args
  | Root_args
  | Patch_args "edit_intent list"
  | Replace_args path
  | Command_args command_args
  | Shell_args string path "(string \<times> string) list"
  | Search_web_args
  | Fetch_args string
  | Stop_args string
  | Plan_create_args
  | Plan_args string
  | Question_args "question_spec list"
  | Progress_args progress_args

record tool_lib =
  tb_fs :: fs_view
  tb_words :: "string \<Rightarrow> string list option"
  tb_parse :: "string \<Rightarrow> json \<Rightarrow> axiom_error + tool_args"
  tb_search_url :: string
  tb_description :: "string \<Rightarrow> string"
  tb_schema :: "string \<Rightarrow> json"

text \<open>\<open>native_shell\<close> of \<open>process_env.rs\<close>, other than on Windows.\<close>

definition native_shell :: "string \<Rightarrow> string \<times> string list" where
  "native_shell script = (''/bin/sh'', [''-c'', script])"

definition edit_effect :: "fs_view \<Rightarrow> path \<Rightarrow> edit_intent \<Rightarrow> axiom_error + effect" where
  "edit_effect fs base edit =
     (case edit of
        Create p _ _ \<Rightarrow> map_sum id FileWrite (resolve_for_write fs base p)
      | Update p _ _ _ \<Rightarrow> map_sum id FileWrite (resolve_for_write fs base p)
      | Delete p _ \<Rightarrow> map_sum id FileDelete (resolve_existing fs base p))"

fun all_results :: "('e + 'a) list \<Rightarrow> 'e + 'a list" where
  "all_results [] = Inr []"
| "all_results (r # rs) = rbind r (\<lambda>x. map_sum id (\<lambda>xs. x # xs) (all_results rs))"

text \<open>The effects each kind of tool declares, then the dispatch on the arguments.\<close>

definition path_effects :: "tool_lib \<Rightarrow> tool_context \<Rightarrow> path \<Rightarrow> axiom_error + effect list" where
  "path_effects lib cx p =
     rbind (workspace_new (tb_fs lib) (tx_cwd cx)) (\<lambda>base.
       map_sum id (\<lambda>q. [FileRead q]) (resolve_existing (tb_fs lib) base p))"

definition glob_effects :: "tool_lib \<Rightarrow> tool_context \<Rightarrow> bool \<Rightarrow> axiom_error + effect list" where
  "glob_effects lib cx include_ignored =
     map_sum id (\<lambda>base. FileRead base
         # (if include_ignored then [ScopeChange (''include ignored files under '' @ path_display base)] else []))
       (workspace_new (tb_fs lib) (tx_cwd cx))"

definition root_effects :: "tool_lib \<Rightarrow> tool_context \<Rightarrow> axiom_error + effect list" where
  "root_effects lib cx = map_sum id (\<lambda>base. [FileRead base]) (workspace_new (tb_fs lib) (tx_cwd cx))"

definition patch_effects :: "tool_lib \<Rightarrow> tool_context \<Rightarrow> edit_intent list \<Rightarrow> axiom_error + effect list" where
  "patch_effects lib cx edits =
     rbind (workspace_new (tb_fs lib) (tx_cwd cx)) (\<lambda>base. all_results (map (edit_effect (tb_fs lib) base) edits))"

definition replace_effects :: "tool_lib \<Rightarrow> tool_context \<Rightarrow> path \<Rightarrow> axiom_error + effect list" where
  "replace_effects lib cx p =
     rbind (workspace_new (tb_fs lib) (tx_cwd cx)) (\<lambda>base.
       map_sum id (\<lambda>q. [FileWrite q]) (resolve_for_write (tb_fs lib) base p))"

definition shell_effects ::
  "tool_lib \<Rightarrow> tool_context \<Rightarrow> string \<Rightarrow> path \<Rightarrow> (string \<times> string) list \<Rightarrow> axiom_error + effect list" where
  "shell_effects lib cx script cwd env =
     (let (program, args) = native_shell script
      in command_effects (tb_fs lib) (tb_words lib) cx
           \<lparr>ca_program = program, ca_args = args, ca_cwd = cwd, ca_env = env\<rparr> True)"

definition stop_effects :: "tool_lib \<Rightarrow> tool_context \<Rightarrow> string \<Rightarrow> axiom_error + effect list" where
  "stop_effects lib cx i =
     map_sum id (\<lambda>base. [Process ''axiomcli:stop_background'' [i] False base []]) (workspace_new (tb_fs lib) (tx_cwd cx))"

primrec args_effects :: "tool_lib \<Rightarrow> tool_context \<Rightarrow> tool_args \<Rightarrow> axiom_error + effect list" where
  "args_effects lib cx (Path_args p) = path_effects lib cx p"
| "args_effects lib cx (Glob_args include_ignored) = glob_effects lib cx include_ignored"
| "args_effects lib cx No_effect_args = Inr []"
| "args_effects lib cx Root_args = root_effects lib cx"
| "args_effects lib cx (Patch_args edits) = patch_effects lib cx edits"
| "args_effects lib cx (Replace_args p) = replace_effects lib cx p"
| "args_effects lib cx (Command_args a) = command_effects (tb_fs lib) (tb_words lib) cx a False"
| "args_effects lib cx (Shell_args script cwd env) = shell_effects lib cx script cwd env"
| "args_effects lib cx Search_web_args = Inr [Network (tb_search_url lib)]"
| "args_effects lib cx (Fetch_args u) = Inr [Network u]"
| "args_effects lib cx (Stop_args i) = stop_effects lib cx i"
| "args_effects lib cx Plan_create_args = Inr [PlanWrite (plan_policy_path (tx_cwd cx) None)]"
| "args_effects lib cx (Plan_args i) = Inr [PlanWrite (plan_policy_path (tx_cwd cx) (Some i))]"
| "args_effects lib cx (Question_args qs) = map_sum id (\<lambda>_. []) (validate_question_args qs)"
| "args_effects lib cx (Progress_args p) = map_sum id (\<lambda>_. []) (validate_progress p)"

definition builtin_access :: "(string \<times> tool_access) list" where
  "builtin_access =
     [(''list_files'', Read), (''glob_files'', Read), (''search_text'', Read), (''read_file'', Read),
      (''inspect_metadata'', Read), (''select_context'', Read), (''inspect_git'', Read), (''view_session_diff'', Read),
      (''apply_patch'', Write), (''replace_text'', Write), (''run_command'', Write), (''run_shell'', Write),
      (''start_background'', Write), (''background_list'', Read), (''background_status'', Read), (''background_wait'', Read),
      (''stop_background'', Write), (''web_search'', Web), (''fetch_url'', Web), (''plan_create'', Write),
      (''plan_revise'', Write), (''plan_propose'', Write), (''ask_user_questions'', Interaction), (''update_progress'', Read)]"

definition builtin_tool :: "tool_lib \<Rightarrow> string \<times> tool_access \<Rightarrow> tool" where
  "builtin_tool lib na =
     \<lparr>tl_name = fst na, tl_description = tb_description lib (fst na), tl_parameters = tb_schema lib (fst na),
      tl_access = snd na,
      tl_effects = (\<lambda>cx arguments. rbind (tb_parse lib (fst na) arguments) (args_effects lib cx))\<rparr>"

definition registry_with_search :: "tool_lib \<Rightarrow> axiom_error + registry" where
  "registry_with_search lib = with_session_tools (map (builtin_tool lib) builtin_access) []"

text \<open>A tool of an MCP server, \<open>mcp.rs\<close>.\<close>

definition mcp_tool :: "string \<Rightarrow> string \<Rightarrow> string \<Rightarrow> bool \<Rightarrow> string \<Rightarrow> json \<Rightarrow> tool" where
  "mcp_tool public_name server remote trusted description schema =
     \<lparr>tl_name = public_name, tl_description = description, tl_parameters = schema,
      tl_access = (if trusted then Read else Write),
      tl_effects = (\<lambda>cx arguments.
        case arguments of
          JObject _ \<Rightarrow> Inr [Mcp server remote (\<not> trusted)]
        | _ \<Rightarrow> Inl (Tool_error [Lit ''MCP tool `'', Text public_name, Lit ''` arguments must be an object'']))\<rparr>"

section \<open>Changes of a session\<close>

record session_diff =
  sd_root :: "path option"
  sd_baseline :: "path \<rightharpoonup> string"
  sd_baseline_truncated :: bool
  sd_paths :: "path set"
  sd_patches :: "string list"
  sd_retained_bytes :: nat
  sd_truncated :: bool

definition session_diff_default :: session_diff where
  "session_diff_default = \<lparr>sd_root = None, sd_baseline = Map.empty, sd_baseline_truncated = False, sd_paths = {}, sd_patches = [], sd_retained_bytes = 0, sd_truncated = False\<rparr>"

definition record_diff :: "nat \<Rightarrow> tool_result \<Rightarrow> string \<Rightarrow> session_diff \<Rightarrow> session_diff" where
  "record_diff maximum result diff state =
     (let remaining = maximum - sd_retained_bytes state in
      if remaining = 0 then state\<lparr>sd_truncated := True\<rparr>
      else (let (patch, truncated) = truncate_text diff remaining False
            in state\<lparr>sd_retained_bytes := saturating_add (sd_retained_bytes state) (length patch),
                 sd_patches := sd_patches state @ [patch],
                 sd_truncated := (sd_truncated state \<or> truncated \<or> tr_truncated result)\<rparr>))"

definition record_change :: "nat \<Rightarrow> tool_result \<Rightarrow> session_diff \<Rightarrow> session_diff" where
  "record_change maximum result state =
     (let state = state\<lparr>sd_paths := sd_paths state \<union> set (tr_changed_paths result)\<rparr>
      in case tr_diff result of None \<Rightarrow> state | Some diff \<Rightarrow> record_diff maximum result diff state)"

definition changes_record ::
  "nat \<Rightarrow> session_id \<Rightarrow> tool_result \<Rightarrow> (session_id \<rightharpoonup> session_diff) \<Rightarrow> (session_id \<rightharpoonup> session_diff)" where
  "changes_record maximum i result sessions =
     (if tr_changed_paths result = [] \<and> tr_diff result = None then sessions
      else sessions(i \<mapsto> record_change (max maximum 1024) result
        (case sessions i of Some d \<Rightarrow> d | None \<Rightarrow> session_diff_default)))"

end
