(* ===== verification/Authorize.thy ===== *)
theory Authorize
  imports Tools Compaction
begin

text \<open>
  Authorising a tool call, \<open>AgentEngine::authorize\<close> of \<open>apps/axiomcli/src/agent.rs\<close>: the effects the tool declares are
  judged by the session's policy engine, and what it asks about is put to the user through the approval handler.
\<close>

section \<open>The text of a message\<close>

text \<open>\<open>Display\<close> of the parts; a nested validation error and an identifier are rendered by their own \<open>Display\<close>.\<close>

record texts =
  tt_uuid :: "uuid \<Rightarrow> string"
  tt_lifecycle :: "session_lifecycle \<Rightarrow> string"
  tt_validation :: "validation_error \<Rightarrow> string"

primrec part_text :: "texts \<Rightarrow> msg_part \<Rightarrow> string" where
  "part_text tt (Lit s) = s"
| "part_text tt (Uid u) = tt_uuid tt u"
| "part_text tt (Dbg_lifecycle l) = tt_lifecycle tt l"
| "part_text tt (Text s) = s"
| "part_text tt (Pth p) = path_display p"
| "part_text tt (Num n) = nat_digits n"
| "part_text tt (Verr v) = tt_validation tt v"

definition error_text :: "texts \<Rightarrow> axiom_error \<Rightarrow> string" where
  "error_text tt e = concat (map (part_text tt) (error_message e))"

section \<open>The context of a turn\<close>

record turn_context =
  cx_session_id :: session_id
  cx_turn_id :: turn_id
  cx_cwd :: path
  cx_profile :: permission_profile
  cx_web :: bool
  cx_image_tools :: bool
  cx_mcp :: bool
  cx_approval :: bool
  cx_questions :: bool

text \<open>What the approval handler does: the turn is cancelled first, the handler fails, or the user answers.\<close>

datatype approval_answer = Turn_cancelled | Handler_failed axiom_error | Responded approval_choice

text \<open>The environment of an authorisation. Request identifiers are made from the number of events sent so far.\<close>

record approval_env =
  ae_fs :: fs_view
  ae_ul :: url_lib
  ae_registry :: registry
  ae_model_id :: string
  ae_rules :: "policy_rule list"
  ae_project_rules :: "path \<Rightarrow> axiom_error + policy_rule list"
  ae_takes :: "nat \<Rightarrow> bool"
  ae_request_id :: "nat \<Rightarrow> string"
  ae_effect_json :: "effect \<Rightarrow> json option"
  ae_arguments_text :: "json \<Rightarrow> string"
  ae_answer :: "nat \<Rightarrow> approval_request \<Rightarrow> approval_answer"

type_synonym policies = "session_id \<rightharpoonup> policy_engine"

definition policy_for :: "approval_env \<Rightarrow> turn_context \<Rightarrow> policies \<Rightarrow> (policies, axiom_error, policy_engine) outcome" where
  "policy_for env cx policies =
     (case policies (cx_session_id cx) of
        Some e \<Rightarrow> (policies, Inr e)
      | None \<Rightarrow>
          (case rbind (ae_project_rules env (cx_cwd cx)) (\<lambda>project.
              for_workspace_with_rules (ae_fs env) (ae_ul env) (cx_cwd cx) (ae_rules env @ project)) of
             Inl x \<Rightarrow> (policies, Inl x)
           | Inr e \<Rightarrow> (policies(cx_session_id cx \<mapsto> e), Inr e)))"

section \<open>Asking the user\<close>

definition is_tool_use :: "effect \<Rightarrow> bool" where
  "is_tool_use eff \<longleftrightarrow> (case eff of ToolUse _ _ \<Rightarrow> True | _ \<Rightarrow> False)"

definition is_desktop_mcp :: "turn_context \<Rightarrow> string \<Rightarrow> bool" where
  "is_desktop_mcp cx name \<longleftrightarrow> cx_mcp cx \<and> desktop_mcp_name name"

definition spaced :: "string \<Rightarrow> string" where
  "spaced name = map (\<lambda>c. if c = CHR ''_'' then CHR '' '' else c) name"

definition concrete_effects :: "policy_decision list \<Rightarrow> string" where
  "concrete_effects ds =
     str_join [CHR 0x0A] (map (describe_effect \<circ> pd_effect) (filter (\<lambda>d. \<not> is_tool_use (pd_effect d)) ds))"

text \<open>The request put to the user: for the use of a tool it names the tool and lists every concrete effect.\<close>

definition approval_question ::
  "approval_env \<Rightarrow> bool \<Rightarrow> string \<Rightarrow> json \<Rightarrow> string \<Rightarrow> nat \<Rightarrow> policy_decision \<Rightarrow> approval_request" where
  "approval_question env desktop name arguments concrete n d =
     (let r = approval_request_new (ae_fs env) (ae_ul env) (ae_request_id env n) d;
          r1 = (if desktop then r\<lparr>ar_explanation := describe_effect (ar_effect r) @ [CHR 0x0A] @ ''Arguments: ''
                  @ fst (truncate_text (ae_arguments_text env arguments) (16 * 1024) False)\<rparr> else r)
      in if is_tool_use (pd_effect d)
         then r1\<lparr>ar_explanation := ''Allow '' @ spaced name @ ''?'' @ (if concrete = [] then [] else [CHR 0x0A] @ concrete)\<rparr>
         else r1)"

text \<open>One question: the request is published, the handler answers, the answer is applied to the engine and published.\<close>

definition resolve ::
  "approval_env \<Rightarrow> string \<Rightarrow> bool \<Rightarrow> string \<Rightarrow> app_event list \<Rightarrow> (app_event list, axiom_error, unit) outcome" where
  "resolve env rid allowed choice sent = send_event (ae_takes env) (PermissionResolved rid allowed (Some choice)) sent"

definition settle_answer ::
  "approval_env \<Rightarrow> turn_context \<Rightarrow> approval_request \<Rightarrow> approval_choice \<Rightarrow> policy_engine \<times> app_event list \<Rightarrow>
     (policy_engine \<times> app_event list, axiom_error, unit) outcome" where
  "settle_answer env cx request choice st =
     (case st of (engine, sent) \<Rightarrow>
        (case apply_approval (ae_fs env) (ae_ul env) engine request choice of
           (engine1, Inl x) \<Rightarrow>
             (case resolve env (ar_request_id request) False ''rejected_scope'' sent of
                (sent1, Inl c) \<Rightarrow> ((engine1, sent1), Inl c) | (sent1, Inr _) \<Rightarrow> ((engine1, sent1), Inl x))
         | (engine1, Inr _) \<Rightarrow>
             (case resolve env (ar_request_id request) (choice_is_allowed choice) (choice_as_str choice) sent of
                (sent1, Inl c) \<Rightarrow> ((engine1, sent1), Inl c)
              | (sent1, Inr _) \<Rightarrow>
                  ((engine1, sent1),
                   if choice_is_allowed choice then Inr ()
                   else if cx_approval cx then Inl ApprovalDeclined
                   else Inl (PermissionDenied [Lit ''approval handler is unavailable''])))))"

definition ask_user ::
  "approval_env \<Rightarrow> turn_context \<Rightarrow> bool \<Rightarrow> string \<Rightarrow> json \<Rightarrow> string \<Rightarrow> policy_decision \<Rightarrow> policy_engine \<times> app_event list \<Rightarrow>
     (policy_engine \<times> app_event list, axiom_error, unit) outcome" where
  "ask_user env cx desktop name arguments concrete d st =
     (case st of (engine, sent) \<Rightarrow>
        (let request = approval_question env desktop name arguments concrete (length sent) d in
         case ae_effect_json env (ar_effect request) of
           None \<Rightarrow> (st, Inl Json)
         | Some js \<Rightarrow>
             (case send_event (ae_takes env) (PermissionRequired (ar_request_id request) (ar_explanation request) js
                 (map choice_as_str (offered_choices request))) sent of
                (sent1, Inl c) \<Rightarrow> ((engine, sent1), Inl c)
              | (sent1, Inr _) \<Rightarrow>
                  (case (if cx_approval cx then ae_answer env (length sent) request else Responded Choice_Deny) of
                     Turn_cancelled \<Rightarrow> ((engine, sent1), Inl Cancelled)
                   | Handler_failed x \<Rightarrow>
                       (case resolve env (ar_request_id request) False ''failed_closed'' sent1 of
                          (sent2, Inl c) \<Rightarrow> ((engine, sent2), Inl c) | (sent2, Inr _) \<Rightarrow> ((engine, sent2), Inl x))
                   | Responded choice \<Rightarrow> settle_answer env cx request choice (engine, sent1)))))"

fun ask_all ::
  "(policy_decision \<Rightarrow> 's \<Rightarrow> ('s, axiom_error, unit) outcome) \<Rightarrow> policy_decision list \<Rightarrow> 's \<Rightarrow> ('s, axiom_error, unit) outcome" where
  "ask_all ask [] st = (st, Inr ())"
| "ask_all ask (d # ds) st = obind (ask d st) (\<lambda>st' _. ask_all ask ds st')"

section \<open>Authorising\<close>

definition tool_exposed :: "turn_context \<Rightarrow> tool_access \<Rightarrow> axiom_error + unit" where
  "tool_exposed cx acc =
     (if \<not> cx_web cx \<and> acc = Web
      then Inl (PermissionDenied [Lit (''Web is off for this message. The user must enable Web in the chat before searching ''
        @ ''or fetching pages.'')])
      else if \<not> cx_image_tools cx \<and> acc = Image_access
      then Inl (PermissionDenied [Lit (''Image creation and editing require a vision-capable model and the installed image ''
        @ ''service.'')])
      else Inr ())"

text \<open>The registry is only consulted for the access of a tool when web or image tools are off, or for the tool's own
  effect, so an unknown desktop MCP tool is reported when its effects are computed.\<close>

definition check_exposed :: "approval_env \<Rightarrow> turn_context \<Rightarrow> string \<Rightarrow> axiom_error + unit" where
  "check_exposed env cx name =
     (if cx_web cx \<and> cx_image_tools cx then Inr ()
      else rbind (access_of (ae_registry env) name) (tool_exposed cx))"

definition tool_context_of :: "approval_env \<Rightarrow> turn_context \<Rightarrow> tool_context" where
  "tool_context_of env cx =
     \<lparr>tx_session_id = cx_session_id cx, tx_model_id = ae_model_id env, tx_cwd = cx_cwd cx, tx_profile = cx_profile cx\<rparr>"

definition call_effects :: "approval_env \<Rightarrow> turn_context \<Rightarrow> string \<Rightarrow> json \<Rightarrow> axiom_error + effect list" where
  "call_effects env cx name arguments =
     rbind (if is_desktop_mcp cx name then Inr []
            else map_sum id (\<lambda>acc. [ToolUse name acc]) (access_of (ae_registry env) name)) (\<lambda>use.
       map_sum id (\<lambda>effs. use @ effs) (registry_effects (ae_registry env) name (tool_context_of env cx) arguments))"

definition call_decisions :: "approval_env \<Rightarrow> turn_context \<Rightarrow> string \<Rightarrow> policy_engine \<Rightarrow> effect list \<Rightarrow> policy_decision list" where
  "call_decisions env cx name engine effs =
     map (\<lambda>eff. if is_desktop_mcp cx name then evaluate_desktop_mcp (ae_fs env) (ae_ul env) engine eff
       else evaluate (ae_fs env) (ae_ul env) engine (cx_profile cx) eff) effs"

definition to_ask :: "turn_context \<Rightarrow> bool \<Rightarrow> policy_decision list \<Rightarrow> policy_decision list" where
  "to_ask cx desktop ds =
     filter (\<lambda>d. pd_kind d = Ask \<and> (desktop \<or> cx_profile cx \<noteq> Profile_Confirm \<or> is_tool_use (pd_effect d))) ds"

definition authorize ::
  "approval_env \<Rightarrow> turn_context \<Rightarrow> string \<Rightarrow> json \<Rightarrow> policies \<times> app_event list \<Rightarrow>
     (policies \<times> app_event list, axiom_error, unit) outcome" where
  "authorize env cx name arguments st =
     (case st of (policies, sent) \<Rightarrow>
        (case check_exposed env cx name of
           Inl x \<Rightarrow> (st, Inl x)
         | Inr _ \<Rightarrow>
             (case policy_for env cx policies of
                (policies1, Inl x) \<Rightarrow> ((policies1, sent), Inl x)
              | (policies1, Inr engine) \<Rightarrow>
                  (case call_effects env cx name arguments of
                     Inl x \<Rightarrow> ((policies1, sent), Inl x)
                   | Inr effs \<Rightarrow>
                       (let desktop = is_desktop_mcp cx name;
                            ds = call_decisions env cx name engine effs in
                        case find (\<lambda>d. pd_kind d = Deny) ds of
                          Some d \<Rightarrow> ((policies1, sent), Inl (PermissionDenied [Text (pd_explanation d)]))
                        | None \<Rightarrow>
                            (case ask_all (ask_user env cx desktop name arguments (concrete_effects ds)) (to_ask cx desktop ds)
                                (engine, sent) of
                               ((engine', sent'), r) \<Rightarrow> ((policies1(cx_session_id cx \<mapsto> engine'), sent'), r)))))))"

end
