(* ===== verification/Authorize_Correct.thy ===== *)
theory Authorize_Correct
  imports Authorize
begin

text \<open>
  What a successful authorisation guarantees: nothing denied, and everything asked about answered by the user.
\<close>

lemma map_sum_Inr_iff [simp]: "map_sum f g r = Inr v \<longleftrightarrow> (\<exists>x. r = Inr x \<and> v = g x)"
  by (cases r) auto

section \<open>Grants never cover the use of a tool\<close>

definition no_tool_grants :: "policy_engine \<Rightarrow> bool" where
  "no_tool_grants e \<longleftrightarrow> (\<forall>g \<in> set (pe_grants e). \<forall>ul name acc. \<not> grant_matches ul g (ToolUse name acc))"

definition policies_ok :: "policies \<Rightarrow> bool" where
  "policies_ok policies \<longleftrightarrow> (\<forall>i e. policies i = Some e \<longrightarrow> no_tool_grants e)"

lemma fresh_engine_grants [simp]: "no_tool_grants \<lparr>pe_roots = rs, pe_rules = ps, pe_grants = []\<rparr>"
  by (simp add: no_tool_grants_def)

lemma default_not_grantable: "snd (snd (profile_default profile eff)) = False"
  by (auto simp: profile_default_def split: effect.splits tool_access.splits permission_profile.splits bool.splits)

text \<open>Only a desktop MCP question can be answered for the session.\<close>

lemma judge_grantable:
  assumes "pd_kind (judge ul e profile mcp eff) = Ask" "pd_session_grant_allowed (judge ul e profile mcp eff)"
  shows "mcp"
  using assms default_not_grantable [of profile eff]
  by (auto simp: judge_def decision_def Let_def split: prod.splits option.splits if_splits)

lemma judged_effect: "pd_effect (judge ul e profile mcp eff) = eff"
  by (auto simp: judge_def decision_def Let_def split: prod.splits option.splits if_splits)

lemma asked_grantable:
  assumes "d \<in> set (call_decisions env cx name e effs)" "pd_kind d = Ask" "pd_session_grant_allowed d"
  shows "\<exists>server tool se. pd_effect d = Mcp server tool se"
proof -
  from assms(1) obtain eff where d: "d = (if is_desktop_mcp cx name then evaluate_desktop_mcp (ae_fs env) (ae_ul env) e eff
      else evaluate (ae_fs env) (ae_ul env) e (cx_profile cx) eff)"
    unfolding call_decisions_def set_map by blast
  show ?thesis
  proof (cases "is_desktop_mcp cx name")
    case False
    with d assms(2,3) judge_grantable show ?thesis
      by (fastforce simp: evaluate_def evaluate_with_defaults_def decision_def split: sum.splits option.splits)
  next
    case True
    with d assms(2,3) show ?thesis
      by (cases eff) (auto simp: evaluate_desktop_mcp_def evaluate_with_defaults_def decision_def judged_effect Let_def
        split: sum.splits option.splits if_splits)
  qed
qed

lemma apply_approval_grants:
  assumes "no_tool_grants e" "ar_allow_session_grants r \<Longrightarrow> \<exists>server tool se. ar_effect r = Mcp server tool se"
  shows "no_tool_grants (fst (apply_approval fs ul e r choice))"
proof (cases "ar_allow_session_grants r")
  case False
  with assms(1) show ?thesis by (simp add: apply_approval_def)
next
  case True
  with assms(2) obtain server tool se where "ar_effect r = Mcp server tool se" by blast
  with assms(1) show ?thesis
    by (auto simp: apply_approval_def no_tool_grants_def push_grant_def suggested_prefix_def split: sum.splits option.splits)
qed

lemma question_fields [simp]:
  "ar_effect (approval_question env desktop name arguments concrete n d) = pd_effect d"
  "ar_request_id (approval_question env desktop name arguments concrete n d) = ae_request_id env n"
  "ar_allow_session_grants (approval_question env desktop name arguments concrete n d) = pd_session_grant_allowed d"
  by (simp_all add: approval_question_def approval_request_new_def Let_def)

lemma ask_user_grants:
  assumes "no_tool_grants e" "pd_session_grant_allowed d \<Longrightarrow> \<exists>server tool se. pd_effect d = Mcp server tool se"
  shows "no_tool_grants (fst (fst (ask_user env cx desktop name arguments concrete d (e, sent))))"
proof -
  let ?r = "approval_question env desktop name arguments concrete (length sent) d"
  have "no_tool_grants (fst (apply_approval (ae_fs env) (ae_ul env) e ?r choice))" for choice
    by (rule apply_approval_grants [OF assms(1)]) (use assms(2) in simp)
  then have "no_tool_grants (fst (fst (settle_answer env cx ?r choice (e, t))))" for choice t
    by (auto simp: settle_answer_def split: prod.splits sum.splits) (metis fst_conv)+
  with assms(1) show ?thesis
    by (auto simp: ask_user_def Let_def split: prod.splits sum.splits option.splits approval_answer.splits)
qed

section \<open>What the user was asked\<close>

text \<open>Among the events sent meanwhile the user allowed the effect: the request was published with the effect and a text
  that holds \<open>shown\<close>, the handler answered it with a choice that allows, and the answer was published.\<close>

definition allowed_at :: "approval_env \<Rightarrow> turn_context \<Rightarrow> app_event list \<Rightarrow> effect \<Rightarrow> string \<Rightarrow> nat \<Rightarrow> bool" where
  "allowed_at env cx sent' eff shown n \<longleftrightarrow>
     (\<exists>request choice js offered before after.
        Suc n < length sent' \<and> cx_approval cx
        \<and> sent' ! n = PermissionRequired (ae_request_id env n) (before @ shown @ after) js offered
        \<and> ae_effect_json env eff = Some js \<and> ar_effect request = eff \<and> ar_explanation request = before @ shown @ after
        \<and> ae_answer env n request = Responded choice \<and> choice_is_allowed choice
        \<and> sent' ! Suc n = PermissionResolved (ae_request_id env n) True (Some (choice_as_str choice)))"

definition approved ::
  "approval_env \<Rightarrow> turn_context \<Rightarrow> app_event list \<Rightarrow> app_event list \<Rightarrow> effect \<Rightarrow> string \<Rightarrow> bool" where
  "approved env cx sent sent' eff shown \<longleftrightarrow> (\<exists>n \<ge> length sent. allowed_at env cx sent' eff shown n)"

lemma send_event_ok: "send_event takes ev sent = (sent', Inr u) \<longleftrightarrow> takes (length sent) \<and> sent' = sent @ [ev]"
  by (auto simp: send_event_def)

lemma settle_answer_ok:
  assumes "settle_answer env cx request choice (e, sent) = ((e', sent'), Inr u)"
  shows "choice_is_allowed choice
    \<and> sent' = sent @ [PermissionResolved (ar_request_id request) True (Some (choice_as_str choice))]"
  using assms by (auto simp: settle_answer_def resolve_def send_event_ok split: prod.splits sum.splits if_splits)

lemma ask_user_ok:
  assumes "ask_user env cx desktop name arguments concrete d (e, sent) = ((e', sent'), Inr u)"
  shows "\<exists>js offered choice. let r = approval_question env desktop name arguments concrete (length sent) d in
    cx_approval cx \<and> ae_effect_json env (pd_effect d) = Some js \<and> ae_answer env (length sent) r = Responded choice
    \<and> choice_is_allowed choice
    \<and> sent' = sent @ [PermissionRequired (ae_request_id env (length sent)) (ar_explanation r) js offered,
                      PermissionResolved (ae_request_id env (length sent)) True (Some (choice_as_str choice))]"
proof -
  let ?r = "approval_question env desktop name arguments concrete (length sent) d"
  from assms obtain js where js: "ae_effect_json env (pd_effect d) = Some js"
    by (auto simp: ask_user_def Let_def split: option.splits)
  let ?ask = "PermissionRequired (ae_request_id env (length sent)) (ar_explanation ?r) js (map choice_as_str (offered_choices ?r))"
  from assms js obtain s1 where s1: "send_event (ae_takes env) ?ask sent = (s1, Inr ())"
    by (auto simp: ask_user_def Let_def split: prod.splits sum.splits)
  from assms js s1 obtain choice where c: "(if cx_approval cx then ae_answer env (length sent) ?r else Responded Choice_Deny) = Responded choice"
    and settled: "settle_answer env cx ?r choice (e, s1) = ((e', sent'), Inr u)"
    by (auto simp: ask_user_def Let_def split: approval_answer.splits prod.splits sum.splits)
  from settle_answer_ok [OF settled] have allowed: "choice_is_allowed choice"
    and sent': "sent' = s1 @ [PermissionResolved (ae_request_id env (length sent)) True (Some (choice_as_str choice))]" by simp_all
  from c allowed have "cx_approval cx" "ae_answer env (length sent) ?r = Responded choice"
    by (auto simp: choice_is_allowed_def split: if_splits)
  with js s1 allowed sent' show ?thesis by (auto simp: send_event_ok Let_def)
qed

lemma ask_user_extends:
  "\<exists>extra. snd (fst (ask_user env cx desktop name arguments concrete d (e, sent))) = sent @ extra"
proof -
  have send: "\<exists>extra. fst (send_event takes ev t) = t @ extra" for takes ev t by (simp add: send_event_def)
  have settle: "\<exists>extra. snd (fst (settle_answer env cx r c (e, t))) = t @ extra" for r c t
    using send by (auto simp: settle_answer_def resolve_def split: prod.splits sum.splits) (metis fst_conv)+
  show ?thesis
    by (auto simp: ask_user_def resolve_def send_event_def Let_def split: prod.splits sum.splits option.splits approval_answer.splits)
      (metis append.assoc append_Cons append_Nil fst_conv settle snd_conv)+
qed

text \<open>The text of a question: the use of a tool shows every concrete effect, another effect shows itself.\<close>

lemma str_join_member: "x \<in> set xs \<Longrightarrow> \<exists>before after. str_join sep xs = before @ x @ after"
proof (induction xs rule: induct_list012)
  case 1
  then show ?case by simp
next
  case (2 y)
  then have "str_join sep [y] = [] @ x @ []" by simp
  then show ?case by blast
next
  case (3 y z zs)
  show ?case
  proof (cases "x = y")
    case True
    then have "str_join sep (y # z # zs) = [] @ x @ (sep @ str_join sep (z # zs))" by simp
    then show ?thesis by blast
  next
    case False
    with 3 obtain before after where "str_join sep (z # zs) = before @ x @ after" by auto
    then have "str_join sep (y # z # zs) = (y @ sep @ before) @ x @ after" by simp
    then show ?thesis by blast
  qed
qed

lemma question_shows:
  assumes "\<not> is_tool_use (pd_effect d)"
  shows "\<exists>before after. ar_explanation (approval_question env desktop name arguments concrete n d)
    = before @ describe_effect (pd_effect d) @ after"
proof (cases desktop)
  case True
  then show ?thesis using assms
    by (intro exI [of _ "[]"] exI [of _ "[CHR 0x0A] @ ''Arguments: ''
        @ fst (truncate_text (ae_arguments_text env arguments) (16 * 1024) False)"])
      (simp add: approval_question_def approval_request_new_def Let_def)
next
  case False
  then show ?thesis using assms
    by (intro exI [of _ "pd_explanation d @ '': ''"] exI [of _ "[]"])
      (simp add: approval_question_def approval_request_new_def Let_def)
qed

lemma tool_question_shows:
  assumes "is_tool_use (pd_effect d)" "concrete = before @ x @ after" "x \<noteq> []"
  shows "\<exists>before after. ar_explanation (approval_question env desktop name arguments concrete n d) = before @ x @ after"
  using assms
  by (intro exI [of _ "''Allow '' @ spaced name @ ''?'' @ [CHR 0x0A] @ before"] exI [of _ after])
    (simp add: approval_question_def approval_request_new_def Let_def)

section \<open>A successful authorisation\<close>

lemma approved_mono:
  assumes "approved env cx sent s1 eff m" shows "approved env cx sent (s1 @ extra) eff m"
proof -
  have "allowed_at env cx s1 eff m n \<Longrightarrow> allowed_at env cx (s1 @ extra) eff m n" for n
    unfolding allowed_at_def by (elim exE conjE) (simp add: nth_append, blast)
  with assms show ?thesis by (auto simp: approved_def)
qed

lemma approved_later:
  "approved env cx s1 s2 eff m \<Longrightarrow> length sent \<le> length s1 \<Longrightarrow> approved env cx sent s2 eff m"
  unfolding approved_def by (meson le_trans)

lemma ask_user_approved:
  assumes "ask_user env cx desktop name arguments concrete d (e, sent) = ((e', sent'), Inr u)"
    and "\<exists>before after. ar_explanation (approval_question env desktop name arguments concrete (length sent) d) = before @ m @ after"
  shows "approved env cx sent sent' (pd_effect d) m"
proof -
  from assms(2) obtain before after where
    m: "ar_explanation (approval_question env desktop name arguments concrete (length sent) d) = before @ m @ after" by blast
  from ask_user_ok [OF assms(1)] obtain js offered choice where
    "cx_approval cx" "ae_effect_json env (pd_effect d) = Some js"
    "ae_answer env (length sent) (approval_question env desktop name arguments concrete (length sent) d) = Responded choice"
    "choice_is_allowed choice"
    and s: "sent' = sent @ [PermissionRequired (ae_request_id env (length sent)) (before @ m @ after) js offered,
                      PermissionResolved (ae_request_id env (length sent)) True (Some (choice_as_str choice))]"
    by (auto simp: Let_def m)
  moreover from s have "sent' ! length sent = PermissionRequired (ae_request_id env (length sent)) (before @ m @ after) js offered"
    "sent' ! Suc (length sent) = PermissionResolved (ae_request_id env (length sent)) True (Some (choice_as_str choice))"
    by (simp_all add: nth_append)
  ultimately have "allowed_at env cx sent' (pd_effect d) m (length sent)" unfolding allowed_at_def
    by (intro exI [of _ "approval_question env desktop name arguments concrete (length sent) d"] exI [of _ choice]
          exI [of _ js] exI [of _ offered] exI [of _ before] exI [of _ after]) (simp add: m)
  then show ?thesis by (auto simp: approved_def)
qed

lemma ask_all_ok:
  assumes shows_m: "\<And>n. \<exists>before after. ar_explanation (approval_question env desktop name arguments concrete n d) = before @ m @ after"
    and "d \<in> set ds" "ask_all (ask_user env cx desktop name arguments concrete) ds (e, sent) = ((e', sent'), Inr u)"
  shows "approved env cx sent sent' (pd_effect d) m"
proof -
  have ext: "\<exists>extra. snd (fst (ask_all (ask_user env cx desktop name arguments concrete) ds st)) = snd st @ extra" for ds st
  proof (induction ds arbitrary: st)
    case Nil
    then show ?case by simp
  next
    case (Cons x xs)
    obtain e1 s1 r where one: "ask_user env cx desktop name arguments concrete x st = ((e1, s1), r)" by (metis prod.exhaust)
    with ask_user_extends [of env cx desktop name arguments concrete x "fst st" "snd st"]
    have s1: "\<exists>extra. s1 = snd st @ extra" by simp
    show ?case
    proof (cases r)
      case (Inl y)
      with one s1 show ?thesis by simp
    next
      case (Inr y)
      with one s1 Cons [of "(e1, s1)"] show ?thesis by auto
    qed
  qed
  from assms(2,3) show ?thesis
  proof (induction ds arbitrary: e sent)
    case Nil
    then show ?case by simp
  next
    case (Cons x xs)
    from Cons.prems(2) obtain e1 s1 where one: "ask_user env cx desktop name arguments concrete x (e, sent) = ((e1, s1), Inr ())"
      and rest: "ask_all (ask_user env cx desktop name arguments concrete) xs (e1, s1) = ((e', sent'), Inr u)" by auto
    from ext [of xs "(e1, s1)"] rest obtain extra where extra: "sent' = s1 @ extra" by auto
    show ?case
    proof (cases "x = d")
      case True
      with ask_user_approved [OF one] shows_m have "approved env cx sent s1 (pd_effect d) m" by simp
      with approved_mono extra show ?thesis by simp
    next
      case False
      with Cons.prems(1) Cons.IH [OF _ rest] have "approved env cx s1 sent' (pd_effect d) m" by simp
      moreover from ask_user_extends [of env cx desktop name arguments concrete x e sent] one
      have "length sent \<le> length s1" by auto
      ultimately show ?thesis by (rule approved_later)
    qed
  qed
qed

text \<open>Tools that are always allowed declare no effects of their own.\<close>

definition interaction_plain :: "registry \<Rightarrow> bool" where
  "interaction_plain reg \<longleftrightarrow>
     (\<forall>t \<in> snd ` set reg. tl_access t \<in> {Interaction, Image_access} \<longrightarrow>
        (\<forall>cx arguments effs. tl_effects t cx arguments = Inr effs \<longrightarrow> effs = []))"

text \<open>An effect the user agreed to: asked about by itself, or shown in the question whether the tool may be used.\<close>

definition consented ::
  "approval_env \<Rightarrow> turn_context \<Rightarrow> app_event list \<Rightarrow> app_event list \<Rightarrow> policy_decision list \<Rightarrow> policy_decision \<Rightarrow> bool" where
  "consented env cx sent sent' ds d \<longleftrightarrow>
     approved env cx sent sent' (pd_effect d) (if is_tool_use (pd_effect d) then [] else describe_effect (pd_effect d))
     \<or> (cx_profile cx = Profile_Confirm \<and> \<not> is_tool_use (pd_effect d)
        \<and> (\<exists>u \<in> set ds. is_tool_use (pd_effect u) \<and> approved env cx sent sent' (pd_effect u) (describe_effect (pd_effect d))))"

lemma describe_nonempty: "describe_effect eff \<noteq> []"
  by (cases eff) simp_all

lemma tool_use_asked:
  assumes "no_tool_grants e" "pd_kind (evaluate fs ul e Profile_Confirm (ToolUse name acc)) \<noteq> Deny"
    "acc \<notin> {Interaction, Image_access}"
  shows "pd_kind (evaluate fs ul e Profile_Confirm (ToolUse name acc)) = Ask
    \<and> is_tool_use (pd_effect (evaluate fs ul e Profile_Confirm (ToolUse name acc)))"
proof -
  obtain n where n: "trimmed_name ''tool name must be non-empty and NUL-free'' name = Inr n"
    using assms(2) by (auto simp: evaluate_def evaluate_with_defaults_def decision_def split: sum.splits)
  have "\<not> (\<exists>g \<in> set (pe_grants e). grant_matches ul g (ToolUse n acc))"
    using assms(1) by (auto simp: no_tool_grants_def)
  moreover have "fst (profile_default Profile_Confirm (ToolUse n acc)) = Ask"
    using assms(3) by (cases acc) (simp_all add: profile_default_def)
  moreover have ev: "evaluate fs ul e Profile_Confirm (ToolUse name acc) = judge ul e Profile_Confirm False (ToolUse n acc)"
    using n by (simp add: evaluate_def evaluate_with_defaults_def)
  ultimately have "pd_kind (judge ul e Profile_Confirm False (ToolUse n acc)) \<in> {Ask, Deny}"
    by (auto simp: judge_def decision_def restricted_def Let_def split: prod.splits option.splits)
  then show ?thesis using assms(2) by (auto simp: ev judged_effect is_tool_use_def)
qed

text \<open>C8. A tool call is authorised only when its tool is offered for this message, the policy denies none of its effects
  (the use of the tool included), and every effect the policy asks about was shown to the user, who allowed it in this
  very call: in a question of its own, or under the confirm profile in the question whether the tool may be used.\<close>

theorem authorized_calls_consented:
  assumes ok: "policies_ok policies" and plain: "interaction_plain (ae_registry env)"
    and run: "authorize env cx name arguments (policies, sent) = ((policies', sent'), Inr u)"
  shows "check_exposed env cx name = Inr ()
    \<and> (\<exists>engine effs ds. snd (policy_for env cx policies) = Inr engine \<and> call_effects env cx name arguments = Inr effs
        \<and> ds = call_decisions env cx name engine effs
        \<and> (\<forall>d \<in> set ds. pd_kind d = Allow \<or> pd_kind d = Ask \<and> consented env cx sent sent' ds d))"
proof -
  from run have exposed: "check_exposed env cx name = Inr ()"
    by (auto simp: authorize_def split: sum.splits)
  from run exposed obtain policies1 engine where pol: "policy_for env cx policies = (policies1, Inr engine)"
    by (auto simp: authorize_def split: sum.splits prod.splits)
  from run exposed pol obtain effs where effs: "call_effects env cx name arguments = Inr effs"
    by (auto simp: authorize_def split: sum.splits)
  define ds where "ds = call_decisions env cx name engine effs"
  let ?desktop = "is_desktop_mcp cx name"
  let ?ask = "ask_user env cx ?desktop name arguments (concrete_effects ds)"
  from run exposed pol effs have none: "find (\<lambda>d. pd_kind d = Deny) ds = None"
    by (auto simp: authorize_def ds_def [symmetric] Let_def split: option.splits)
  with run exposed pol effs obtain engine' where
    asked: "ask_all ?ask (to_ask cx ?desktop ds) (engine, sent) = ((engine', sent'), Inr u)"
    by (auto simp: authorize_def ds_def [symmetric] Let_def split: prod.splits)
  have grants: "no_tool_grants engine"
    using ok pol by (auto simp: policy_for_def policies_ok_def for_workspace_with_rules_def
      split: option.splits sum.splits)
  have "pd_kind d = Allow \<or> pd_kind d = Ask \<and> consented env cx sent sent' ds d" if d: "d \<in> set ds" for d
  proof -
    from none d have "pd_kind d \<noteq> Deny" by (auto simp: find_None_iff)
    then consider "pd_kind d = Allow" | (asked) "pd_kind d = Ask" "d \<in> set (to_ask cx ?desktop ds)"
      | (covered) "pd_kind d = Ask" "\<not> ?desktop" "cx_profile cx = Profile_Confirm" "\<not> is_tool_use (pd_effect d)"
      using d by (cases "pd_kind d") (auto simp: to_ask_def)
    then show ?thesis
    proof cases
      case asked
      have "\<exists>before after. ar_explanation (approval_question env ?desktop name arguments (concrete_effects ds) n d)
          = before @ (if is_tool_use (pd_effect d) then [] else describe_effect (pd_effect d)) @ after" for n
        using question_shows by auto
      from ask_all_ok [OF this asked(2) \<open>ask_all ?ask _ _ = _\<close>] asked(1) show ?thesis by (simp add: consented_def)
    next
      case covered
      from effs covered(2) obtain acc own where acc: "access_of (ae_registry env) name = Inr acc"
        and own: "registry_effects (ae_registry env) name (tool_context_of env cx) arguments = Inr own"
        and split: "effs = ToolUse name acc # own" by (auto simp: call_effects_def success_iffs)
      let ?u = "evaluate (ae_fs env) (ae_ul env) engine (cx_profile cx) (ToolUse name acc)"
      have u: "?u \<in> set ds" using split covered(2) by (simp add: ds_def call_decisions_def)
      with none have not_denied: "pd_kind ?u \<noteq> Deny" by (auto simp: find_None_iff)
      have "d \<in> set (call_decisions env cx name engine own) \<or> d = ?u"
        using d split covered(2) by (auto simp: ds_def call_decisions_def)
      moreover have "is_tool_use (pd_effect ?u) \<or> pd_kind ?u = Deny"
        by (auto simp: evaluate_def evaluate_with_defaults_def judged_effect is_tool_use_def decision_def
          split: sum.splits option.splits)
      ultimately have "own \<noteq> []" using covered(4) not_denied by (auto simp: call_decisions_def)
      moreover from acc obtain t where t: "map_of (ae_registry env) name = Some t" "acc = tl_access t"
        by (auto simp: access_of_def find_tool_def success_iffs)
      moreover from t own have "tl_effects t (tool_context_of env cx) arguments = Inr own"
        by (auto simp: registry_effects_def find_tool_def success_iffs)
      ultimately have "acc \<notin> {Interaction, Image_access}"
        using plain map_of_SomeD [OF t(1)] unfolding interaction_plain_def by (metis image_eqI snd_conv)
      from tool_use_asked [OF grants _ this, of "ae_fs env" "ae_ul env" name] not_denied covered(3)
      have use: "pd_kind ?u = Ask" "is_tool_use (pd_effect ?u)" by simp_all
      with u have to_ask: "?u \<in> set (to_ask cx ?desktop ds)"
        unfolding to_ask_def set_filter mem_Collect_eq by blast
      from d covered(4) have "describe_effect (pd_effect d)
          \<in> set (map (describe_effect \<circ> pd_effect) (filter (\<lambda>d. \<not> is_tool_use (pd_effect d)) ds))" by auto
      from str_join_member [OF this] obtain before after where
        "concrete_effects ds = before @ describe_effect (pd_effect d) @ after" unfolding concrete_effects_def by blast
      from tool_question_shows [OF use(2) this describe_nonempty]
      have "approved env cx sent sent' (pd_effect ?u) (describe_effect (pd_effect d))"
        by (rule ask_all_ok [OF _ to_ask asked])
      with covered use u show ?thesis unfolding consented_def by blast
    qed simp
  qed
  with exposed pol effs ds_def show ?thesis by auto
qed

text \<open>The invariant on the engines is kept, whatever an authorisation returns.\<close>

lemma ask_all_grants:
  assumes "\<And>d. d \<in> set ds \<Longrightarrow> pd_session_grant_allowed d \<Longrightarrow> \<exists>server tool se. pd_effect d = Mcp server tool se"
  shows "no_tool_grants e \<Longrightarrow> no_tool_grants (fst (fst (ask_all (ask_user env cx desktop name arguments concrete) ds (e, sent))))"
  using assms
proof (induction ds arbitrary: e sent)
  case Nil
  then show ?case by simp
next
  case (Cons d ds)
  obtain e1 s1 r where one: "ask_user env cx desktop name arguments concrete d (e, sent) = ((e1, s1), r)" by (metis prod.exhaust)
  with ask_user_grants [OF Cons.prems(1), of d env cx desktop name arguments concrete sent] Cons.prems(2)
  have "no_tool_grants e1" by simp
  with one Cons show ?case by (cases r) simp_all
qed

lemma authorize_keeps_policies:
  assumes "policies_ok policies"
  shows "policies_ok (fst (fst (authorize env cx name arguments (policies, sent))))"
proof -
  obtain policies1 r where pol: "policy_for env cx policies = (policies1, r)" by (cases "policy_for env cx policies")
  have ok1: "policies_ok policies1 \<and> (\<forall>e. r = Inr e \<longrightarrow> no_tool_grants e)"
    using assms pol by (auto simp: policy_for_def policies_ok_def for_workspace_with_rules_def
      split: option.splits sum.splits if_splits)
  have put: "policies_ok (policies1(i \<mapsto> e))" if "no_tool_grants e" for i e
    using ok1 that by (auto simp: policies_ok_def)
  show ?thesis
  proof (cases "\<exists>engine effs. check_exposed env cx name = Inr () \<and> r = Inr engine \<and> call_effects env cx name arguments = Inr effs
      \<and> find (\<lambda>d. pd_kind d = Deny) (call_decisions env cx name engine effs) = None")
    case False
    with assms ok1 pol show ?thesis by (auto simp: authorize_def Let_def split: sum.splits option.splits)
  next
    case True
    then obtain engine effs where run: "check_exposed env cx name = Inr ()" "r = Inr engine" "call_effects env cx name arguments = Inr effs"
      "find (\<lambda>d. pd_kind d = Deny) (call_decisions env cx name engine effs) = None" by blast
    let ?ds = "call_decisions env cx name engine effs"
    have "no_tool_grants (fst (fst (ask_all (ask_user env cx (is_desktop_mcp cx name) name arguments (concrete_effects ?ds))
        (to_ask cx (is_desktop_mcp cx name) ?ds) (engine, sent))))"
      by (rule ask_all_grants) (use ok1 run(2) asked_grantable in \<open>auto simp: to_ask_def\<close>)
    with run pol put show ?thesis by (auto simp: authorize_def Let_def split: prod.splits)
  qed
qed

text \<open>The built-in tools satisfy the assumption: the questions of a tool are its only effect.\<close>

lemma builtin_interaction_plain:
  assumes "\<And>arguments x. tb_parse lib ''ask_user_questions'' arguments = Inr x \<Longrightarrow> \<exists>qs. x = Question_args qs"
    and "registry_with_search lib = Inr reg"
  shows "interaction_plain reg"
proof -
  have grown: "snd ` set reg' \<subseteq> snd ` set reg0 \<union> set ts" if "with_session_tools ts reg0 = Inr reg'" for ts reg0 reg'
    using that
  proof (induction ts arbitrary: reg0)
    case Nil
    then show ?case by simp
  next
    case (Cons t ts)
    then have "with_session_tools ts (AList.update (tl_name t) t reg0) = Inr reg'"
      by (simp add: register_def Let_def split: if_splits)
    with Cons.IH have "snd ` set reg' \<subseteq> snd ` set (AList.update (tl_name t) t reg0) \<union> set ts" by blast
    moreover have "snd ` set (AList.update (tl_name t) t reg0) \<subseteq> insert t (snd ` set reg0)"
      by (induction reg0) auto
    ultimately show ?case by auto
  qed
  from grown [OF assms(2) [unfolded registry_with_search_def]] have all: "snd ` set reg \<subseteq> builtin_tool lib ` set builtin_access" by simp
  have none: "effs = []" if "na \<in> set builtin_access" "tl_access (builtin_tool lib na) \<in> {Interaction, Image_access}"
    "tl_effects (builtin_tool lib na) cx arguments = Inr effs" for na cx arguments effs
  proof -
    have "na \<in> set (filter (\<lambda>na. snd na \<in> {Interaction, Image_access}) builtin_access)"
      using that(1,2) by (simp add: builtin_tool_def)
    then have "fst na = ''ask_user_questions''" by (simp add: builtin_access_def)
    with that(3) obtain x where x: "tb_parse lib ''ask_user_questions'' arguments = Inr x" "args_effects lib cx x = Inr effs"
      by (auto simp: builtin_tool_def success_iffs)
    from assms(1) [OF x(1)] obtain qs where "x = Question_args qs" by blast
    with x(2) show ?thesis by auto
  qed
  show ?thesis unfolding interaction_plain_def
  proof (intro ballI impI allI)
    fix t cx arguments effs
    assume t: "t \<in> snd ` set reg" "tl_access t \<in> {Interaction, Image_access}" "tl_effects t cx arguments = Inr effs"
    with all obtain na where "na \<in> set builtin_access" "t = builtin_tool lib na" by blast
    with none t(2,3) show "effs = []" by blast
  qed
qed

section \<open>An authorised write\<close>

definition demo_write_tool :: tool where
  "demo_write_tool = \<lparr>tl_name = ''w'', tl_description = [], tl_parameters = JNull, tl_access = Write,
     tl_effects = (\<lambda>_ _. Inr [FileWrite [RootDir, Normal ''w'', Normal ''f'']])\<rparr>"

definition demo_approval_env :: approval_env where
  "demo_approval_env = \<lparr>ae_fs = \<lparr>fs_exists = \<lambda>_. True, fs_canonicalize = Some, fs_is_dir = \<lambda>_. False\<rparr>, ae_ul = demo_urls,
     ae_registry = [(''w'', demo_write_tool)], ae_model_id = ''m'', ae_rules = [], ae_project_rules = \<lambda>_. Inr [],
     ae_takes = \<lambda>_. True, ae_request_id = \<lambda>_. ''r'', ae_effect_json = \<lambda>_. Some JNull, ae_arguments_text = \<lambda>_. [],
     ae_answer = \<lambda>_ _. Responded AllowOnce\<rparr>"

definition demo_turn_context :: turn_context where
  "demo_turn_context = \<lparr>cx_session_id = 1, cx_turn_id = 2, cx_cwd = [RootDir, Normal ''w''], cx_profile = Profile_Confirm,
     cx_web = True, cx_image_tools = True, cx_mcp = False, cx_approval = True, cx_questions = False\<rparr>"

definition demo_ask_rule :: policy_rule where
  "demo_ask_rule = \<lparr>pr_action = Rule_Ask, pr_effect = Some Class_FileWrite, pr_resource_prefix = None, pr_reason = None\<rparr>"

definition demo_policies :: policies where
  "demo_policies = [1 \<mapsto> \<lparr>pe_roots = [[RootDir, Normal ''w'']], pe_rules = [demo_ask_rule], pe_grants = []\<rparr>]"

lemma demo_policies_ok: "policies_ok demo_policies"
  by (simp add: policies_ok_def demo_policies_def)

lemma demo_interaction_plain: "interaction_plain (ae_registry demo_approval_env)"
  by (simp add: interaction_plain_def demo_approval_env_def demo_write_tool_def)

lemma nul_not_w: "nul \<noteq> CHR ''w''"
  by code_simp

lemma demo_tool_name: "trimmed_name m ''w'' = Inr ''w''"
  by (simp add: trimmed_name_def contains_nul_def nul_not_w visible_text visible_def byte_def)

lemma demo_authorized:
  "snd (authorize demo_approval_env demo_turn_context ''w'' JNull (demo_policies, [])) = Inr ()"
  by (simp add: authorize_def check_exposed_def demo_turn_context_def policy_for_def demo_policies_def call_effects_def
    access_of_def find_tool_def registry_effects_def is_desktop_mcp_def ok_or_def rbind_def demo_approval_env_def
    demo_write_tool_def call_decisions_def evaluate_def evaluate_with_defaults_def demo_tool_name normalize_path_def
    normalize_for_policy_def canonical_or_same_def file_denial_def under_root_def path_starts_with_def starts_with_def is_absolute_def path_join_def
    judge_def rule_matches_def demo_ask_rule_def find_action_def restricted_def profile_default_def decision_def
    to_ask_def is_tool_use_def ask_user_def approval_question_def approval_request_new_def send_event_def
    settle_answer_def apply_approval_def resolve_def choice_is_allowed_def Let_def)

theorem authorized_calls_consented_witness:
  "\<exists>policies' sent'. authorize demo_approval_env demo_turn_context ''w'' JNull (demo_policies, []) = ((policies', sent'), Inr ())
   \<and> (\<exists>engine effs ds. snd (policy_for demo_approval_env demo_turn_context demo_policies) = Inr engine
        \<and> call_effects demo_approval_env demo_turn_context ''w'' JNull = Inr effs
        \<and> ds = call_decisions demo_approval_env demo_turn_context ''w'' engine effs
        \<and> (\<forall>d \<in> set ds. pd_kind d = Allow \<or> pd_kind d = Ask \<and> consented demo_approval_env demo_turn_context [] sent' ds d))"
proof -
  obtain policies' sent' r where run: "authorize demo_approval_env demo_turn_context ''w'' JNull (demo_policies, []) = ((policies', sent'), r)"
    by (metis prod.exhaust)
  with demo_authorized have "r = Inr ()" by simp
  with run have ok: "authorize demo_approval_env demo_turn_context ''w'' JNull (demo_policies, []) = ((policies', sent'), Inr ())" by simp
  from authorized_calls_consented [OF demo_policies_ok demo_interaction_plain this] ok show ?thesis by blast
qed

end
