(* ===== verification/Agent_Turn_Correct.thy ===== *)
theory Agent_Turn_Correct
  imports Agent_Turn Authorize_Correct
begin

text \<open>
  What the provider may rely on: in every request of a turn, and in the history a turn leaves behind, each tool call is
  answered once, in order, before any other message. And a turn with a step limit returns.
\<close>

section \<open>Answered calls\<close>

text \<open>The calls still open after some messages, when \<open>ps\<close> were open before them; \<open>None\<close> when a reply is missing, out
  of order or answers nothing.\<close>

fun open_calls :: "string list \<Rightarrow> chat_message list \<Rightarrow> string list option" where
  "open_calls ps [] = Some ps"
| "open_calls [] (m # ms) =
     (if cm_tool_call_id m = None then open_calls (map tc_id (cm_tool_calls m)) ms else None)"
| "open_calls (p # ps) (m # ms) =
     (if cm_role m = Tool_role \<and> cm_tool_call_id m = Some p \<and> cm_tool_calls m = [] then open_calls ps ms else None)"

definition well_replied :: "chat_message list \<Rightarrow> bool" where
  "well_replied ms \<longleftrightarrow> open_calls [] ms = Some []"

definition calls_of :: "chat_message list \<Rightarrow> tool_call list" where
  "calls_of ms = concat (map cm_tool_calls ms)"

definition unique_calls :: "chat_message list \<Rightarrow> bool" where
  "unique_calls ms \<longleftrightarrow> distinct (map tc_id (calls_of ms))"

lemma calls_of_simps [simp]:
  "calls_of [] = []" "calls_of (m # ms) = cm_tool_calls m @ calls_of ms" "calls_of (xs @ ys) = calls_of xs @ calls_of ys"
  by (simp_all add: calls_of_def)

lemma open_calls_append:
  "open_calls ps (xs @ ys) = (case open_calls ps xs of None \<Rightarrow> None | Some qs \<Rightarrow> open_calls qs ys)"
  by (induction ps xs rule: open_calls.induct) auto

text \<open>A message that neither calls nor answers.\<close>

definition plain_message :: "chat_message \<Rightarrow> bool" where
  "plain_message m \<longleftrightarrow> cm_tool_call_id m = None \<and> cm_tool_calls m = []"

lemma open_plain: "list_all plain_message ms \<Longrightarrow> open_calls [] ms = Some []"
  by (induction ms) (auto simp: plain_message_def)

lemma calls_of_plain: "list_all plain_message ms \<Longrightarrow> calls_of ms = []"
  by (induction ms) (auto simp: plain_message_def)

lemma well_replied_plain:
  "well_replied ms \<Longrightarrow> list_all plain_message ns \<Longrightarrow> well_replied (ms @ ns)"
  by (simp add: well_replied_def open_calls_append open_plain)

lemma plain_messages [simp]:
  "plain_message (chat_message_text r c)" "plain_message interrupted_turn_context" "plain_message (image_observation i imgs)"
  "plain_message continuation_message"
  by (simp_all add: plain_message_def chat_message_text_def interrupted_turn_context_def image_observation_def continuation_message_def)

lemma tool_message_fields [simp]:
  "cm_role (tool_message i n c) = Tool_role" "cm_tool_call_id (tool_message i n c) = Some i" "cm_tool_calls (tool_message i n c) = []"
  "cm_role (tool_error_message i n c) = Tool_role" "cm_tool_call_id (tool_error_message i n c) = Some i"
  "cm_tool_calls (tool_error_message i n c) = []"
  by (simp_all add: tool_message_def tool_error_message_def chat_message_text_def)

lemma interrupted_fields [simp]:
  "cm_tool_call_id interrupted_turn_context = None" "cm_tool_calls interrupted_turn_context = []"
  using plain_messages(2) by (simp_all add: plain_message_def)

text \<open>Calls are answered first in, first out.\<close>

definition answered_ids :: "chat_message list \<Rightarrow> string list" where
  "answered_ids ms = List.map_filter cm_tool_call_id ms"

lemma open_calls_fifo:
  "open_calls ps ms = Some qs \<Longrightarrow> ps @ map tc_id (calls_of ms) = answered_ids ms @ qs"
proof (induction ps ms rule: open_calls.induct)
  case (2 m ms)
  then show ?case by (auto simp: answered_ids_def map_filter_simps split: if_splits)
next
  case (3 p ps m ms)
  then show ?case by (auto simp: answered_ids_def map_filter_simps split: if_splits)
qed (simp add: answered_ids_def map_filter_simps)

lemma answered_ids_set: "Some i \<in> cm_tool_call_id ` set ms \<longleftrightarrow> i \<in> set (answered_ids ms)"
  by (induction ms) (auto simp: answered_ids_def map_filter_simps split: option.splits)

text \<open>With distinct identifiers the repair of a declined turn answers exactly the open calls, in order.\<close>

lemma unanswered_are_open:
  assumes "open_calls [] ms = Some qs" "unique_calls ms"
  shows "map tc_id (unanswered_calls ms) = qs"
proof -
  from open_calls_fifo [OF assms(1)] have ids: "map tc_id (calls_of ms) = answered_ids ms @ qs" by simp
  with assms(2) have apart: "set qs \<inter> set (answered_ids ms) = {}" by (auto simp: unique_calls_def)
  have "map tc_id (unanswered_calls ms) = filter (\<lambda>i. i \<notin> set (answered_ids ms)) (map tc_id (calls_of ms))"
    by (simp add: unanswered_calls_def calls_of_def answered_ids_set filter_map o_def)
  also have "\<dots> = qs" unfolding ids using apart by (auto simp: filter_id_conv disjoint_iff)
  finally show ?thesis .
qed

lemma open_replies: "open_calls (map tc_id cs) (map declined_message cs) = Some []"
  by (induction cs) (simp_all add: declined_message_def)

lemma declined_well_replied:
  assumes "open_calls [] ms = Some qs" "unique_calls ms"
  shows "well_replied (ms @ map declined_message (unanswered_calls ms) @ [interrupted_turn_context])"
proof -
  have "open_calls qs (map declined_message (unanswered_calls ms)) = Some []"
    using open_replies [of "unanswered_calls ms"] unanswered_are_open [OF assms] by simp
  with assms(1) show ?thesis by (simp add: well_replied_def open_calls_append open_plain)
qed

text \<open>An identifier used twice defeats the repair: the second call counts as answered by the reply to the first.\<close>

lemma reused_identifier_left_open:
  "\<exists>ms. open_calls [] ms = Some [''c''] \<and> unanswered_calls ms = []"
proof -
  let ?call = "\<lparr>tc_id = ''c'', tc_kind = ''function'', tc_function = \<lparr>fn_name = ''w'', fn_arguments = []\<rparr>\<rparr>"
  let ?asked = "(chat_message_text Assistant [])\<lparr>cm_tool_calls := [?call]\<rparr>"
  let ?ms = "[?asked, tool_message ''c'' ''w'' [], ?asked]"
  have "open_calls [] ?ms = Some [''c''] \<and> unanswered_calls ?ms = []"
    by (simp add: unanswered_calls_def chat_message_text_def)
  then show ?thesis by blast
qed

section \<open>What a step keeps\<close>

definition keeps :: "turn_state \<Rightarrow> turn_state \<Rightarrow> bool" where
  "keeps s s' \<longleftrightarrow> ts_messages s' = ts_messages s \<and> ts_history s' = ts_history s \<and> ts_step s' = ts_step s"

lemma keeps_refl [simp]: "keeps s s"
  by (simp add: keeps_def)

lemma keeps_trans [trans]: "keeps s t \<Longrightarrow> keeps t u \<Longrightarrow> keeps s u"
  by (simp add: keeps_def)

lemma publish_keeps: "keeps s (fst (publish env ev s))"
  by (simp add: publish_def keeps_def split: prod.splits)

lemma publish_all_keeps: "keeps s (fst (publish_all env evs s))"
proof (induction evs arbitrary: s)
  case Nil
  then show ?case by simp
next
  case (Cons ev evs)
  then show ?case using publish_keeps [of s env ev] keeps_trans by (auto simp: obind_def split: prod.splits sum.splits)
qed

lemma count_keeps: "keeps s (count s)"
  by (simp add: count_def keeps_def)

lemma look_keeps: "keeps s (look env s)"
  by (simp add: look_def count_def keeps_def)

lemma authorize_call_keeps: "keeps s (fst (authorize_call env call arguments s))"
  by (simp add: authorize_call_def keeps_def split: prod.splits)

text \<open>An operation after which \<open>P\<close> holds of the state reached by success and \<open>Q\<close> of one left by an error.\<close>

definition ends_in :: "'a turn \<Rightarrow> (turn_state \<Rightarrow> bool) \<Rightarrow> (turn_state \<Rightarrow> bool) \<Rightarrow> bool" where
  "ends_in r P Q \<longleftrightarrow> (case r of (s, Inr _) \<Rightarrow> P s | (s, Inl _) \<Rightarrow> Q s)"

lemma ends_bind:
  assumes "ends_in r P Q" "\<And>s x. r = (s, Inr x) \<Longrightarrow> P s \<Longrightarrow> ends_in (k s x) P' Q"
  shows "ends_in (obind r k) P' Q"
  using assms by (auto simp: ends_in_def obind_def split: prod.splits sum.splits)

lemma ends_return [simp]: "ends_in (s, Inr x) P Q = P s" "ends_in (s, Inl e) P Q = Q s"
  by (simp_all add: ends_in_def)

lemma ends_keeps: "keeps s (fst r) \<Longrightarrow> ends_in r (keeps s) (keeps s)"
  by (cases r; cases "snd r") (auto simp: ends_in_def)

lemma ends_mono: "ends_in r P Q \<Longrightarrow> (\<And>s. P s \<Longrightarrow> P' s) \<Longrightarrow> (\<And>s. Q s \<Longrightarrow> Q' s) \<Longrightarrow> ends_in r P' Q'"
  by (auto simp: ends_in_def split: prod.splits sum.splits)

lemma publish_from:
  assumes "keeps s t"
  shows "ends_in (publish env ev t) (keeps s) (keeps s)" "ends_in (publish_all env evs t) (keeps s) (keeps s)"
  using ends_keeps [OF keeps_trans [OF assms publish_keeps]] ends_keeps [OF keeps_trans [OF assms publish_all_keeps]] by blast+

lemmas publish_ends = ends_keeps [OF publish_keeps] and publish_all_ends = ends_keeps [OF publish_all_keeps]

section \<open>One call\<close>

definition adds_reply :: "tool_call \<Rightarrow> turn_state \<Rightarrow> turn_state \<Rightarrow> bool" where
  "adds_reply call s s' \<longleftrightarrow> ts_history s' = ts_history s \<and> ts_step s' = ts_step s
   \<and> (\<exists>m. ts_messages s' = ts_messages s @ [m] \<and> cm_role m = Tool_role \<and> cm_tool_call_id m = Some (tc_id call)
        \<and> cm_tool_calls m = [])"

text \<open>Messages a next request may be built on. The history is as it was, or holds such messages.\<close>

definition sound_messages :: "chat_message list \<Rightarrow> bool" where
  "sound_messages ms \<longleftrightarrow> well_replied ms \<and> unique_calls ms"

lemma sound_plain: "sound_messages ms \<Longrightarrow> list_all plain_message ns \<Longrightarrow> sound_messages (ms @ ns)"
  by (simp add: sound_messages_def well_replied_plain unique_calls_def calls_of_plain)

definition left_history :: "turn_state \<Rightarrow> turn_state \<Rightarrow> bool" where
  "left_history s s' \<longleftrightarrow> ts_history s' = ts_history s \<or> (\<exists>h. ts_history s' = Some h \<and> sound_messages h)"

lemma keeps_reply: "keeps s t \<Longrightarrow> adds_reply call t u \<Longrightarrow> adds_reply call s u"
  by (simp add: keeps_def adds_reply_def)

lemma keeps_left: "keeps s t \<Longrightarrow> left_history s t"
  by (simp add: keeps_def left_history_def)

lemma keeps_left_trans: "keeps s t \<Longrightarrow> left_history t u \<Longrightarrow> left_history s u"
  by (simp add: keeps_def left_history_def)

lemma fail_call_ends: "ends_in (fail_call env call arguments reason s) (adds_reply call s) (keeps s)"
  unfolding fail_call_def
  by (rule ends_bind [OF publish_all_ends]) (auto simp: adds_reply_def keeps_def push_message_def)

lemma settle_questions_ends: "ends_in (settle_questions env call arguments request result s) (keeps s) (keeps s)"
  unfolding settle_questions_def
proof (rule ends_bind [OF publish_ends], goal_cases)
  case (1 s1 u)
  have s1: "keeps s (count s1)" using 1(2) count_keeps keeps_trans by blast
  have "ends_in (question_failed env request result e (count s1)) (keeps s) (keeps s)" for e
    unfolding question_failed_def using s1 by (auto intro!: ends_bind [OF publish_from(1) [OF s1]])
  moreover have "ends_in (question_answered env call arguments request result answers (count s1)) (keeps s) (keeps s)" for answers
    unfolding question_answered_def
  proof (rule ends_bind [OF publish_from(1) [OF s1]], goal_cases)
    case (1 s2 w)
    have s2: "keeps s (count s2)" using 1(2) count_keeps keeps_trans by blast
    then show ?case by (auto intro!: ends_bind [OF publish_from(2) [OF s2]] split: sum.split option.split)
  qed
  ultimately show ?case by (simp split: sum.split)
qed

lemma settle_from:
  "keeps s t \<Longrightarrow> ends_in (settle_questions env call arguments request result t) (keeps s) (keeps s)"
  by (rule ends_mono [OF settle_questions_ends]) (rule keeps_trans; assumption)+

lemma report_result_ends: "ends_in (report_result env call result s) (adds_reply call s) (keeps s)"
  unfolding report_result_def
proof (rule ends_bind [OF publish_all_ends], goal_cases)
  case (1 s1 u)
  show ?case
  proof (rule ends_bind [OF publish_from(2)], goal_cases)
    case 1
    show ?case using \<open>keeps s s1\<close> by (simp add: keeps_def)
  next
    case (2 s2 v)
    then show ?case by (simp add: adds_reply_def keeps_def push_message_def update_context_tokens_def Let_def)
  qed
qed

lemma report_from:
  assumes "keeps s t" shows "ends_in (report_result env call result t) (adds_reply call s) (keeps s)"
  by (rule ends_mono [OF report_result_ends]) (use keeps_reply keeps_trans assms in blast)+

lemma execute_call_ends: "ends_in (execute_call env call arguments b s) (adds_reply call s) (keeps s)"
  unfolding execute_call_def
proof (rule ends_bind [OF publish_ends], goal_cases)
  case (1 s1 u)
  have s1: "keeps s (count s1)" using 1(2) count_keeps keeps_trans by blast
  have rest: "ends_in (obind (publish_all env evs (count s1)) (\<lambda>s2 _.
      obind (case tr_questions result of None \<Rightarrow> (s2, Inr (result\<lparr>tr_events := []\<rparr>))
        | Some request \<Rightarrow> settle_questions env call arguments request (result\<lparr>tr_events := [], tr_questions := None\<rparr>) s2) (\<lambda>s3 result.
      obind (report_result env call (bound_result env result) s3) (\<lambda>s4 _. (s4, Inr (b :: batch))))))
     (adds_reply call s) (keeps s)" for evs result b
  proof (rule ends_bind [OF publish_from(2) [OF s1]], goal_cases)
    case (1 s2 v)
    have "ends_in (case tr_questions result of None \<Rightarrow> (s2, Inr (result\<lparr>tr_events := []\<rparr>))
        | Some request \<Rightarrow> settle_questions env call arguments request (result\<lparr>tr_events := [], tr_questions := None\<rparr>) s2)
        (keeps s) (keeps s)"
      using 1(2) settle_from [OF 1(2)] by (auto simp: keeps_def split: option.split)
    then show ?case
    proof (rule ends_bind, goal_cases)
      case (1 s3 result')
      show ?case
        by (rule ends_bind [OF report_from [OF 1(2)]]) simp
    qed
  qed
  show ?case using s1 rest by (simp add: Let_def split: prod.split)
qed

text \<open>A refused call is answered, unless the user declined; then the whole turn is repaired and stored.\<close>

lemma declined_calls: "calls_of (map declined_message cs) = []"
  by (induction cs) (simp_all add: declined_message_def)

lemma decline_left:
  assumes "open_calls [] (ts_messages s) = Some qs" "unique_calls (ts_messages s)"
  shows "left_history s (decline_turn env s)"
  using declined_well_replied [OF assms] assms(2) declined_calls
  by (simp add: sound_messages_def unique_calls_def decline_turn_def left_history_def store_history_def update_context_tokens_def Let_def)

lemma refuse_call_ends:
  assumes "open_calls [] (ts_messages s) = Some qs" "unique_calls (ts_messages s)"
  shows "ends_in (refuse_call env call e s) (adds_reply call s) (left_history s)"
  unfolding refuse_call_def
proof (rule ends_bind [OF ends_mono [OF publish_ends, where P' = "keeps s" and Q' = "left_history s"]], goal_cases)
  case (1 s1)
  then show ?case .
next
  case (2 s1)
  then show ?case by (rule keeps_left)
next
  case (3 s1 u)
  then have same: "ts_messages s1 = ts_messages s" and kept: "keeps s s1" by (simp_all add: keeps_def)
  have declined: "left_history s (decline_turn env s1)"
    using keeps_left_trans [OF kept] decline_left [of s1 qs env] assms same by simp
  have completed: "ends_in (obind (publish env (ToolCompleted (tc_id call) False) s1) (\<lambda>s2 _.
      (push_message (tool_error_message (tc_id call) (call_name call) (error_text (te_texts env) e)) s2, Inr ())))
      (adds_reply call s) (keeps s)"
    by (rule ends_bind [OF publish_from(1) [OF kept]]) (simp add: adds_reply_def keeps_def push_message_def)
  from ends_mono [OF completed, where P' = "adds_reply call s" and Q' = "left_history s"] keeps_left declined
  show ?case by simp
qed

lemma run_parsed_call_ends:
  assumes "open_calls [] (ts_messages s) = Some qs" "unique_calls (ts_messages s)"
  shows "ends_in (run_parsed_call env call arguments b s) (adds_reply call s) (left_history s)"
  unfolding run_parsed_call_def
proof (rule ends_bind [OF ends_mono [OF publish_ends, where P' = "keeps s" and Q' = "left_history s"]], goal_cases)
  case (1 s1)
  then show ?case .
next
  case (2 s1)
  then show ?case by (rule keeps_left)
next
  case (3 s1 u)
  obtain s2 r where au: "authorize_call env call arguments s1 = (s2, r)" by (cases "authorize_call env call arguments s1")
  with authorize_call_keeps [of s1 env call arguments] 3(2) have s2: "keeps s s2" using keeps_trans by simp
  then have kept: "keeps s (count s2)" using count_keeps keeps_trans by blast
  then have same: "ts_messages (count s2) = ts_messages s" by (simp add: keeps_def)
  have "ends_in (obind (refuse_call env call e (count s2)) (\<lambda>s3 _. (s3, Inr b))) (adds_reply call s) (left_history s)" for e
  proof -
    have "open_calls [] (ts_messages (count s2)) = Some qs" "unique_calls (ts_messages (count s2))" using assms same by simp_all
    note refused = refuse_call_ends [OF this, of env call e]
    have "ends_in (refuse_call env call e (count s2)) (adds_reply call s) (left_history s)"
      by (rule ends_mono [OF refused]) (use kept keeps_reply keeps_left_trans in blast)+
    then show ?thesis by (rule ends_bind) simp
  qed
  moreover have "ends_in (execute_call env call arguments b (count s2)) (adds_reply call s) (left_history s)"
    by (rule ends_mono [OF execute_call_ends]) (use kept keeps_reply keeps_trans keeps_left in blast)+
  ultimately show ?case using au keeps_left [OF kept] by (auto split: sum.split)
qed

lemma run_call_ends:
  assumes "open_calls [] (ts_messages s) = Some qs" "unique_calls (ts_messages s)"
  shows "ends_in (run_call env call b s) (adds_reply call s) (left_history s)"
proof -
  have lk: "keeps s (look env s)" by (rule look_keeps)
  then have last: "keeps s ((look env s)\<lparr>ts_last_call := x\<rparr>)" for x by (simp add: keeps_def)
  have fail: "ends_in (obind (fail_call env call j reason t) (\<lambda>u _. (u, Inr (b :: batch)))) (adds_reply call s) (left_history s)"
    if "keeps s t" for t j reason
  proof -
    have "ends_in (fail_call env call j reason t) (adds_reply call s) (left_history s)"
      by (rule ends_mono [OF fail_call_ends]) (use that keeps_reply keeps_trans keeps_left in blast)+
    then show ?thesis by (rule ends_bind) simp
  qed
  have parsed: "ends_in (run_parsed_call env call j b ((look env s)\<lparr>ts_last_call := x\<rparr>)) (adds_reply call s) (left_history s)" for j x
  proof -
    let ?t = "(look env s)\<lparr>ts_last_call := x\<rparr>"
    have "open_calls [] (ts_messages ?t) = Some qs" "unique_calls (ts_messages ?t)" using assms lk by (simp_all add: keeps_def)
    note run = run_parsed_call_ends [OF this, of env call j b]
    show ?thesis by (rule ends_mono [OF run]) (use last keeps_reply keeps_left_trans in blast)+
  qed
  show ?thesis unfolding run_call_def Let_def
    using fail [OF lk] fail [OF last] parsed keeps_left [OF lk] by (auto split: sum.split)
qed

section \<open>A batch\<close>

lemma run_calls_ends:
  assumes "open_calls [] (ts_messages s) = Some (map tc_id calls)" "unique_calls (ts_messages s)"
  shows "ends_in (run_calls env calls b s)
    (\<lambda>s'. well_replied (ts_messages s') \<and> calls_of (ts_messages s') = calls_of (ts_messages s)
      \<and> ts_history s' = ts_history s \<and> ts_step s' = ts_step s) (left_history s)"
  using assms
proof (induction calls arbitrary: b s)
  case Nil
  then show ?case by (simp add: well_replied_def)
next
  case (Cons call calls)
  show ?case unfolding run_calls.simps
  proof (rule ends_bind [OF run_call_ends [OF Cons.prems]], goal_cases)
    case (1 s1 b1)
    then obtain m where m: "ts_messages s1 = ts_messages s @ [m]" "cm_role m = Tool_role" "cm_tool_call_id m = Some (tc_id call)"
      "cm_tool_calls m = []" and same: "ts_history s1 = ts_history s" "ts_step s1 = ts_step s" by (auto simp: adds_reply_def)
    from m Cons.prems(1) have "open_calls [] (ts_messages s1) = Some (map tc_id calls)" by (simp add: open_calls_append)
    moreover from m Cons.prems(2) have "unique_calls (ts_messages s1)" by (simp add: unique_calls_def)
    ultimately show ?case
      by (rule ends_mono [OF Cons.IH]) (use m same in \<open>auto simp: left_history_def\<close>)
  qed
qed

text \<open>What a batch observes is shown after it, in messages that neither call nor answer.\<close>

lemma observe_plain: "list_all plain_message (ba_observations b) \<Longrightarrow>
    list_all plain_message (ba_observations (snd (observe_images call result b)))"
  by (simp add: observe_images_def Let_def)

lemma run_call_plain:
  assumes "run_call env call b s = (s', Inr b')" "list_all plain_message (ba_observations b)"
  shows "list_all plain_message (ba_observations b')"
proof -
  have exec: "list_all plain_message (ba_observations b')" if "execute_call env call j b t = (s', Inr b')" for j t
  proof -
    from that obtain r x where "observe_images call r b = (x, b')"
      by (auto simp: execute_call_def Let_def split: if_splits prod.splits)
    with observe_plain [OF assms(2), of call r] show ?thesis by simp
  qed
  have parsed: "list_all plain_message (ba_observations b')" if "run_parsed_call env call j b t = (s', Inr b')" for j t
  proof -
    from that obtain t1 where "(case authorize_call env call j t1 of (s2, r) \<Rightarrow>
        if past_deadline env s2 then (count s2, Inl (wall_clock_error env))
        else (case r of Inl e \<Rightarrow> obind (refuse_call env call e (count s2)) (\<lambda>s3 _. (s3, Inr b))
          | Inr _ \<Rightarrow> execute_call env call j b (count s2))) = (s', Inr b')"
      by (auto simp: run_parsed_call_def)
    moreover obtain t2 r where "authorize_call env call j t1 = (t2, r)" by (cases "authorize_call env call j t1")
    ultimately show ?thesis using exec assms(2) by (auto split: if_splits sum.splits)
  qed
  show ?thesis
    using assms parsed by (auto simp: run_call_def Let_def split: if_splits sum.splits)
qed

lemma run_calls_plain:
  "run_calls env calls b s = (s', Inr b') \<Longrightarrow> list_all plain_message (ba_observations b) \<Longrightarrow> list_all plain_message (ba_observations b')"
proof (induction calls arbitrary: b s)
  case (Cons call calls)
  then obtain s1 b1 where one: "run_call env call b s = (s1, Inr b1)" and rest: "run_calls env calls b1 s1 = (s', Inr b')" by auto
  from Cons.IH [OF rest run_call_plain [OF one Cons.prems(2)]] show ?case .
qed simp

text \<open>Between steps the messages are sound, and so is the history.\<close>

definition good :: "turn_state \<Rightarrow> bool" where
  "good s \<longleftrightarrow> sound_messages (ts_messages s) \<and> (\<forall>h. ts_history s = Some h \<longrightarrow> sound_messages h)"

definition good_history :: "turn_state \<Rightarrow> bool" where
  "good_history s \<longleftrightarrow> (\<forall>h. ts_history s = Some h \<longrightarrow> sound_messages h)"

lemma good_left: "good_history s \<Longrightarrow> left_history s t \<Longrightarrow> good_history t"
  by (auto simp: good_history_def left_history_def)

lemma good_keeps: "good s \<Longrightarrow> keeps s t \<Longrightarrow> good t"
  by (simp add: good_def keeps_def)

lemma good_is_history: "good s \<Longrightarrow> good_history s"
  by (simp add: good_def good_history_def)

lemma run_batch_ends:
  assumes "open_calls [] (ts_messages s) = Some (map tc_id calls)" "unique_calls (ts_messages s)" "good_history s"
  shows "ends_in (run_batch env calls s) (\<lambda>s'. good s' \<and> ts_step s' = ts_step s) good_history"
  unfolding run_batch_def
proof (rule ends_bind [OF ends_mono [OF run_calls_ends [OF assms(1,2)], where Q' = good_history
    and P' = "\<lambda>s'. well_replied (ts_messages s') \<and> calls_of (ts_messages s') = calls_of (ts_messages s)
      \<and> ts_history s' = ts_history s \<and> ts_step s' = ts_step s"]], goal_cases)
  case (1 s1)
  then show ?case .
next
  case (2 s1)
  with assms(3) show ?case by (rule good_left)
next
  case (3 s1 b)
  then have ok: "good s1" "ts_step s1 = ts_step s"
    using assms(2,3) by (auto simp: good_def good_history_def sound_messages_def unique_calls_def)
  have "list_all plain_message (ba_observations b)" by (rule run_calls_plain [OF 3(1)]) simp
  with ok show ?case by (auto simp: good_def update_context_tokens_def Let_def sound_plain)
qed

section \<open>The other parts of a step\<close>

lemma good_push_plain: "good s \<Longrightarrow> plain_message m \<Longrightarrow> good (push_message m s)"
  by (simp add: good_def push_message_def sound_plain)

lemma apply_steering_ends:
  "good s \<Longrightarrow> ends_in (apply_steering env ms s) (\<lambda>s'. good s' \<and> ts_step s' = ts_step s) good_history"
proof (induction ms arbitrary: s)
  case Nil
  then show ?case by simp
next
  case (Cons m ms)
  let ?s = "push_message (chat_message_text User (sg_text m)) s"
  have pushed: "good ?s" "ts_step ?s = ts_step s" using Cons.prems by (simp_all add: good_push_plain) (simp add: push_message_def)
  show ?case unfolding apply_steering.simps
  proof (rule ends_bind [OF ends_mono [OF publish_ends, where P' = "keeps ?s" and Q' = good_history]], goal_cases)
    case (1 s1)
    then show ?case .
  next
    case (2 s1)
    with pushed(1) show ?case by (blast intro: good_keeps good_is_history)
  next
    case (3 s1 u)
    let ?t = "s1\<lparr>ts_known_tokens := estimated env s1, ts_last_call := None\<rparr>"
    have t: "good ?t" "ts_step ?t = ts_step s" using 3(2) pushed by (simp_all add: good_def keeps_def)
    show ?case by (rule ends_mono [OF Cons.IH [OF t(1)]]) (use t(2) in simp_all)
  qed
qed

lemma take_steering_ends:
  assumes "good s" shows "ends_in (take_steering env s) (\<lambda>s'. good s' \<and> ts_step s' = ts_step s) good_history"
proof -
  have lk: "good (look env s)" "ts_step (look env s) = ts_step s"
    using good_keeps [OF assms look_keeps] look_keeps [of s env] by (simp_all add: keeps_def)
  have "ends_in (apply_steering env ms ((look env s)\<lparr>ts_inbox := Some i\<rparr>)) (\<lambda>s'. good s' \<and> ts_step s' = ts_step s) good_history" for ms i
    by (rule ends_mono [OF apply_steering_ends]) (use lk in \<open>simp_all add: good_def\<close>)
  with lk show ?thesis by (auto simp: take_steering_def take_pending_def split: option.split)
qed

lemma compacted_plain: "list_all plain_message (compacted_history system summary)"
  by (simp add: compacted_history_def)

lemma compact_turn_ends:
  assumes "compact_turn env s = Some (s1, r)"
  shows "keeps s s1" "r = Inr (compacted, result) \<Longrightarrow> list_all plain_message compacted"
proof -
  from assms obtain x where x: "compact_messages (compaction_env_of env s) (ts_messages s) None (ts_sent s) = x"
    and s1: "s1 = (count s)\<lparr>ts_sent := fst x\<rparr>" and r: "snd x = Some r"
    by (auto simp: compact_turn_def split: prod.splits)
  from s1 show "keeps s s1" by (simp add: keeps_def count_def)
  assume "r = Inr (compacted, result)"
  with x r have "compact_messages (compaction_env_of env s) (ts_messages s) None (ts_sent s) = (fst x, Some (Inr (compacted, result)))"
    by (metis prod.collapse)
  from compact_success [OF this] show "list_all plain_message compacted" by (simp add: compacted_plain)
qed


definition good_from :: "turn_state \<Rightarrow> turn_state \<Rightarrow> bool" where
  "good_from s s' \<longleftrightarrow> good s' \<and> ts_step s' = ts_step s"

lemma good_from_keeps: "good s \<Longrightarrow> keeps s t \<Longrightarrow> good_from s t"
  by (simp add: good_from_def good_def keeps_def)

lemma good_from_trans: "good_from s t \<Longrightarrow> good_from t u \<Longrightarrow> good_from s u"
  by (simp add: good_from_def)

text \<open>An event sent after a state that is good.\<close>

lemma publish_good:
  assumes "good_from s t" shows "ends_in (publish env ev t) (good_from s) good_history"
  by (rule ends_mono [OF publish_ends])
     (use assms good_from_keeps good_keeps good_is_history in \<open>auto simp: good_from_def keeps_def good_def good_history_def\<close>)

lemma compacted_sound: "list_all plain_message ms \<Longrightarrow> sound_messages ms"
  using sound_plain [of "[]" ms] by (simp add: sound_messages_def well_replied_def unique_calls_def)

lemma compact_before_step_ends:
  assumes "good s" "compact_before_step env s = Some r"
  shows "ends_in r (good_from s) good_history"
proof (cases "must_compact env s = Inr True")
  case False
  with assms show ?thesis
    by (auto simp: compact_before_step_def good_from_def good_is_history split: sum.splits bool.splits)
next
  case True
  with assms(2) obtain s1 res where run: "compact_turn env s = Some (s1, res)"
    and r: "r = obind (s1, res) (\<lambda>s1 (compacted, result).
            let s2 = s1\<lparr>ts_messages := compacted @ [continuation_message]\<rparr>
            in publish env (ContextCompacted (cr_summary result) (cr_messages_before result))
                 (store_history (s2\<lparr>ts_known_tokens := estimated env s2\<rparr>)))"
    by (auto simp: compact_before_step_def)
  have kept: "keeps s s1" by (rule compact_turn_ends(1) [OF run])
  then have "good_history s1" using assms(1) good_keeps good_is_history by blast
  then have "ends_in (s1, res) (\<lambda>t. t = s1) good_history" by (cases res) simp_all
  then show ?thesis unfolding r
  proof (rule ends_bind, goal_cases)
    case (1 t x)
    obtain compacted result where x: "x = (compacted, result)" by (cases x)
    with 1 compact_turn_ends(2) [OF run] have plain: "list_all plain_message compacted" by simp
    let ?m = "compacted @ [continuation_message]"
    let ?t = "store_history (s1\<lparr>ts_messages := ?m, ts_known_tokens := estimated env (s1\<lparr>ts_messages := ?m\<rparr>)\<rparr>)"
    have "sound_messages ?m" by (rule compacted_sound) (simp add: plain)
    with kept have "good_from s ?t" by (simp add: good_from_def good_def store_history_def keeps_def)
    from publish_good [OF this] show ?case using 1 by (simp add: x Let_def)
  qed
qed

definition good_after :: "turn_state \<Rightarrow> turn_state \<Rightarrow> bool" where
  "good_after s s' \<longleftrightarrow> good s' \<and> ts_step s' = saturating_add (ts_step s) 1"

lemma begin_step_ends:
  assumes "good s" "begin_step env s = Some r"
  shows "ends_in r (good_after s) good_history"
proof -
  have cnt: "good_from s (count s)" using good_from_keeps [OF assms(1) count_keeps] .
  then have kept: "good (count s)" "good_history (count s)" "good_history s"
    using assms(1) good_is_history by (simp_all add: good_from_def)
  have "ends_in (obind c (\<lambda>s1 _. obind (take_steering env s1) (\<lambda>s2 _.
        let s3 = s2\<lparr>ts_step := saturating_add (ts_step s2) 1\<rparr> in
        case enforce_context_budget (model_messages (te_model env) (ts_messages s3)) (max_context_bytes (te_limits env))
            (max_context_tokens (te_limits env)) of
          Inl e \<Rightarrow> (s3, Inl e)
        | Inr _ \<Rightarrow> (update_context_tokens (ts_known_tokens s3) s3, Inr ())))) (good_after s) good_history"
    if c: "compact_before_step env (count s) = Some c" for c
  proof (rule ends_bind [OF compact_before_step_ends [OF kept(1) c]], goal_cases)
    case (1 s1 u)
    then have s1: "good s1" "ts_step s1 = ts_step s" using cnt by (simp_all add: good_from_def)
    show ?case
    proof (rule ends_bind [OF take_steering_ends [OF s1(1)]], goal_cases)
      case (1 s2 v)
      then show ?case using s1
        by (auto simp: Let_def good_after_def good_def good_history_def update_context_tokens_def split: sum.split)
    qed
  qed
  with assms(2) kept show ?thesis by (auto simp: begin_step_def split: if_splits)
qed

text \<open>A provider that gives every call an identifier of its own, different from those of the conversation it was sent.\<close>

definition fresh_calls :: "turn_env \<Rightarrow> bool" where
  "fresh_calls env \<longleftrightarrow> (\<forall>n request a. snd (te_provider env n request) = Inr a \<longrightarrow>
     distinct (map tc_id (at_tool_calls a))
     \<and> set (map tc_id (at_tool_calls a)) \<inter> set (map tc_id (calls_of (ir_messages request))) = {})"

lemma request_messages:
  "map cm_tool_calls (ir_messages (step_request env s)) = map cm_tool_calls (ts_messages s)
   \<and> map cm_tool_call_id (ir_messages (step_request env s)) = map cm_tool_call_id (ts_messages s)
   \<and> map cm_role (ir_messages (step_request env s)) = map cm_role (ts_messages s)"
  by (auto simp: step_request_def inference_request_for_model_def Let_def capability_request_fields model_messages_def)

lemma open_calls_cong:
  "map cm_tool_calls ms = map cm_tool_calls ns \<Longrightarrow> map cm_tool_call_id ms = map cm_tool_call_id ns \<Longrightarrow>
   map cm_role ms = map cm_role ns \<Longrightarrow> open_calls ps ms = open_calls ps ns"
proof (induction ps ms arbitrary: ns rule: open_calls.induct)
  case (2 m ms)
  then obtain n ns' where "ns = n # ns'" by (cases ns) auto
  with 2 show ?case by auto
next
  case (3 p ps m ms)
  then obtain n ns' where "ns = n # ns'" by (cases ns) auto
  with 3 show ?case by auto
qed simp

lemma request_replied: "well_replied (ir_messages (step_request env s)) = well_replied (ts_messages s)"
  unfolding well_replied_def using open_calls_cong request_messages by metis

lemma assistant_fields [simp]:
  "cm_tool_call_id (assistant_message a) = None" "cm_tool_calls (assistant_message a) = at_tool_calls a"
  by (simp_all add: assistant_message_def chat_message_text_def)

lemma provider_turn_kept:
  "provider_turn env request s = (s1, streamed, r) \<Longrightarrow> keeps s s1"
  by (auto simp: provider_turn_def Let_def keeps_def count_def split: prod.splits)

lemma provider_turn_answer:
  assumes "provider_turn env request s = (s1, streamed, Inr answer)"
  shows "snd (te_provider env (ts_clock s) request) = Inr (fst answer)"
  using assms by (cases "snd (te_provider env (ts_clock s) request)")
    (auto simp: provider_turn_def Let_def rbind_def split: prod.splits sum.splits if_splits)

text \<open>After an answer its calls, and only they, are open.\<close>

definition calls_open :: "tool_call list \<Rightarrow> turn_state \<Rightarrow> turn_state \<Rightarrow> bool" where
  "calls_open calls s s' \<longleftrightarrow> open_calls [] (ts_messages s') = Some (map tc_id calls) \<and> unique_calls (ts_messages s')
     \<and> good_history s' \<and> ts_step s' = ts_step s"

lemma accept_answer_ends:
  assumes "good s" "keeps s s1" "distinct (map tc_id (at_tool_calls a))"
    "set (map tc_id (at_tool_calls a)) \<inter> set (map tc_id (calls_of (ts_messages s))) = {}"
  shows "ends_in (accept_answer env (a, verified, usage) s1) (calls_open (at_tool_calls a) s) good_history"
proof -
  let ?open = "\<lambda>t. ts_messages t = ts_messages s @ [assistant_message a] \<and> ts_history t = ts_history s \<and> ts_step t = ts_step s"
  have step: "calls_open (at_tool_calls a) s t" if "?open t" for t
    using that assms(1,3,4)
    by (auto simp: calls_open_def good_def good_history_def sound_messages_def well_replied_def open_calls_append unique_calls_def)
  have sent: "ends_in (publish env ev t) (calls_open (at_tool_calls a) s) good_history" if "?open t" for ev t
    by (rule ends_mono [OF publish_ends])
       (use that step good_is_history [OF assms(1)] in \<open>auto simp: keeps_def good_history_def\<close>)
  show ?thesis
    by (cases usage) (use assms(2) in \<open>auto simp: accept_answer_def Let_def keeps_def push_message_def update_context_tokens_def
      intro!: sent step split: prod.split\<close>)
qed

lemma interrupted_history:
  assumes "good s" "keeps s s1" shows "good_history (keep_interrupted env streamed s1)"
proof -
  let ?t = "if streamed = [] then s1 else push_message (chat_message_text Assistant streamed) s1"
  have "good s1" by (rule good_keeps [OF assms])
  then have "good ?t" by (simp add: good_push_plain)
  then have "good (push_message interrupted_turn_context ?t)" by (rule good_push_plain) simp
  then show ?thesis by (simp add: keep_interrupted_def Let_def good_def good_history_def store_history_def update_context_tokens_def)
qed

lemma ask_provider_ends:
  assumes "good s" "fresh_calls env" "ask_provider env s = (s', r)"
  shows "case r of Inl _ \<Rightarrow> good_history s' | Inr a \<Rightarrow> calls_open (at_tool_calls a) s s'"
proof -
  obtain s1 streamed res where turn: "provider_turn env (step_request env s) s = (s1, streamed, res)"
    by (cases "provider_turn env (step_request env s) s") auto
  note kept = provider_turn_kept [OF turn]
  show ?thesis
  proof (cases res)
    case (Inl e)
    with turn assms(3) show ?thesis by (auto simp: ask_provider_def interrupted_history [OF assms(1) kept])
  next
    case (Inr answer)
    obtain a verified usage where answer: "answer = (a, verified, usage)" by (cases answer)
    from provider_turn_answer [OF turn [unfolded Inr]] answer
    have "snd (te_provider env (ts_clock s) (step_request env s)) = Inr a" by simp
    with assms(2) have "distinct (map tc_id (at_tool_calls a))
      \<and> set (map tc_id (at_tool_calls a)) \<inter> set (map tc_id (calls_of (ir_messages (step_request env s)))) = {}"
      unfolding fresh_calls_def by blast
    moreover have "calls_of (ir_messages (step_request env s)) = calls_of (ts_messages s)"
      using request_messages [of env s] by (simp add: calls_of_def)
    ultimately have "ends_in (accept_answer env (a, verified, usage) s1) (calls_open (at_tool_calls a) s) good_history"
      using accept_answer_ends [OF assms(1) kept] by simp
    with turn Inr answer assms(3) show ?thesis
      by (auto simp: ask_provider_def ends_in_def obind_def split: prod.splits sum.splits)
  qed
qed

section \<open>The end of a turn and the loop\<close>

lemma compact_at_end_ends:
  assumes "good s" "compact_at_end env s = Some r"
  shows "ends_in r (good_from s) good_history"
proof (cases "over_auto_limit env s \<and> 1 < length (ts_messages s)")
  case False
  with assms show ?thesis by (auto simp: compact_at_end_def good_from_def)
next
  case True
  with assms(2) obtain s1 res where run: "compact_turn env s = Some (s1, res)"
    and r: "r = (case (s1, res) of
          (s1, Inr (compacted, result)) \<Rightarrow>
            (let s2 = s1\<lparr>ts_messages := compacted\<rparr>;
                 s3 = update_context_tokens (estimated env s2) (s2\<lparr>ts_known_tokens := estimated env s2\<rparr>)
             in publish env (ContextCompacted (cr_summary result) (cr_messages_before result)) s3)
        | (s1, Inl Cancelled) \<Rightarrow> (s1, Inl Cancelled)
        | (s1, Inl e) \<Rightarrow>
            publish env (WarningRaised (''Automatic context compaction failed and will be retried: ''
              @ error_text (te_texts env) e)) s1)"
    by (auto simp: compact_at_end_def)
  have s1: "good_from s s1" by (rule good_from_keeps [OF assms(1) compact_turn_ends(1) [OF run]])
  show ?thesis
  proof (cases res)
    case (Inl e)
    then show ?thesis using s1 publish_good [OF s1] good_is_history unfolding r good_from_def by (cases e) auto
  next
    case (Inr x)
    obtain compacted result where x: "x = (compacted, result)" by (cases x)
    from Inr x compact_turn_ends(2) [OF run] have "list_all plain_message compacted" by simp
    then have "sound_messages compacted" by (rule compacted_sound)
    with s1 have "good_from s (update_context_tokens n (s1\<lparr>ts_messages := compacted, ts_known_tokens := n\<rparr>))" for n
      by (simp add: good_from_def good_def update_context_tokens_def)
    from publish_good [OF this] show ?thesis unfolding r by (simp add: Inr x Let_def)
  qed
qed

lemma conclude_ends:
  assumes "good s" shows "ends_in (conclude env s) (good_from s) good_history"
proof -
  obtain s1 ended where closed: "close_inbox (look env s) = (s1, ended)" by (cases "close_inbox (look env s)")
  have "keeps s s1"
    using closed look_keeps [of s env] by (auto simp: close_inbox_def keeps_def split: option.splits prod.splits)
  then have s1: "good_from s s1" by (rule good_from_keeps [OF assms])
  then have s2: "good_from s (store_history s1)" by (simp add: good_from_def good_def store_history_def)
  have "ends_in (obind (publish env ev (store_history s1)) (\<lambda>s3 _. (s3, Inr Finished))) (good_from s) good_history" for ev
    by (rule ends_bind [OF publish_good [OF s2]]) simp
  then show ?thesis using closed s1 s2 by (cases ended) (simp_all add: conclude_def Let_def)
qed

lemma end_of_turn_ends:
  assumes "good s" "end_of_turn env s = Some r"
  shows "ends_in r (good_from s) good_history"
proof -
  have lk: "good_from s (look env s)" by (rule good_from_keeps [OF assms(1) look_keeps])
  then have "ends_in (obind c (\<lambda>s1 _. conclude env s1)) (good_from s) good_history"
    if "compact_at_end env (look env s) = Some c" for c
  proof -
    have "good (look env s)" using lk by (simp add: good_from_def)
    from compact_at_end_ends [OF this that] have "ends_in c (good_from s) good_history"
      by (rule ends_mono) (use lk in \<open>auto intro: good_from_trans\<close>)
    then show ?thesis
    proof (rule ends_bind, goal_cases)
      case (1 s1 u)
      then have "ends_in (conclude env s1) (good_from s1) good_history" by (intro conclude_ends) (simp add: good_from_def)
      then show ?case by (rule ends_mono) (use 1(2) in \<open>auto intro: good_from_trans\<close>)
    qed
  qed
  with assms(2) lk show ?thesis by (auto simp: end_of_turn_def Let_def split: if_splits)
qed

lemma turn_step_ends:
  assumes "good s" "fresh_calls env" "turn_step env s = Some r"
  shows "ends_in r (good_after s) good_history"
proof -
  from assms(3) obtain s1 b where b: "begin_step env s = Some (s1, b)"
    by (cases "begin_step env s") (auto simp: turn_step_def)
  note begun = begin_step_ends [OF assms(1) b]
  show ?thesis
  proof (cases b)
    case (Inl e)
    with b begun assms(3) show ?thesis by (auto simp: turn_step_def)
  next
    case (Inr u)
    with begun have s1: "good s1" "ts_step s1 = saturating_add (ts_step s) 1" by (simp_all add: good_after_def)
    obtain s2 answer where ask: "ask_provider env s1 = (s2, answer)" by (cases "ask_provider env s1")
    note asked = ask_provider_ends [OF s1(1) assms(2) ask]
    show ?thesis
    proof (cases answer)
      case (Inl e)
      with b Inr ask asked assms(3) show ?thesis by (auto simp: turn_step_def)
    next
      case (Inr a)
      with asked have opened: "calls_open (at_tool_calls a) s1 s2" by simp
      have r: "Some r = (if at_tool_calls a = [] then end_of_turn env s2
          else Some (obind (run_batch env (at_tool_calls a) s2) (\<lambda>s3 _. (s3, Inr Again))))"
        using assms(3) b \<open>b = Inr u\<close> ask Inr by (simp add: turn_step_def)
      show ?thesis
      proof (cases "at_tool_calls a = []")
        case True
        with opened have "good s2" "ts_step s2 = ts_step s1"
          by (auto simp: calls_open_def good_def good_history_def sound_messages_def well_replied_def)
        moreover from r True have "end_of_turn env s2 = Some r" by simp
        ultimately show ?thesis
          by (intro ends_mono [OF end_of_turn_ends]) (use s1 in \<open>auto simp: good_from_def good_after_def\<close>)
      next
        case False
        from opened have batch: "ends_in (run_batch env (at_tool_calls a) s2) (\<lambda>t. good t \<and> ts_step t = ts_step s2) good_history"
          by (intro run_batch_ends) (simp_all add: calls_open_def)
        have "ends_in (obind (run_batch env (at_tool_calls a) s2) (\<lambda>s3 _. (s3, Inr Again))) (good_after s) good_history"
          by (rule ends_bind [OF batch]) (use s1 opened in \<open>simp add: good_after_def calls_open_def\<close>)
        with r False show ?thesis by simp
      qed
    qed
  qed
qed

lemma conclude_stores:
  "conclude env s = (s', Inr Finished) \<Longrightarrow> ts_history s' \<noteq> None"
  using publish_keeps by (auto simp: conclude_def Let_def store_history_def publish_def split: prod.splits if_splits bool.splits sum.splits)

lemma turn_step_stores:
  assumes "turn_step env s = Some (s', Inr Finished)" shows "ts_history s' \<noteq> None"
  using assms conclude_stores
  by (auto simp: turn_step_def end_of_turn_def Let_def split: option.splits prod.splits sum.splits if_splits)

text \<open>The states in which a step of the turn begins.\<close>

inductive turn_reaches :: "turn_env \<Rightarrow> turn_state \<Rightarrow> turn_state \<Rightarrow> bool" for env s where
  start: "turn_reaches env s s"
| step: "turn_reaches env s t \<Longrightarrow> turn_step env t = Some (u, Inr what) \<Longrightarrow> what \<noteq> Finished \<Longrightarrow> turn_reaches env s u"

inductive_cases turn_reachesE: "turn_reaches env s u"

lemma reaches_good:
  assumes "turn_reaches env s t" "good s" "fresh_calls env" shows "good t"
  using assms(1)
proof (induction rule: turn_reaches.induct)
  case start
  show ?case by (rule assms(2))
next
  case (step t u what)
  from turn_step_ends [OF step.IH assms(3) step.hyps(2)] show ?case by (simp add: good_after_def)
qed

lemma reaches_from:
  assumes "turn_step env s = Some (t, Inr what)" "what \<noteq> Finished" shows "turn_reaches env t u \<Longrightarrow> turn_reaches env s u"
proof (induction rule: turn_reaches.induct)
  case start
  show ?case using turn_reaches.step [OF turn_reaches.start] assms by blast
next
  case (step t' u' what')
  then show ?case by (blast intro: turn_reaches.step)
qed

definition turn_ends :: "turn_env \<Rightarrow> turn_state \<Rightarrow> unit turn \<Rightarrow> bool" where
  "turn_ends env s out \<longleftrightarrow> (\<exists>t s' r. turn_reaches env s t \<and> turn_step env t = Some (s', r) \<and> r \<noteq> Inr Again
     \<and> out = (s', map_sum id (\<lambda>_. ()) r))"

text \<open>A turn that returns ends in a step of a state it reached.\<close>

lemma turn_loop_last:
  assumes "turn_loop env s = Some out" shows "turn_ends env s out"
proof (rule turn_loop.raw_induct [OF _ assms])
  fix loop env s out
  assume IH: "\<And>env s out. loop env s = Some out \<Longrightarrow> turn_ends env s out"
    and run: "(case turn_step env s of None \<Rightarrow> None
      | Some (s1, r) \<Rightarrow> (case r of Inl e \<Rightarrow> Some (s1, Inl e)
          | Inr what \<Rightarrow> if what = Finished then Some (s1, Inr ()) else loop env s1)) = Some out"
  then obtain s1 r where one: "turn_step env s = Some (s1, r)" by (auto split: option.splits)
  show "turn_ends env s out"
  proof (cases "\<exists>what. r = Inr what \<and> what \<noteq> Finished")
    case True
    then obtain what where r: "r = Inr what" "what \<noteq> Finished" by blast
    with one run have "turn_ends env s1 out" by (intro IH) simp
    then show ?thesis using reaches_from [OF one [unfolded r(1)] r(2)] unfolding turn_ends_def by blast
  next
    case False
    with one run have "out = (s1, map_sum id (\<lambda>_. ()) r)" "r \<noteq> Inr Again" by (cases r; auto)+
    with one turn_reaches.start show ?thesis unfolding turn_ends_def by blast
  qed
qed


section \<open>A turn returns\<close>

lemma compact_turn_returns: "json_laws (al_messages_json (te_lib env)) \<Longrightarrow> compact_turn env s \<noteq> None"
  using compact_returns [of "compaction_env_of env s" "ts_messages s" None "ts_sent s"]
  by (auto simp: compact_turn_def compaction_env_of_def split: prod.splits)

lemma compactions_return:
  assumes "json_laws (al_messages_json (te_lib env))"
  shows "compact_before_step env s \<noteq> None" "compact_at_end env s \<noteq> None"
  using compact_turn_returns [OF assms, of s]
  by (simp_all add: compact_before_step_def compact_at_end_def del: not_None_eq split: sum.split bool.split)

lemma turn_step_returns:
  assumes "json_laws (al_messages_json (te_lib env))" shows "turn_step env s \<noteq> None"
proof -
  have "begin_step env s \<noteq> None" for s
    using compactions_return(1) [OF assms] by (simp add: begin_step_def del: not_None_eq)
  moreover have "end_of_turn env s \<noteq> None" for s
    using compactions_return(2) [OF assms] by (simp add: end_of_turn_def Let_def del: not_None_eq)
  ultimately show ?thesis
    by (simp add: turn_step_def del: not_None_eq split: option.split prod.split sum.split)
qed

text \<open>Only the beginning of a step counts it.\<close>

definition stays :: "nat \<Rightarrow> 'a turn \<Rightarrow> bool" where
  "stays n r \<longleftrightarrow> ends_in r (\<lambda>t. ts_step t = n) (\<lambda>_. True)"

lemma stays_return [simp]: "stays n (s, Inr x) \<longleftrightarrow> ts_step s = n" "stays n (s, Inl e)"
  by (simp_all add: stays_def)

lemma stays_bind: "stays n r \<Longrightarrow> (\<And>s x. ts_step s = n \<Longrightarrow> stays n (k s x)) \<Longrightarrow> stays n (obind r k)"
  unfolding stays_def by (rule ends_bind)

lemma stays_keeps: "ends_in r (keeps s) Q \<Longrightarrow> ts_step s = n \<Longrightarrow> stays n r"
  unfolding stays_def by (erule ends_mono) (auto simp: keeps_def)

lemma stays_reply: "ends_in r (adds_reply call s) Q \<Longrightarrow> ts_step s = n \<Longrightarrow> stays n r"
  unfolding stays_def by (erule ends_mono) (auto simp: adds_reply_def)

lemma ts_step_kept [simp]:
  "ts_step (count s) = ts_step s" "ts_step (look env s) = ts_step s" "ts_step (push_message m s) = ts_step s"
  "ts_step (store_history s) = ts_step s" "ts_step (update_context_tokens k s) = ts_step s"
  by (simp_all add: count_def look_def push_message_def store_history_def update_context_tokens_def)

lemma stays_emit: "ts_step s = n \<Longrightarrow> stays n (publish env ev s)"
  by (rule stays_keeps [OF publish_ends])

lemma stays_refuse: "ts_step s = n \<Longrightarrow> stays n (refuse_call env call e s)"
  unfolding refuse_call_def by (auto intro!: stays_bind stays_emit)

lemma stays_parsed: "ts_step s = n \<Longrightarrow> stays n (run_parsed_call env call arguments b s)"
  unfolding run_parsed_call_def
proof (rule stays_bind [OF stays_emit], assumption, goal_cases)
  case (1 s1 u)
  obtain s2 r where au: "authorize_call env call arguments s1 = (s2, r)" by (cases "authorize_call env call arguments s1")
  with authorize_call_keeps [of s1 env call arguments] 1(2) have "ts_step s2 = n" by (simp add: keeps_def)
  with au show ?case
    by (auto intro!: stays_bind [OF stays_refuse] stays_reply [OF execute_call_ends] split: sum.split)
qed

lemma stays_call: "ts_step s = n \<Longrightarrow> stays n (run_call env call b s)"
  by (auto simp: run_call_def Let_def intro!: stays_bind [OF stays_reply [OF fail_call_ends]] stays_parsed split: sum.split)

lemma stays_calls: "ts_step s = n \<Longrightarrow> stays n (run_calls env calls b s)"
  by (induction calls arbitrary: b s) (auto intro!: stays_bind [OF stays_call])

lemma stays_batch: "ts_step s = n \<Longrightarrow> stays n (run_batch env calls s)"
  unfolding run_batch_def by (auto simp: Let_def intro!: stays_bind [OF stays_calls])

lemma stays_steering: "ts_step s = n \<Longrightarrow> stays n (apply_steering env ms s)"
  by (induction ms arbitrary: s) (auto intro!: stays_bind [OF stays_emit])

lemma stays_take: "ts_step s = n \<Longrightarrow> stays n (take_steering env s)"
  by (auto simp: take_steering_def intro!: stays_steering split: option.split prod.split)

lemma stays_compaction:
  assumes "ts_step s = n"
  shows "compact_before_step env s = Some r \<Longrightarrow> stays n r" "compact_at_end env s = Some q \<Longrightarrow> stays n q"
proof -
  have run: "ts_step s1 = n" if "compact_turn env s = Some (s1, res)" for s1 res
    using compact_turn_ends(1) [OF that] assms by (simp add: keeps_def)
  then have "stays n (s1, res)" if "compact_turn env s = Some (s1, res)" for s1 res
    using that by (cases res) auto
  with assms show "compact_before_step env s = Some r \<Longrightarrow> stays n r"
    by (auto simp: compact_before_step_def Let_def intro!: stays_bind stays_emit split: sum.splits bool.splits)
  show "compact_at_end env s = Some q \<Longrightarrow> stays n q"
    using assms run by (auto simp: compact_at_end_def Let_def intro!: stays_emit split: sum.split axiom_error.split if_splits)
qed

lemma stays_conclude: "ts_step s = n \<Longrightarrow> stays n (conclude env s)"
proof -
  assume s: "ts_step s = n"
  obtain s1 ended where closed: "close_inbox (look env s) = (s1, ended)" by (cases "close_inbox (look env s)")
  with s have "ts_step s1 = n" by (auto simp: close_inbox_def split: option.splits prod.splits)
  with closed show ?thesis by (cases ended) (auto simp: conclude_def Let_def intro!: stays_bind [OF stays_emit])
qed

lemma stays_end: "ts_step s = n \<Longrightarrow> end_of_turn env s = Some r \<Longrightarrow> stays n r"
  by (auto simp: end_of_turn_def Let_def split: if_splits intro!: stays_bind stays_compaction(2) [of "look env s"] stays_conclude)

lemma stays_ask:
  assumes "ts_step s = n" "ask_provider env s = (s', Inr a)" shows "ts_step s' = n"
proof -
  obtain s1 streamed res where turn: "provider_turn env (step_request env s) s = (s1, streamed, res)"
    by (cases "provider_turn env (step_request env s) s") auto
  with provider_turn_kept assms(1) have s1: "ts_step s1 = n" by (auto simp: keeps_def)
  then have accepted: "stays n (accept_answer env answer s1)" for answer
    by (auto simp: accept_answer_def Let_def intro!: stays_emit split: prod.split option.split)
  from turn assms(2) obtain answer where "accept_answer env answer s1 = (s', Inr ())"
    by (auto simp: ask_provider_def split: sum.splits)
  with accepted [of answer] show ?thesis by simp
qed

lemma turn_step_counts:
  assumes "turn_step env s = Some (s', Inr what)"
  shows "ts_step s' = saturating_add (ts_step s) 1"
    and "max_steps (te_limits env) = Some n \<Longrightarrow> ts_step s < n"
proof -
  from assms obtain s1 u where b: "begin_step env s = Some (s1, Inr u)"
    by (auto simp: turn_step_def split: option.splits prod.splits sum.splits)
  then show "max_steps (te_limits env) = Some n \<Longrightarrow> ts_step s < n" by (auto simp: begin_step_def split: if_splits)
  from b obtain c where c: "compact_before_step env (count s) = Some c"
    and r: "(s1, Inr u) = obind c (\<lambda>s1 _. obind (take_steering env s1) (\<lambda>s2 _.
        let s3 = s2\<lparr>ts_step := saturating_add (ts_step s2) 1\<rparr> in
        case enforce_context_budget (model_messages (te_model env) (ts_messages s3)) (max_context_bytes (te_limits env))
            (max_context_tokens (te_limits env)) of
          Inl e \<Rightarrow> (s3, Inl e)
        | Inr _ \<Rightarrow> (update_context_tokens (ts_known_tokens s3) s3, Inr ())))"
    by (auto simp: begin_step_def split: if_splits)
  have "stays (ts_step s) c" by (rule stays_compaction(1) [OF _ c]) simp
  with stays_take have s1: "ts_step s1 = saturating_add (ts_step s) 1"
    using r by (fastforce simp: Let_def stays_def ends_in_def obind_def split: prod.splits sum.splits)
  obtain s2 a where ask: "ask_provider env s1 = (s2, Inr a)" using assms b by (auto simp: turn_step_def split: prod.splits sum.splits)
  note s2 = stays_ask [OF s1 ask]
  show "ts_step s' = saturating_add (ts_step s) 1"
  proof (cases "at_tool_calls a = []")
    case True
    with assms b ask have "end_of_turn env s2 = Some (s', Inr what)" by (simp add: turn_step_def)
    from stays_end [OF s2 this] show ?thesis by simp
  next
    case False
    with assms b ask obtain v where "run_batch env (at_tool_calls a) s2 = (s', Inr v)" by (auto simp: turn_step_def)
    with stays_batch [OF s2, of env "at_tool_calls a"] show ?thesis by simp
  qed
qed

text \<open>C7. A turn with a step limit returns, whatever the provider, the tools, the user and the inbox do: every step
  raises the count, and none begins at the limit. This needs of the serialiser only that it writes whole messages.\<close>

theorem turn_returns:
  assumes "json_laws (al_messages_json (te_lib env))" "max_steps (te_limits env) = Some n" "n \<le> usize_max"
  shows "\<exists>s' r. turn_loop env s = Some (s', r)"
proof -
  have "turn_loop env s \<noteq> None"
  proof (induction "n - ts_step s" arbitrary: s rule: less_induct)
    case less
    obtain s1 r where one: "turn_step env s = Some (s1, r)" using turn_step_returns [OF assms(1), of s] by auto
    show ?case
    proof (cases "r = Inr Again")
      case True
      from turn_step_counts [OF one [unfolded True]] assms(2,3) have "n - ts_step s1 < n - ts_step s"
        by (simp add: saturating_add_def)
      from less.hyps [OF this] show ?thesis using one True by (subst turn_loop.simps) simp
    next
      case False
      then show ?thesis using one by (subst turn_loop.simps) (auto split: sum.split intro: turn_next.exhaust)
    qed
  qed
  then show ?thesis by auto
qed

section \<open>A turn with one failing call\<close>

definition demo_turn_call :: tool_call where
  "demo_turn_call = \<lparr>tc_id = ''c1'', tc_kind = ''function'', tc_function = \<lparr>fn_name = ''w'', fn_arguments = [CHR 0x7B]\<rparr>\<rparr>"

definition demo_turn_provider :: "nat \<Rightarrow> inference_request \<Rightarrow> provider_answer" where
  "demo_turn_provider n request =
     ([], Inr (if calls_of (ir_messages request) = []
        then \<lparr>at_text = [], at_reasoning = None, at_tool_calls = [demo_turn_call]\<rparr>
        else \<lparr>at_text = ''done'', at_reasoning = None, at_tool_calls = []\<rparr>))"

definition demo_turn_env :: turn_env where
  "demo_turn_env = \<lparr>te_approval = demo_approval_env, te_context = demo_turn_context,
     te_lib = \<lparr>al_messages_json = (\<lambda>_. Some ''[]''), al_tools_json = (\<lambda>_. []), al_uuid_text = (\<lambda>_. [])\<rparr>,
     te_texts = \<lparr>tt_uuid = (\<lambda>_. []), tt_lifecycle = (\<lambda>_. []), tt_validation = (\<lambda>_. [])\<rparr>,
     te_limits = \<lparr>max_steps = Some 5, max_context_bytes = usize_max, max_context_tokens = usize_max,
       max_tool_output_bytes = 100, max_wall_time = None\<rparr>,
     te_model = demo_chat_model\<lparr>mi_context_window_tokens := 0\<rparr>, te_model_id = ''m'', te_thinking = Level_Low,
     te_configure = (\<lambda>d. d), te_parse = (\<lambda>_. Inl ''EOF''), te_provider = demo_turn_provider, te_cut = (\<lambda>_. None),
     te_late = (\<lambda>_. False), te_cancelled = (\<lambda>_. False), te_execute = (\<lambda>_ _ _ _. Inl Json), te_answers = (\<lambda>_ _. Inl Json),
     te_complete = (\<lambda>_ _ _ _. Inl Json), te_answers_json = (\<lambda>_. None), te_submissions = (\<lambda>_. []),
     te_compaction = (\<lambda>_ _ _. ([], Inl Json)), te_compaction_stopped = (\<lambda>_ _. False), te_now = (\<lambda>_. [])\<rparr>"

definition demo_turn_state :: turn_state where
  "demo_turn_state = \<lparr>ts_messages = [chat_message_text User ''go''], ts_known_tokens = 0, ts_last_call = None,
     ts_verified = True, ts_step = 0, ts_history = None, ts_context_tokens = None, ts_policies = demo_policies,
     ts_changes = {}, ts_inbox = None, ts_sent = [], ts_clock = 0\<rparr>"

lemma demo_fresh: "fresh_calls demo_turn_env"
  by (auto simp: fresh_calls_def demo_turn_env_def demo_turn_provider_def demo_turn_call_def)

lemma demo_turn_fields:
  "te_limits demo_turn_env = \<lparr>max_steps = Some 5, max_context_bytes = usize_max, max_context_tokens = usize_max,
       max_tool_output_bytes = 100, max_wall_time = None\<rparr>"
  "mi_context_window_tokens (te_model demo_turn_env) = 0" "al_messages_json (te_lib demo_turn_env) = (\<lambda>_. Some ''[]'')"
  "te_cancelled demo_turn_env = (\<lambda>_. False)" "te_provider demo_turn_env = demo_turn_provider"
  "te_parse demo_turn_env = (\<lambda>_. Inl ''EOF'')"
  by (simp_all add: demo_turn_env_def)

lemma demo_emit: "publish demo_turn_env ev s = (s\<lparr>ts_sent := ts_sent s @ [ev]\<rparr>, Inr ())"
  by (simp add: publish_def send_event_def demo_turn_env_def demo_approval_env_def)

lemma demo_uncompacted: "compact_before_step demo_turn_env s = Some (s, Inr ())"
  by (auto simp: compact_before_step_def must_compact_def over_auto_limit_def auto_compact_limit_def demo_turn_fields
    auto_compact_threshold_tokens_def saturating_mul_u32_def serialized_message_bytes_def usize_max_def Let_def rbind_def ok_or_def)

lemma message_bytes_most: "message_bytes a m \<le> usize_max" "message_tokens a m \<le> usize_max"
  by (simp_all add: message_bytes_def message_tokens_def saturating_add_def)

lemma fold_most: "a \<le> usize_max \<Longrightarrow> foldl message_bytes a ms \<le> usize_max" "a \<le> usize_max \<Longrightarrow> foldl message_tokens a ms \<le> usize_max"
  by (induction ms arbitrary: a) (auto simp: message_bytes_most)

lemma demo_budget: "enforce_context_budget ms usize_max usize_max = Inr ()"
  using fold_most [of 0 ms] by (simp add: enforce_context_budget_def estimated_context_tokens_def not_less)

lemma demo_begin:
  assumes "ts_step s < 5" "ts_inbox s = None"
  shows "begin_step demo_turn_env s = Some ((count (count s))\<lparr>ts_step := Suc (ts_step s), ts_context_tokens := Some (ts_known_tokens s)\<rparr>, Inr ())"
proof -
  have "take_steering demo_turn_env (count s) = (count (count s), Inr ())"
    using assms(2) by (simp add: take_steering_def look_def count_def)
  moreover have "saturating_add (ts_step s) 1 = Suc (ts_step s)"
    using assms(1) by (simp add: saturating_add_def usize_max_def)
  ultimately show ?thesis using assms
    by (simp add: begin_step_def demo_turn_fields demo_budget demo_uncompacted Let_def update_context_tokens_def del: usize_max_def) (simp add: count_def)
qed

lemma demo_ask:
  "ask_provider demo_turn_env s = (let a = (if calls_of (ts_messages s) = []
        then \<lparr>at_text = [], at_reasoning = None, at_tool_calls = [demo_turn_call]\<rparr>
        else \<lparr>at_text = ''done'', at_reasoning = None, at_tool_calls = []\<rparr>);
      s1 = push_message (assistant_message a) ((count s)\<lparr>ts_verified := False\<rparr>)
    in (update_context_tokens (estimated demo_turn_env s1) (s1\<lparr>ts_known_tokens := estimated demo_turn_env s1\<rparr>), Inr a))"
proof -
  have "calls_of (ir_messages (step_request demo_turn_env s)) = calls_of (ts_messages s)"
    using request_messages [of demo_turn_env s] by (simp add: calls_of_def)
  then show ?thesis
    by (simp add: ask_provider_def provider_turn_def demo_turn_fields demo_turn_provider_def accept_answer_def Let_def rbind_def count_def)
qed

lemmas demo_turn_simps = demo_turn_fields demo_begin demo_ask demo_emit turn_step_def count_def look_def push_message_def
  update_context_tokens_def store_history_def chat_message_text_def

lemma demo_runs:
  "\<exists>s' h. turn_loop demo_turn_env demo_turn_state = Some (s', Inr ()) \<and> ts_history s' = Some h
    \<and> map cm_role h = [User, Assistant, Tool_role, Assistant]"
  by (subst turn_loop.simps, simp add: demo_turn_simps demo_turn_state_def Let_def run_batch_def run_call_def
      inbox_pending_def fail_call_def)
    (subst turn_loop.simps, simp add: demo_turn_simps demo_turn_call_def Let_def inbox_pending_def end_of_turn_def
      compact_at_end_def over_auto_limit_def auto_compact_limit_def auto_compact_threshold_tokens_def
      saturating_mul_u32_def conclude_def close_inbox_def assistant_message_def tool_error_message_def tool_message_def)


theorem turn_returns_witness:
  "\<exists>s' r. turn_loop demo_turn_env demo_turn_state = Some (s', r)"
proof (rule turn_returns)
  have "from_utf8_ok ''[]''" by code_simp
  then show "json_laws (al_messages_json (te_lib demo_turn_env))" by (simp add: json_laws_def demo_turn_fields)
  show "max_steps (te_limits demo_turn_env) = Some 5" by (simp add: demo_turn_fields)
  show "(5::nat) \<le> usize_max" by (simp add: usize_max_def)
qed

end
