(* ===== verification/Spec2Isabelle.thy ===== *)
theory Spec2Isabelle
  imports Kernel_Correct Policy_Correct Inference Runtime_Policy Near_Stream Catalog Trust_Client Steering Compaction Planning Patch_Correct Authorize_Correct Agent_Turn_Correct
begin

text \<open>
  A verification development for the native core of axiom-desktop: the Rust crates under \<open>src/crates\<close> and the
  command-line host under \<open>src/apps/axiomcli\<close> that the desktop application runs as its side car. Each theory holds
  the definitions translated from its source files, in the order of the code, then the lemmas about them.

  \<^bold>\<open>The program.\<close> A front end submits prompts to the application kernel, which keeps sessions and emits numbered
  events. An agent turn builds requests for a model, asks the permission policy before it runs a tool, takes in
  steering input, and compacts the conversation when it grows too long. Requests go through the secure client: it
  fetches a catalog, selects a provider, verifies the provider's attestation under a signed trust policy, encrypts
  the request to the attested key, and accepts only responses that the key signed.

  \<^bold>\<open>Theories and sources.\<close>

  \<^item> \<open>Axiom_Prelude\<close>: what the sources use of the standard library (UTF-8 text, saturating arithmetic, ordered maps),
    results as sums with \<open>rbind\<close>, \<open>try_fold\<close> and their rewrite rules, and the locales of state machines that the
    kernel and the decoders instantiate (preservation of an invariant, replay, chunked input). \<open>Rust_Path\<close>, \<open>Url_Lib\<close>
    and \<open>Char_Boundary\<close> are the paths, the URL interface and the character boundaries.

  \<^item> \<open>Inference_Types\<close>, \<open>Inference\<close>, \<open>Attachments\<close>, \<open>Runtime_Policy\<close>: \<open>crates/axiom-inference/src\<close>. Requests and their
    validation, tool calls assembled from fragments, prompt attachments, image dimensions. A message, tool or request
    is the record of the same name; \<open>ValidationError\<close> is a record with the field it names.

  \<^item> \<open>App_Types\<close>, \<open>Kernel\<close>, \<open>Kernel_Correct\<close>: \<open>apps/axiomcli/src/app.rs\<close>. The state is the map of sessions and the
    event counter; \<open>kernel_apply\<close>, \<open>kernel_record\<close> and \<open>restore_from_events\<close> are its operations. Shown: the session
    state machine as an inductive relation and the refinement to it, the invariant of reachable kernels, at most one
    start of a turn, atomic failure, consecutive numbers, cancellation, isolation and the replay of a log.

  \<^item> \<open>Policy\<close>, \<open>Policy_Correct\<close>: \<open>apps/axiomcli/src/policy.rs\<close>. Effects are normalised against an abstract file system
    and judged by denials, rules, grants and profile. Shown: when an effect is allowed, monotonicity in rules and
    grants, confinement to the workspace, the scope of an approval.

  \<^item> \<open>Steering\<close>: \<open>steering.rs\<close>, the inbox of a running turn; messages are taken once and in order.

  \<^item> \<open>Agent_Request\<close>, \<open>Char_Boundary\<close>, \<open>Compaction\<close>: \<open>agent.rs\<close>, the requests of a turn, their bounds, and compaction.
    The loop that cuts a transcript is a partial function; that it returns is proved from the fact that a character
    has at most four bytes.

  \<^item> \<open>Planning\<close>: \<open>planning.rs\<close>, plans with their states, comments and revisions, over a parameter for the files. A plan
    stored as approved was proposed with the same content and approved in a review.

  \<^item> \<open>Workspace\<close>, \<open>Patch\<close>, \<open>Patch_Commit\<close>, \<open>Patch_Correct\<close>: \<open>workspace.rs\<close>, paths below the root, reading, the sanitising
    of process output, and structured patches. Every system call of a patch may fail; each answers from a list of
    outcomes. Shown: a patch installs its edits, or restores every file, or reports that recovery is needed and keeps
    every old file, and it names every file that changed.

  \<^item> \<open>Tools\<close>, \<open>Authorize\<close>, \<open>Authorize_Correct\<close>: \<open>tools.rs\<close> and \<open>AgentEngine::authorize\<close>, the registry, the tools offered,
    the effects of every built-in tool, and the decision over a call. Shown: an authorised call has no denied effect,
    and the user allowed what the policy asks about.

  \<^item> \<open>Agent_Turn\<close>, \<open>Agent_Turn_Correct\<close>: the loop of \<open>AgentEngine::run\<close>. The turn's state is a record of its local
    variables and of the engine's maps for the session; what it consults (provider, clock, user, tools, inbox) is a
    function of the number of consultations so far, and sending an event fails from any point on. Shown: calls and
    results stay paired in every request and stored history, and a turn with a step limit returns. The loop is a partial
    function; the limit is what bounds it. The deadline cuts an authorisation or an execution after its last event, and
    a stream after any event.

  \<^item> \<open>Secure_Errors\<close>, \<open>Endpoint\<close>, \<open>Trust_Client\<close>, \<open>Lease\<close>: \<open>error.rs\<close>, \<open>config.rs\<close>, \<open>http.rs\<close>, \<open>security.rs\<close>, \<open>client.rs\<close>
    and \<open>lease.rs\<close> of \<open>crates/axiom-secure-client/src\<close>. Failures and what they permit, endpoint and address checks,
    trust policies and their rollback journal, cached attestation material.

  \<^item> \<open>Relay_Stream\<close>: \<open>relay/sse.rs\<close>, \<open>relay/deadline.rs\<close> and \<open>relay/dto.rs\<close>, the bounded event-stream decoder.

  \<^item> \<open>Near_Crypto\<close>, \<open>Near_Response\<close>, \<open>Near_Stream\<close>, \<open>Near_Attestation\<close>, \<open>Near_Provider\<close>: \<open>providers/near\<close>. Field
    encryption, signed responses, streams, attestation of a model key, and the sessions bound to it.

  \<^item> \<open>Catalog\<close>: \<open>catalog.rs\<close>, \<open>provider.rs\<close> and the contract of \<open>providers/tinfoil/mod.rs\<close>.

  \<^bold>\<open>How the parts meet.\<close> \<open>Catalog\<close> accepts only models whose contract an engine of the registry implements (locale
  \<open>provider_engine\<close>, interpreted on the NEAR and Tinfoil engines). \<open>Near_Provider\<close> binds a session to material that
  \<open>Near_Attestation\<close> verified, kept in the cache of \<open>Lease\<close> (locale \<open>keyed_store\<close>); \<open>Near_Stream\<close> and \<open>Near_Response\<close>
  check each response against that key. \<open>Endpoint\<close> gives the trust policy that \<open>Trust_Client\<close> keeps. \<open>Steering\<close> provides
  the inbox (locale \<open>fifo_inbox\<close>) the turn drains;
  \<open>Agent_Turn\<close> runs the inbox, \<open>Compaction\<close>, the requests of \<open>Agent_Request\<close> and \<open>Authorize\<close>, which judges the effects of
  \<open>Tools\<close> with \<open>Policy\<close>. The kernel's log is the machine the replay locale is about.

  \<^bold>\<open>Code that is not in the repository\<close> is a parameter: the URL parser, DNS, the file system, the hash, cipher and
  signature functions, the attestation verifiers, the JSON codec and the clock. What a theorem needs of it is a named
  hypothesis (\<open>codec_laws\<close>, \<open>json_laws\<close>, the laws of the cipher, \<open>uuid_laws\<close> for fresh identifiers, \<open>fresh_calls\<close> for the identifiers a
  provider gives to its calls) and its witness has a concrete instance.

  \<^bold>\<open>Numbers.\<close> Counters are natural numbers with the saturation, wrap-around or check of the source written out; \<open>usize\<close>
  and \<open>u64\<close> are 64 bits wide. Identifiers are 128-bit words. Strings are lists of bytes.

  \<^bold>\<open>Not modelled.\<close> The execution of tools (processes, web, MCP, search, git), what \<open>AgentEngine::run\<close> does before its
  loop, the ACP server, the SQLite store, sign-in and billing, the terminal and desktop interfaces, installers and updates, the preview, direct
  and pool providers, the attested Tinfoil session, and the construction of encrypted NEAR requests. Most of these
  are input and output around the parts modelled here. Concurrency is modelled where an overlap matters: a refresh of
  the trust policy keeps the policy it judged against apart from the one it replaces, and a send on a channel may
  fail at any point.
\<close>

end
